(* ===== verification/Prelude.thy ===== *)
theory Prelude
  imports Main "HOL-Library.Word"
begin

text \<open>
  The vocabulary every component of the model shares: the machine integers of the program at
  their width and the saturating operations of the Rust standard library on them, results of
  fallible functions, the mutex of the standard library with its poison flag, and the system
  clock.  Two collections of facts carry the component proofs: \<open>u_arith\<close> turns the
  word operations into arithmetic on \<^typ>\<open>nat\<close>, \<open>result_iff\<close> inverts the
  combinators on results.
\<close>

named_theorems u_arith \<open>word operations read as natural-number arithmetic\<close>
named_theorems result_iff \<open>inversion of the result combinators\<close>

section \<open>Lists and pairs\<close>

lemma takeWhile_append_stop:
  "b = [] \<or> \<not> P (hd b) \<Longrightarrow> takeWhile P (a @ b) = takeWhile P a"
  by (induction a) (cases b; auto)+

lemma dropWhile_append_stop:
  "b = [] \<or> \<not> P (hd b) \<Longrightarrow> dropWhile P (a @ b) = dropWhile P a @ b"
  by (induction a) (cases b; auto)+

lemma map_prod_id_eq [simp]: "map_prod f id p = (y, b) \<longleftrightarrow> (\<exists>x. p = (x, b) \<and> y = f x)"
  by (cases p) auto

section \<open>Machine integers\<close>

type_synonym u8 = "8 word"
type_synonym u16 = "16 word"
type_synonym u32 = "32 word"
type_synonym u64 = "64 word"

text \<open>
  \<open>saturating_add\<close> and \<open>saturating_sub\<close> of the standard library: the result sticks
  at the largest value of the type, respectively at zero.  The largest value is \<open>- 1\<close>.
\<close>

definition saturating_add :: "'a::len word \<Rightarrow> 'a word \<Rightarrow> 'a word" where
  "saturating_add a b = (if unat a + unat b < 2 ^ LENGTH('a) then a + b else - 1)"

definition saturating_sub :: "'a::len word \<Rightarrow> 'a word \<Rightarrow> 'a word" where
  "saturating_sub a b = (if b \<le> a then a - b else 0)"

lemma unat_max_word_eq: "unat (- 1 :: 'a::len word) = 2 ^ LENGTH('a) - 1"
  by (simp add: unsigned_minus_1_eq_mask mask_eq_exp_minus_1)

lemma unat_le_max_word: "unat (a :: 'a::len word) \<le> 2 ^ LENGTH('a) - 1"
proof -
  have "unat a < 2 ^ LENGTH('a)" by (rule unsigned_less)
  then show ?thesis by linarith
qed

lemma unat_saturating_add [u_arith]:
  "unat (saturating_add a b :: 'a::len word) = min (unat a + unat b) (2 ^ LENGTH('a) - 1)"
  by (auto simp: saturating_add_def unat_max_word_eq unat_word_ariths min_def)

lemma unat_saturating_sub [u_arith]:
  "unat (saturating_sub a b :: 'a::len word) = unat a - unat b"
  by (auto simp: saturating_sub_def word_le_nat_alt unat_sub)

lemma saturating_add_ge1: "a \<le> saturating_add a (b :: 'a::len word)"
  using unat_le_max_word [of a] by (simp add: word_le_nat_alt u_arith)

lemma saturating_add_eq_self_iff:
  "saturating_add a 1 = a \<longleftrightarrow> a = (- 1 :: 'a::len word)"
proof
  assume "saturating_add a 1 = a"
  then have "min (unat a + unat (1 :: 'a word)) (2 ^ LENGTH('a) - 1) = unat a"
    using unat_saturating_add [of a 1] by simp
  moreover have "unat (1 :: 'a word) = 1" by simp
  ultimately have "unat a = 2 ^ LENGTH('a) - 1" by (simp add: min_def split: if_splits)
  then show "a = - 1" by (simp add: word_unat_eq_iff unat_max_word_eq)
next
  assume "a = - 1"
  then show "saturating_add a 1 = a"
    by (simp add: word_unat_eq_iff u_arith unat_max_word_eq)
qed

text \<open>A left fold that adds with saturation computes the true sum, cut off at the maximum.\<close>

lemma unat_fold_saturating_add [u_arith]:
  "unat (fold (\<lambda>x acc. saturating_add acc (f x)) xs (a :: 'a::len word))
     = min (unat a + sum_list (map (\<lambda>x. unat (f x)) xs)) (2 ^ LENGTH('a) - 1)"
proof (induction xs arbitrary: a)
  case Nil
  then show ?case using unat_le_max_word [of a] by simp
next
  case (Cons x xs)
  have cut: "min (min a b + c) b = min (a + (c :: nat)) b" for a b c by linarith
  show ?case
    using cut [of "unat a + unat (f x)" "2 ^ LENGTH('a) - 1" "sum_list (map (\<lambda>x. unat (f x)) xs)"]
    by (simp only: fold_Cons comp_apply Cons.IH unat_saturating_add list.map sum_list.Cons add.assoc)
qed

text \<open>\<open>u32::try_from(n).unwrap_or(u32::MAX)\<close> of a count.\<close>

definition u32_try_from_or_max :: "nat \<Rightarrow> u32" where
  "u32_try_from_or_max n = (if n < 2 ^ 32 then of_nat n else - 1)"

lemma unat_u32_try_from_or_max [u_arith]:
  "unat (u32_try_from_or_max n) = min n (2 ^ 32 - 1)"
  using unat_max_word_eq [where 'a = 32]
  by (auto simp: u32_try_from_or_max_def unat_of_nat min_def)

section \<open>Results\<close>

text \<open>
  \<open>Result<T, E>\<close> is the sum \<open>'e + 't\<close>: \<open>Inl\<close> is \<open>Err\<close>, \<open>Inr\<close> is
  \<open>Ok\<close>.  \<open>ok_or\<close>, \<open>map_err\<close>, \<open>res_map\<close> and \<open>res_bind\<close> (the
  \<open>?\<close> operator) are the combinators the code uses.
\<close>

definition ok_or :: "'a option \<Rightarrow> 'e \<Rightarrow> 'e + 'a" where
  "ok_or v e = (case v of Some x \<Rightarrow> Inr x | None \<Rightarrow> Inl e)"

definition map_err :: "('e \<Rightarrow> 'f) \<Rightarrow> 'e + 'a \<Rightarrow> 'f + 'a" where
  "map_err f r = (case r of Inl e \<Rightarrow> Inl (f e) | Inr x \<Rightarrow> Inr x)"

definition res_map :: "('a \<Rightarrow> 'b) \<Rightarrow> 'e + 'a \<Rightarrow> 'e + 'b" where
  "res_map f r = (case r of Inl e \<Rightarrow> Inl e | Inr x \<Rightarrow> Inr (f x))"

definition res_bind :: "'e + 'a \<Rightarrow> ('a \<Rightarrow> 'e + 'b) \<Rightarrow> 'e + 'b" where
  "res_bind r f = (case r of Inl e \<Rightarrow> Inl e | Inr x \<Rightarrow> f x)"

lemma ok_or_Inr [result_iff]: "ok_or v e = Inr x \<longleftrightarrow> v = Some x"
  by (simp add: ok_or_def split: option.split)

lemma ok_or_Inl [result_iff]: "ok_or v e = Inl d \<longleftrightarrow> v = None \<and> d = e"
  by (auto simp: ok_or_def split: option.split)

lemma map_err_Inr [result_iff]: "map_err f r = Inr x \<longleftrightarrow> r = Inr x"
  by (simp add: map_err_def split: sum.split)

lemma map_err_Inl [result_iff]: "map_err f r = Inl d \<longleftrightarrow> (\<exists>e. r = Inl e \<and> d = f e)"
  by (auto simp: map_err_def split: sum.split)

lemma res_map_Inr [result_iff]: "res_map f r = Inr y \<longleftrightarrow> (\<exists>x. r = Inr x \<and> y = f x)"
  by (auto simp: res_map_def split: sum.split)

lemma res_map_Inl [result_iff]: "res_map f r = Inl e \<longleftrightarrow> r = Inl e"
  by (simp add: res_map_def split: sum.split)

lemma res_bind_Inr [result_iff]: "res_bind r f = Inr y \<longleftrightarrow> (\<exists>x. r = Inr x \<and> f x = Inr y)"
  by (simp add: res_bind_def split: sum.split)

lemma res_bind_Inl [result_iff]:
  "res_bind r f = Inl e \<longleftrightarrow> r = Inl e \<or> (\<exists>x. r = Inr x \<and> f x = Inl e)"
  by (simp add: res_bind_def split: sum.split)

lemma result_simps [simp]:
  "ok_or (Some x) e = Inr x" "ok_or None e = Inl e"
  "map_err f (Inr x) = Inr x" "map_err f (Inl e) = Inl (f e)"
  "res_map g (Inr x) = Inr (g x)" "res_map g (Inl e) = Inl e"
  "res_bind (Inr x) h = h x" "res_bind (Inl e) h = Inl e"
  by (simp_all add: ok_or_def map_err_def res_map_def res_bind_def)

section \<open>The mutex\<close>

text \<open>
  \<open>std::sync::Mutex\<close>: the protected data and the poison flag that a panic under the lock
  leaves behind.  \<open>lock\<close> returns the guard as \<open>Ok\<close>, or inside the error when the
  flag is set; either way the caller gets the data.
\<close>

record 'a mutex =
  mx_poisoned :: bool
  mx_data :: 'a

definition mutex_new :: "'a \<Rightarrow> 'a mutex" where
  "mutex_new x = \<lparr>mx_poisoned = False, mx_data = x\<rparr>"

definition mutex_lock :: "'a mutex \<Rightarrow> 'a + 'a" where
  "mutex_lock m = (if mx_poisoned m then Inl (mx_data m) else Inr (mx_data m))"

section \<open>The clock\<close>

text \<open>
  A reading of \<open>SystemTime::now()\<close> is the number of nanoseconds since the Unix epoch,
  negative before it; \<open>duration_since(UNIX_EPOCH)\<close> fails on a negative reading, and
  \<open>as_secs\<close> drops the fraction of a second.
\<close>

type_synonym system_time = int

definition secs_since_epoch :: "system_time \<Rightarrow> u64 option" where
  "secs_since_epoch t = (if 0 \<le> t then Some (word_of_int (t div 1000000000)) else None)"

text \<open>
  The readings a system clock can return: \<open>SystemTime\<close> holds its seconds in 64 signed
  bits.
\<close>

definition clock_range :: "system_time \<Rightarrow> bool" where
  "clock_range t \<longleftrightarrow> t < 2 ^ 63 * 1000000000"

lemma secs_since_epoch_mono:
  assumes "s \<le> t" and "clock_range t"
    and "secs_since_epoch s = Some a" and "secs_since_epoch t = Some b"
  shows "a \<le> b"
proof -
  from assms have s0: "0 \<le> s" and t0: "0 \<le> t"
    and a: "a = word_of_int (s div 1000000000)" and b: "b = word_of_int (t div 1000000000)"
    by (auto simp: secs_since_epoch_def split: if_splits)
  have le: "s div 1000000000 \<le> t div 1000000000"
    using assms(1) by (simp add: zdiv_mono1)
  have bnd: "t div 1000000000 < 2 ^ 63"
    using assms(2) by (simp add: clock_range_def div_less_iff_less_mult)
  have "uint b = t div 1000000000"
    using t0 bnd by (simp add: b uint_word_of_int_eq take_bit_int_eq_self)
  moreover have "uint a = s div 1000000000"
    using s0 le bnd by (simp add: a uint_word_of_int_eq take_bit_int_eq_self)
  ultimately show ?thesis using le by (simp add: word_le_def)
qed

end
