(* ===== verification/Rust_Str.thy ===== *)
theory Rust_Str
  imports Prelude "HOL-Library.Char_ord" "HOL-Library.List_Lexorder" "HOL-Library.Sublist"
begin

text \<open>
  What the program uses of \<open>str\<close> and \<open>String\<close>.  A string is the list of its UTF-8 bytes,
  so equality and the order on map keys are the byte-wise ones of Rust.  \<open>chars\<close> cuts the
  bytes into encoded characters; \<open>trim\<close> and \<open>split_whitespace\<close> work on those, with the
  Unicode \<open>White_Space\<close> characters.  Trimming is idempotent and keeps the words; the words
  of a text joined with blanks are the words of its parts.
\<close>

section \<open>Characters of a UTF-8 string\<close>

definition is_cont :: "char \<Rightarrow> bool" where
  "is_cont c \<longleftrightarrow> (128 :: nat) \<le> of_char c \<and> of_char c < (192 :: nat)"

definition is_lead :: "char \<Rightarrow> bool" where
  "is_lead c \<longleftrightarrow> (192 :: nat) \<le> of_char c"

text \<open>
  A leading byte takes the continuation bytes after it; every other byte stands alone.  On
  well-formed UTF-8 these are exactly the encoded characters.
\<close>

function chars :: "string \<Rightarrow> string list" where
  "chars [] = []"
| "chars (c # cs) =
     (if is_lead c then (c # takeWhile is_cont cs) # chars (dropWhile is_cont cs)
      else [c] # chars cs)"
  by pat_completeness auto
termination
  by (relation "measure length") (auto simp: le_imp_less_Suc length_dropWhile_le)

text \<open>The UTF-8 encodings of the 25 Unicode characters with the property White_Space.\<close>

definition white_space :: "string list" where
  "white_space =
     [[CHR 0x09], [CHR 0x0A], [CHR 0x0B], [CHR 0x0C], [CHR 0x0D], [CHR 0x20],
      [CHR 0xC2, CHR 0x85], [CHR 0xC2, CHR 0xA0], [CHR 0xE1, CHR 0x9A, CHR 0x80],
      [CHR 0xE2, CHR 0x80, CHR 0x80], [CHR 0xE2, CHR 0x80, CHR 0x81],
      [CHR 0xE2, CHR 0x80, CHR 0x82], [CHR 0xE2, CHR 0x80, CHR 0x83],
      [CHR 0xE2, CHR 0x80, CHR 0x84], [CHR 0xE2, CHR 0x80, CHR 0x85],
      [CHR 0xE2, CHR 0x80, CHR 0x86], [CHR 0xE2, CHR 0x80, CHR 0x87],
      [CHR 0xE2, CHR 0x80, CHR 0x88], [CHR 0xE2, CHR 0x80, CHR 0x89],
      [CHR 0xE2, CHR 0x80, CHR 0x8A], [CHR 0xE2, CHR 0x80, CHR 0xA8],
      [CHR 0xE2, CHR 0x80, CHR 0xA9], [CHR 0xE2, CHR 0x80, CHR 0xAF],
      [CHR 0xE2, CHR 0x81, CHR 0x9F], [CHR 0xE3, CHR 0x80, CHR 0x80]]"

definition is_whitespace :: "string \<Rightarrow> bool" where
  "is_whitespace ch \<longleftrightarrow> ch \<in> set white_space"

definition trim_chars :: "string list \<Rightarrow> string list" where
  "trim_chars cs = rev (dropWhile is_whitespace (rev (dropWhile is_whitespace cs)))"

definition trim :: "string \<Rightarrow> string" where
  "trim s = concat (trim_chars (chars s))"

text \<open>The words of a character list; the accumulator holds the word being read.\<close>

fun split_ws :: "string list \<Rightarrow> string \<Rightarrow> string list" where
  "split_ws [] w = (if w = [] then [] else [w])"
| "split_ws (c # cs) w =
     (if is_whitespace c then (if w = [] then split_ws cs [] else w # split_ws cs [])
      else split_ws cs (w @ c))"

definition split_whitespace :: "string \<Rightarrow> string list" where
  "split_whitespace s = split_ws (chars s) []"

fun str_join :: "string \<Rightarrow> string list \<Rightarrow> string" where
  "str_join sep [] = []"
| "str_join sep [s] = s"
| "str_join sep (s # t # ts) = s @ sep @ str_join sep (t # ts)"

subsection \<open>Cutting into characters\<close>

lemma chars_append:
  "b = [] \<or> \<not> is_cont (hd b) \<Longrightarrow> chars (a @ b) = chars a @ chars b"
proof (induction a rule: chars.induct)
  case 1
  then show ?case by simp
next
  case (2 c cs)
  then show ?case by (simp add: takeWhile_append_stop dropWhile_append_stop)
qed

lemma ascii_not_cont [simp]:
  "\<not> is_cont CHR '' ''" "\<not> is_cont CHR ''[''" "\<not> is_cont CHR '']''"
  by (simp_all add: is_cont_def)

lemma ascii_not_lead [simp]:
  "\<not> is_lead CHR '' ''" "\<not> is_lead CHR ''[''" "\<not> is_lead CHR '']''"
  by (simp_all add: is_lead_def)

lemma concat_chars [simp]: "concat (chars s) = s"
  by (induction s rule: chars.induct) auto

text \<open>
  A list of character encodings is \<open>chunked\<close> when cutting its concatenation gives it back.
\<close>

fun chunked :: "string list \<Rightarrow> bool" where
  "chunked [] = True"
| "chunked (ch # rest) =
     (ch \<noteq> []
      \<and> (if is_lead (hd ch)
         then list_all is_cont (tl ch) \<and> (rest = [] \<or> \<not> is_cont (hd (hd rest)))
         else tl ch = [])
      \<and> chunked rest)"

lemma chunked_hd: "chunked (ch # rest) \<Longrightarrow> hd (concat (ch # rest)) = hd ch"
  by (cases ch) auto

lemma chars_concat_chunked: "chunked cs \<Longrightarrow> chars (concat cs) = cs"
proof (induction cs)
  case Nil
  then show ?case by simp
next
  case (Cons ch rest)
  then obtain c t where ch: "ch = c # t" by (cases ch) auto
  have rest: "chars (concat rest) = rest" using Cons by simp
  have hd: "concat rest = [] \<or> \<not> is_cont (hd (concat rest))" if "is_lead c"
    using Cons.prems that chunked_hd by (cases rest) (auto simp: ch)
  show ?case
  proof (cases "is_lead c")
    case True
    have all: "list_all is_cont t" using Cons.prems True by (simp add: ch)
    note nocont = hd [OF True]
    have "takeWhile is_cont (t @ concat rest) = t"
      using takeWhile_append_stop [of "concat rest" is_cont t] nocont all takeWhile_dropWhile_id [of is_cont t]
      by (simp add: list_all_iff del: concat_eq_Nil_conv)
    moreover have "dropWhile is_cont (t @ concat rest) = concat rest"
      using dropWhile_append_stop [of "concat rest" is_cont t] nocont all takeWhile_dropWhile_id [of is_cont t]
      by (simp add: list_all_iff del: concat_eq_Nil_conv)
    ultimately show ?thesis using True rest by (simp add: ch)
  next
    case False
    then show ?thesis using Cons.prems rest by (simp add: ch)
  qed
qed

lemma hd_hd_chars: "s \<noteq> [] \<Longrightarrow> hd (hd (chars s)) = hd s"
  by (cases s) auto

lemma chars_eq_Nil [simp]: "chars s = [] \<longleftrightarrow> s = []"
  by (cases s) auto

lemma chunked_chars [simp]: "chunked (chars s)"
proof (induction s rule: chars.induct)
  case 1
  then show ?case by simp
next
  case (2 c cs)
  show ?case
  proof (cases "is_lead c")
    case True
    let ?r = "dropWhile is_cont cs"
    have "\<not> is_cont (hd (hd (chars ?r)))" if "?r \<noteq> []"
      using hd_dropWhile [OF that] by (simp only: hd_hd_chars [OF that] not_False_eq_True)
    then have "chars ?r = [] \<or> \<not> is_cont (hd (hd (chars ?r)))" by auto
    moreover have "list_all is_cont (takeWhile is_cont cs)"
      by (auto simp: list_all_iff dest: set_takeWhileD)
    ultimately show ?thesis using 2(1) [OF True] True by simp
  next
    case False
    then show ?thesis using 2(2) by simp
  qed
qed

lemma chunked_appendD: "chunked (as @ bs) \<Longrightarrow> chunked as \<and> chunked bs"
proof (induction as)
  case Nil
  then show ?case by simp
next
  case (Cons a as)
  then show ?case by (cases as) auto
qed

lemma trim_chars_infix: "\<exists>as bs. cs = as @ trim_chars cs @ bs"
proof -
  let ?ds = "dropWhile is_whitespace cs"
  have "cs = takeWhile is_whitespace cs @ ?ds" by simp
  moreover have "?ds = rev (dropWhile is_whitespace (rev ?ds)) @ rev (takeWhile is_whitespace (rev ?ds))"
    by (metis rev_append rev_rev_ident takeWhile_dropWhile_id)
  ultimately show ?thesis unfolding trim_chars_def by metis
qed

lemma chunked_trim_chars: "chunked cs \<Longrightarrow> chunked (trim_chars cs)"
  using trim_chars_infix [of cs] by (metis chunked_appendD)

lemma chars_trim: "chars (trim s) = trim_chars (chars s)"
  by (simp add: trim_def chars_concat_chunked chunked_trim_chars)

subsection \<open>Trimming\<close>

lemma trim_chars_ends:
  "trim_chars cs \<noteq> [] \<Longrightarrow>
     \<not> is_whitespace (hd (trim_chars cs)) \<and> \<not> is_whitespace (last (trim_chars cs))"
proof -
  assume ne: "trim_chars cs \<noteq> []"
  let ?ds = "dropWhile is_whitespace cs"
  let ?rs = "dropWhile is_whitespace (rev ?ds)"
  have rs: "?rs \<noteq> []" using ne unfolding trim_chars_def rev_is_Nil_conv .
  then have last: "\<not> is_whitespace (last (rev ?rs))"
    unfolding last_rev by (rule hd_dropWhile)
  have "rev ?rs @ rev (takeWhile is_whitespace (rev ?ds)) = ?ds"
    by (metis rev_append rev_rev_ident takeWhile_dropWhile_id)
  moreover have "rev ?rs \<noteq> []" unfolding rev_is_Nil_conv by (rule rs)
  ultimately have "?ds \<noteq> [] \<and> hd (rev ?rs) = hd ?ds" by (metis append_is_Nil_conv hd_append)
  then have "\<not> is_whitespace (hd (rev ?rs))" using hd_dropWhile [of is_whitespace cs] by metis
  with last show ?thesis by (simp only: trim_chars_def not_False_eq_True)
qed

lemma dropWhile_hd_not: "xs \<noteq> [] \<Longrightarrow> \<not> P (hd xs) \<Longrightarrow> dropWhile P xs = xs"
  by (cases xs) auto

lemma trim_chars_trimmed:
  assumes "ys \<noteq> []" and "\<not> is_whitespace (last ys)"
  shows "trim_chars (xs @ ys) = dropWhile is_whitespace (xs @ ys)"
proof -
  have "dropWhile is_whitespace (xs @ ys) \<noteq> []"
    using assms by (metis Un_iff dropWhile_eq_Nil_conv last_in_set set_append)
  moreover have "last (dropWhile is_whitespace (xs @ ys)) = last ys"
    using calculation assms(1) by (metis last_append last_appendR takeWhile_dropWhile_id)
  ultimately show ?thesis
    using assms(2) by (simp add: trim_chars_def dropWhile_hd_not hd_rev)
qed

lemma trim_chars_idem [simp]: "trim_chars (trim_chars cs) = trim_chars cs"
proof (cases "trim_chars cs = []")
  case True
  have "trim_chars [] = []" by (simp add: trim_chars_def)
  with True show ?thesis by simp
next
  case False
  note ends = trim_chars_ends [OF False]
  have "trim_chars (trim_chars cs) = dropWhile is_whitespace (trim_chars cs)"
    using trim_chars_trimmed [of "trim_chars cs" "[]", OF False conjunct2 [OF ends]]
    by (simp only: append_Nil)
  also have "\<dots> = trim_chars cs" by (rule dropWhile_hd_not [where P = is_whitespace, OF False conjunct1 [OF ends]])
  finally show ?thesis .
qed

lemma trim_idem [simp]: "trim (trim s) = trim s"
  by (simp add: chars_trim trim_def [of "trim s"]) (simp add: trim_def)

lemma trim_chars_eq_Nil: "trim_chars cs = [] \<longleftrightarrow> list_all is_whitespace cs"
proof -
  have "list_all is_whitespace (dropWhile is_whitespace cs) \<longleftrightarrow> list_all is_whitespace cs"
    by (induction cs) auto
  then show ?thesis by (simp add: trim_chars_def list_all_iff)
qed

lemma trim_eq_Nil: "trim s = [] \<longleftrightarrow> list_all is_whitespace (chars s)"
  by (metis chars_eq_Nil chars_trim trim_chars_eq_Nil)

lemma trim_Nil [simp]: "trim [] = []"
  by (simp add: trim_def trim_chars_def)

lemma trim_sublist: "sublist (trim s) s"
proof -
  obtain as bs where "chars s = as @ trim_chars (chars s) @ bs" using trim_chars_infix by blast
  then have "s = concat as @ trim s @ concat bs" unfolding trim_def by (metis concat_append concat_chars)
  then show ?thesis unfolding sublist_def by blast
qed

lemma chars_blank: "chars (a @ CHR '' '' # b) = chars a @ ['' ''] @ chars b"
  using chars_append [of "CHR '' '' # b" a] by simp

lemma blank_whitespace [simp]: "is_whitespace '' ''"
  by (simp add: is_whitespace_def white_space_def)

definition trim_start :: "string \<Rightarrow> string" where
  "trim_start s = concat (dropWhile is_whitespace (chars s))"

definition trim_end :: "string \<Rightarrow> string" where
  "trim_end s = concat (rev (dropWhile is_whitespace (rev (chars s))))"

text \<open>Trimming takes from both sides of a part that begins and ends without white space.\<close>

lemma trim_chars_core:
  assumes "ys \<noteq> []" and "\<not> is_whitespace (hd ys)" and "\<not> is_whitespace (last ys)"
  shows "trim_chars (xs @ ys @ zs) =
    dropWhile is_whitespace xs @ ys @ rev (dropWhile is_whitespace (rev zs))"
proof -
  have l: "dropWhile is_whitespace (xs @ ys @ zs) = dropWhile is_whitespace xs @ ys @ zs"
    using assms(1,2) by (intro dropWhile_append_stop) simp
  have "dropWhile is_whitespace (rev zs @ rev ys @ rev (dropWhile is_whitespace xs))
      = dropWhile is_whitespace (rev zs) @ rev ys @ rev (dropWhile is_whitespace xs)"
    using assms(1,3) by (intro dropWhile_append_stop) (simp add: hd_append hd_rev)
  then show ?thesis unfolding trim_chars_def l by simp
qed

lemma trim_core:
  assumes "ys \<noteq> []" and "\<not> is_whitespace (hd ys)" and "\<not> is_whitespace (last ys)"
    and "chars s = chars a @ ys @ chars b"
  shows "trim s = trim_start a @ concat ys @ trim_end b"
  unfolding trim_def trim_start_def trim_end_def assms(4) trim_chars_core [OF assms(1-3)] by simp

lemma trim_end_blank:
  "trim p = p \<Longrightarrow> trim_end (CHR '' '' # p) = (if p = [] then [] else CHR '' '' # p)"
proof -
  assume t: "trim p = p"
  show ?thesis
  proof (cases "p = []")
    case True
    then show ?thesis by (simp add: trim_end_def)
  next
    case False
    from t have "trim_chars (chars p) = chars p" by (metis chars_trim)
    with False trim_chars_ends [of "chars p"] have "\<not> is_whitespace (last (chars p))" by simp
    then have "dropWhile is_whitespace (rev (chars p)) = rev (chars p)"
      using False by (simp add: dropWhile_hd_not hd_rev)
    then have "dropWhile is_whitespace (rev (chars p) @ ['' '']) = rev (chars p) @ ['' '']"
      using False \<open>\<not> is_whitespace (last (chars p))\<close> by (simp add: dropWhile_hd_not hd_rev)
    then show ?thesis using False by (simp add: trim_end_def)
  qed
qed

subsection \<open>Words\<close>

lemma split_ws_append:
  "is_whitespace b \<Longrightarrow> split_ws (xs @ b # ys) w = split_ws xs w @ split_ws ys []"
  by (induction xs w rule: split_ws.induct) auto

lemma split_ws_all_ws: "list_all is_whitespace ys \<Longrightarrow> split_ws ys [] = []"
  by (induction ys) auto

lemma split_ws_append_ws:
  "list_all is_whitespace ys \<Longrightarrow> split_ws (xs @ ys) w = split_ws xs w"
proof (cases ys)
  case Nil
  then show ?thesis by simp
next
  case (Cons b bs)
  assume "list_all is_whitespace ys"
  then show ?thesis by (simp add: Cons split_ws_append split_ws_all_ws)
qed

lemma split_ws_drop_ws: "split_ws (dropWhile is_whitespace xs) [] = split_ws xs []"
  by (induction xs) auto

lemma split_ws_trim_chars: "split_ws (trim_chars cs) [] = split_ws cs []"
proof -
  let ?ds = "dropWhile is_whitespace cs"
  have ds: "trim_chars cs @ rev (takeWhile is_whitespace (rev ?ds)) = ?ds"
    unfolding trim_chars_def by (metis rev_append rev_rev_ident takeWhile_dropWhile_id)
  have "list_all is_whitespace (rev (takeWhile is_whitespace (rev ?ds)))"
    by (auto simp: list_all_iff dest: set_takeWhileD)
  from split_ws_append_ws [OF this, of "trim_chars cs" "[]"] show ?thesis
    by (simp only: ds split_ws_drop_ws)
qed

lemma split_whitespace_trim [simp]: "split_whitespace (trim s) = split_whitespace s"
  by (simp add: split_whitespace_def chars_trim split_ws_trim_chars)

lemma split_whitespace_blank:
  "split_whitespace (a @ CHR '' '' # b) = split_whitespace a @ split_whitespace b"
  by (simp add: split_whitespace_def chars_blank split_ws_append)

lemma split_whitespace_join:
  "split_whitespace (str_join '' '' xs) = concat (map split_whitespace xs)"
proof (induction "'' ''" xs rule: str_join.induct)
  case 1
  then show ?case by (simp add: split_whitespace_def)
next
  case (2 s)
  then show ?case by simp
next
  case (3 s t ts)
  then show ?case by (simp add: split_whitespace_blank)
qed

lemma split_ws_eq_Nil: "split_ws cs w = [] \<longleftrightarrow> w = [] \<and> list_all (\<lambda>c. is_whitespace c \<or> c = []) cs"
  by (induction cs w rule: split_ws.induct) auto

lemma chars_nonempty: "c \<in> set (chars s) \<Longrightarrow> c \<noteq> []"
  by (induction s rule: chars.induct) (auto split: if_splits)

lemma split_whitespace_eq_Nil: "split_whitespace s = [] \<longleftrightarrow> trim s = []"
  using chars_nonempty [of _ s]
  by (auto simp: split_whitespace_def split_ws_eq_Nil trim_eq_Nil list_all_iff)

lemma split_ws_words:
  "v \<in> set (split_ws cs w) \<Longrightarrow> v \<noteq> []"
  by (induction cs w rule: split_ws.induct) (auto split: if_splits)

end
