(* ===== verification/Rust_Fmt.thy ===== *)
theory Rust_Fmt
  imports Rust_Str
begin

text \<open>
  The formatting of integers the program uses: \<open>{}\<close> prints the decimal digits,
  \<open>{:06}\<close> pads them with zeros to at least six.  The padded form is injective, and the
  byte order on it is the numeric order as long as both numbers have at most six digits.
\<close>

definition digit_char :: "nat \<Rightarrow> char" where
  "digit_char d = char_of (48 + d)"

fun decimal :: "nat \<Rightarrow> string" where
  "decimal n = (if n < 10 then [digit_char n] else decimal (n div 10) @ [digit_char (n mod 10)])"

declare decimal.simps [simp del]

definition pad6 :: "nat \<Rightarrow> string" where
  "pad6 n = replicate (6 - length (decimal n)) (CHR ''0'') @ decimal n"

section \<open>Reading the digits back\<close>

definition digit_val :: "char \<Rightarrow> nat" where
  "digit_val c = of_char c - 48"

definition digits_val :: "string \<Rightarrow> nat" where
  "digits_val s = foldl (\<lambda>a c. 10 * a + digit_val c) 0 s"

definition is_digit :: "char \<Rightarrow> bool" where
  "is_digit c \<longleftrightarrow> (48 :: nat) \<le> of_char c \<and> of_char c < (58 :: nat)"

lemma digits_val_snoc: "digits_val (s @ [c]) = 10 * digits_val s + digit_val c"
  by (simp add: digits_val_def)

lemma of_char_digit_char: "d < 10 \<Longrightarrow> of_char (digit_char d) = (48 + d :: nat)"
  by (simp add: digit_char_def)

lemma digit_val_char [simp]: "d < 10 \<Longrightarrow> digit_val (digit_char d) = d"
  by (simp add: digit_val_def of_char_digit_char)

lemma is_digit_char [simp]: "d < 10 \<Longrightarrow> is_digit (digit_char d)"
  by (simp add: is_digit_def of_char_digit_char)

lemma digits_val_decimal [simp]: "digits_val (decimal n) = n"
proof (induction n rule: decimal.induct)
  case (1 n)
  show ?case
  proof (cases "n < 10")
    case True
    then show ?thesis by (subst decimal.simps) (simp add: digits_val_def)
  next
    case False
    then have "digits_val (decimal n) = 10 * (n div 10) + n mod 10"
      using 1 by (subst decimal.simps) (simp add: digits_val_snoc)
    then show ?thesis by simp
  qed
qed

lemma decimal_digits: "list_all is_digit (decimal n)"
proof (induction n rule: decimal.induct)
  case (1 n)
  then show ?case by (cases "n < 10") (simp_all add: decimal.simps [of n])
qed

lemma digits_val_foldl:
  "foldl (\<lambda>a c. 10 * a + digit_val c) a s = a * 10 ^ length s + digits_val s"
proof (induction s arbitrary: a)
  case Nil
  then show ?case by (simp add: digits_val_def)
next
  case (Cons c s)
  have "digits_val (c # s) = foldl (\<lambda>a c. 10 * a + digit_val c) (digit_val c) s"
    by (simp add: digits_val_def)
  then show ?case by (simp add: Cons.IH distrib_right)
qed

lemma digits_val_Cons: "digits_val (c # s) = digit_val c * 10 ^ length s + digits_val s"
  using digits_val_foldl [of "digit_val c" s] by (simp add: digits_val_def)

lemma digits_val_replicate [simp]: "digits_val (replicate k (CHR ''0'') @ s) = digits_val s"
  by (induction k) (simp_all add: digits_val_Cons digit_val_def)

lemma digits_val_pad6 [simp]: "digits_val (pad6 n) = n"
  by (simp add: pad6_def)

lemma pad6_inject [simp]: "pad6 m = pad6 n \<longleftrightarrow> m = n"
  by (metis digits_val_pad6)

lemma pad6_digits: "list_all is_digit (pad6 n)"
  by (simp add: pad6_def decimal_digits list_all_iff [of _ "replicate _ _"] is_digit_def)

section \<open>Order\<close>

lemma digit_val_le: "is_digit c \<Longrightarrow> digit_val c \<le> 9"
  unfolding is_digit_def digit_val_def by linarith

lemma digits_val_less: "list_all is_digit s \<Longrightarrow> digits_val s < 10 ^ length s"
proof (induction s)
  case Nil
  then show ?case by (simp add: digits_val_def)
next
  case (Cons c s)
  then have "digit_val c \<le> 9" by (simp add: digit_val_le)
  then have "digit_val c * 10 ^ length s \<le> 9 * 10 ^ length s" by (rule mult_le_mono1)
  moreover have "digits_val s < 10 ^ length s" using Cons by simp
  ultimately show ?case unfolding digits_val_Cons length_Cons power_Suc by linarith
qed

lemma digit_less: "is_digit c \<Longrightarrow> is_digit d \<Longrightarrow> c < d \<longleftrightarrow> digit_val c < digit_val d"
  by (auto simp: less_char_def digit_val_def is_digit_def)

lemma digits_less_iff:
  "length s = length t \<Longrightarrow> list_all is_digit s \<Longrightarrow> list_all is_digit t
     \<Longrightarrow> s < t \<longleftrightarrow> digits_val s < digits_val t"
proof (induction s t rule: list_induct2)
  case Nil
  then show ?case by simp
next
  case (Cons c s d t)
  let ?p = "10 ^ length t :: nat"
  have val: "digits_val s < ?p" "digits_val t < ?p"
    using Cons.prems Cons.hyps digits_val_less [of s] digits_val_less [of t] by auto
  consider "digit_val c < digit_val d" | "digit_val d < digit_val c" | "digit_val c = digit_val d"
    by linarith
  then show ?case
  proof cases
    case 1
    then have "Suc (digit_val c) * ?p \<le> digit_val d * ?p" by (intro mult_le_mono1) simp
    with 1 val Cons show ?thesis by (simp add: digits_val_Cons digit_less)
  next
    case 2
    then have "Suc (digit_val d) * ?p \<le> digit_val c * ?p" by (intro mult_le_mono1) simp
    with 2 val Cons show ?thesis by (auto simp: digits_val_Cons digit_less)
  next
    case 3
    moreover have "is_digit c" "is_digit d" using Cons.prems by simp_all
    ultimately have "c = d" by (metis digit_less linorder_neq_iff)
    with Cons show ?thesis by (simp add: digits_val_Cons)
  qed
qed

lemma length_decimal_le: "n < 10 ^ k \<Longrightarrow> 0 < k \<Longrightarrow> length (decimal n) \<le> k"
proof (induction n arbitrary: k rule: decimal.induct)
  case (1 n)
  show ?case
  proof (cases "n < 10")
    case True
    then show ?thesis using "1.prems" by (simp add: decimal.simps [of n])
  next
    case False
    with "1.prems" have "k \<noteq> 1" by auto
    with "1.prems"(2) obtain j where k: "k = Suc j" and j: "0 < j"
      by (cases k) auto
    then have "n div 10 < 10 ^ j" using "1.prems" by (simp add: div_less_iff_less_mult mult.commute)
    then have "length (decimal (n div 10)) \<le> j" using "1.IH" False j by blast
    then show ?thesis using False k by (simp add: decimal.simps [of n])
  qed
qed

lemma length_pad6: "n < 1000000 \<Longrightarrow> length (pad6 n) = 6"
  using length_decimal_le [of n 6] by (simp add: pad6_def)

text \<open>The byte order on padded numbers below a million is the order of the numbers.\<close>

lemma pad6_less_iff:
  "m < 1000000 \<Longrightarrow> n < 1000000 \<Longrightarrow> pad6 m < pad6 n \<longleftrightarrow> m < n"
  by (simp add: digits_less_iff length_pad6 pad6_digits)

text \<open>A fixed prefix neither disturbs the order nor the equality of strings.\<close>

lemma append_less_append [simp]: "(p @ s < p @ t) \<longleftrightarrow> s < (t :: string)"
  by (induction p) auto

end
