(* ===== verification/Compute_Error.thy ===== *)
theory Compute_Error
  imports Rust_Fmt
begin

text \<open>
  \<open>src/error.rs\<close>: the error type of the library, the messages of its \<open>Display\<close>
  implementation, and the HTTP answer each error becomes.  Paths come first, since an error
  carries one.  An error of another crate or of the operating system (identity, io, JSON, TOML)
  is represented by its own \<open>Display\<close> text, which is all the program reads of it.
\<close>

section \<open>Paths\<close>

text \<open>
  A \<open>PathBuf\<close> is a flag for a leading separator and the list of its components, in normal
  spelling; \<open>Path\<close> equality in Rust compares just these.  \<open>path_join\<close> is \<open>join\<close>
  with one relative component, the only form the program uses.
\<close>

record path =
  p_abs :: bool
  p_comps :: "string list"

definition path_parent :: "path \<Rightarrow> path option" where
  "path_parent p = (if p_comps p = [] then None else Some (p\<lparr>p_comps := butlast (p_comps p)\<rparr>))"

definition path_join :: "path \<Rightarrow> string \<Rightarrow> path" where
  "path_join p name = p\<lparr>p_comps := p_comps p @ [name]\<rparr>"

definition path_display :: "path \<Rightarrow> string" where
  "path_display p = (if p_abs p then ''/'' else '''') @ str_join ''/'' (p_comps p)"

lemma path_parent_join [simp]: "path_parent (path_join p name) = Some p"
  by (simp add: path_parent_def path_join_def)

section \<open>Errors\<close>

datatype compute_error =
    X0xIdentity string
  | Io string
  | Json string
  | TomlDecode string
  | TomlEncode string
  | UserIdentityRequired
  | InvalidIdentityEncoding string string
  | MissingParentDirectory path
  | ModelNotFound string
  | ModelCapacityExceeded string u16 u16
  | ReservationNotFound string
  | InvalidReservationRequest string
  | InvalidChatRequest string
  | UnsupportedFeature string

type_synonym 'a result = "compute_error + 'a"

fun error_display :: "compute_error \<Rightarrow> string" where
  "error_display (X0xIdentity e) = ''x0x identity error: '' @ e"
| "error_display (Io e) = ''io error: '' @ e"
| "error_display (Json e) = ''json serialization error: '' @ e"
| "error_display (TomlDecode e) = ''toml parse error: '' @ e"
| "error_display (TomlEncode e) = ''toml encode error: '' @ e"
| "error_display UserIdentityRequired =
     ''user identity is required by configuration but no user_id is bound''"
| "error_display (InvalidIdentityEncoding f d) = ''invalid '' @ f @ '' encoding: '' @ d"
| "error_display (MissingParentDirectory p) =
     ''missing parent directory for path '' @ path_display p"
| "error_display (ModelNotFound m) = ''model not found: '' @ m"
| "error_display (ModelCapacityExceeded m r a) =
     ''model capacity exceeded for '' @ m @ '': requested '' @ decimal (unat r)
       @ '' slot(s), available '' @ decimal (unat a)"
| "error_display (ReservationNotFound r) = ''reservation not found: '' @ r"
| "error_display (InvalidReservationRequest d) = ''invalid reservation request: '' @ d"
| "error_display (InvalidChatRequest d) = ''invalid chat request: '' @ d"
| "error_display (UnsupportedFeature d) = ''unsupported feature: '' @ d"

section \<open>The HTTP answer\<close>

text \<open>The status codes the program names.\<close>

datatype status_code =
    OK | CREATED | NO_CONTENT | BAD_REQUEST | NOT_FOUND | CONFLICT
  | INTERNAL_SERVER_ERROR | NOT_IMPLEMENTED

fun status_number :: "status_code \<Rightarrow> nat" where
  "status_number OK = 200"
| "status_number CREATED = 201"
| "status_number NO_CONTENT = 204"
| "status_number BAD_REQUEST = 400"
| "status_number NOT_FOUND = 404"
| "status_number CONFLICT = 409"
| "status_number INTERNAL_SERVER_ERROR = 500"
| "status_number NOT_IMPLEMENTED = 501"

text \<open>Status codes are ordered by their number, so that ranges of them can be stated.\<close>

lemma status_number_inject [simp]: "status_number s = status_number t \<longleftrightarrow> s = t"
  by (cases s; cases t) simp_all

instantiation status_code :: linorder
begin

definition less_eq_status_code :: "status_code \<Rightarrow> status_code \<Rightarrow> bool" where
  "less_eq_status_code s t \<longleftrightarrow> status_number s \<le> status_number t"

definition less_status_code :: "status_code \<Rightarrow> status_code \<Rightarrow> bool" where
  "less_status_code s t \<longleftrightarrow> status_number s < status_number t"

instance
  by standard (auto simp: less_eq_status_code_def less_status_code_def)

end

fun error_class :: "compute_error \<Rightarrow> status_code \<times> string" where
  "error_class (ModelNotFound _) = (NOT_FOUND, ''not_found'')"
| "error_class (ReservationNotFound _) = (NOT_FOUND, ''not_found'')"
| "error_class (ModelCapacityExceeded _ _ _) = (CONFLICT, ''capacity_exceeded'')"
| "error_class (InvalidReservationRequest _) = (BAD_REQUEST, ''invalid_request'')"
| "error_class (InvalidChatRequest _) = (BAD_REQUEST, ''invalid_request'')"
| "error_class UserIdentityRequired = (BAD_REQUEST, ''invalid_request'')"
| "error_class (InvalidIdentityEncoding _ _) = (BAD_REQUEST, ''invalid_request'')"
| "error_class (MissingParentDirectory _) = (BAD_REQUEST, ''invalid_request'')"
| "error_class (UnsupportedFeature _) = (NOT_IMPLEMENTED, ''unsupported_feature'')"
| "error_class (X0xIdentity _) = (INTERNAL_SERVER_ERROR, ''internal_error'')"
| "error_class (Io _) = (INTERNAL_SERVER_ERROR, ''internal_error'')"
| "error_class (Json _) = (INTERNAL_SERVER_ERROR, ''internal_error'')"
| "error_class (TomlDecode _) = (INTERNAL_SERVER_ERROR, ''internal_error'')"
| "error_class (TomlEncode _) = (INTERNAL_SERVER_ERROR, ''internal_error'')"

text \<open>The JSON object \<open>{"error": {"type": ..., "message": ...}}\<close>.\<close>

record error_body =
  err_type :: string
  err_message :: string

definition into_response :: "compute_error \<Rightarrow> status_code \<times> error_body" where
  "into_response e =
     (case error_class e of (status, error_type) \<Rightarrow>
        (status, \<lparr>err_type = error_type, err_message = error_display e\<rparr>))"

lemma into_response_simps [simp]:
  "fst (into_response e) = fst (error_class e)"
  "err_type (snd (into_response e)) = snd (error_class e)"
  "err_message (snd (into_response e)) = error_display e"
  by (simp_all add: into_response_def split: prod.split)

lemma error_class_status_type:
  "fst (error_class e) = fst (error_class f) \<longleftrightarrow> snd (error_class e) = snd (error_class f)"
  by (cases e; cases f) simp_all

lemma error_class_ge_400: "BAD_REQUEST \<le> fst (error_class e)"
  by (cases e) (simp_all add: less_eq_status_code_def)

end
