(* ===== verification/World.thy ===== *)
theory World
  imports Compute_Error
begin

text \<open>
  What the program does to the world outside: files, the x0x agent, the network and the
  terminal.  A computation with effects maps a world to a result and the world after it; a world
  is the file system and the trace of the effects attempted so far.  Whether an effect succeeds
  is up to the environment, a function of the history and the effect, so that every theorem
  holds for every pattern of failures.
\<close>

section \<open>Effects\<close>

text \<open>The paths handed to the agent builder of x0x, absent where the builder's default stands.\<close>

record agent_builder =
  ab_machine_key :: "path option"
  ab_agent_key :: "path option"
  ab_user_key :: "path option"
  ab_contact_store :: "path option"

datatype ip_addr = V4 "32 word" | V6 "128 word"

datatype socket_addr = SocketAddr ip_addr u16

datatype effect =
    ReadToString path
  | CreateDirAll path
  | WriteFile path string
  | BuildAgent agent_builder
  | JoinNetwork
  | Subscribe string
  | SpawnSubscriptionLoop string
  | Publish string "u8 list"
  | TcpBind socket_addr
  | Serve
  | Println string
  | Eprintln string

text \<open>
  The identifier types of x0x wrap an array of 32 bytes.  An x0x agent is represented by what
  the program reads of it: its machine id, its agent id and, when one is bound, its user id.
\<close>

datatype machine_id = MachineId (machine_bytes: "u8 list")
datatype agent_id = AgentId (agent_bytes: "u8 list")
datatype user_id = UserId (user_bytes: "u8 list")

record x0x_agent =
  xa_machine_id :: machine_id
  xa_agent_id :: agent_id
  xa_user_id :: "user_id option"

definition agent_wf :: "x0x_agent \<Rightarrow> bool" where
  "agent_wf a \<longleftrightarrow> length (machine_bytes (xa_machine_id a)) = 32
     \<and> length (agent_bytes (xa_agent_id a)) = 32
     \<and> (case xa_user_id a of Some u \<Rightarrow> length (user_bytes u) = 32 | None \<Rightarrow> True)"

text \<open>
  The environment: the error text with which an effect fails after a history (\<open>None\<close>: it
  succeeds), the text of an io error that follows from the state of the file system, and the
  agent that x0x builds from the given paths.
\<close>

record environment =
  env_fault :: "effect list \<Rightarrow> effect \<Rightarrow> string option"
  env_io_text :: "effect \<Rightarrow> string"
  env_agent :: "agent_builder \<Rightarrow> x0x_agent"

datatype fs_node = FileNode string | DirNode

record world =
  w_fs :: "path \<Rightarrow> fs_node option"
  w_trace :: "effect list"

type_synonym ('e, 'a) io = "world \<Rightarrow> ('e + 'a) \<times> world"

section \<open>Sequencing\<close>

definition io_return :: "'a \<Rightarrow> ('e, 'a) io" where
  "io_return x w = (Inr x, w)"

definition io_lift :: "'e + 'a \<Rightarrow> ('e, 'a) io" where
  "io_lift r w = (r, w)"

definition io_bind :: "('e, 'a) io \<Rightarrow> ('a \<Rightarrow> ('e, 'b) io) \<Rightarrow> ('e, 'b) io" where
  "io_bind m f w = (case m w of (Inl e, w') \<Rightarrow> (Inl e, w') | (Inr x, w') \<Rightarrow> f x w')"

definition io_map_err :: "('e \<Rightarrow> 'f) \<Rightarrow> ('e, 'a) io \<Rightarrow> ('f, 'a) io" where
  "io_map_err g m w = (case m w of (r, w') \<Rightarrow> (map_err g r, w'))"

text \<open>
  Attempting an effect: it enters the trace, and the environment decides.  The function
  \<open>conv\<close> is the \<open>From\<close> conversion that the \<open>?\<close> operator applies to the error.
\<close>

definition perform :: "environment \<Rightarrow> (string \<Rightarrow> 'e) \<Rightarrow> effect \<Rightarrow> ('e, unit) io" where
  "perform env conv e w =
     (case env_fault env (w_trace w) e of
        Some msg \<Rightarrow> (Inl (conv msg), w\<lparr>w_trace := w_trace w @ [e]\<rparr>)
      | None \<Rightarrow> (Inr (), w\<lparr>w_trace := w_trace w @ [e]\<rparr>))"

lemma io_simps [simp]:
  "io_return x w = (Inr x, w)"
  "io_lift r w = (r, w)"
  by (simp_all add: io_return_def io_lift_def)

lemma io_bind_return [simp]:
  "io_bind (Pair (Inr x)) f = f x"
  "io_bind (Pair (Inl e)) f = Pair (Inl e)"
  by (simp_all add: io_bind_def fun_eq_iff)

lemma io_bind_assoc: "io_bind (io_bind m f) g = io_bind m (\<lambda>x. io_bind (f x) g)"
  by (auto simp: io_bind_def fun_eq_iff split: prod.split sum.split)

lemma fst_io_map_err: "fst (io_map_err g m w) = map_err g (fst (m w))"
  by (simp add: io_map_err_def split: prod.split)

lemma snd_io_map_err [simp]: "snd (io_map_err g m w) = snd (m w)"
  by (simp add: io_map_err_def split: prod.split)

text \<open>An effect that cannot fail, such as spawning a task or writing a line to the terminal.\<close>

definition emit :: "effect \<Rightarrow> ('e, unit) io" where
  "emit e w = (Inr (), w\<lparr>w_trace := w_trace w @ [e]\<rparr>)"

lemma perform_fs [simp]: "w_fs (snd (perform env conv e w)) = w_fs w"
  by (simp add: perform_def split: option.split)

lemma emit_fs [simp]: "w_fs (snd (emit e w)) = w_fs w"
  by (simp add: emit_def)

subsection \<open>Scripts\<close>

text \<open>
  The abstract form of a startup sequence: a list of actions, run in order until the first one
  that fails.  \<open>Try\<close> attempts an effect, \<open>Emit\<close> is one that cannot fail, \<open>Abort\<close>
  is a failure without an effect.
\<close>

datatype 'e action = Try "string \<Rightarrow> 'e" effect | Emit effect | Abort 'e

fun run_script :: "environment \<Rightarrow> 'e action list \<Rightarrow> ('e, unit) io" where
  "run_script env [] = io_return ()"
| "run_script env (Try conv e # as) = io_bind (perform env conv e) (\<lambda>_. run_script env as)"
| "run_script env (Emit e # as) = io_bind (emit e) (\<lambda>_. run_script env as)"
| "run_script env (Abort err # as) = io_lift (Inl err)"

text \<open>The effects of a script that meets no failure of the environment.\<close>

fun script_effects :: "'e action list \<Rightarrow> effect list" where
  "script_effects [] = []"
| "script_effects (Try conv e # as) = e # script_effects as"
| "script_effects (Emit e # as) = e # script_effects as"
| "script_effects (Abort err # as) = []"

definition aborts :: "'e action list \<Rightarrow> bool" where
  "aborts as \<longleftrightarrow> (\<exists>e. Abort e \<in> set as)"

lemma run_script_append:
  "run_script env (xs @ ys) = io_bind (run_script env xs) (\<lambda>_. run_script env ys)"
proof (induction xs)
  case Nil
  then show ?case by simp
next
  case (Cons x xs)
  then show ?case by (cases x) (simp_all add: io_bind_assoc)
qed

lemma run_script_fs [simp]: "w_fs (snd (run_script env as w)) = w_fs w"
proof (induction env as arbitrary: w rule: run_script.induct)
  case (2 env conv e as)
  then show ?case by (simp add: io_bind_def perform_def split: option.split)
next
  case (3 env e as)
  then show ?case by (simp add: io_bind_def emit_def)
qed simp_all

text \<open>
  Whatever the environment does, the effects a script gets to are a prefix of its effects, and
  all of them when it succeeds.
\<close>

lemma run_script_trace:
  "\<exists>k. w_trace (snd (run_script env as w)) = w_trace w @ take k (script_effects as)
     \<and> (\<not> isl (fst (run_script env as w)) \<longrightarrow> length (script_effects as) \<le> k \<and> \<not> aborts as)"
proof (induction env as arbitrary: w rule: run_script.induct)
  case (1 env)
  show ?case by (simp add: aborts_def)
next
  case (2 env conv e as)
  let ?w = "w\<lparr>w_trace := w_trace w @ [e]\<rparr>"
  from "2.IH" [of ?w] obtain k where
    "w_trace (snd (run_script env as ?w)) = w_trace ?w @ take k (script_effects as)"
    "\<not> isl (fst (run_script env as ?w)) \<longrightarrow> length (script_effects as) \<le> k \<and> \<not> aborts as" by blast
  then show ?case
    by (cases "env_fault env (w_trace w) e")
      (auto simp: io_bind_def perform_def aborts_def intro: exI [of _ "Suc k"] exI [of _ 1])
next
  case (3 env e as)
  let ?w = "w\<lparr>w_trace := w_trace w @ [e]\<rparr>"
  from "3.IH" [of ?w] obtain k where
    "w_trace (snd (run_script env as ?w)) = w_trace ?w @ take k (script_effects as)"
    "\<not> isl (fst (run_script env as ?w)) \<longrightarrow> length (script_effects as) \<le> k \<and> \<not> aborts as" by blast
  then show ?case
    by (auto simp: io_bind_def emit_def aborts_def intro: exI [of _ "Suc k"])
next
  case (4 env err as)
  show ?case by (simp add: exI [of _ 0])
qed

lemma run_script_succeeds:
  "\<forall>h e. env_fault env h e = None \<Longrightarrow> \<not> aborts as \<Longrightarrow> fst (run_script env as w) = Inr ()"
proof (induction env as arbitrary: w rule: run_script.induct)
  case (2 env conv e as)
  then show ?case by (simp add: io_bind_def perform_def aborts_def)
next
  case (3 env e as)
  then show ?case by (simp add: io_bind_def emit_def aborts_def)
qed (auto simp: aborts_def)

section \<open>Files\<close>

definition path_exists :: "world \<Rightarrow> path \<Rightarrow> bool" where
  "path_exists w p \<longleftrightarrow> (p_abs p \<and> p_comps p = []) \<or> w_fs w p \<noteq> None"

text \<open>The root and the current directory, the paths without components, are directories.\<close>

definition is_dir :: "(path \<Rightarrow> fs_node option) \<Rightarrow> path \<Rightarrow> bool" where
  "is_dir fs p \<longleftrightarrow> p_comps p = [] \<or> fs p = Some DirNode"

definition io_error :: "environment \<Rightarrow> effect \<Rightarrow> (compute_error, 'a) io" where
  "io_error env e = io_lift (Inl (Io (env_io_text env e)))"

definition read_to_string :: "environment \<Rightarrow> path \<Rightarrow> (compute_error, string) io" where
  "read_to_string env p =
     io_bind (perform env Io (ReadToString p)) (\<lambda>_. \<lambda>w.
       case w_fs w p of
         Some (FileNode s) \<Rightarrow> io_return s w
       | _ \<Rightarrow> io_error env (ReadToString p) w)"

text \<open>The path itself and its ancestors, without the root or the current directory.\<close>

definition path_prefixes :: "path \<Rightarrow> path list" where
  "path_prefixes p = map (\<lambda>k. p\<lparr>p_comps := take (Suc k) (p_comps p)\<rparr>) [0..<length (p_comps p)]"

definition create_dir_all :: "environment \<Rightarrow> path \<Rightarrow> (compute_error, unit) io" where
  "create_dir_all env p =
     io_bind (perform env Io (CreateDirAll p)) (\<lambda>_. \<lambda>w.
       if \<exists>q \<in> set (path_prefixes p). case w_fs w q of Some (FileNode _) \<Rightarrow> True | _ \<Rightarrow> False
       then io_error env (CreateDirAll p) w
       else (Inr (), w\<lparr>w_fs := (\<lambda>q. if q \<in> set (path_prefixes p) then Some DirNode else w_fs w q)\<rparr>))"

definition write_file :: "environment \<Rightarrow> path \<Rightarrow> string \<Rightarrow> (compute_error, unit) io" where
  "write_file env p s =
     io_bind (perform env Io (WriteFile p s)) (\<lambda>_. \<lambda>w.
       if is_dir (w_fs w) p \<or> \<not> is_dir (w_fs w) (the (path_parent p))
       then io_error env (WriteFile p s) w
       else (Inr (), w\<lparr>w_fs := (w_fs w)(p \<mapsto> FileNode s)\<rparr>))"

text \<open>A write that succeeds leaves exactly the written text in the file, and no other change.\<close>

lemma write_file_Inr:
  "write_file env p s w = (Inr u, w') \<Longrightarrow> w_fs w' = (w_fs w)(p \<mapsto> FileNode s)"
  by (auto simp: write_file_def io_bind_def perform_def io_error_def split: option.splits if_splits)

lemma create_dir_all_Inr:
  "create_dir_all env p w = (Inr u, w') \<Longrightarrow>
     w_fs w' = (\<lambda>q. if q \<in> set (path_prefixes p) then Some DirNode else w_fs w q)"
  by (auto simp: create_dir_all_def io_bind_def perform_def io_error_def split: option.splits if_splits)

lemma read_to_string_file:
  "w_fs w p = Some (FileNode s) \<Longrightarrow> env_fault env (w_trace w) (ReadToString p) = None \<Longrightarrow>
     fst (read_to_string env p w) = Inr s"
  by (simp add: read_to_string_def io_bind_def perform_def)

lemma read_to_string_fs [simp]: "w_fs (snd (read_to_string env p w)) = w_fs w"
  by (simp add: read_to_string_def io_bind_def perform_def io_error_def
        split: option.split fs_node.split)

end
