(* ===== verification/Config.thy ===== *)
theory Config
  imports World
begin

text \<open>
  \<open>src/config.rs\<close>: the configuration records, their defaults, the default locations, and
  loading and writing a configuration file.  The \<open>toml\<close> and \<open>dirs\<close> crates are
  parameters: a codec and the directories they report.
\<close>

section \<open>Data\<close>

record mesh_config =
  mesh_name :: string
  mesh_trusted_friends_only :: bool
  mesh_require_trusted_contacts :: bool
  mesh_prefer_user_identity :: bool

datatype runtime_backend = Skeleton

record runtime_config =
  rt_backend :: runtime_backend
  rt_skeleton_response_prefix :: string

record model_config =
  mc_id :: string
  mc_family :: string
  mc_context_window_tokens :: u32
  mc_max_output_tokens :: u32
  mc_max_parallel_reservations :: u16
  mc_tags :: "string list"

record x0x_config =
  machine_key_path :: "path option"
  agent_key_path :: "path option"
  user_key_path :: "path option"
  contact_store_path :: "path option"

record compute_config =
  api_bind :: socket_addr
  data_dir :: path
  capability_topic :: string
  join_network_on_start :: bool
  announce_on_start :: bool
  require_user_id :: bool
  resource_announce_interval_secs :: u64
  cfg_mesh :: mesh_config
  cfg_runtime :: runtime_config
  cfg_models :: "model_config list"
  cfg_x0x :: x0x_config

text \<open>The two constants of \<open>src/lib.rs\<close>.\<close>

definition CAPABILITY_TOPIC :: string where
  "CAPABILITY_TOPIC = ''x0x.compute.capabilities.v1''"

definition PROTOCOL_VERSION :: u32 where
  "PROTOCOL_VERSION = 1"

section \<open>Default locations\<close>

text \<open>\<open>dirs::config_dir()\<close>, \<open>dirs::data_dir()\<close> and \<open>std::env::current_dir()\<close>.\<close>

record directories =
  dirs_config_dir :: "path option"
  dirs_data_dir :: "path option"
  env_current_dir :: "string + path"

definition fallback_base_dir :: "directories \<Rightarrow> path" where
  "fallback_base_dir d =
     (case env_current_dir d of
        Inr p \<Rightarrow> p
      | Inl _ \<Rightarrow> \<lparr>p_abs = False, p_comps = [''.'']\<rparr>)"

definition default_config_dir :: "directories \<Rightarrow> path" where
  "default_config_dir d =
     (case dirs_config_dir d of
        Some p \<Rightarrow> path_join p ''x0x-compute''
      | None \<Rightarrow> path_join (path_join (fallback_base_dir d) ''.config'') ''x0x-compute'')"

definition default_data_dir :: "directories \<Rightarrow> path" where
  "default_data_dir d =
     (case dirs_data_dir d of
        Some p \<Rightarrow> path_join p ''x0x-compute''
      | None \<Rightarrow> path_join (path_join (path_join (fallback_base_dir d) ''.local'') ''share'')
                  ''x0x-compute'')"

definition default_path :: "directories \<Rightarrow> path" where
  "default_path d = path_join (default_config_dir d) ''config.toml''"

section \<open>Default values\<close>

definition default_mesh_config :: mesh_config where
  "default_mesh_config =
     \<lparr>mesh_name = ''friends'', mesh_trusted_friends_only = True,
      mesh_require_trusted_contacts = True, mesh_prefer_user_identity = True\<rparr>"

definition default_runtime_config :: runtime_config where
  "default_runtime_config =
     \<lparr>rt_backend = Skeleton, rt_skeleton_response_prefix = ''x0x-compute skeleton response''\<rparr>"

definition default_x0x_config :: x0x_config where
  "default_x0x_config =
     \<lparr>machine_key_path = None, agent_key_path = None, user_key_path = None,
      contact_store_path = None\<rparr>"

definition default_compute_config :: "directories \<Rightarrow> compute_config" where
  "default_compute_config d =
     \<lparr>api_bind = SocketAddr (V4 0x7F000001) 12800,
      data_dir = default_data_dir d,
      capability_topic = CAPABILITY_TOPIC,
      join_network_on_start = False,
      announce_on_start = False,
      require_user_id = False,
      resource_announce_interval_secs = 60,
      cfg_mesh = default_mesh_config,
      cfg_runtime = default_runtime_config,
      cfg_models = [],
      cfg_x0x = default_x0x_config\<rparr>"

section \<open>Loading and writing\<close>

text \<open>\<open>toml::from_str\<close> and \<open>toml::to_string_pretty\<close>, with their error texts.\<close>

record toml_codec =
  toml_from_str :: "string \<Rightarrow> string + compute_config"
  toml_to_string_pretty :: "compute_config \<Rightarrow> string + string"

definition resolve_path :: "directories \<Rightarrow> path option \<Rightarrow> path" where
  "resolve_path d p = (case p of Some q \<Rightarrow> q | None \<Rightarrow> default_path d)"

definition load_or_default ::
  "environment \<Rightarrow> directories \<Rightarrow> toml_codec \<Rightarrow> path option \<Rightarrow> (compute_error, compute_config) io" where
  "load_or_default env d T p w =
     (let config_path = resolve_path d p in
      if path_exists w config_path
      then io_bind (read_to_string env config_path)
             (\<lambda>raw. io_lift (map_err TomlDecode (toml_from_str T raw))) w
      else io_return (default_compute_config d) w)"

definition write_to_path ::
  "environment \<Rightarrow> toml_codec \<Rightarrow> compute_config \<Rightarrow> path \<Rightarrow> (compute_error, unit) io" where
  "write_to_path env T cfg p =
     io_bind (io_lift (ok_or (path_parent p) (MissingParentDirectory p))) (\<lambda>parent.
     io_bind (create_dir_all env parent) (\<lambda>_.
     io_bind (io_lift (map_err TomlEncode (toml_to_string_pretty T cfg))) (\<lambda>raw.
     io_bind (write_file env p raw) (\<lambda>_.
     io_return ()))))"

definition write_default ::
  "environment \<Rightarrow> directories \<Rightarrow> toml_codec \<Rightarrow> path option \<Rightarrow> (compute_error, path) io" where
  "write_default env d T p =
     (let cfg = default_compute_config d; resolved = resolve_path d p in
      io_bind (write_to_path env T cfg resolved) (\<lambda>_. io_return resolved))"

subsection \<open>What a write leaves behind\<close>

lemma io_bind_InrD:
  "io_bind m f w = (Inr y, w') \<Longrightarrow> \<exists>x v. m w = (Inr x, v) \<and> f x v = (Inr y, w')"
  by (auto simp: io_bind_def split: prod.splits sum.splits)

lemma write_to_path_Inr:
  assumes "write_to_path env T cfg p w = (Inr u, w')"
  shows "\<exists>raw parent. toml_to_string_pretty T cfg = Inr raw \<and> path_parent p = Some parent
    \<and> w_fs w' = (\<lambda>q. if q = p then Some (FileNode raw)
                   else if q \<in> set (path_prefixes parent) then Some DirNode else w_fs w q)"
proof -
  from assms obtain parent v1 raw where
    par: "path_parent p = Some parent" and
    dir: "create_dir_all env parent w = (Inr (), v1)" and
    raw: "toml_to_string_pretty T cfg = Inr raw" and
    wr: "write_file env p raw v1 = (Inr (), w')"
    unfolding write_to_path_def by (fastforce dest!: io_bind_InrD simp: result_iff)
  show ?thesis
    using par raw create_dir_all_Inr [OF dir] write_file_Inr [OF wr] by (auto simp: fun_eq_iff)
qed

lemma load_or_default_missing:
  "\<not> path_exists w (resolve_path d p) \<Longrightarrow>
     load_or_default env d T p w = (Inr (default_compute_config d), w)"
  by (simp add: load_or_default_def)

lemma load_or_default_file:
  assumes "w_fs w (resolve_path d p) = Some (FileNode raw)"
    and "env_fault env (w_trace w) (ReadToString (resolve_path d p)) = None"
  shows "fst (load_or_default env d T p w) = map_err TomlDecode (toml_from_str T raw)"
  using assms
  by (simp add: load_or_default_def path_exists_def read_to_string_def io_bind_def perform_def)

lemma load_or_default_fs [simp]: "w_fs (snd (load_or_default env d T p w)) = w_fs w"
proof (cases "read_to_string env (resolve_path d p) w")
  case (Pair r v)
  then have "w_fs v = w_fs w" by (metis read_to_string_fs snd_conv)
  with Pair show ?thesis
    by (simp add: load_or_default_def io_bind_def Let_def split: sum.split)
qed

end
