(* ===== verification/Identity.thy ===== *)
theory Identity
  imports Config
begin

text \<open>
  \<open>src/x0x_identity.rs\<close>: identifiers as full hexadecimal strings, parsing them back, the
  identity snapshot, and building the x0x agent from the configuration.  The \<open>hex\<close> crate is
  a parameter; the locale \<open>hex_contract\<close> states the behaviour its documentation promises of
  what is decoded, \<open>hex_reader\<close> also which texts are, and an executable codec interprets both.
\<close>

section \<open>The hexadecimal codec\<close>

record hex_codec =
  hex_encode :: "u8 list \<Rightarrow> string"
  hex_decode :: "string \<Rightarrow> string + u8 list"

definition ascii_lower :: "char \<Rightarrow> char" where
  "ascii_lower c =
     (if (65 :: nat) \<le> of_char c \<and> of_char c \<le> (90 :: nat) then char_of (of_char c + 32 :: nat) else c)"

definition lower_hex_digits :: string where
  "lower_hex_digits = ''0123456789abcdef''"

definition is_lower_hex :: "string \<Rightarrow> bool" where
  "is_lower_hex s \<longleftrightarrow> set s \<subseteq> set lower_hex_digits"

locale hex_contract =
  fixes enc :: "u8 list \<Rightarrow> string" and dec :: "string \<Rightarrow> string + u8 list"
  assumes dec_enc: "dec (enc bs) = Inr bs"
    and length_enc: "length (enc bs) = 2 * length bs"
    and enc_lower: "is_lower_hex (enc bs)"
    and dec_lower: "dec s = Inr bs \<Longrightarrow> map ascii_lower s = enc bs"
begin

lemma enc_inject: "enc as = enc bs \<longleftrightarrow> as = bs"
  using dec_enc by (metis sum.inject(2))

lemma dec_length: "dec s = Inr bs \<Longrightarrow> length s = 2 * length bs"
  using dec_lower length_enc by (metis length_map)

lemma dec_canonical: "dec s = Inr bs \<Longrightarrow> map ascii_lower s = s \<Longrightarrow> s = enc bs"
  using dec_lower by metis

end

text \<open>Exactly the pairs of digits are decoded, capital ones too.\<close>

definition is_hex_digit :: "char \<Rightarrow> bool" where
  "is_hex_digit c \<longleftrightarrow>
     (let n = of_char c :: nat in
      48 \<le> n \<and> n \<le> 57 \<or> 97 \<le> n \<and> n \<le> 102 \<or> 65 \<le> n \<and> n \<le> 70)"

locale hex_reader = hex_contract +
  assumes dec_accepts: "(\<exists>bs. dec s = Inr bs) \<longleftrightarrow> even (length s) \<and> list_all is_hex_digit s"
begin

lemma dec_32:
  "(\<exists>bs. dec s = Inr bs \<and> length bs = 32) \<longleftrightarrow> length s = 64 \<and> list_all is_hex_digit s"
  using dec_accepts [of s] dec_length [of s] by auto

end

subsection \<open>An executable codec\<close>

definition hex_digit :: "nat \<Rightarrow> char" where
  "hex_digit n = (if n < 10 then char_of (48 + n) else char_of (87 + n))"

definition hex_nibble :: "char \<Rightarrow> nat option" where
  "hex_nibble c =
     (let n = of_char c in
      if 48 \<le> n \<and> n \<le> 57 then Some (n - 48)
      else if 97 \<le> n \<and> n \<le> 102 then Some (n - 87)
      else if 65 \<le> n \<and> n \<le> 70 then Some (n - 55)
      else None)"

definition hex_encode_byte :: "u8 \<Rightarrow> string" where
  "hex_encode_byte b = [hex_digit (unat b div 16), hex_digit (unat b mod 16)]"

definition hex_encode_bytes :: "u8 list \<Rightarrow> string" where
  "hex_encode_bytes bs = concat (map hex_encode_byte bs)"

fun hex_decode_bytes :: "string \<Rightarrow> string + u8 list" where
  "hex_decode_bytes [] = Inr []"
| "hex_decode_bytes [c] = Inl ''Odd number of digits''"
| "hex_decode_bytes (c # d # s) =
     (case (hex_nibble c, hex_nibble d) of
        (Some h, Some l) \<Rightarrow> res_map (\<lambda>bs. of_nat (16 * h + l) # bs) (hex_decode_bytes s)
      | _ \<Rightarrow> Inl ''Invalid character'')"

definition hex_executable :: hex_codec where
  "hex_executable = \<lparr>hex_encode = hex_encode_bytes, hex_decode = hex_decode_bytes\<rparr>"

lemma hex_nibble_digit [simp]: "n < 16 \<Longrightarrow> hex_nibble (hex_digit n) = Some n"
  by (simp add: hex_nibble_def hex_digit_def Let_def)

lemma hex_digit_lower: "n < 16 \<Longrightarrow> hex_digit n \<in> set lower_hex_digits"
proof -
  assume "n < 16"
  moreover have "list_all (\<lambda>n. hex_digit n \<in> set lower_hex_digits) [0..<16]" by code_simp
  ultimately show ?thesis by (simp add: list_all_iff)
qed

lemma hex_digit_nibble:
  assumes "hex_nibble c = Some n"
  shows "n < 16 \<and> ascii_lower c = hex_digit n"
proof -
  have c: "char_of (of_char c :: nat) = c" by simp
  from assms consider "48 \<le> (of_char c :: nat)" "(of_char c :: nat) \<le> 57" "n = of_char c - 48"
    | "97 \<le> (of_char c :: nat)" "(of_char c :: nat) \<le> 102" "n = of_char c - 87"
    | "65 \<le> (of_char c :: nat)" "(of_char c :: nat) \<le> 70" "n = of_char c - 55"
    by (auto simp: hex_nibble_def Let_def split: if_splits)
  then show ?thesis
    by cases (use c in \<open>auto simp: ascii_lower_def hex_digit_def add.commute\<close>)
qed

lemma hex_decode_encode: "hex_decode_bytes (hex_encode_bytes bs) = Inr bs"
proof (induction bs)
  case Nil
  then show ?case by (simp add: hex_encode_bytes_def)
next
  case (Cons b bs)
  have b: "unat b < 256" using unsigned_less [of b, where ?'a = nat] by simp
  have "(of_nat (16 * (unat b div 16) + unat b mod 16) :: u8) = b" by simp
  with b Cons show ?case
    by (simp add: hex_encode_bytes_def hex_encode_byte_def div_less_iff_less_mult)
qed

lemma length_hex_encode: "length (hex_encode_bytes bs) = 2 * length bs"
  by (induction bs) (simp_all add: hex_encode_bytes_def hex_encode_byte_def)

lemma hex_encode_lower: "is_lower_hex (hex_encode_bytes bs)"
proof -
  have "unat (b :: u8) div 16 < 16" for b
    using unsigned_less [of b, where ?'a = nat] by (simp add: div_less_iff_less_mult)
  then show ?thesis
    by (auto simp: is_lower_hex_def hex_encode_bytes_def hex_encode_byte_def hex_digit_lower)
qed

lemma hex_decode_lower: "hex_decode_bytes s = Inr bs \<Longrightarrow> map ascii_lower s = hex_encode_bytes bs"
proof (induction s arbitrary: bs rule: hex_decode_bytes.induct)
  case 1
  then show ?case by (simp add: hex_encode_bytes_def)
next
  case (2 c)
  then show ?case by simp
next
  case (3 c d s)
  then obtain h l bs' where h: "hex_nibble c = Some h" and l: "hex_nibble d = Some l"
    and s: "hex_decode_bytes s = Inr bs'" and bs: "bs = of_nat (16 * h + l) # bs'"
    by (auto simp: result_iff split: option.splits)
  have "h < 16" "l < 16" and lower: "ascii_lower c = hex_digit h" "ascii_lower d = hex_digit l"
    using hex_digit_nibble [OF h] hex_digit_nibble [OF l] by simp_all
  then have "unat (of_nat (16 * h + l) :: u8) = 16 * h + l" by (subst unat_of_nat) simp
  moreover have IH: "map ascii_lower s = hex_encode_bytes bs'" using "3.IH" h l s by simp
  ultimately have "hex_encode_byte (of_nat (16 * h + l)) = [hex_digit h, hex_digit l]"
    using \<open>h < 16\<close> \<open>l < 16\<close> by (simp add: hex_encode_byte_def)
  with IH lower bs show ?case by (simp add: hex_encode_bytes_def)
qed

interpretation hex: hex_contract "hex_encode hex_executable" "hex_decode hex_executable"
  by unfold_locales
    (simp_all add: hex_executable_def hex_decode_encode length_hex_encode hex_encode_lower hex_decode_lower)

lemma hex_nibble_accepts: "(\<exists>n. hex_nibble c = Some n) \<longleftrightarrow> is_hex_digit c"
  by (simp add: hex_nibble_def is_hex_digit_def Let_def)

lemma hex_decode_accepts: "(\<exists>bs. hex_decode_bytes s = Inr bs) \<longleftrightarrow> even (length s) \<and> list_all is_hex_digit s"
proof (induction s rule: hex_decode_bytes.induct)
  case (3 c d s)
  show ?case
  proof (cases "is_hex_digit c \<and> is_hex_digit d")
    case True
    then obtain h l where "hex_nibble c = Some h" "hex_nibble d = Some l"
      using hex_nibble_accepts by blast
    with 3 True show ?thesis by (auto simp: result_iff)
  next
    case False
    then have "hex_nibble c = None \<or> hex_nibble d = None"
      using hex_nibble_accepts by (metis option.exhaust)
    with False show ?thesis by (auto split: option.split)
  qed
qed simp_all

interpretation hex: hex_reader "hex_encode hex_executable" "hex_decode hex_executable"
  by unfold_locales (simp add: hex_executable_def hex_decode_accepts)

section \<open>Identifiers as strings\<close>

record agent_identity_snapshot =
  ais_machine_id :: string
  ais_agent_id :: string
  ais_user_id :: "string option"

definition encode_machine_id :: "'a hex_codec_scheme \<Rightarrow> machine_id \<Rightarrow> string" where
  "encode_machine_id H m = hex_encode H (machine_bytes m)"

definition encode_agent_id :: "'a hex_codec_scheme \<Rightarrow> agent_id \<Rightarrow> string" where
  "encode_agent_id H a = hex_encode H (agent_bytes a)"

definition encode_user_id :: "'a hex_codec_scheme \<Rightarrow> user_id \<Rightarrow> string" where
  "encode_user_id H u = hex_encode H (user_bytes u)"

definition from_agent :: "'a hex_codec_scheme \<Rightarrow> x0x_agent \<Rightarrow> agent_identity_snapshot" where
  "from_agent H a =
     \<lparr>ais_machine_id = encode_machine_id H (xa_machine_id a),
      ais_agent_id = encode_agent_id H (xa_agent_id a),
      ais_user_id = map_option (encode_user_id H) (xa_user_id a)\<rparr>"

definition parse_hex_32 :: "'a hex_codec_scheme \<Rightarrow> string \<Rightarrow> string \<Rightarrow> u8 list result" where
  "parse_hex_32 H value f =
     res_bind (map_err (\<lambda>err. InvalidIdentityEncoding f err) (hex_decode H value))
       (\<lambda>decoded. if length decoded = 32 then Inr decoded
          else Inl (InvalidIdentityEncoding f
                 (''expected 32 bytes, got '' @ decimal (length decoded))))"

definition parse_agent_id_hex :: "'a hex_codec_scheme \<Rightarrow> string \<Rightarrow> agent_id result" where
  "parse_agent_id_hex H value = res_map AgentId (parse_hex_32 H value ''agent_id'')"

definition parse_machine_id_hex :: "'a hex_codec_scheme \<Rightarrow> string \<Rightarrow> machine_id result" where
  "parse_machine_id_hex H value = res_map MachineId (parse_hex_32 H value ''machine_id'')"

lemma parse_hex_32_Inr:
  "parse_hex_32 H value f = Inr bs \<longleftrightarrow> hex_decode H value = Inr bs \<and> length bs = 32"
  by (auto simp: parse_hex_32_def result_iff split: if_splits)

lemma parse_hex_32_Inl:
  "parse_hex_32 H value f = Inl e \<Longrightarrow> \<exists>d. e = InvalidIdentityEncoding f d"
  by (auto simp: parse_hex_32_def result_iff split: if_splits)

lemma parse_machine_id_Inr:
  "parse_machine_id_hex H value = Inr m \<longleftrightarrow>
     hex_decode H value = Inr (machine_bytes m) \<and> length (machine_bytes m) = 32"
  by (cases m) (auto simp: parse_machine_id_hex_def result_iff parse_hex_32_Inr)

lemma parse_agent_id_Inr:
  "parse_agent_id_hex H value = Inr a \<longleftrightarrow>
     hex_decode H value = Inr (agent_bytes a) \<and> length (agent_bytes a) = 32"
  by (cases a) (auto simp: parse_agent_id_hex_def result_iff parse_hex_32_Inr)

text \<open>The texts of 32 bytes, and what the parser says of any other.\<close>

definition is_hex_id :: "string \<Rightarrow> bool" where
  "is_hex_id s \<longleftrightarrow> length s = 64 \<and> list_all is_hex_digit s"

lemma parse_hex_32_spec:
  assumes "hex_reader (hex_encode H) (hex_decode H)"
  shows "case parse_hex_32 H s f of
      Inr bs \<Rightarrow> is_hex_id s \<and> length bs = 32 \<and> hex_encode H bs = map ascii_lower s
    | Inl e \<Rightarrow> \<not> is_hex_id s \<and> e = InvalidIdentityEncoding f
        (case hex_decode H s of Inl err \<Rightarrow> err | Inr _ \<Rightarrow> ''expected 32 bytes, got '' @ decimal (length s div 2))"
proof (cases "hex_decode H s")
  case (Inl e)
  then have "\<not> is_hex_id s" using hex_reader.dec_32 [OF assms, of s] by (simp add: is_hex_id_def)
  with Inl show ?thesis by (simp add: parse_hex_32_def)
next
  case (Inr bs)
  note con = hex_reader.axioms(1) [OF assms]
  have "is_hex_id s \<longleftrightarrow> length bs = 32" "length s = 2 * length bs" "hex_encode H bs = map ascii_lower s"
    using hex_reader.dec_32 [OF assms, of s] Inr hex_contract.dec_length [OF con Inr] hex_contract.dec_lower [OF con Inr]
    by (auto simp: is_hex_id_def)
  with Inr show ?thesis by (simp add: parse_hex_32_def)
qed

section \<open>Building the agent\<close>

definition agent_builder_new :: agent_builder where
  "agent_builder_new =
     \<lparr>ab_machine_key = None, ab_agent_key = None, ab_user_key = None, ab_contact_store = None\<rparr>"

definition configured_builder :: "compute_config \<Rightarrow> agent_builder" where
  "configured_builder cfg =
     (let x = cfg_x0x cfg;
          b0 = agent_builder_new;
          b1 = (case machine_key_path x of Some p \<Rightarrow> b0\<lparr>ab_machine_key := Some p\<rparr> | None \<Rightarrow> b0);
          b2 = (case agent_key_path x of Some p \<Rightarrow> b1\<lparr>ab_agent_key := Some p\<rparr> | None \<Rightarrow> b1);
          b3 = (case user_key_path x of Some p \<Rightarrow> b2\<lparr>ab_user_key := Some p\<rparr> | None \<Rightarrow> b2)
      in case contact_store_path x of Some p \<Rightarrow> b3\<lparr>ab_contact_store := Some p\<rparr> | None \<Rightarrow> b3)"

definition build_agent :: "environment \<Rightarrow> compute_config \<Rightarrow> (compute_error, x0x_agent) io" where
  "build_agent env cfg =
     (let builder = configured_builder cfg in
      io_bind (perform env X0xIdentity (BuildAgent builder)) (\<lambda>_.
        let agent = env_agent env builder in
        if require_user_id cfg \<and> xa_user_id agent = None
        then io_lift (Inl UserIdentityRequired)
        else io_return agent))"

lemma configured_builder_paths:
  "configured_builder cfg =
     \<lparr>ab_machine_key = machine_key_path (cfg_x0x cfg), ab_agent_key = agent_key_path (cfg_x0x cfg),
      ab_user_key = user_key_path (cfg_x0x cfg), ab_contact_store = contact_store_path (cfg_x0x cfg)\<rparr>"
  by (simp add: configured_builder_def agent_builder_new_def Let_def split: option.split)

lemma build_agent_run:
  "build_agent env cfg w =
     (let b = configured_builder cfg; w' = w\<lparr>w_trace := w_trace w @ [BuildAgent b]\<rparr> in
      case env_fault env (w_trace w) (BuildAgent b) of
        Some msg \<Rightarrow> (Inl (X0xIdentity msg), w')
      | None \<Rightarrow>
          if require_user_id cfg \<and> xa_user_id (env_agent env b) = None
          then (Inl UserIdentityRequired, w')
          else (Inr (env_agent env b), w'))"
  by (simp add: build_agent_def Let_def io_bind_def perform_def split: option.split)

end
