(* ===== verification/Capability.thy ===== *)
theory Capability
  imports Identity
begin

text \<open>
  \<open>src/capability.rs\<close>: the announcement a node makes about itself, and how it is built from
  the configuration, the identity, the \<open>sysinfo\<close> snapshot of the machine and the clock.
\<close>

record hardware_profile =
  hw_hostname :: "string option"
  hw_cpu_brand :: string
  hw_logical_cores :: nat
  hw_total_memory_bytes :: u64
  hw_available_memory_bytes :: u64

record trusted_mesh_policy =
  pol_mesh_name :: string
  pol_trusted_friends_only :: bool
  pol_require_trusted_contacts :: bool
  pol_prefer_user_identity :: bool

record capability_announcement =
  cap_protocol_version :: u32
  cap_identity :: agent_identity_snapshot
  cap_hardware :: hardware_profile
  cap_policy :: trusted_mesh_policy
  cap_available_models :: "string list"
  cap_observed_at_unix_secs :: u64

text \<open>What the announcement reads of \<open>sysinfo::System\<close>; one brand per CPU.\<close>

record system_info =
  sys_host_name :: "string option"
  sys_cpu_brands :: "string list"
  sys_total_memory :: u64
  sys_available_memory :: u64

definition capability_timestamp_secs :: "system_time \<Rightarrow> u64" where
  "capability_timestamp_secs now = (case secs_since_epoch now of Some s \<Rightarrow> s | None \<Rightarrow> 0)"

definition announced_cpu_brand :: "system_info \<Rightarrow> string" where
  "announced_cpu_brand sys =
     (case sys_cpu_brands sys of
        [] \<Rightarrow> ''unknown''
      | brand # _ \<Rightarrow> if brand \<noteq> [] then brand else ''unknown'')"

definition announcement_local ::
  "system_info \<Rightarrow> system_time \<Rightarrow> compute_config \<Rightarrow> agent_identity_snapshot
     \<Rightarrow> capability_announcement" where
  "announcement_local sys now cfg identity =
     \<lparr>cap_protocol_version = PROTOCOL_VERSION,
      cap_identity = identity,
      cap_hardware =
        \<lparr>hw_hostname = sys_host_name sys,
         hw_cpu_brand = announced_cpu_brand sys,
         hw_logical_cores = length (sys_cpu_brands sys),
         hw_total_memory_bytes = sys_total_memory sys,
         hw_available_memory_bytes = sys_available_memory sys\<rparr>,
      cap_policy =
        \<lparr>pol_mesh_name = mesh_name (cfg_mesh cfg),
         pol_trusted_friends_only = mesh_trusted_friends_only (cfg_mesh cfg),
         pol_require_trusted_contacts = mesh_require_trusted_contacts (cfg_mesh cfg),
         pol_prefer_user_identity = mesh_prefer_user_identity (cfg_mesh cfg)\<rparr>,
      cap_available_models = map mc_id (cfg_models cfg),
      cap_observed_at_unix_secs = capability_timestamp_secs now\<rparr>"

lemma announced_cpu_brand_nonempty: "announced_cpu_brand sys \<noteq> []"
  by (simp add: announced_cpu_brand_def split: list.split)

lemma capability_timestamp_mono:
  "s \<le> t \<Longrightarrow> clock_range t \<Longrightarrow> capability_timestamp_secs s \<le> capability_timestamp_secs t"
  using secs_since_epoch_mono [of s t]
  by (auto simp: capability_timestamp_secs_def split: option.split)
    (simp add: secs_since_epoch_def split: if_splits)

end
