(* ===== verification/Btree_Map.thy ===== *)
theory Btree_Map
  imports Prelude
begin

text \<open>
  \<open>std::collections::BTreeMap\<close>: the program keeps its models, its reservations and its peers
  in one each and relies on two things, that it is a map and that \<open>values()\<close> runs in key
  order.  The locale \<open>ordered_map\<close> states that interface and proves once what the clients
  use (how entries, sums over the values and the number of values change); the model is the
  key-sorted association list, which interprets it.
\<close>

section \<open>The interface\<close>

lemma map_of_strict_sorted_unique:
  fixes xs ys :: "('k::linorder \<times> 'v) list"
  assumes "sorted_wrt (<) (map fst xs)" and "sorted_wrt (<) (map fst ys)"
    and "map_of xs = map_of ys"
  shows "xs = ys"
proof -
  have xs: "sorted (map fst xs)" "distinct (map fst xs)"
    and ys: "sorted (map fst ys)" "distinct (map fst ys)"
    using assms(1,2) by (simp_all add: strict_sorted_iff)
  have sets: "set xs = set ys"
    using assms(3) xs(2) ys(2) by (metis map_of_inject_set)
  have "inj_on fst (set xs \<union> set ys)" using xs(2) sets by (simp add: distinct_map)
  from map_sorted_distinct_set_unique [OF this xs ys sets] show ?thesis .
qed

locale ordered_map =
  fixes ok :: "'m \<Rightarrow> bool"
    and empty :: "'m"
    and get :: "'m \<Rightarrow> 'k::linorder \<Rightarrow> 'v option"
    and ins :: "'k \<Rightarrow> 'v \<Rightarrow> 'm \<Rightarrow> 'm"
    and del :: "'k \<Rightarrow> 'm \<Rightarrow> 'm"
    and entries :: "'m \<Rightarrow> ('k \<times> 'v) list"
  assumes ok_empty: "ok empty"
    and ok_ins: "ok m \<Longrightarrow> ok (ins k v m)"
    and ok_del: "ok m \<Longrightarrow> ok (del k m)"
    and get_empty: "get empty k = None"
    and get_ins: "ok m \<Longrightarrow> get (ins k v m) = (get m)(k \<mapsto> v)"
    and get_del: "ok m \<Longrightarrow> get (del k m) = (get m)(k := None)"
    and entries_sorted: "ok m \<Longrightarrow> sorted_wrt (<) (map fst (entries m))"
    and entries_get: "ok m \<Longrightarrow> map_of (entries m) = get m"
begin

lemma distinct_keys: "ok m \<Longrightarrow> distinct (map fst (entries m))"
  using entries_sorted by (simp add: strict_sorted_iff)

lemma in_entries: "ok m \<Longrightarrow> (k, v) \<in> set (entries m) \<longleftrightarrow> get m k = Some v"
  using distinct_keys [of m] by (simp add: entries_get [symmetric])

lemma entries_eqI: "ok m \<Longrightarrow> ok n \<Longrightarrow> get m = get n \<Longrightarrow> entries m = entries n"
  by (rule map_of_strict_sorted_unique) (simp_all add: entries_sorted entries_get)

lemma values_get: "ok m \<Longrightarrow> v \<in> set (map snd (entries m)) \<longleftrightarrow> (\<exists>k. get m k = Some v)"
  by (force simp: in_entries [symmetric])

lemma entries_ins_set:
  "ok m \<Longrightarrow> set (entries (ins k v m)) = insert (k, v) {(j, w). j \<noteq> k \<and> get m j = Some w}"
  by (auto simp: in_entries ok_ins get_ins split: if_splits)

lemma entries_del_set:
  "ok m \<Longrightarrow> set (entries (del k m)) = {(j, w). j \<noteq> k \<and> get m j = Some w}"
  by (auto simp: in_entries ok_del get_del split: if_splits)

text \<open>Deleting a key that was just inserted, or inserting it again, undoes itself.\<close>

lemma del_ins_fresh:
  "ok m \<Longrightarrow> get m k = None \<Longrightarrow> entries (del k (ins k v m)) = entries m"
  by (rule entries_eqI) (auto simp: ok_ins ok_del get_ins get_del fun_eq_iff)

lemma ins_ins: "ok m \<Longrightarrow> entries (ins k v (ins k w m)) = entries (ins k v m)"
  by (rule entries_eqI) (simp_all add: ok_ins get_ins)

text \<open>Sums over the entries, the form in which clients count slots and values.\<close>

lemma sum_entries:
  "ok m \<Longrightarrow> sum_list (map f (entries m)) = (\<Sum>e \<in> set (entries m). f e :: nat)"
  using distinct_keys [of m] by (simp add: sum_list_distinct_conv_sum_set distinct_map)

lemma entries_split:
  "ok m \<Longrightarrow> get m k = Some w \<Longrightarrow>
     set (entries m) = insert (k, w) {(j, u). j \<noteq> k \<and> get m j = Some u}"
  by (auto simp: in_entries)

lemma entries_fresh:
  "ok m \<Longrightarrow> get m k = None \<Longrightarrow> set (entries m) = {(j, u). j \<noteq> k \<and> get m j = Some u}"
  by (auto simp: in_entries)

lemma finite_others: "ok m \<Longrightarrow> finite {(j, u). j \<noteq> k \<and> get m j = Some u}"
  by (rule finite_subset [of _ "set (entries m)"]) (auto simp: in_entries)

lemma sum_ins_fresh:
  "ok m \<Longrightarrow> get m k = None \<Longrightarrow>
     sum_list (map f (entries (ins k v m))) = sum_list (map f (entries m)) + (f (k, v) :: nat)"
  using finite_others [of m k]
  by (simp add: sum_entries ok_ins entries_ins_set entries_fresh)

lemma sum_ins_replace:
  "ok m \<Longrightarrow> get m k = Some w \<Longrightarrow>
     sum_list (map f (entries (ins k v m))) + f (k, w)
       = sum_list (map f (entries m)) + (f (k, v) :: nat)"
  using finite_others [of m k]
  by (simp add: sum_entries ok_ins entries_ins_set entries_split)

lemma sum_ins_le:
  "ok m \<Longrightarrow> sum_list (map f (entries (ins k v m))) \<le> sum_list (map f (entries m)) + (f (k, v) :: nat)"
  using sum_ins_fresh [of m k f v] sum_ins_replace [of m k _ f v]
  by (cases "get m k") (simp, metis le_add1)

lemma sum_del:
  "ok m \<Longrightarrow> get m k = Some w \<Longrightarrow>
     sum_list (map f (entries (del k m))) + (f (k, w) :: nat) = sum_list (map f (entries m))"
  using finite_others [of m k]
  by (simp add: sum_entries ok_del entries_del_set entries_split)

lemma length_ins:
  "ok m \<Longrightarrow> length (entries (ins k v m)) =
     (if get m k = None then Suc (length (entries m)) else length (entries m))"
  using sum_ins_fresh [of m k "\<lambda>_. 1" v] sum_ins_replace [of m k _ "\<lambda>_. 1" v]
  by (auto simp: sum_list_triv)

lemma length_del:
  "ok m \<Longrightarrow> get m k = Some w \<Longrightarrow> Suc (length (entries (del k m))) = length (entries m)"
  using sum_del [of m k w "\<lambda>_. 1"] by (simp add: sum_list_triv)

lemmas ok_intros = ok_empty ok_ins ok_del

end

section \<open>The model: a key-sorted association list\<close>

type_synonym ('k, 'v) btree_map = "('k \<times> 'v) list"

fun bt_insert :: "'k::linorder \<Rightarrow> 'v \<Rightarrow> ('k, 'v) btree_map \<Rightarrow> ('k, 'v) btree_map" where
  "bt_insert k v [] = [(k, v)]"
| "bt_insert k v (e # m) =
     (if k < fst e then (k, v) # e # m
      else if k = fst e then (k, v) # m
      else e # bt_insert k v m)"

definition bt_remove :: "'k::linorder \<Rightarrow> ('k, 'v) btree_map \<Rightarrow> ('k, 'v) btree_map" where
  "bt_remove k m = filter (\<lambda>e. fst e \<noteq> k) m"

definition bt_get :: "('k::linorder, 'v) btree_map \<Rightarrow> 'k \<Rightarrow> 'v option" where
  "bt_get m k = map_of m k"

definition bt_values :: "('k::linorder, 'v) btree_map \<Rightarrow> 'v list" where
  "bt_values m = map snd m"

definition bt_ok :: "('k::linorder, 'v) btree_map \<Rightarrow> bool" where
  "bt_ok m \<longleftrightarrow> sorted_wrt (<) (map fst m)"

text \<open>\<open>collect()\<close> of pairs into a map: a later pair replaces an earlier one of the same key.\<close>

definition bt_collect :: "('k::linorder \<times> 'v) list \<Rightarrow> ('k, 'v) btree_map" where
  "bt_collect kvs = fold (\<lambda>(k, v) m. bt_insert k v m) kvs []"

lemma map_of_bt_insert: "map_of (bt_insert k v m) = (map_of m)(k \<mapsto> v)"
  by (induction m) auto

lemma keys_bt_insert: "fst ` set (bt_insert k v m) = insert k (fst ` set m)"
  by (induction m) auto

lemma bt_ok_insert: "bt_ok m \<Longrightarrow> bt_ok (bt_insert k v m)"
proof (induction m)
  case Nil
  then show ?case by (simp add: bt_ok_def)
next
  case (Cons e m)
  then have e: "\<forall>j \<in> fst ` set m. fst e < j" and m: "bt_ok (bt_insert k v m)" "bt_ok m"
    by (auto simp: bt_ok_def)
  consider "k < fst e" | "k = fst e" | "fst e < k" by (rule linorder_cases)
  then show ?case
  proof cases
    case 1
    with e have "\<forall>j \<in> fst ` set m. k < j" by (metis less_trans)
    with 1 e m show ?thesis by (simp add: bt_ok_def)
  next
    case 2
    with e m show ?thesis by (simp add: bt_ok_def)
  next
    case 3
    with e have "\<forall>j \<in> fst ` set (bt_insert k v m). fst e < j" by (simp add: keys_bt_insert)
    moreover from 3 have "\<not> k < fst e" "k \<noteq> fst e" by auto
    ultimately show ?thesis using m by (simp add: bt_ok_def)
  qed
qed

lemma bt_ok_empty: "bt_ok []"
  by (simp add: bt_ok_def)

lemma bt_ok_remove: "bt_ok m \<Longrightarrow> bt_ok (bt_remove k m)"
  by (induction m) (auto simp: bt_ok_def bt_remove_def)

lemma map_of_bt_remove: "map_of (bt_remove k m) = (map_of m)(k := None)"
  by (induction m) (auto simp: bt_remove_def)

interpretation bt: ordered_map bt_ok "[]" bt_get bt_insert bt_remove "\<lambda>m. m"
proof
  show "bt_ok m \<Longrightarrow> sorted_wrt (<) (map fst m)" for m :: "('a, 'b) btree_map"
    by (simp add: bt_ok_def)
qed (simp_all add: bt_ok_empty bt_ok_insert bt_ok_remove bt_get_def [abs_def]
      map_of_bt_insert map_of_bt_remove)

lemmas bt_ok_intros [simp, intro] = bt.ok_intros

lemma bt_collect_snoc:
  "bt_collect (kvs @ [(k, v)]) = bt_insert k v (bt_collect kvs)"
  by (simp add: bt_collect_def)

lemma bt_ok_collect [simp, intro]: "bt_ok (bt_collect kvs)"
  by (induction kvs rule: rev_induct) (auto simp: bt_collect_snoc simp: bt_collect_def [of "[]"])

lemma bt_get_collect: "bt_get (bt_collect kvs) = map_of (rev kvs)"
proof (induction kvs rule: rev_induct)
  case Nil
  then show ?case by (simp add: bt_collect_def bt_get_def fun_eq_iff)
next
  case (snoc e kvs)
  then show ?case by (cases e) (simp add: bt_collect_snoc bt.get_ins)
qed

lemma in_bt_values: "bt_ok m \<Longrightarrow> v \<in> set (bt_values m) \<longleftrightarrow> (\<exists>k. bt_get m k = Some v)"
  unfolding bt_values_def by (rule bt.values_get)

end
