(* ===== verification/Mesh.thy ===== *)
theory Mesh
  imports Capability Btree_Map
begin

text \<open>
  \<open>src/mesh.rs\<close>: the registry of trusted peers.  \<open>apply_message\<close> runs one gossip message
  through nine checks and either leaves the registry alone or writes the record of one peer.
  The trust evaluation and the JSON decoding are parameters.
\<close>

section \<open>Data\<close>

datatype trust_decision =
  Accept | AcceptWithFlag | RejectMachineMismatch | RejectBlocked | Unknown

record peer_capability_record =
  pr_capability :: capability_announcement
  pr_trust_decision :: trust_decision
  pr_first_seen_unix_secs :: u64
  pr_last_seen_unix_secs :: u64

datatype capability_disposition =
    AcceptedNewPeer
  | UpdatedPeer
  | IgnoredSelf
  | RejectedMissingSender
  | RejectedUnverifiedSender
  | RejectedInvalidPayload
  | RejectedUnsupportedProtocol
  | RejectedWrongMesh
  | RejectedSenderMismatch
  | RejectedInvalidMachineId
  | RejectedTrust trust_decision

record trusted_peer_registry =
  reg_peers :: "(string, peer_capability_record) btree_map"

text \<open>The fields of an x0x pub/sub message that the program reads.\<close>

record pubsub_message =
  ps_topic :: string
  ps_payload :: "u8 list"
  ps_sender :: "agent_id option"
  ps_verified :: bool

text \<open>
  The foreign functions of the mesh: the hex codec, the JSON encoder and decoder of
  announcements, and the trust evaluator of x0x over a contact store of type \<open>'cs\<close>.
\<close>

record 'cs mesh_externals = hex_codec +
  json_from_slice :: "u8 list \<Rightarrow> string + capability_announcement"
  json_to_vec :: "capability_announcement \<Rightarrow> string + u8 list"
  trust_evaluate :: "'cs \<Rightarrow> agent_id \<Rightarrow> machine_id \<Rightarrow> trust_decision"

section \<open>Operations\<close>

definition registry_new :: trusted_peer_registry where
  "registry_new = \<lparr>reg_peers = []\<rparr>"

definition registry_snapshot :: "trusted_peer_registry \<Rightarrow> peer_capability_record list" where
  "registry_snapshot r = bt_values (reg_peers r)"

definition registry_len :: "trusted_peer_registry \<Rightarrow> nat" where
  "registry_len r = length (reg_peers r)"

definition registry_is_empty :: "trusted_peer_registry \<Rightarrow> bool" where
  "registry_is_empty r \<longleftrightarrow> reg_peers r = []"

fun allows_peer :: "compute_config \<Rightarrow> trust_decision \<Rightarrow> bool" where
  "allows_peer cfg Accept = True"
| "allows_peer cfg AcceptWithFlag =
     (\<not> mesh_trusted_friends_only (cfg_mesh cfg) \<and> \<not> mesh_require_trusted_contacts (cfg_mesh cfg))"
| "allows_peer cfg RejectMachineMismatch = False"
| "allows_peer cfg RejectBlocked = False"
| "allows_peer cfg Unknown = False"

definition mesh_timestamp_secs :: "system_time \<Rightarrow> u64" where
  "mesh_timestamp_secs now = (case secs_since_epoch now of Some s \<Rightarrow> s | None \<Rightarrow> 0)"

text \<open>
  The write at the end of \<open>apply_message\<close>: an existing record keeps its first sighting, a
  missing one is inserted.
\<close>

definition record_peer ::
  "capability_announcement \<Rightarrow> trust_decision \<Rightarrow> u64 \<Rightarrow> trusted_peer_registry
     \<Rightarrow> capability_disposition \<times> trusted_peer_registry" where
  "record_peer cap decision now r =
     (let peer_id = ais_agent_id (cap_identity cap) in
      case bt_get (reg_peers r) peer_id of
        Some existing \<Rightarrow>
          (UpdatedPeer,
           r\<lparr>reg_peers := bt_insert peer_id
               (existing\<lparr>pr_capability := cap, pr_trust_decision := decision,
                         pr_last_seen_unix_secs := now\<rparr>) (reg_peers r)\<rparr>)
      | None \<Rightarrow>
          (AcceptedNewPeer,
           r\<lparr>reg_peers := bt_insert peer_id
               \<lparr>pr_capability = cap, pr_trust_decision = decision,
                pr_first_seen_unix_secs = now, pr_last_seen_unix_secs = now\<rparr> (reg_peers r)\<rparr>))"

definition apply_message ::
  "'cs mesh_externals \<Rightarrow> system_time \<Rightarrow> compute_config \<Rightarrow> string \<Rightarrow> 'cs \<Rightarrow> pubsub_message
     \<Rightarrow> trusted_peer_registry \<Rightarrow> capability_disposition \<times> trusted_peer_registry" where
  "apply_message X now cfg local_agent_id contacts message r =
     (case ps_sender message of
        None \<Rightarrow> (RejectedMissingSender, r)
      | Some sender \<Rightarrow>
     if \<not> ps_verified message then (RejectedUnverifiedSender, r)
     else let sender_hex = encode_agent_id X sender in
     if sender_hex = local_agent_id then (IgnoredSelf, r)
     else (case json_from_slice X (ps_payload message) of
        Inl _ \<Rightarrow> (RejectedInvalidPayload, r)
      | Inr cap \<Rightarrow>
     if cap_protocol_version cap \<noteq> PROTOCOL_VERSION then (RejectedUnsupportedProtocol, r)
     else if pol_mesh_name (cap_policy cap) \<noteq> mesh_name (cfg_mesh cfg) then (RejectedWrongMesh, r)
     else if ais_agent_id (cap_identity cap) \<noteq> sender_hex then (RejectedSenderMismatch, r)
     else (case parse_machine_id_hex X (ais_machine_id (cap_identity cap)) of
        Inl _ \<Rightarrow> (RejectedInvalidMachineId, r)
      | Inr machine_id \<Rightarrow>
     let decision = trust_evaluate X contacts sender machine_id in
     if \<not> allows_peer cfg decision then (RejectedTrust decision, r)
     else record_peer cap decision (mesh_timestamp_secs now) r)))"

text \<open>
  The body of the subscription loop: every message is applied under the contact store and the
  clock of its moment, and the loop ends with the subscription.
\<close>

record 'cs gossip_event =
  ge_message :: pubsub_message
  ge_contacts :: 'cs
  ge_now :: system_time

fun subscription_loop ::
  "'cs mesh_externals \<Rightarrow> compute_config \<Rightarrow> string \<Rightarrow> 'cs gossip_event list
     \<Rightarrow> trusted_peer_registry \<Rightarrow> trusted_peer_registry" where
  "subscription_loop X cfg local_agent_id [] r = r"
| "subscription_loop X cfg local_agent_id (e # es) r =
     subscription_loop X cfg local_agent_id es
       (snd (apply_message X (ge_now e) cfg local_agent_id (ge_contacts e) (ge_message e) r))"

text \<open>
  The loop as it runs: it asks the subscription for the next message until there is none.  The
  subscription is a stream that answers the n-th question; a loop that is never told the end
  does not return, which is the value \<open>None\<close>.
\<close>

partial_function (option) receive_loop ::
  "'cs mesh_externals \<Rightarrow> compute_config \<Rightarrow> string \<Rightarrow> (nat \<Rightarrow> 'cs gossip_event option) \<Rightarrow> nat
     \<Rightarrow> trusted_peer_registry \<Rightarrow> trusted_peer_registry option" where
  "receive_loop X cfg local_agent_id recv n r =
     (case recv n of
        None \<Rightarrow> Some r
      | Some e \<Rightarrow>
          receive_loop X cfg local_agent_id recv (Suc n)
            (snd (apply_message X (ge_now e) cfg local_agent_id (ge_contacts e) (ge_message e) r)))"

definition announce_local_capability ::
  "'cs mesh_externals \<Rightarrow> environment \<Rightarrow> system_info \<Rightarrow> system_time \<Rightarrow> compute_config
     \<Rightarrow> agent_identity_snapshot \<Rightarrow> (compute_error, capability_announcement) io" where
  "announce_local_capability X env sys now cfg identity =
     (let capability = announcement_local sys now cfg identity in
      io_bind (io_lift (map_err Json (json_to_vec X capability))) (\<lambda>payload.
      io_bind (perform env X0xIdentity (Publish (capability_topic cfg) payload)) (\<lambda>_.
      io_return capability)))"

definition start_capability_subscription_loop ::
  "environment \<Rightarrow> compute_config \<Rightarrow> string \<Rightarrow> (compute_error, unit) io" where
  "start_capability_subscription_loop env cfg local_agent_id =
     io_bind (perform env X0xIdentity (Subscribe (capability_topic cfg))) (\<lambda>_.
       emit (SpawnSubscriptionLoop local_agent_id))"

end
