(* ===== verification/Mesh_Spec.thy ===== *)
theory Mesh_Spec
  imports Mesh
begin

text \<open>
  What the registry promises.  \<open>admission\<close> is the specification of the checks of
  \<open>apply_message\<close>: an unordered conjunction.  The history of a peer is the list of its
  admitted announcements, and the registry after any run of the subscription loop is exactly
  the summary of the histories.  The invariant of the registry, the order of the snapshot, the
  independence of senders and the time stamps follow.
\<close>

section \<open>Admission\<close>

definition admission ::
  "'cs mesh_externals \<Rightarrow> compute_config \<Rightarrow> string \<Rightarrow> 'cs \<Rightarrow> pubsub_message
     \<Rightarrow> (capability_announcement \<times> trust_decision) option" where
  "admission X cfg me contacts m =
     (case (ps_sender m, json_from_slice X (ps_payload m)) of
        (Some s, Inr cap) \<Rightarrow>
          (case parse_machine_id_hex X (ais_machine_id (cap_identity cap)) of
             Inr mid \<Rightarrow>
               if ps_verified m \<and> encode_agent_id X s \<noteq> me
                  \<and> cap_protocol_version cap = PROTOCOL_VERSION
                  \<and> pol_mesh_name (cap_policy cap) = mesh_name (cfg_mesh cfg)
                  \<and> ais_agent_id (cap_identity cap) = encode_agent_id X s
                  \<and> allows_peer cfg (trust_evaluate X contacts s mid)
               then Some (cap, trust_evaluate X contacts s mid)
               else None
           | Inl _ \<Rightarrow> None)
      | _ \<Rightarrow> None)"

definition writes :: "capability_disposition \<Rightarrow> bool" where
  "writes d \<longleftrightarrow> d = AcceptedNewPeer \<or> d = UpdatedPeer"

lemma admission_SomeE:
  assumes "admission X cfg me contacts m = Some (cap, d)"
  obtains s mid where "ps_sender m = Some s" "ps_verified m" "encode_agent_id X s \<noteq> me"
    "json_from_slice X (ps_payload m) = Inr cap" "cap_protocol_version cap = PROTOCOL_VERSION"
    "pol_mesh_name (cap_policy cap) = mesh_name (cfg_mesh cfg)"
    "ais_agent_id (cap_identity cap) = encode_agent_id X s"
    "parse_machine_id_hex X (ais_machine_id (cap_identity cap)) = Inr mid"
    "d = trust_evaluate X contacts s mid" "allows_peer cfg d"
  using assms by (auto simp: admission_def split: option.splits sum.splits if_splits)

lemma apply_message_admitted:
  "admission X cfg me contacts m = Some (cap, d) \<Longrightarrow>
     apply_message X now cfg me contacts m r = record_peer cap d (mesh_timestamp_secs now) r"
  by (erule admission_SomeE) (simp add: apply_message_def Let_def)

lemma apply_message_not_admitted:
  "admission X cfg me contacts m = None \<Longrightarrow>
     snd (apply_message X now cfg me contacts m r) = r
     \<and> \<not> writes (fst (apply_message X now cfg me contacts m r))"
  by (auto simp: admission_def apply_message_def Let_def writes_def split: option.splits sum.splits if_splits)

lemma writes_record_peer: "writes (fst (record_peer cap d now r))"
  by (simp add: record_peer_def Let_def writes_def split: option.split)

section \<open>One write\<close>

text \<open>The record of a peer after one more admitted announcement.\<close>

fun refresh ::
  "capability_announcement \<times> trust_decision \<Rightarrow> u64 \<Rightarrow> peer_capability_record option
     \<Rightarrow> peer_capability_record" where
  "refresh (cap, d) now None =
     \<lparr>pr_capability = cap, pr_trust_decision = d, pr_first_seen_unix_secs = now,
      pr_last_seen_unix_secs = now\<rparr>"
| "refresh (cap, d) now (Some old) =
     old\<lparr>pr_capability := cap, pr_trust_decision := d, pr_last_seen_unix_secs := now\<rparr>"

lemma record_peer_registry:
  "reg_peers (snd (record_peer cap d now r)) =
     (let k = ais_agent_id (cap_identity cap) in
      bt_insert k (refresh (cap, d) now (bt_get (reg_peers r) k)) (reg_peers r))"
  by (simp add: record_peer_def Let_def split: option.split)

lemma apply_message_ok:
  "bt_ok (reg_peers r) \<Longrightarrow> bt_ok (reg_peers (snd (apply_message X now cfg me contacts m r)))"
proof (cases "admission X cfg me contacts m")
  case None
  assume "bt_ok (reg_peers r)"
  with None show ?thesis by (simp add: apply_message_not_admitted)
next
  case (Some a)
  assume "bt_ok (reg_peers r)"
  with Some show ?thesis
    by (cases a) (simp add: apply_message_admitted record_peer_registry Let_def)
qed

text \<open>The effect of one message on the entry of one peer.\<close>

lemma apply_message_get:
  assumes "bt_ok (reg_peers r)"
  shows "bt_get (reg_peers (snd (apply_message X now cfg me contacts m r))) k =
    (case admission X cfg me contacts m of
       Some (cap, d) \<Rightarrow>
         if ais_agent_id (cap_identity cap) = k
         then Some (refresh (cap, d) (mesh_timestamp_secs now) (bt_get (reg_peers r) k))
         else bt_get (reg_peers r) k
     | None \<Rightarrow> bt_get (reg_peers r) k)"
  using assms
  by (auto simp: apply_message_admitted apply_message_not_admitted record_peer_registry Let_def
        bt.get_ins split: option.split)

lemma registry_eqI:
  "bt_ok (reg_peers r) \<Longrightarrow> bt_ok (reg_peers q) \<Longrightarrow>
     (\<And>k. bt_get (reg_peers r) k = bt_get (reg_peers q) k) \<Longrightarrow> (r :: trusted_peer_registry) = q"
  using bt.entries_eqI [of "reg_peers r" "reg_peers q"] by (simp add: fun_eq_iff)

section \<open>The invariant\<close>

definition peer_ok ::
  "'cs mesh_externals \<Rightarrow> compute_config \<Rightarrow> string \<Rightarrow> string \<Rightarrow> peer_capability_record \<Rightarrow> bool" where
  "peer_ok X cfg me k p \<longleftrightarrow>
     ais_agent_id (cap_identity (pr_capability p)) = k
     \<and> k \<noteq> me
     \<and> (\<exists>a. k = encode_agent_id X a)
     \<and> cap_protocol_version (pr_capability p) = PROTOCOL_VERSION
     \<and> pol_mesh_name (cap_policy (pr_capability p)) = mesh_name (cfg_mesh cfg)
     \<and> (\<exists>mid. parse_machine_id_hex X (ais_machine_id (cap_identity (pr_capability p))) = Inr mid)
     \<and> allows_peer cfg (pr_trust_decision p)"

definition registry_inv ::
  "'cs mesh_externals \<Rightarrow> compute_config \<Rightarrow> string \<Rightarrow> trusted_peer_registry \<Rightarrow> bool" where
  "registry_inv X cfg me r \<longleftrightarrow>
     bt_ok (reg_peers r) \<and> (\<forall>k p. bt_get (reg_peers r) k = Some p \<longrightarrow> peer_ok X cfg me k p)"

lemma registry_inv_new: "registry_inv X cfg me registry_new"
  by (simp add: registry_inv_def registry_new_def bt.get_empty)

lemma peer_ok_refresh:
  "admission X cfg me contacts m = Some (cap, d) \<Longrightarrow>
     peer_ok X cfg me (ais_agent_id (cap_identity cap)) (refresh (cap, d) now old)"
  by (erule admission_SomeE, cases old) (auto simp: peer_ok_def)

lemma apply_message_inv:
  "registry_inv X cfg me r \<Longrightarrow>
     registry_inv X cfg me (snd (apply_message X now cfg me contacts m r))"
  by (auto simp: registry_inv_def apply_message_ok apply_message_get peer_ok_refresh
        split: option.splits if_splits)

lemma subscription_loop_inv:
  "registry_inv X cfg me r \<Longrightarrow> registry_inv X cfg me (subscription_loop X cfg me es r)"
  by (induction X cfg me es r rule: subscription_loop.induct) (simp_all add: apply_message_inv)

section \<open>Histories\<close>

fun peer_history ::
  "'cs mesh_externals \<Rightarrow> compute_config \<Rightarrow> string \<Rightarrow> 'cs gossip_event list \<Rightarrow> string
     \<Rightarrow> ((capability_announcement \<times> trust_decision) \<times> u64) list" where
  "peer_history X cfg me [] k = []"
| "peer_history X cfg me (e # es) k =
     (case admission X cfg me (ge_contacts e) (ge_message e) of
        Some a \<Rightarrow>
          if ais_agent_id (cap_identity (fst a)) = k
          then (a, mesh_timestamp_secs (ge_now e)) # peer_history X cfg me es k
          else peer_history X cfg me es k
      | None \<Rightarrow> peer_history X cfg me es k)"

text \<open>
  The summary of a history: the announcement and decision of its last entry, the times of its
  first and its last.
\<close>

definition summary ::
  "((capability_announcement \<times> trust_decision) \<times> u64) list \<Rightarrow> peer_capability_record option" where
  "summary h =
     (if h = [] then None
      else Some \<lparr>pr_capability = fst (fst (last h)), pr_trust_decision = snd (fst (last h)),
                 pr_first_seen_unix_secs = snd (hd h), pr_last_seen_unix_secs = snd (last h)\<rparr>)"

lemma fold_refresh_Some:
  "h \<noteq> [] \<Longrightarrow>
     fold (\<lambda>(a, t) p. Some (refresh a t p)) h (Some old) =
       Some (old\<lparr>pr_capability := fst (fst (last h)), pr_trust_decision := snd (fst (last h)),
                 pr_last_seen_unix_secs := snd (last h)\<rparr>)"
proof (induction h arbitrary: old)
  case Nil
  then show ?case by simp
next
  case (Cons e h)
  then show ?case by (cases e; cases "h = []") auto
qed

lemma fold_refresh_summary: "fold (\<lambda>(a, t) p. Some (refresh a t p)) h None = summary h"
proof (cases h)
  case Nil
  then show ?thesis by (simp add: summary_def)
next
  case (Cons e h')
  then show ?thesis
    by (cases e; cases "h' = []") (auto simp: summary_def fold_refresh_Some)
qed

lemma subscription_loop_get:
  "bt_ok (reg_peers r) \<Longrightarrow>
     bt_get (reg_peers (subscription_loop X cfg me es r)) k =
       fold (\<lambda>(a, t) p. Some (refresh a t p)) (peer_history X cfg me es k) (bt_get (reg_peers r) k)"
  by (induction X cfg me es r rule: subscription_loop.induct)
    (auto simp: apply_message_ok apply_message_get split: option.splits)

text \<open>The history of a peer depends on the messages under its own identifier only.\<close>

definition sender_hex :: "'cs mesh_externals \<Rightarrow> pubsub_message \<Rightarrow> string option" where
  "sender_hex X m = map_option (encode_agent_id X) (ps_sender m)"

lemma peer_history_filter:
  "peer_history X cfg me (filter (\<lambda>e. sender_hex X (ge_message e) = Some k) es) k = peer_history X cfg me es k"
  by (induction es) (auto simp: sender_hex_def split: option.splits elim: admission_SomeE)

lemma peer_history_event:
  "h \<in> set (peer_history X cfg me es k) \<Longrightarrow>
     \<exists>e \<in> set es. admission X cfg me (ge_contacts e) (ge_message e) = Some (fst h)"
  by (induction es) (auto split: option.splits if_splits)

text \<open>What a record shows was received as it is shown.\<close>

lemma snapshot_received:
  assumes "p \<in> set (registry_snapshot (subscription_loop X cfg me es registry_new))"
  shows "\<exists>e \<in> set es. admission X cfg me (ge_contacts e) (ge_message e) = Some (pr_capability p, pr_trust_decision p)"
proof -
  let ?r = "subscription_loop X cfg me es registry_new"
  have "bt_ok (reg_peers ?r)"
    using subscription_loop_inv [OF registry_inv_new, of X cfg me es] by (simp add: registry_inv_def)
  with assms obtain k where "bt_get (reg_peers ?r) k = Some p" by (auto simp: registry_snapshot_def in_bt_values)
  then have "summary (peer_history X cfg me es k) = Some p"
    using subscription_loop_get [of registry_new X cfg me es k]
    by (simp add: registry_new_def bt.get_empty fold_refresh_summary)
  then have "last (peer_history X cfg me es k) \<in> set (peer_history X cfg me es k)"
    and "fst (last (peer_history X cfg me es k)) = (pr_capability p, pr_trust_decision p)"
    by (auto simp: summary_def prod_eq_iff split: if_splits)
  with peer_history_event [OF this(1)] show ?thesis by simp
qed

lemma subscription_loop_ok:
  "bt_ok (reg_peers r) \<Longrightarrow> bt_ok (reg_peers (subscription_loop X cfg me es r))"
  by (induction X cfg me es r rule: subscription_loop.induct) (simp_all add: apply_message_ok)

lemma subscription_loop_eqI:
  "bt_ok (reg_peers r) \<Longrightarrow> (\<And>k. peer_history X cfg me es k = peer_history X cfg me fs k) \<Longrightarrow>
     subscription_loop X cfg me es r = subscription_loop X cfg me fs r"
  by (rule registry_eqI) (simp_all add: subscription_loop_ok subscription_loop_get)

section \<open>The receiving loop\<close>

text \<open>The loop that waits for the next message, run while messages arrive.\<close>

lemma receive_loop_prefix:
  "(\<And>i. i < n \<Longrightarrow> recv (m + i) \<noteq> None) \<Longrightarrow>
     receive_loop X cfg me recv m r =
       receive_loop X cfg me recv (m + n)
         (subscription_loop X cfg me (map (\<lambda>i. the (recv i)) [m..<m + n]) r)"
proof (induction n arbitrary: m r)
  case 0
  then show ?case by simp
next
  case (Suc n)
  obtain e where e: "recv m = Some e" using Suc.prems [of 0] by auto
  have "receive_loop X cfg me recv (Suc m) q = receive_loop X cfg me recv (Suc m + n)
      (subscription_loop X cfg me (map (\<lambda>i. the (recv i)) [Suc m..<Suc m + n]) q)" for q
  proof (rule Suc.IH)
    fix i assume "i < n"
    then show "recv (Suc m + i) \<noteq> None" using Suc.prems [of "Suc i"] by simp
  qed
  moreover have "[m..<m + Suc n] = m # [Suc m..<Suc m + n]" by (simp add: upt_rec)
  ultimately show ?case
    by (subst receive_loop.simps) (simp add: e)
qed

lemma receive_loop_closed:
  assumes "recv n = None" and "\<And>i. i < n \<Longrightarrow> recv i \<noteq> None"
  shows "receive_loop X cfg me recv 0 r = Some (subscription_loop X cfg me (map (\<lambda>i. the (recv i)) [0..<n]) r)"
proof -
  have "receive_loop X cfg me recv n q = Some q" for q
    by (subst receive_loop.simps) (simp add: assms(1))
  then show ?thesis using receive_loop_prefix [of n recv 0 X cfg me r] assms(2) by simp
qed

lemma receive_loop_returns:
  "receive_loop X cfg me recv n r = Some q \<Longrightarrow> \<exists>k \<ge> n. recv k = None"
proof (induction rule: receive_loop.raw_induct [rotated 1, consumes 1, case_names step])
  case (step loop X cfg me recv n r q)
  show ?case
  proof (cases "recv n")
    case None
    then show ?thesis by blast
  next
    case (Some e)
    with step have "\<exists>k \<ge> Suc n. recv k = None" by simp
    then show ?thesis by (blast dest: Suc_leD)
  qed
qed

end
