(* ===== verification/Runtime.thy ===== *)
theory Runtime
  imports Config Btree_Map
begin

text \<open>
  \<open>src/runtime.rs\<close>: the data of the local runtime API and the skeleton adapter, which keeps
  the configured models and, behind a mutex, the counters and the active reservations.  An
  operation takes the adapter and returns its result with the adapter after it; each takes the
  lock once, so it is one atomic step.
\<close>

section \<open>Data\<close>

record local_model_inventory =
  lm_id :: string
  lm_family :: string
  lm_runtime_backend :: runtime_backend
  lm_context_window_tokens :: u32
  lm_max_output_tokens :: u32
  lm_total_slots :: u16
  lm_reserved_slots :: u16
  lm_available_slots :: u16
  lm_tags :: "string list"

record create_reservation_request =
  crr_model :: string
  crr_consumer :: string
  crr_requested_slots :: u16

record model_reservation =
  mr_reservation_id :: string
  mr_model :: string
  mr_consumer :: string
  mr_requested_slots :: u16
  mr_granted_at_unix_secs :: u64

record openai_model_card =
  card_id :: string
  card_object :: string
  card_created :: u64
  card_owned_by :: string

record openai_model_list_response =
  list_object :: string
  list_data :: "openai_model_card list"

record openai_chat_message =
  msg_role :: string
  msg_content :: string

text \<open>The temperature, an \<open>f32\<close>, is carried as its bit pattern; no operation reads it.\<close>

record openai_chat_completion_request =
  ccr_model :: string
  ccr_messages :: "openai_chat_message list"
  ccr_stream :: bool
  ccr_max_tokens :: "u32 option"
  ccr_temperature :: "u32 option"

record openai_chat_choice =
  ch_index :: u32
  ch_message :: openai_chat_message
  ch_finish_reason :: string

record openai_usage =
  us_prompt_tokens :: u32
  us_completion_tokens :: u32
  us_total_tokens :: u32

record openai_chat_completion_response =
  cc_id :: string
  cc_object :: string
  cc_created :: u64
  cc_model :: string
  cc_choices :: "openai_chat_choice list"
  cc_usage :: openai_usage

section \<open>The skeleton adapter\<close>

record skeleton_runtime_state =
  st_next_reservation_id :: u64
  st_next_completion_id :: u64
  st_reservations :: "(string, model_reservation) btree_map"

record skeleton_runtime_adapter =
  sk_backend :: runtime_backend
  sk_response_prefix :: string
  sk_models :: "(string, model_config) btree_map"
  sk_state :: "skeleton_runtime_state mutex"

definition skeleton_state_default :: skeleton_runtime_state where
  "skeleton_state_default =
     \<lparr>st_next_reservation_id = 0, st_next_completion_id = 0, st_reservations = []\<rparr>"

definition skeleton_new :: "compute_config \<Rightarrow> skeleton_runtime_adapter" where
  "skeleton_new cfg =
     \<lparr>sk_backend = rt_backend (cfg_runtime cfg),
      sk_response_prefix = rt_skeleton_response_prefix (cfg_runtime cfg),
      sk_models = bt_collect (map (\<lambda>model. (mc_id model, model)) (cfg_models cfg)),
      sk_state = mutex_new skeleton_state_default\<rparr>"

definition runtime_timestamp_secs :: "system_time \<Rightarrow> u64" where
  "runtime_timestamp_secs now = (case secs_since_epoch now of Some s \<Rightarrow> s | None \<Rightarrow> 0)"

definition default_requested_slots :: u16 where
  "default_requested_slots = 1"

text \<open>
  The fields of the two request bodies as a JSON object carries them, where a field with a
  \<open>serde(default)\<close> may be missing, and the requests they become.
\<close>

record create_reservation_fields =
  crf_model :: string
  crf_consumer :: string
  crf_requested_slots :: "u16 option"

definition create_request_of :: "create_reservation_fields \<Rightarrow> create_reservation_request" where
  "create_request_of body =
     \<lparr>crr_model = crf_model body, crr_consumer = crf_consumer body,
      crr_requested_slots =
        (case crf_requested_slots body of Some n \<Rightarrow> n | None \<Rightarrow> default_requested_slots)\<rparr>"

record chat_completion_fields =
  ccf_model :: string
  ccf_messages :: "openai_chat_message list"
  ccf_stream :: "bool option"
  ccf_max_tokens :: "u32 option"
  ccf_temperature :: "u32 option"

definition chat_request_of :: "chat_completion_fields \<Rightarrow> openai_chat_completion_request" where
  "chat_request_of body =
     \<lparr>ccr_model = ccf_model body, ccr_messages = ccf_messages body,
      ccr_stream = (case ccf_stream body of Some b \<Rightarrow> b | None \<Rightarrow> False),
      ccr_max_tokens = ccf_max_tokens body, ccr_temperature = ccf_temperature body\<rparr>"

definition inventory_for_model ::
  "skeleton_runtime_adapter \<Rightarrow> model_config \<Rightarrow> u16 \<Rightarrow> local_model_inventory" where
  "inventory_for_model a model reserved =
     \<lparr>lm_id = mc_id model, lm_family = mc_family model, lm_runtime_backend = sk_backend a,
      lm_context_window_tokens = mc_context_window_tokens model,
      lm_max_output_tokens = mc_max_output_tokens model,
      lm_total_slots = mc_max_parallel_reservations model,
      lm_reserved_slots = reserved,
      lm_available_slots = saturating_sub (mc_max_parallel_reservations model) reserved,
      lm_tags = mc_tags model\<rparr>"

definition reserved_slots_for_model :: "skeleton_runtime_state \<Rightarrow> string \<Rightarrow> u16" where
  "reserved_slots_for_model st model =
     fold (\<lambda>reservation acc. saturating_add acc (mr_requested_slots reservation))
       (filter (\<lambda>reservation. mr_model reservation = model) (bt_values (st_reservations st))) 0"

definition ensure_model_exists :: "skeleton_runtime_adapter \<Rightarrow> string \<Rightarrow> model_config result" where
  "ensure_model_exists a model = ok_or (bt_get (sk_models a) model) (ModelNotFound model)"

text \<open>The guard of the lock; a poisoned mutex yields its data all the same.\<close>

definition lock_state :: "skeleton_runtime_adapter \<Rightarrow> skeleton_runtime_state" where
  "lock_state a =
     (case mutex_lock (sk_state a) of Inr guard \<Rightarrow> guard | Inl poisoned \<Rightarrow> poisoned)"

definition store_state ::
  "skeleton_runtime_adapter \<Rightarrow> skeleton_runtime_state \<Rightarrow> skeleton_runtime_adapter" where
  "store_state a st = a\<lparr>sk_state := (sk_state a)\<lparr>mx_data := st\<rparr>\<rparr>"

section \<open>Inventory and reservations\<close>

definition local_models :: "skeleton_runtime_adapter \<Rightarrow> local_model_inventory list" where
  "local_models a =
     (let state = lock_state a in
      map (\<lambda>model. inventory_for_model a model (reserved_slots_for_model state (mc_id model)))
        (bt_values (sk_models a)))"

definition reservation_id :: "u64 \<Rightarrow> string" where
  "reservation_id n = ''resv-'' @ pad6 (unat n)"

definition create_reservation ::
  "system_time \<Rightarrow> create_reservation_request \<Rightarrow> skeleton_runtime_adapter
     \<Rightarrow> model_reservation result \<times> skeleton_runtime_adapter" where
  "create_reservation now request a =
     (if trim (crr_consumer request) = [] then
        (Inl (InvalidReservationRequest ''consumer must not be empty''), a)
      else if crr_requested_slots request = 0 then
        (Inl (InvalidReservationRequest ''requested_slots must be at least 1''), a)
      else (case ensure_model_exists a (crr_model request) of
        Inl e \<Rightarrow> (Inl e, a)
      | Inr model \<Rightarrow>
          let state = lock_state a;
              reserved_slots = reserved_slots_for_model state (mc_id model);
              available_slots = saturating_sub (mc_max_parallel_reservations model) reserved_slots
          in if crr_requested_slots request > available_slots then
               (Inl (ModelCapacityExceeded (mc_id model) (crr_requested_slots request) available_slots), a)
             else
               let next = saturating_add (st_next_reservation_id state) 1;
                   reservation =
                     \<lparr>mr_reservation_id = reservation_id next, mr_model = mc_id model,
                      mr_consumer = crr_consumer request,
                      mr_requested_slots = crr_requested_slots request,
                      mr_granted_at_unix_secs = runtime_timestamp_secs now\<rparr>
               in (Inr reservation,
                   store_state a
                     (state\<lparr>st_next_reservation_id := next,
                            st_reservations := bt_insert (mr_reservation_id reservation) reservation
                                                 (st_reservations state)\<rparr>))))"

definition reservations :: "skeleton_runtime_adapter \<Rightarrow> model_reservation list" where
  "reservations a = bt_values (st_reservations (lock_state a))"

definition release_reservation ::
  "string \<Rightarrow> skeleton_runtime_adapter \<Rightarrow> unit result \<times> skeleton_runtime_adapter" where
  "release_reservation rid a =
     (let state = lock_state a in
      case bt_get (st_reservations state) rid of
        Some _ \<Rightarrow>
          (Inr (), store_state a (state\<lparr>st_reservations := bt_remove rid (st_reservations state)\<rparr>))
      | None \<Rightarrow> (Inl (ReservationNotFound rid), a))"

section \<open>The OpenAI-compatible gateway\<close>

definition openai_models :: "skeleton_runtime_adapter \<Rightarrow> openai_model_list_response" where
  "openai_models a =
     \<lparr>list_object = ''list'',
      list_data = map (\<lambda>model. \<lparr>card_id = lm_id model, card_object = ''model'', card_created = 0,
                                card_owned_by = ''x0x-compute''\<rparr>) (local_models a)\<rparr>"

definition estimated_tokens :: "string \<Rightarrow> u32" where
  "estimated_tokens text = u32_try_from_or_max (max (length (split_whitespace text)) 1)"

definition select_prompt :: "openai_chat_message list \<Rightarrow> string" where
  "select_prompt messages =
     (case find (\<lambda>message. msg_role message = ''user'') (rev messages) of
        Some message \<Rightarrow> msg_content message
      | None \<Rightarrow> (case messages of [] \<Rightarrow> [] | _ # _ \<Rightarrow> msg_content (last messages)))"

definition completion_text :: "string \<Rightarrow> string \<Rightarrow> string \<Rightarrow> string" where
  "completion_text response_prefix model prompt =
     trim (response_prefix @ '' ['' @ model @ ''] '' @ trim prompt)"

definition completion_id :: "u64 \<Rightarrow> string" where
  "completion_id n = ''chatcmpl-'' @ pad6 (unat n)"

definition chat_completion ::
  "system_time \<Rightarrow> openai_chat_completion_request \<Rightarrow> skeleton_runtime_adapter
     \<Rightarrow> openai_chat_completion_response result \<times> skeleton_runtime_adapter" where
  "chat_completion now request a =
     (case ensure_model_exists a (ccr_model request) of
        Inl e \<Rightarrow> (Inl e, a)
      | Inr model \<Rightarrow>
      if ccr_stream request then
        (Inl (UnsupportedFeature ''streaming chat completions are not implemented yet''), a)
      else if ccr_messages request = [] then
        (Inl (InvalidChatRequest ''messages must not be empty''), a)
      else
        let prompt = select_prompt (ccr_messages request);
            completion = completion_text (sk_response_prefix a) (mc_id model) prompt;
            prompt_tokens = estimated_tokens (str_join '' '' (map msg_content (ccr_messages request)));
            completion_tokens = estimated_tokens completion;
            total_tokens = saturating_add prompt_tokens completion_tokens;
            state = lock_state a;
            next = saturating_add (st_next_completion_id state) 1
        in (Inr \<lparr>cc_id = completion_id next, cc_object = ''chat.completion'',
                 cc_created = runtime_timestamp_secs now, cc_model = mc_id model,
                 cc_choices =
                   [\<lparr>ch_index = 0,
                     ch_message = \<lparr>msg_role = ''assistant'', msg_content = completion\<rparr>,
                     ch_finish_reason = ''stop''\<rparr>],
                 cc_usage =
                   \<lparr>us_prompt_tokens = prompt_tokens, us_completion_tokens = completion_tokens,
                    us_total_tokens = total_tokens\<rparr>\<rparr>,
            store_state a (state\<lparr>st_next_completion_id := next\<rparr>)))"

end
