(* ===== verification/Runtime_Spec.thy ===== *)
theory Runtime_Spec
  imports Runtime
begin

text \<open>
  What the skeleton adapter promises: the invariant of its state and its preservation, the exact
  conditions and effects of granting and releasing slots, and the refinement of an abstract pool
  of slots.
\<close>

section \<open>The state behind the lock\<close>

lemma lock_state_data: "lock_state a = mx_data (sk_state a)"
  by (simp add: lock_state_def mutex_lock_def)

lemma store_state_simps [simp]:
  "lock_state (store_state a st) = st"
  "sk_models (store_state a st) = sk_models a"
  "sk_backend (store_state a st) = sk_backend a"
  "sk_response_prefix (store_state a st) = sk_response_prefix a"
  "mx_poisoned (sk_state (store_state a st)) = mx_poisoned (sk_state a)"
  "store_state (store_state a st) st' = store_state a st'"
  by (simp_all add: store_state_def lock_state_data)

lemma store_state_self: "st = lock_state a \<Longrightarrow> store_state a st = a"
  by (cases "sk_state a") (simp add: store_state_def lock_state_data)

text \<open>The slots the active reservations of a model hold, as a natural number.\<close>

definition held :: "skeleton_runtime_state \<Rightarrow> string \<Rightarrow> nat" where
  "held st m =
     sum_list (map (\<lambda>e. if mr_model (snd e) = m then unat (mr_requested_slots (snd e)) else 0)
       (st_reservations st))"

lemma sum_list_map_filter_if:
  "sum_list (map f (filter P (map g xs))) = sum_list (map (\<lambda>x. if P (g x) then f (g x) else (0 :: nat)) xs)"
  by (induction xs) auto

lemma unat_reserved_slots [u_arith]:
  "unat (reserved_slots_for_model st m) = min (held st m) 65535"
  by (simp add: reserved_slots_for_model_def unat_fold_saturating_add bt_values_def held_def
      sum_list_map_filter_if)

section \<open>The invariant\<close>

definition reservation_ok ::
  "(string, model_config) btree_map \<Rightarrow> u64 \<Rightarrow> string \<Rightarrow> model_reservation \<Rightarrow> bool" where
  "reservation_ok models next k r \<longleftrightarrow>
     mr_reservation_id r = k
     \<and> 0 < unat (mr_requested_slots r)
     \<and> trim (mr_consumer r) \<noteq> []
     \<and> bt_get models (mr_model r) \<noteq> None
     \<and> (\<exists>n. 0 < n \<and> n \<le> unat next \<and> k = ''resv-'' @ pad6 n)"

definition runtime_inv :: "skeleton_runtime_adapter \<Rightarrow> bool" where
  "runtime_inv a \<longleftrightarrow>
     bt_ok (sk_models a)
     \<and> bt_ok (st_reservations (lock_state a))
     \<and> (\<forall>k model. bt_get (sk_models a) k = Some model \<longrightarrow> mc_id model = k)
     \<and> (\<forall>k r. bt_get (st_reservations (lock_state a)) k = Some r \<longrightarrow>
           reservation_ok (sk_models a) (st_next_reservation_id (lock_state a)) k r)
     \<and> (\<forall>k model. bt_get (sk_models a) k = Some model \<longrightarrow>
           held (lock_state a) k \<le> unat (mc_max_parallel_reservations model))"

lemma runtime_invD:
  assumes "runtime_inv a"
  shows "bt_ok (sk_models a)" "bt_ok (st_reservations (lock_state a))"
    "bt_get (sk_models a) k = Some model \<Longrightarrow> mc_id model = k"
    "bt_get (st_reservations (lock_state a)) j = Some r \<Longrightarrow>
       reservation_ok (sk_models a) (st_next_reservation_id (lock_state a)) j r"
    "bt_get (sk_models a) k = Some model \<Longrightarrow>
       held (lock_state a) k \<le> unat (mc_max_parallel_reservations model)"
  using assms by (auto simp: runtime_inv_def)

lemma unat_u16_le: "unat (w :: u16) \<le> 65535"
  using unat_le_max_word [of w] by simp

lemma reserved_exact:
  "runtime_inv a \<Longrightarrow> bt_get (sk_models a) k = Some model \<Longrightarrow>
     unat (reserved_slots_for_model (lock_state a) k) = held (lock_state a) k"
  using runtime_invD(5) [of a k model] unat_u16_le [of "mc_max_parallel_reservations model"]
  by (simp add: u_arith)

lemma runtime_inv_new: "runtime_inv (skeleton_new cfg)"
  by (auto simp: runtime_inv_def skeleton_new_def lock_state_data mutex_new_def
      skeleton_state_default_def held_def bt.get_empty bt_get_collect dest!: map_of_SomeD)

section \<open>Granting\<close>

definition granted ::
  "system_time \<Rightarrow> create_reservation_request \<Rightarrow> skeleton_runtime_adapter \<Rightarrow> model_reservation" where
  "granted now request a =
     \<lparr>mr_reservation_id = reservation_id (saturating_add (st_next_reservation_id (lock_state a)) 1),
      mr_model = crr_model request, mr_consumer = crr_consumer request,
      mr_requested_slots = crr_requested_slots request,
      mr_granted_at_unix_secs = runtime_timestamp_secs now\<rparr>"

definition after_grant ::
  "system_time \<Rightarrow> create_reservation_request \<Rightarrow> skeleton_runtime_adapter \<Rightarrow> skeleton_runtime_state" where
  "after_grant now request a =
     (lock_state a)\<lparr>st_next_reservation_id := saturating_add (st_next_reservation_id (lock_state a)) 1,
        st_reservations := bt_insert (mr_reservation_id (granted now request a))
          (granted now request a) (st_reservations (lock_state a))\<rparr>"

text \<open>When a request is granted, over the slots really held.\<close>

definition grantable :: "create_reservation_request \<Rightarrow> skeleton_runtime_adapter \<Rightarrow> bool" where
  "grantable request a \<longleftrightarrow>
     trim (crr_consumer request) \<noteq> [] \<and> 0 < unat (crr_requested_slots request)
     \<and> (\<exists>model. bt_get (sk_models a) (crr_model request) = Some model
          \<and> held (lock_state a) (crr_model request) + unat (crr_requested_slots request)
              \<le> unat (mc_max_parallel_reservations model))"

lemma word_zero_unat: "(w :: 'a::len word) = 0 \<longleftrightarrow> unat w = 0"
  by (simp add: unat_eq_zero)

lemma capacity_check:
  assumes "runtime_inv a" and "bt_get (sk_models a) k = Some model"
  shows "(n > saturating_sub (mc_max_parallel_reservations model)
            (reserved_slots_for_model (lock_state a) k))
    \<longleftrightarrow> \<not> held (lock_state a) k + unat n \<le> unat (mc_max_parallel_reservations model)"
  using reserved_exact [OF assms] runtime_invD(5) [OF assms]
  by (auto simp: word_less_nat_alt unat_saturating_sub)

lemma create_reservation_cases:
  assumes inv: "runtime_inv a"
  shows "create_reservation now request a =
    (if trim (crr_consumer request) = [] then
       (Inl (InvalidReservationRequest ''consumer must not be empty''), a)
     else if crr_requested_slots request = 0 then
       (Inl (InvalidReservationRequest ''requested_slots must be at least 1''), a)
     else case bt_get (sk_models a) (crr_model request) of
       None \<Rightarrow> (Inl (ModelNotFound (crr_model request)), a)
     | Some model \<Rightarrow>
         if held (lock_state a) (crr_model request) + unat (crr_requested_slots request)
              \<le> unat (mc_max_parallel_reservations model)
         then (Inr (granted now request a), store_state a (after_grant now request a))
         else (Inl (ModelCapacityExceeded (crr_model request) (crr_requested_slots request)
                 (saturating_sub (mc_max_parallel_reservations model)
                   (reserved_slots_for_model (lock_state a) (crr_model request)))), a))"
proof (cases "bt_get (sk_models a) (crr_model request)")
  case None
  then show ?thesis by (simp add: create_reservation_def ensure_model_exists_def)
next
  case (Some model)
  then have id: "mc_id model = crr_model request" by (rule runtime_invD(3) [OF inv])
  show ?thesis
    by (simp add: create_reservation_def ensure_model_exists_def Some id Let_def
        capacity_check [OF inv Some] granted_def after_grant_def)
qed

lemma create_reservation_granted:
  assumes "runtime_inv a" and "create_reservation now request a = (Inr r, a')"
  shows "grantable request a" "r = granted now request a" "a' = store_state a (after_grant now request a)"
  using assms by (auto simp: create_reservation_cases grantable_def word_zero_unat
      split: if_splits option.splits)

lemma create_reservation_grantable:
  assumes "runtime_inv a" and "grantable request a"
  shows "create_reservation now request a =
    (Inr (granted now request a), store_state a (after_grant now request a))"
  using assms by (auto simp: create_reservation_cases grantable_def word_zero_unat)

lemma granted_simps [simp]:
  "mr_model (granted now request a) = crr_model request"
  "mr_consumer (granted now request a) = crr_consumer request"
  "mr_requested_slots (granted now request a) = crr_requested_slots request"
  "mr_reservation_id (granted now request a) =
     reservation_id (saturating_add (st_next_reservation_id (lock_state a)) 1)"
  by (simp_all add: granted_def)

lemma after_grant_simps [simp]:
  "st_next_reservation_id (after_grant now request a) =
     saturating_add (st_next_reservation_id (lock_state a)) 1"
  "st_next_completion_id (after_grant now request a) = st_next_completion_id (lock_state a)"
  "st_reservations (after_grant now request a) =
     bt_insert (mr_reservation_id (granted now request a)) (granted now request a)
       (st_reservations (lock_state a))"
  by (simp_all add: after_grant_def)

lemma reservation_ok_mono:
  "reservation_ok models m k r \<Longrightarrow> m \<le> n \<Longrightarrow> reservation_ok models n k r"
  by (auto simp: reservation_ok_def word_le_nat_alt)

lemma held_after_grant_le:
  "bt_ok (st_reservations (lock_state a)) \<Longrightarrow>
     held (after_grant now request a) m
       \<le> held (lock_state a) m + (if m = crr_model request then unat (crr_requested_slots request) else 0)"
  unfolding held_def after_grant_simps
  using bt.sum_ins_le [of "st_reservations (lock_state a)"
      "\<lambda>e. if mr_model (snd e) = m then unat (mr_requested_slots (snd e)) else 0"
      "mr_reservation_id (granted now request a)" "granted now request a"]
  by (cases "m = crr_model request") simp_all

lemma unat_next_positive: "0 < unat (saturating_add (n :: u64) 1)"
  by (simp add: u_arith)

lemma runtime_inv_grant:
  assumes inv: "runtime_inv a" and g: "grantable request a"
  shows "runtime_inv (store_state a (after_grant now request a))"
  unfolding runtime_inv_def store_state_simps
proof (intro conjI allI impI)
  note ok = runtime_invD(2) [OF inv]
  show "bt_ok (sk_models a)" using inv by (rule runtime_invD)
  show "bt_ok (st_reservations (after_grant now request a))" using ok by simp
  show "mc_id model = k" if "bt_get (sk_models a) k = Some model" for k model
    using runtime_invD(3) [OF inv that] .
  show "reservation_ok (sk_models a) (st_next_reservation_id (after_grant now request a)) k r"
    if get: "bt_get (st_reservations (after_grant now request a)) k = Some r" for k r
  proof (cases "k = mr_reservation_id (granted now request a)")
    case True
    with get ok have r: "r = granted now request a" by (simp add: bt.get_ins)
    then show ?thesis using True g unat_next_positive
      by (auto simp: reservation_ok_def grantable_def reservation_id_def)
  next
    case False
    with get ok have "bt_get (st_reservations (lock_state a)) k = Some r" by (simp add: bt.get_ins)
    from runtime_invD(4) [OF inv this] show ?thesis
      by (rule reservation_ok_mono) (simp add: saturating_add_ge1)
  qed
  show "held (after_grant now request a) k \<le> unat (mc_max_parallel_reservations model)"
    if m: "bt_get (sk_models a) k = Some model" for k model
    using held_after_grant_le [OF ok, of now request k] g runtime_invD(5) [OF inv m] m
    by (cases "k = crr_model request") (auto simp: grantable_def)
qed

section \<open>Releasing\<close>

definition after_release :: "string \<Rightarrow> skeleton_runtime_adapter \<Rightarrow> skeleton_runtime_state" where
  "after_release rid a =
     (lock_state a)\<lparr>st_reservations := bt_remove rid (st_reservations (lock_state a))\<rparr>"

lemma after_release_simps [simp]:
  "st_next_reservation_id (after_release rid a) = st_next_reservation_id (lock_state a)"
  "st_next_completion_id (after_release rid a) = st_next_completion_id (lock_state a)"
  "st_reservations (after_release rid a) = bt_remove rid (st_reservations (lock_state a))"
  by (simp_all add: after_release_def)

lemma release_reservation_cases:
  "release_reservation rid a =
     (if bt_get (st_reservations (lock_state a)) rid = None then (Inl (ReservationNotFound rid), a)
      else (Inr (), store_state a (after_release rid a)))"
  by (auto simp: release_reservation_def after_release_def Let_def split: option.split)

lemma held_after_release:
  "bt_ok (st_reservations (lock_state a)) \<Longrightarrow> bt_get (st_reservations (lock_state a)) rid = Some r \<Longrightarrow>
     held (after_release rid a) m + (if mr_model r = m then unat (mr_requested_slots r) else 0)
       = held (lock_state a) m"
  unfolding held_def after_release_simps
  using bt.sum_del [of "st_reservations (lock_state a)" rid r
      "\<lambda>e. if mr_model (snd e) = m then unat (mr_requested_slots (snd e)) else 0"]
  by (cases "mr_model r = m") simp_all

lemma runtime_inv_release:
  assumes inv: "runtime_inv a" and r: "bt_get (st_reservations (lock_state a)) rid = Some r"
  shows "runtime_inv (store_state a (after_release rid a))"
  unfolding runtime_inv_def store_state_simps
proof (intro conjI allI impI)
  note ok = runtime_invD(2) [OF inv]
  show "bt_ok (sk_models a)" using inv by (rule runtime_invD)
  show "bt_ok (st_reservations (after_release rid a))" using ok by simp
  show "mc_id model = k" if "bt_get (sk_models a) k = Some model" for k model
    using runtime_invD(3) [OF inv that] .
  show "reservation_ok (sk_models a) (st_next_reservation_id (after_release rid a)) k q"
    if "bt_get (st_reservations (after_release rid a)) k = Some q" for k q
    using that runtime_invD(4) [OF inv] ok by (auto simp: bt.get_del split: if_splits)
  show "held (after_release rid a) k \<le> unat (mc_max_parallel_reservations model)"
    if "bt_get (sk_models a) k = Some model" for k model
    using held_after_release [OF ok r, of k] runtime_invD(5) [OF inv that] by linarith
qed

section \<open>Completions\<close>

lemma chat_completion_state:
  "snd (chat_completion now request a) =
     (if bt_get (sk_models a) (ccr_model request) \<noteq> None \<and> \<not> ccr_stream request
         \<and> ccr_messages request \<noteq> []
      then store_state a ((lock_state a)\<lparr>st_next_completion_id :=
             saturating_add (st_next_completion_id (lock_state a)) 1\<rparr>)
      else a)"
  by (cases "bt_get (sk_models a) (ccr_model request)")
    (simp_all add: chat_completion_def ensure_model_exists_def Let_def)

lemma held_completion [simp]: "held (st\<lparr>st_next_completion_id := n\<rparr>) m = held st m"
  by (simp add: held_def)

lemma runtime_inv_completion:
  "runtime_inv a \<Longrightarrow> runtime_inv (store_state a ((lock_state a)\<lparr>st_next_completion_id := n\<rparr>))"
  by (simp add: runtime_inv_def)

text \<open>The text of a completion, part by part: the prefix, the model in brackets, the prompt.\<close>

lemma completion_parts:
  "response_prefix @ '' ['' @ model @ ''] '' @ p =
     (response_prefix @ '' '') @ (''['' @ model @ '']'') @ (CHR '' '' # p)"
  by simp

lemma chars_bracketed:
  "chars (''['' @ model @ '']'') \<noteq> []"
  "hd (chars (''['' @ model @ '']'')) = ''[''"
  "last (chars (''['' @ model @ '']'')) = '']''"
  using chars_append [of "'']''" "''['' @ model"] by simp_all

lemma bracket_not_whitespace [simp]: "\<not> is_whitespace ''[''" "\<not> is_whitespace '']''"
  by (simp_all add: is_whitespace_def white_space_def)

lemma completion_text_shape:
  "completion_text response_prefix model prompt =
     trim_start (response_prefix @ '' '') @ ''['' @ model @ '']''
       @ (if trim prompt = [] then [] else CHR '' '' # trim prompt)"
proof -
  have "chars (response_prefix @ '' ['' @ model @ ''] '' @ trim prompt)
      = chars (response_prefix @ '' '') @ chars (''['' @ model @ '']'') @ chars (CHR '' '' # trim prompt)"
    unfolding completion_parts by (subst chars_append, simp, subst chars_append, simp_all)
  from trim_core [OF _ _ _ this] show ?thesis
    using chars_bracketed [of model] trim_end_blank [of "trim prompt"]
    by (simp add: completion_text_def)
qed

lemma completion_text_words:
  "split_whitespace (completion_text response_prefix model prompt) =
     split_whitespace response_prefix @ split_whitespace (''['' @ model @ '']'') @ split_whitespace prompt"
proof -
  have "response_prefix @ '' ['' @ model @ ''] '' @ trim prompt
      = response_prefix @ CHR '' '' # ((''['' @ model @ '']'') @ CHR '' '' # trim prompt)" by simp
  then show ?thesis
    unfolding completion_text_def split_whitespace_trim
    using split_whitespace_blank [of "''['' @ model @ '']''" "trim prompt"]
    by (simp only: split_whitespace_blank split_whitespace_trim)
qed

section \<open>All operations\<close>

lemma create_reservation_inv:
  "runtime_inv a \<Longrightarrow> runtime_inv (snd (create_reservation now request a))"
proof (cases "create_reservation now request a")
  case (Pair res a')
  assume inv: "runtime_inv a"
  show ?thesis
  proof (cases res)
    case (Inl e)
    with Pair inv show ?thesis
      by (auto simp: create_reservation_cases split: if_splits option.splits)
  next
    case (Inr r)
    note g = create_reservation_granted [OF inv Pair [unfolded Inr]]
    with Pair show ?thesis by (simp add: runtime_inv_grant [OF inv])
  qed
qed

lemma release_reservation_inv:
  "runtime_inv a \<Longrightarrow> runtime_inv (snd (release_reservation rid a))"
  by (auto simp: release_reservation_cases intro: runtime_inv_release)

lemma chat_completion_inv: "runtime_inv a \<Longrightarrow> runtime_inv (snd (chat_completion now request a))"
  by (simp add: chat_completion_state runtime_inv_completion)

lemmas runtime_inv_intros = create_reservation_inv release_reservation_inv chat_completion_inv

end
