(* ===== verification/Slot_Pool.thy ===== *)
theory Slot_Pool
  imports Runtime_Spec
begin

text \<open>
  The abstract specification of the reservation API, a pool of slots per model, as a step
  relation, and the proof that the skeleton adapter refines it: every operation is one step of
  the pool or none, for runs of fewer than \<open>2 ^ 64\<close> operations (until the reservation
  counter could saturate).
\<close>

section \<open>The pool\<close>

record slot_pool =
  sp_capacity :: "string \<Rightarrow> nat option"
  sp_held :: "string \<Rightarrow> (string \<times> nat) option"

definition sp_used :: "slot_pool \<Rightarrow> string \<Rightarrow> nat" where
  "sp_used p m =
     (\<Sum>rid \<in> dom (sp_held p). case the (sp_held p rid) of (m', n) \<Rightarrow> if m' = m then n else 0)"

datatype pool_event = Grant string string nat | Release string

inductive pool_step :: "slot_pool \<Rightarrow> pool_event \<Rightarrow> slot_pool \<Rightarrow> bool" where
  grant: "sp_held p rid = None \<Longrightarrow> sp_capacity p m = Some c \<Longrightarrow> 0 < n \<Longrightarrow> sp_used p m + n \<le> c \<Longrightarrow>
     pool_step p (Grant rid m n) (p\<lparr>sp_held := (sp_held p)(rid \<mapsto> (m, n))\<rparr>)"
| release: "sp_held p rid = Some h \<Longrightarrow>
     pool_step p (Release rid) (p\<lparr>sp_held := (sp_held p)(rid := None)\<rparr>)"

inductive_cases pool_grantE [elim!]: "pool_step p (Grant rid m n) q"
inductive_cases pool_releaseE [elim!]: "pool_step p (Release rid) q"
inductive_simps pool_grant_iff: "pool_step p (Grant rid m n) q"
inductive_simps pool_release_iff: "pool_step p (Release rid) q"

inductive pool_run :: "slot_pool \<Rightarrow> pool_event list \<Rightarrow> slot_pool \<Rightarrow> bool" where
  stop: "pool_run p [] p"
| step: "pool_step p ev q \<Longrightarrow> pool_run q evs r \<Longrightarrow> pool_run p (ev # evs) r"

section \<open>Runs of the adapter\<close>

datatype runtime_op =
    CreateOp system_time create_reservation_request
  | ReleaseOp string
  | ChatOp system_time openai_chat_completion_request

datatype runtime_reply =
    CreateReply "model_reservation result"
  | ReleaseReply "unit result"
  | ChatReply "openai_chat_completion_response result"

fun runtime_exec ::
  "runtime_op \<Rightarrow> skeleton_runtime_adapter \<Rightarrow> runtime_reply \<times> skeleton_runtime_adapter" where
  "runtime_exec (CreateOp now req) a = map_prod CreateReply id (create_reservation now req a)"
| "runtime_exec (ReleaseOp rid) a = map_prod ReleaseReply id (release_reservation rid a)"
| "runtime_exec (ChatOp now req) a = map_prod ChatReply id (chat_completion now req a)"

fun runtime_run ::
  "runtime_op list \<Rightarrow> skeleton_runtime_adapter \<Rightarrow> runtime_reply list \<times> skeleton_runtime_adapter" where
  "runtime_run [] a = ([], a)"
| "runtime_run (op # ops) a =
     (case runtime_exec op a of (reply, a') \<Rightarrow>
        case runtime_run ops a' of (replies, a'') \<Rightarrow> (reply # replies, a''))"

text \<open>The pool event of an answered operation; a refusal and a completion are none.\<close>

fun pool_event_of :: "runtime_op \<Rightarrow> runtime_reply \<Rightarrow> pool_event option" where
  "pool_event_of (CreateOp now req) (CreateReply (Inr r)) =
     Some (Grant (mr_reservation_id r) (mr_model r) (unat (mr_requested_slots r)))"
| "pool_event_of (ReleaseOp rid) (ReleaseReply (Inr u)) = Some (Release rid)"
| "pool_event_of _ _ = None"

fun pool_events :: "runtime_op list \<Rightarrow> runtime_reply list \<Rightarrow> pool_event list" where
  "pool_events (op # ops) (rep # reps) =
     (case pool_event_of op rep of Some ev \<Rightarrow> ev # pool_events ops reps | None \<Rightarrow> pool_events ops reps)"
| "pool_events _ _ = []"

definition pool_of :: "skeleton_runtime_adapter \<Rightarrow> slot_pool" where
  "pool_of a =
     \<lparr>sp_capacity = (\<lambda>m. map_option (\<lambda>c. unat (mc_max_parallel_reservations c)) (bt_get (sk_models a) m)),
      sp_held = (\<lambda>rid. map_option (\<lambda>r. (mr_model r, unat (mr_requested_slots r)))
                   (bt_get (st_reservations (lock_state a)) rid))\<rparr>"

lemma pool_of_simps [simp]:
  "sp_capacity (pool_of a) m = map_option (\<lambda>c. unat (mc_max_parallel_reservations c)) (bt_get (sk_models a) m)"
  "sp_held (pool_of a) rid =
     map_option (\<lambda>r. (mr_model r, unat (mr_requested_slots r))) (bt_get (st_reservations (lock_state a)) rid)"
  by (simp_all add: pool_of_def)

lemma sp_used_pool_of:
  assumes ok: "bt_ok (st_reservations (lock_state a))"
  shows "sp_used (pool_of a) m = held (lock_state a) m"
proof -
  let ?es = "st_reservations (lock_state a)"
  let ?f = "\<lambda>e. if mr_model (snd e) = m then unat (mr_requested_slots (snd e)) else 0"
  have dom: "dom (sp_held (pool_of a)) = fst ` set ?es"
    by (auto simp: dom_def bt_get_def map_of_eq_None_iff image_iff dest: map_of_SomeD)
  have inj: "inj_on fst (set ?es)" using bt.distinct_keys [OF ok] by (simp add: distinct_map)
  have val: "the (sp_held (pool_of a) (fst e)) = (mr_model (snd e), unat (mr_requested_slots (snd e)))"
    if "e \<in> set ?es" for e
    using that bt.in_entries [OF ok, of "fst e" "snd e"] by simp
  have "sp_used (pool_of a) m = (\<Sum>e \<in> set ?es. ?f e)"
    unfolding sp_used_def dom sum.reindex [OF inj] comp_def
    by (rule sum.cong) (simp_all add: val del: pool_of_simps)
  also have "\<dots> = held (lock_state a) m"
    unfolding held_def using bt.sum_entries [OF ok, of ?f] by simp
  finally show ?thesis .
qed

section \<open>Refinement\<close>

definition counter_free :: "skeleton_runtime_adapter \<Rightarrow> nat \<Rightarrow> bool" where
  "counter_free a n \<longleftrightarrow> unat (st_next_reservation_id (lock_state a)) + n < 2 ^ 64"

lemma unat_next_free:
  "counter_free a (Suc n) \<Longrightarrow>
     unat (saturating_add (st_next_reservation_id (lock_state a)) 1)
       = Suc (unat (st_next_reservation_id (lock_state a)))"
  by (simp add: counter_free_def u_arith)

text \<open>Below saturation the new identifier is in no active reservation.\<close>

lemma fresh_reservation_id:
  assumes inv: "runtime_inv a" and free: "counter_free a (Suc n)"
  shows "bt_get (st_reservations (lock_state a)) (mr_reservation_id (granted now req a)) = None"
proof (rule ccontr)
  let ?next = "st_next_reservation_id (lock_state a)"
  assume "\<not> ?thesis"
  then obtain r where "bt_get (st_reservations (lock_state a)) (mr_reservation_id (granted now req a)) = Some r"
    by auto
  from runtime_invD(4) [OF inv this] obtain n where
    "n \<le> unat ?next" "mr_reservation_id (granted now req a) = ''resv-'' @ pad6 n"
    by (auto simp: reservation_ok_def)
  then show False by (simp add: reservation_id_def unat_next_free [OF free])
qed

lemma held_after_grant:
  assumes inv: "runtime_inv a" and free: "counter_free a (Suc n)"
  shows "held (after_grant now req a) m =
    held (lock_state a) m + (if m = crr_model req then unat (crr_requested_slots req) else 0)"
  unfolding held_def after_grant_simps
  using bt.sum_ins_fresh [OF runtime_invD(2) [OF inv] fresh_reservation_id [OF inv free, of now req],
      of "\<lambda>e. if mr_model (snd e) = m then unat (mr_requested_slots (snd e)) else 0"
      "granted now req a"]
  by (cases "m = crr_model req") simp_all

lemma pool_of_grant:
  assumes "runtime_inv a"
  shows "pool_of (store_state a (after_grant now req a)) =
    (pool_of a)\<lparr>sp_held := (sp_held (pool_of a))(mr_reservation_id (granted now req a) \<mapsto>
       (crr_model req, unat (crr_requested_slots req)))\<rparr>"
  using runtime_invD(2) [OF assms] by (simp add: pool_of_def bt.get_ins fun_eq_iff)

lemma pool_of_release:
  assumes "runtime_inv a"
  shows "pool_of (store_state a (after_release rid a)) =
    (pool_of a)\<lparr>sp_held := (sp_held (pool_of a))(rid := None)\<rparr>"
  using runtime_invD(2) [OF assms] by (simp add: pool_of_def bt.get_del fun_eq_iff)

lemma create_refines:
  assumes inv: "runtime_inv a" and free: "counter_free a (Suc n)"
    and c: "create_reservation now req a = (Inr r, a')"
  shows "pool_step (pool_of a) (Grant (mr_reservation_id r) (mr_model r) (unat (mr_requested_slots r))) (pool_of a')"
proof -
  note g = create_reservation_granted [OF inv c]
  from g(1) obtain model where "bt_get (sk_models a) (crr_model req) = Some model"
    "held (lock_state a) (crr_model req) + unat (crr_requested_slots req) \<le> unat (mc_max_parallel_reservations model)"
    "0 < unat (crr_requested_slots req)" by (auto simp: grantable_def)
  then have "pool_step (pool_of a) (Grant (mr_reservation_id (granted now req a)) (crr_model req) (unat (crr_requested_slots req)))
    ((pool_of a)\<lparr>sp_held := (sp_held (pool_of a))(mr_reservation_id (granted now req a) \<mapsto>
       (crr_model req, unat (crr_requested_slots req)))\<rparr>)"
    using fresh_reservation_id [OF inv free] sp_used_pool_of [OF runtime_invD(2) [OF inv]]
    by (intro pool_step.grant) simp_all
  then show ?thesis by (simp add: g(2,3) pool_of_grant [OF inv])
qed

lemma create_refused:
  "runtime_inv a \<Longrightarrow> create_reservation now req a = (Inl e, a') \<Longrightarrow> a' = a"
  by (auto simp: create_reservation_cases split: if_splits option.splits)

lemma pool_of_chat [simp]: "pool_of (snd (chat_completion now req a)) = pool_of a"
  by (simp add: chat_completion_state pool_of_def)

lemma runtime_exec_inv: "runtime_inv a \<Longrightarrow> runtime_inv (snd (runtime_exec op a))"
  by (cases op) (simp_all add: runtime_inv_intros)

lemma counter_grows:
  "unat (st_next_reservation_id (lock_state (snd (runtime_exec op a))))
     \<le> Suc (unat (st_next_reservation_id (lock_state a)))"
proof (cases op)
  case (CreateOp now req)
  then show ?thesis
    by (auto simp: create_reservation_def Let_def u_arith split: sum.split)
next
  case (ReleaseOp rid)
  then show ?thesis by (auto simp: release_reservation_cases)
next
  case (ChatOp now req)
  then show ?thesis by (auto simp: chat_completion_state)
qed

lemma counter_free_exec:
  "counter_free a (Suc n) \<Longrightarrow> counter_free (snd (runtime_exec op a)) n"
  using counter_grows [of op a] by (simp add: counter_free_def)

lemma runtime_exec_refines:
  assumes inv: "runtime_inv a" and free: "counter_free a (Suc n)"
    and e: "runtime_exec op a = (reply, a')"
  shows "case pool_event_of op reply of
      Some ev \<Rightarrow> pool_step (pool_of a) ev (pool_of a')
    | None \<Rightarrow> pool_of a' = pool_of a"
proof (cases op)
  case (CreateOp now req)
  then obtain res where c: "create_reservation now req a = (res, a')" and reply: "reply = CreateReply res"
    using e by auto
  then show ?thesis
    using CreateOp by (cases res) (auto dest: create_refines [OF inv free] create_refused [OF inv])
next
  case (ReleaseOp rid)
  then show ?thesis using e
    by (auto simp: release_reservation_cases pool_of_release [OF inv] pool_release_iff split: if_splits)
next
  case (ChatOp now req)
  then show ?thesis using e pool_of_chat [of now req a]
    by (cases "chat_completion now req a") auto
qed

lemma runtime_run_refines:
  "runtime_inv a \<Longrightarrow> counter_free a (length ops) \<Longrightarrow> runtime_run ops a = (replies, a') \<Longrightarrow>
     runtime_inv a' \<and> pool_run (pool_of a) (pool_events ops replies) (pool_of a')"
proof (induction ops arbitrary: a replies)
  case Nil
  then show ?case by (auto intro: pool_run.stop)
next
  case (Cons op ops)
  obtain reply b where e: "runtime_exec op a = (reply, b)" by (cases "runtime_exec op a")
  obtain replies' where r: "runtime_run ops b = (replies', a')" and reps: "replies = reply # replies'"
    using Cons.prems(3) e by (auto split: prod.splits)
  have free: "counter_free a (Suc (length ops))" using Cons.prems(2) by simp
  have "runtime_inv b" "counter_free b (length ops)"
    using runtime_exec_inv [OF Cons.prems(1), of op] counter_free_exec [OF free, of op] e by simp_all
  from Cons.IH [OF this r] runtime_exec_refines [OF Cons.prems(1) free e] show ?case
    by (auto simp: reps split: option.splits intro: pool_run.step)
qed

lemma counter_free_new: "n < 2 ^ 64 \<Longrightarrow> counter_free (skeleton_new cfg) n"
  by (simp add: counter_free_def skeleton_new_def lock_state_data mutex_new_def skeleton_state_default_def)

section \<open>Granted identifiers\<close>

fun granted_ids :: "runtime_reply list \<Rightarrow> string list" where
  "granted_ids [] = []"
| "granted_ids (CreateReply (Inr r) # reps) = mr_reservation_id r # granted_ids reps"
| "granted_ids (_ # reps) = granted_ids reps"

lemma create_reservation_id:
  "create_reservation now req a = (Inr r, a') \<Longrightarrow>
     mr_reservation_id r = reservation_id (saturating_add (st_next_reservation_id (lock_state a)) 1)
     \<and> st_next_reservation_id (lock_state a') = saturating_add (st_next_reservation_id (lock_state a)) 1"
  by (auto simp: create_reservation_def Let_def split: sum.splits if_splits)

lemma counter_mono:
  "unat (st_next_reservation_id (lock_state a))
     \<le> unat (st_next_reservation_id (lock_state (snd (runtime_exec op a))))"
proof (cases op)
  case (CreateOp now req)
  then show ?thesis
    using saturating_add_ge1 [of "st_next_reservation_id (lock_state a)" 1]
    by (auto simp: create_reservation_def Let_def word_le_nat_alt split: sum.split)
next
  case (ReleaseOp rid)
  then show ?thesis by (auto simp: release_reservation_cases)
next
  case (ChatOp now req)
  then show ?thesis by (auto simp: chat_completion_state)
qed

text \<open>The identifiers a run grants carry strictly increasing numbers above the counter.\<close>

lemma granted_ids_numbers:
  "counter_free a (length ops) \<Longrightarrow> runtime_run ops a = (replies, a') \<Longrightarrow>
     \<exists>ns. granted_ids replies = map (\<lambda>n. ''resv-'' @ pad6 n) ns \<and> sorted_wrt (<) ns
        \<and> (\<forall>n \<in> set ns. unat (st_next_reservation_id (lock_state a)) < n)"
proof (induction ops arbitrary: a replies)
  case Nil
  then show ?case by auto
next
  case (Cons op ops)
  let ?c = "\<lambda>a. unat (st_next_reservation_id (lock_state a))"
  obtain reply b where e: "runtime_exec op a = (reply, b)" by (cases "runtime_exec op a")
  obtain replies' where r: "runtime_run ops b = (replies', a')" and reps: "replies = reply # replies'"
    using Cons.prems(2) e by (auto split: prod.splits)
  have free: "counter_free a (Suc (length ops))" using Cons.prems(1) by simp
  from counter_free_exec [OF free, of op] e have "counter_free b (length ops)" by simp
  from Cons.IH [OF this r] obtain ns where ns: "granted_ids replies' = map (\<lambda>n. ''resv-'' @ pad6 n) ns"
    "sorted_wrt (<) ns" "\<forall>n \<in> set ns. ?c b < n" by blast
  have mono: "?c a \<le> ?c b" using counter_mono [of a op] e by simp
  show ?case
  proof (cases "\<exists>res. reply = CreateReply (Inr res)")
    case True
    then obtain res now req where res: "reply = CreateReply (Inr res)"
      and c: "create_reservation now req a = (Inr res, b)"
      using e by (cases op) auto
    from create_reservation_id [OF c] have "mr_reservation_id res = ''resv-'' @ pad6 (Suc (?c a))"
      "?c b = Suc (?c a)" by (simp_all add: reservation_id_def unat_next_free [OF free])
    then show ?thesis using ns by (intro exI [of _ "Suc (?c a) # ns"]) (auto simp: reps res)
  next
    case False
    then have "granted_ids replies = granted_ids replies'"
      unfolding reps by (cases reply; cases "case reply of CreateReply x \<Rightarrow> x") auto
    then show ?thesis using ns mono by (intro exI [of _ ns]) auto
  qed
qed

section \<open>What a run leaves alone\<close>

lemma runtime_exec_models: "sk_models (snd (runtime_exec op a)) = sk_models a"
proof (cases op)
  case (CreateOp now req)
  then show ?thesis by (simp add: create_reservation_def Let_def split: sum.split)
next
  case (ReleaseOp rid)
  then show ?thesis by (simp add: release_reservation_cases)
next
  case (ChatOp now req)
  then show ?thesis by (simp add: chat_completion_state)
qed

lemma snd_runtime_run:
  "snd (runtime_run (op # ops) a) = snd (runtime_run ops (snd (runtime_exec op a)))"
  by (simp split: prod.split)

lemma runtime_run_inv: "runtime_inv a \<Longrightarrow> runtime_inv (snd (runtime_run ops a))"
  by (induction ops arbitrary: a)
    (simp_all add: snd_runtime_run runtime_exec_inv del: runtime_run.simps(2))

lemma runtime_run_models: "sk_models (snd (runtime_run ops a)) = sk_models a"
  by (induction ops arbitrary: a)
    (simp_all add: snd_runtime_run runtime_exec_models del: runtime_run.simps(2))

lemma counter_run:
  "unat (st_next_reservation_id (lock_state (snd (runtime_run ops a))))
     \<le> unat (st_next_reservation_id (lock_state a)) + length ops"
proof (induction ops arbitrary: a)
  case Nil
  then show ?case by simp
next
  case (Cons op ops)
  from Cons.IH [of "snd (runtime_exec op a)"] counter_grows [of op a] show ?case
    by (simp add: snd_runtime_run del: runtime_run.simps(2))
qed

lemmas reachable_inv = runtime_run_inv [OF runtime_inv_new]

end
