(* ===== verification/Adapter.thy ===== *)
theory Adapter
  imports Slot_Pool
begin

text \<open>
  The trait \<open>RuntimeAdapter\<close> of \<open>src/runtime.rs\<close>: the daemon calls its runtime through
  this interface only (\<open>Arc<dyn RuntimeAdapter>\<close>).  The record is the method table; the
  locale \<open>adapter_contract\<close> is what the daemon relies on; the skeleton runtime provides it.
\<close>

record 's runtime_adapter =
  ra_local_models :: "'s \<Rightarrow> local_model_inventory list"
  ra_create_reservation ::
    "system_time \<Rightarrow> create_reservation_request \<Rightarrow> 's \<Rightarrow> model_reservation result \<times> 's"
  ra_reservations :: "'s \<Rightarrow> model_reservation list"
  ra_release_reservation :: "string \<Rightarrow> 's \<Rightarrow> unit result \<times> 's"
  ra_openai_models :: "'s \<Rightarrow> openai_model_list_response"
  ra_chat_completion ::
    "system_time \<Rightarrow> openai_chat_completion_request \<Rightarrow> 's
       \<Rightarrow> openai_chat_completion_response result \<times> 's"

definition skeleton_methods :: "skeleton_runtime_adapter runtime_adapter" where
  "skeleton_methods =
     \<lparr>ra_local_models = local_models, ra_create_reservation = create_reservation,
      ra_reservations = reservations, ra_release_reservation = release_reservation,
      ra_openai_models = openai_models, ra_chat_completion = chat_completion\<rparr>"

definition build_runtime ::
  "compute_config \<Rightarrow> skeleton_runtime_adapter runtime_adapter \<times> skeleton_runtime_adapter" where
  "build_runtime cfg = (skeleton_methods, skeleton_new cfg)"

section \<open>The contract\<close>

text \<open>
  \<open>inv\<close> is the adapter's own invariant, \<open>fresh\<close> holds while it can still name a new
  reservation.
\<close>

locale adapter_contract =
  fixes A :: "'s runtime_adapter" and inv :: "'s \<Rightarrow> bool" and fresh :: "'s \<Rightarrow> bool"
  assumes inv_create: "inv s \<Longrightarrow> inv (snd (ra_create_reservation A now req s))"
    and inv_release: "inv s \<Longrightarrow> inv (snd (ra_release_reservation A rid s))"
    and inv_chat: "inv s \<Longrightarrow> inv (snd (ra_chat_completion A now creq s))"
    and create_Inr: "inv s \<Longrightarrow> fresh s \<Longrightarrow> ra_create_reservation A now req s = (Inr r, s') \<Longrightarrow>
          set (ra_reservations A s') = insert r (set (ra_reservations A s))
          \<and> mr_reservation_id r \<notin> mr_reservation_id ` set (ra_reservations A s)
          \<and> mr_model r = crr_model req \<and> mr_consumer r = crr_consumer req
          \<and> mr_requested_slots r = crr_requested_slots req"
    and create_Inl: "inv s \<Longrightarrow> ra_create_reservation A now req s = (Inl e, s') \<Longrightarrow> s' = s"
    and release_Inr: "inv s \<Longrightarrow> rid \<in> mr_reservation_id ` set (ra_reservations A s) \<Longrightarrow>
          fst (ra_release_reservation A rid s) = Inr ()
          \<and> set (ra_reservations A (snd (ra_release_reservation A rid s)))
              = {r \<in> set (ra_reservations A s). mr_reservation_id r \<noteq> rid}"
    and release_Inl: "inv s \<Longrightarrow> rid \<notin> mr_reservation_id ` set (ra_reservations A s) \<Longrightarrow>
          ra_release_reservation A rid s = (Inl (ReservationNotFound rid), s)"
    and reservations_sorted: "inv s \<Longrightarrow>
          sorted_wrt (<) (map mr_reservation_id (ra_reservations A s))"
    and chat_reservations: "ra_reservations A (snd (ra_chat_completion A now creq s)) = ra_reservations A s"
    and inventory: "inv s \<Longrightarrow> lm \<in> set (ra_local_models A s) \<Longrightarrow>
          unat (lm_reserved_slots lm) + unat (lm_available_slots lm) = unat (lm_total_slots lm)
          \<and> unat (lm_reserved_slots lm)
              = sum_list (map (\<lambda>r. unat (mr_requested_slots r))
                  (filter (\<lambda>r. mr_model r = lm_id lm) (ra_reservations A s)))"
    and openai_ids: "map card_id (list_data (ra_openai_models A s)) = map lm_id (ra_local_models A s)"
begin

lemma reservations_eqI:
  assumes "inv s" and "inv t" and "set (ra_reservations A s) = set (ra_reservations A t)"
  shows "ra_reservations A s = ra_reservations A t"
proof -
  let ?xs = "ra_reservations A s" and ?ys = "ra_reservations A t"
  have xs: "sorted (map mr_reservation_id ?xs)" "distinct (map mr_reservation_id ?xs)"
    and ys: "sorted (map mr_reservation_id ?ys)" "distinct (map mr_reservation_id ?ys)"
    using reservations_sorted [OF assms(1)] reservations_sorted [OF assms(2)]
    by (simp_all add: strict_sorted_iff)
  have "inj_on mr_reservation_id (set ?xs \<union> set ?ys)"
    using xs(2) assms(3) by (simp add: distinct_map)
  from map_sorted_distinct_set_unique [OF this xs ys assms(3)] show ?thesis .
qed

text \<open>A reservation that is granted and then released leaves the list as it was.\<close>

lemma create_then_release:
  assumes "inv s" and "fresh s" and c: "ra_create_reservation A now req s = (Inr r, s')"
    and d: "ra_release_reservation A (mr_reservation_id r) s' = (res, s'')"
  shows "res = Inr ()" "ra_reservations A s'' = ra_reservations A s"
proof -
  have s': "inv s'" using inv_create [OF assms(1), of now req] c by simp
  note cr = create_Inr [OF assms(1,2) c]
  then have "mr_reservation_id r \<in> mr_reservation_id ` set (ra_reservations A s')" by simp
  from release_Inr [OF s' this] d
  have res: "res = Inr ()" and set: "set (ra_reservations A s'')
     = {q \<in> set (ra_reservations A s'). mr_reservation_id q \<noteq> mr_reservation_id r}" by simp_all
  show "res = Inr ()" by (rule res)
  have "inv s''" using inv_release [OF s', of "mr_reservation_id r"] d by simp
  moreover have "mr_reservation_id q \<noteq> mr_reservation_id r" if "q \<in> set (ra_reservations A s)" for q
    using that cr by (metis imageI)
  then have "set (ra_reservations A s'') = set (ra_reservations A s)"
    using set cr by auto
  ultimately show "ra_reservations A s'' = ra_reservations A s"
    using assms(1) by (intro reservations_eqI)
qed

text \<open>No model is ever promised more slots than it has.\<close>

lemma never_oversubscribed:
  "inv s \<Longrightarrow> lm \<in> set (ra_local_models A s) \<Longrightarrow>
     sum_list (map (\<lambda>r. unat (mr_requested_slots r))
       (filter (\<lambda>r. mr_model r = lm_id lm) (ra_reservations A s))) \<le> unat (lm_total_slots lm)"
  using inventory by (metis le_add1)

end

section \<open>The skeleton runtime provides the contract\<close>

lemma set_reservations:
  "bt_ok (st_reservations (lock_state a)) \<Longrightarrow>
     r \<in> set (reservations a) \<longleftrightarrow> (\<exists>k. bt_get (st_reservations (lock_state a)) k = Some r)"
  by (simp add: reservations_def in_bt_values)

lemma reservation_keys:
  assumes "runtime_inv a"
  shows "map mr_reservation_id (reservations a) = map fst (st_reservations (lock_state a))"
proof -
  have "mr_reservation_id (snd e) = fst e" if "e \<in> set (st_reservations (lock_state a))" for e
    using that runtime_invD(4) [OF assms, of "fst e" "snd e"]
      bt.in_entries [OF runtime_invD(2) [OF assms], of "fst e" "snd e"]
    by (simp add: reservation_ok_def)
  then show ?thesis by (simp add: reservations_def bt_values_def)
qed

lemma reservations_by_id:
  assumes "runtime_inv a"
  shows "r \<in> set (reservations a) \<longleftrightarrow>
    bt_get (st_reservations (lock_state a)) (mr_reservation_id r) = Some r"
proof -
  have "k = mr_reservation_id r" if "bt_get (st_reservations (lock_state a)) k = Some r" for k
    using runtime_invD(4) [OF assms that] by (simp add: reservation_ok_def)
  then show ?thesis using set_reservations [OF runtime_invD(2) [OF assms], of r] by blast
qed

lemma known_ids:
  assumes "runtime_inv a"
  shows "rid \<in> mr_reservation_id ` set (reservations a) \<longleftrightarrow>
    bt_get (st_reservations (lock_state a)) rid \<noteq> None"
proof
  assume "rid \<in> mr_reservation_id ` set (reservations a)"
  then show "bt_get (st_reservations (lock_state a)) rid \<noteq> None"
    by (auto simp: reservations_by_id [OF assms])
next
  assume "bt_get (st_reservations (lock_state a)) rid \<noteq> None"
  then obtain r where r: "bt_get (st_reservations (lock_state a)) rid = Some r" by auto
  then have "rid = mr_reservation_id r"
    using runtime_invD(4) [OF assms r] by (simp add: reservation_ok_def)
  moreover from r this have "r \<in> set (reservations a)" by (simp add: reservations_by_id [OF assms])
  ultimately show "rid \<in> mr_reservation_id ` set (reservations a)" by (rule image_eqI)
qed

lemma held_reservations:
  "held (lock_state a) m =
     sum_list (map (\<lambda>r. unat (mr_requested_slots r)) (filter (\<lambda>r. mr_model r = m) (reservations a)))"
  by (simp add: held_def reservations_def bt_values_def sum_list_map_filter_if)

lemma in_local_models:
  assumes "runtime_inv a"
  shows "lm \<in> set (local_models a) \<longleftrightarrow>
    (\<exists>model. bt_get (sk_models a) (lm_id lm) = Some model
       \<and> lm = inventory_for_model a model (reserved_slots_for_model (lock_state a) (mc_id model)))"
proof -
  have id: "lm_id (inventory_for_model a model n) = mc_id model" for model n
    by (simp add: inventory_for_model_def)
  show ?thesis
    using in_bt_values [OF runtime_invD(1) [OF assms]] runtime_invD(3) [OF assms] id
    by (auto simp: local_models_def Let_def image_iff)
qed

lemma local_models_inventory:
  assumes inv: "runtime_inv a" and "lm \<in> set (local_models a)"
  shows "unat (lm_reserved_slots lm) + unat (lm_available_slots lm) = unat (lm_total_slots lm)
    \<and> unat (lm_reserved_slots lm) = held (lock_state a) (lm_id lm)"
proof -
  from assms obtain model where m: "bt_get (sk_models a) (lm_id lm) = Some model"
    and lm: "lm = inventory_for_model a model (reserved_slots_for_model (lock_state a) (mc_id model))"
    by (auto simp: in_local_models)
  have id: "mc_id model = lm_id lm" using runtime_invD(3) [OF inv m] .
  show ?thesis
    using reserved_exact [OF inv m] runtime_invD(5) [OF inv m]
    by (subst (1 2 3 4) lm) (simp add: inventory_for_model_def id unat_saturating_sub)
qed

lemma reservations_grant:
  assumes inv: "runtime_inv a" and free: "counter_free a 1"
    and c: "create_reservation now req a = (Inr r, a')"
  shows "set (reservations a') = insert r (set (reservations a))
    \<and> mr_reservation_id r \<notin> mr_reservation_id ` set (reservations a)"
proof -
  note g = create_reservation_granted [OF inv c]
  note inv' = runtime_inv_grant [OF inv g(1), of now]
  have new: "bt_get (st_reservations (lock_state a)) (mr_reservation_id (granted now req a)) = None"
    using fresh_reservation_id [OF inv] free by simp
  have "q \<in> set (reservations a') \<longleftrightarrow> q = r \<or> q \<in> set (reservations a)" for q
    unfolding g(2,3) using new runtime_invD(2) [OF inv]
    by (auto simp: reservations_by_id [OF inv'] reservations_by_id [OF inv] bt.get_ins split: if_splits)
  then show ?thesis using new by (auto simp: known_ids [OF inv] g(2) simp del: granted_simps)
qed

lemma reservations_release:
  assumes inv: "runtime_inv a"
  shows "set (reservations (store_state a (after_release rid a)))
    = {r \<in> set (reservations a). mr_reservation_id r \<noteq> rid}"
proof -
  have "bt_get (bt_remove rid (st_reservations (lock_state a))) k = Some r
      \<longleftrightarrow> k \<noteq> rid \<and> bt_get (st_reservations (lock_state a)) k = Some r" for k r
    using runtime_invD(2) [OF inv] by (simp add: bt.get_del)
  then show ?thesis
    using runtime_invD(2) [OF inv] runtime_invD(4) [OF inv]
    by (auto simp: set_reservations reservation_ok_def)
qed

interpretation skeleton: adapter_contract skeleton_methods runtime_inv "\<lambda>a. counter_free a 1"
proof (unfold_locales, unfold skeleton_methods_def runtime_adapter.simps)
  fix a :: skeleton_runtime_adapter and now req r a'
  assume "runtime_inv a" "counter_free a 1" "create_reservation now req a = (Inr r, a')"
  then show "set (reservations a') = insert r (set (reservations a))
      \<and> mr_reservation_id r \<notin> mr_reservation_id ` set (reservations a)
      \<and> mr_model r = crr_model req \<and> mr_consumer r = crr_consumer req
      \<and> mr_requested_slots r = crr_requested_slots req"
    using reservations_grant [of a now req r a'] create_reservation_granted [of a now req r a'] by simp
next
  fix a :: skeleton_runtime_adapter and rid
  assume "runtime_inv a" "rid \<in> mr_reservation_id ` set (reservations a)"
  then show "fst (release_reservation rid a) = Inr ()
      \<and> set (reservations (snd (release_reservation rid a)))
          = {r \<in> set (reservations a). mr_reservation_id r \<noteq> rid}"
    using reservations_release [of a rid] by (simp add: known_ids release_reservation_cases)
next
  fix a :: skeleton_runtime_adapter and rid
  assume "runtime_inv a" "rid \<notin> mr_reservation_id ` set (reservations a)"
  then show "release_reservation rid a = (Inl (ReservationNotFound rid), a)"
    by (simp add: known_ids release_reservation_cases)
next
  fix a :: skeleton_runtime_adapter
  assume "runtime_inv a"
  then show "sorted_wrt (<) (map mr_reservation_id (reservations a))"
    using bt.entries_sorted [OF runtime_invD(2)] by (simp add: reservation_keys)
next
  fix now creq and a :: skeleton_runtime_adapter
  show "reservations (snd (chat_completion now creq a)) = reservations a"
    by (simp add: chat_completion_state reservations_def)
next
  fix lm and a :: skeleton_runtime_adapter
  assume "runtime_inv a" "lm \<in> set (local_models a)"
  then show "unat (lm_reserved_slots lm) + unat (lm_available_slots lm) = unat (lm_total_slots lm)
      \<and> unat (lm_reserved_slots lm) = sum_list (map (\<lambda>r. unat (mr_requested_slots r))
          (filter (\<lambda>r. mr_model r = lm_id lm) (reservations a)))"
    using local_models_inventory [of a lm] by (simp add: held_reservations)
next
  fix a :: skeleton_runtime_adapter
  show "map card_id (list_data (openai_models a)) = map lm_id (local_models a)"
    by (simp add: openai_models_def comp_def)
qed (simp_all add: runtime_inv_intros create_refused)

text \<open>Releasing any set of active reservations, one after the other, succeeds.\<close>

lemma release_all:
  assumes "runtime_inv a" and "distinct ids" and "set ids \<subseteq> mr_reservation_id ` set (reservations a)"
    and "runtime_run (map ReleaseOp ids) a = (replies, b)"
  shows "replies = map (\<lambda>_. ReleaseReply (Inr ())) ids \<and> runtime_inv b
    \<and> set (reservations b) = {r \<in> set (reservations a). mr_reservation_id r \<notin> set ids}"
  using assms
proof (induction ids arbitrary: a replies)
  case Nil
  then show ?case by simp
next
  case (Cons i ids)
  let ?b = "snd (release_reservation i a)"
  have rel: "fst (release_reservation i a) = Inr ()"
    "set (reservations ?b) = {r \<in> set (reservations a). mr_reservation_id r \<noteq> i}"
    using skeleton.release_Inr [OF Cons.prems(1), of i] Cons.prems(3) by (simp_all add: skeleton_methods_def)
  obtain replies' where run: "runtime_run (map ReleaseOp ids) ?b = (replies', b)"
    and reps: "replies = ReleaseReply (Inr ()) # replies'"
    using Cons.prems(4) rel(1)
    by (cases "release_reservation i a"; cases "runtime_run (map ReleaseOp ids) ?b") auto
  have "runtime_inv ?b" "distinct ids" using Cons.prems(1,2) by (simp_all add: release_reservation_inv)
  moreover have "set ids \<subseteq> mr_reservation_id ` set (reservations ?b)"
    using Cons.prems(2,3) unfolding rel(2) by fastforce
  ultimately show ?case using Cons.IH [OF _ _ _ run] by (auto simp: reps rel(2))
qed

end
