(* ===== verification/Daemon.thy ===== *)
theory Daemon
  imports Mesh_Spec Adapter
begin

text \<open>
  \<open>src/daemon.rs\<close>: building and running the daemon, its route table and its handlers.  The
  handlers reach the runtime through the method table of the trait, so they are defined for any
  adapter.  What axum does before a handler (matching the path, checking the method, decoding a
  JSON body) is the route table plus a decoder that is a parameter.
\<close>

section \<open>Construction and startup\<close>

record 's compute_daemon =
  d_config :: compute_config
  d_agent :: x0x_agent
  d_identity :: agent_identity_snapshot
  d_capability :: capability_announcement
  d_peers :: trusted_peer_registry
  d_methods :: "'s runtime_adapter"
  d_runtime :: 's

text \<open>
  The machine the daemon runs on: the environment of its effects, the foreign functions of the
  mesh, and the readings of \<open>sysinfo\<close> and of the clock at each point of the history.
\<close>

record 'cs machine =
  m_env :: environment
  m_ext :: "'cs mesh_externals"
  m_sys :: "effect list \<Rightarrow> system_info"
  m_now :: "effect list \<Rightarrow> system_time"

definition from_config ::
  "'cs machine \<Rightarrow> compute_config \<Rightarrow> (compute_error, skeleton_runtime_adapter compute_daemon) io" where
  "from_config M cfg =
     io_bind (create_dir_all (m_env M) (data_dir cfg)) (\<lambda>_.
     io_bind (build_agent (m_env M) cfg) (\<lambda>agent. \<lambda>w.
       let identity = from_agent (m_ext M) agent;
           capability = announcement_local (m_sys M (w_trace w)) (m_now M (w_trace w)) cfg identity;
           runtime = build_runtime cfg
       in io_return
            \<lparr>d_config = cfg, d_agent = agent, d_identity = identity, d_capability = capability,
             d_peers = registry_new, d_methods = fst runtime, d_runtime = snd runtime\<rparr> w))"

definition daemon_run :: "'cs machine \<Rightarrow> 's compute_daemon \<Rightarrow> (compute_error, unit) io" where
  "daemon_run M d =
     (let cfg = d_config d; env = m_env M in
      io_bind
        (if join_network_on_start cfg then
           io_bind (perform env X0xIdentity JoinNetwork) (\<lambda>_.
           io_bind (start_capability_subscription_loop env cfg (ais_agent_id (d_identity d))) (\<lambda>handle.
           io_bind
             (if announce_on_start cfg then
                (\<lambda>w. io_bind (announce_local_capability (m_ext M) env (m_sys M (w_trace w))
                         (m_now M (w_trace w)) cfg (d_identity d)) (\<lambda>_. io_return ()) w)
              else io_return ()) (\<lambda>_.
           io_return (Some handle))))
         else io_return None) (\<lambda>subscription_task.
      io_bind (perform env Io (TcpBind (api_bind cfg))) (\<lambda>_.
      io_bind (perform env Io Serve) (\<lambda>_.
      io_return ()))))"

section \<open>The route table\<close>

datatype http_method = GET | HEAD | POST | DELETE | OtherMethod

datatype endpoint =
    Health | IdentityView | LocalCapability | PeerCapabilities | ConfigView | LocalModels
  | ListReservations | CreateReservation | DeleteReservation | OpenaiModels | OpenaiChatCompletions

datatype segment = Lit string | Param

definition router :: "(segment list \<times> (http_method \<times> endpoint) list) list" where
  "router =
     [([Lit ''health''], [(GET, Health)]),
      ([Lit ''v1'', Lit ''identity''], [(GET, IdentityView)]),
      ([Lit ''v1'', Lit ''capabilities'', Lit ''local''], [(GET, LocalCapability)]),
      ([Lit ''v1'', Lit ''capabilities'', Lit ''peers''], [(GET, PeerCapabilities)]),
      ([Lit ''v1'', Lit ''config''], [(GET, ConfigView)]),
      ([Lit ''v1'', Lit ''models'', Lit ''local''], [(GET, LocalModels)]),
      ([Lit ''v1'', Lit ''reservations''], [(GET, ListReservations), (POST, CreateReservation)]),
      ([Lit ''v1'', Lit ''reservations'', Param], [(DELETE, DeleteReservation)]),
      ([Lit ''v1'', Lit ''openai'', Lit ''models''], [(GET, OpenaiModels)]),
      ([Lit ''v1'', Lit ''openai'', Lit ''chat'', Lit ''completions''], [(POST, OpenaiChatCompletions)])]"

text \<open>A parameter matches one non-empty segment; a \<open>get\<close> route answers HEAD as well.\<close>

fun segment_matches :: "segment \<Rightarrow> string \<Rightarrow> bool" where
  "segment_matches (Lit s) t \<longleftrightarrow> s = t"
| "segment_matches Param t \<longleftrightarrow> t \<noteq> []"

definition path_matches :: "segment list \<Rightarrow> string list \<Rightarrow> bool" where
  "path_matches pat segs \<longleftrightarrow> list_all2 segment_matches pat segs"

definition method_matches :: "http_method \<Rightarrow> http_method \<Rightarrow> bool" where
  "method_matches declared actual \<longleftrightarrow> actual = declared \<or> (declared = GET \<and> actual = HEAD)"

datatype route = NoRoute | WrongMethod | Handler endpoint

definition route_request :: "http_method \<Rightarrow> string list \<Rightarrow> route" where
  "route_request m segs =
     (case find (\<lambda>(pat, _). path_matches pat segs) router of
        None \<Rightarrow> NoRoute
      | Some (_, methods) \<Rightarrow>
          (case find (\<lambda>(d, _). method_matches d m) methods of
             None \<Rightarrow> WrongMethod
           | Some (_, e) \<Rightarrow> Handler e))"

section \<open>Handlers\<close>

record 's app_state =
  as_config :: compute_config
  as_identity :: agent_identity_snapshot
  as_capability :: capability_announcement
  as_peers :: trusted_peer_registry
  as_methods :: "'s runtime_adapter"
  as_runtime :: 's

definition app_state_of :: "'s compute_daemon \<Rightarrow> 's app_state" where
  "app_state_of d =
     \<lparr>as_config = d_config d, as_identity = d_identity d, as_capability = d_capability d,
      as_peers = d_peers d, as_methods = d_methods d, as_runtime = d_runtime d\<rparr>"

datatype api_body =
    HealthBody string
  | IdentityBody agent_identity_snapshot
  | CapabilityBody capability_announcement
  | PeersBody "peer_capability_record list"
  | ConfigBody compute_config
  | ModelsBody "local_model_inventory list"
  | ReservationsBody "model_reservation list"
  | ReservationBody model_reservation
  | OpenaiModelsBody openai_model_list_response
  | ChatBody openai_chat_completion_response
  | ErrorBody error_body
  | EmptyBody

type_synonym reply = "status_code \<times> api_body"

text \<open>\<open>Result<T>\<close> as an answer: the success answer of the handler, or the one of the error.\<close>

definition answer :: "('a \<Rightarrow> reply) \<Rightarrow> 'a result \<Rightarrow> reply" where
  "answer ok r =
     (case r of Inr x \<Rightarrow> ok x | Inl e \<Rightarrow> map_prod id ErrorBody (into_response e))"

definition health :: reply where
  "health = (OK, HealthBody ''ok'')"

definition identity_handler :: "'s app_state \<Rightarrow> reply" where
  "identity_handler s = (OK, IdentityBody (as_identity s))"

definition local_capability :: "'s app_state \<Rightarrow> reply" where
  "local_capability s = (OK, CapabilityBody (as_capability s))"

definition peer_capabilities :: "'s app_state \<Rightarrow> reply" where
  "peer_capabilities s = (OK, PeersBody (registry_snapshot (as_peers s)))"

definition config_view :: "'s app_state \<Rightarrow> reply" where
  "config_view s = (OK, ConfigBody (as_config s))"

definition local_models_handler :: "'s app_state \<Rightarrow> reply" where
  "local_models_handler s = (OK, ModelsBody (ra_local_models (as_methods s) (as_runtime s)))"

definition list_reservations :: "'s app_state \<Rightarrow> reply" where
  "list_reservations s = (OK, ReservationsBody (ra_reservations (as_methods s) (as_runtime s)))"

definition create_reservation_handler ::
  "system_time \<Rightarrow> create_reservation_request \<Rightarrow> 's app_state \<Rightarrow> reply \<times> 's app_state" where
  "create_reservation_handler now request s =
     (case ra_create_reservation (as_methods s) now request (as_runtime s) of (result, rt) \<Rightarrow>
        (answer (\<lambda>reservation. (CREATED, ReservationBody reservation)) result,
         s\<lparr>as_runtime := rt\<rparr>))"

definition delete_reservation :: "string \<Rightarrow> 's app_state \<Rightarrow> reply \<times> 's app_state" where
  "delete_reservation rid s =
     (case ra_release_reservation (as_methods s) rid (as_runtime s) of (result, rt) \<Rightarrow>
        (answer (\<lambda>_. (NO_CONTENT, EmptyBody)) result, s\<lparr>as_runtime := rt\<rparr>))"

definition openai_models_handler :: "'s app_state \<Rightarrow> reply" where
  "openai_models_handler s = (OK, OpenaiModelsBody (ra_openai_models (as_methods s) (as_runtime s)))"

definition openai_chat_completions ::
  "system_time \<Rightarrow> openai_chat_completion_request \<Rightarrow> 's app_state \<Rightarrow> reply \<times> 's app_state" where
  "openai_chat_completions now request s =
     (case ra_chat_completion (as_methods s) now request (as_runtime s) of (result, rt) \<Rightarrow>
        (answer (\<lambda>response. (OK, ChatBody response)) result, s\<lparr>as_runtime := rt\<rparr>))"

section \<open>One request\<close>

text \<open>
  A path is the list of its segments after percent-decoding.  The transport around a route is
  left to axum and hyper: a request that spells a literal segment with escapes (axum compares
  literals with the raw path), an identifier that is not UTF-8 once decoded (answered with 400),
  and the body of an answer to HEAD, which is not sent.
\<close>

record http_request =
  rq_method :: http_method
  rq_segments :: "string list"
  rq_body :: "u8 list"

text \<open>
  The JSON decoders of the two request bodies, as far as the fields of the object; a refusal is
  answered by axum and never reaches a handler.  A missing field takes its default.  The requests
  here are the ones that declare JSON and stay within the limit of axum for a body: the extractor
  checks both before it decodes, and refuses the others without calling a handler either.
\<close>

record body_decoders =
  dec_create :: "u8 list \<Rightarrow> create_reservation_fields option"
  dec_chat :: "u8 list \<Rightarrow> chat_completion_fields option"

datatype http_outcome = Replied reply | RouteMissing | MethodNotAllowed | BodyRefused

definition dispatch ::
  "body_decoders \<Rightarrow> system_time \<Rightarrow> http_request \<Rightarrow> 's app_state \<Rightarrow> http_outcome \<times> 's app_state" where
  "dispatch D now rq s =
     (case route_request (rq_method rq) (rq_segments rq) of
        NoRoute \<Rightarrow> (RouteMissing, s)
      | WrongMethod \<Rightarrow> (MethodNotAllowed, s)
      | Handler e \<Rightarrow> (case e of
          Health \<Rightarrow> (Replied health, s)
        | IdentityView \<Rightarrow> (Replied (identity_handler s), s)
        | LocalCapability \<Rightarrow> (Replied (local_capability s), s)
        | PeerCapabilities \<Rightarrow> (Replied (peer_capabilities s), s)
        | ConfigView \<Rightarrow> (Replied (config_view s), s)
        | LocalModels \<Rightarrow> (Replied (local_models_handler s), s)
        | ListReservations \<Rightarrow> (Replied (list_reservations s), s)
        | CreateReservation \<Rightarrow>
            (case dec_create D (rq_body rq) of
               Some body \<Rightarrow>
                 map_prod Replied id (create_reservation_handler now (create_request_of body) s)
             | None \<Rightarrow> (BodyRefused, s))
        | DeleteReservation \<Rightarrow> map_prod Replied id (delete_reservation (last (rq_segments rq)) s)
        | OpenaiModels \<Rightarrow> (Replied (openai_models_handler s), s)
        | OpenaiChatCompletions \<Rightarrow>
            (case dec_chat D (rq_body rq) of
               Some body \<Rightarrow>
                 map_prod Replied id (openai_chat_completions now (chat_request_of body) s)
             | None \<Rightarrow> (BodyRefused, s))))"

section \<open>The running daemon\<close>

text \<open>
  A step of the running daemon is one answered request or one gossip message of the
  subscription loop, which runs when the network was joined.  Requests and messages interleave
  freely: every handler takes one lock once, and every message one write lock.  \<open>Concurrency\<close> models
  the tasks and the locks, and its schedules are accounted for by these steps.
\<close>

datatype 'cs daemon_event =
    HttpEvent system_time http_request http_outcome
  | GossipEvent "'cs gossip_event" capability_disposition

inductive daemon_step ::
  "'cs mesh_externals \<Rightarrow> body_decoders \<Rightarrow> 's app_state \<Rightarrow> 'cs daemon_event \<Rightarrow> 's app_state \<Rightarrow> bool"
  for X D where
  http: "dispatch D now rq s = (out, s') \<Longrightarrow> daemon_step X D s (HttpEvent now rq out) s'"
| gossip: "join_network_on_start (as_config s) \<Longrightarrow>
     apply_message X (ge_now e) (as_config s) (ais_agent_id (as_identity s)) (ge_contacts e)
       (ge_message e) (as_peers s) = (disp, r) \<Longrightarrow>
     daemon_step X D s (GossipEvent e disp) (s\<lparr>as_peers := r\<rparr>)"

inductive_cases daemon_httpE [elim!]: "daemon_step X D s (HttpEvent now rq out) s'"
inductive_cases daemon_gossipE [elim!]: "daemon_step X D s (GossipEvent e disp) s'"

inductive daemon_reach ::
  "'cs mesh_externals \<Rightarrow> body_decoders \<Rightarrow> 's app_state \<Rightarrow> 'cs daemon_event list \<Rightarrow> 's app_state \<Rightarrow> bool"
  for X D where
  start: "daemon_reach X D s [] s"
| step: "daemon_reach X D s evs t \<Longrightarrow> daemon_step X D t ev u \<Longrightarrow> daemon_reach X D s (evs @ [ev]) u"

end
