(* ===== verification/Cli.thy ===== *)
theory Cli
  imports Daemon
begin

text \<open>
  The two binaries, \<open>src/bin/x0x-compute.rs\<close> and \<open>src/bin/x0x-computed.rs\<close>: what each
  command loads, builds, prints and runs.  Parsing of the command line is done by \<open>clap\<close>;
  its result is the input here.  The pretty printers of \<open>serde_json\<close> are parameters.
\<close>

datatype command = Start | Check | PrintIdentity | PrintCapability | PrintConfig bool

record cli =
  cli_config :: "path option"
  cli_command :: "command option"

record computed_cli =
  ccli_config :: "path option"
  ccli_check :: bool

text \<open>The boxed error of \<open>main\<close>: one of the library, or one of the two printers.\<close>

datatype main_error = LibError compute_error | JsonPrintError string | TomlPrintError string

record 'cs installation = "'cs machine" +
  i_dirs :: directories
  i_toml :: toml_codec
  i_json_identity :: "agent_identity_snapshot \<Rightarrow> string + string"
  i_json_capability :: "capability_announcement \<Rightarrow> string + string"

definition lib :: "(compute_error, 'a) io \<Rightarrow> (main_error, 'a) io" where
  "lib m = io_map_err LibError m"

definition start_daemon :: "('cs, 'b) machine_scheme \<Rightarrow> compute_config \<Rightarrow> (main_error, unit) io" where
  "start_daemon I cfg =
     io_bind (lib (from_config (machine.truncate I) cfg)) (\<lambda>daemon.
     lib (daemon_run (machine.truncate I) daemon))"

definition compute_main :: "'cs installation \<Rightarrow> cli \<Rightarrow> (main_error, unit) io" where
  "compute_main I args =
     (let env = m_env I; X = m_ext I;
          command = (case cli_command args of Some c \<Rightarrow> c | None \<Rightarrow> Start) in
      io_bind (lib (load_or_default env (i_dirs I) (i_toml I) (cli_config args))) (\<lambda>cfg.
      case command of
        Start \<Rightarrow> start_daemon I cfg
      | Check \<Rightarrow>
          io_bind (lib (build_agent env cfg)) (\<lambda>agent.
          let identity = from_agent X agent in
          io_bind (emit (Println ''configuration: ok'')) (\<lambda>_.
          io_bind (emit (Println (''agent_id: '' @ ais_agent_id identity))) (\<lambda>_.
          io_bind (emit (Println (''machine_id: '' @ ais_machine_id identity))) (\<lambda>_.
          emit (Println (''user_id: '' @
            (case ais_user_id identity of Some u \<Rightarrow> u | None \<Rightarrow> ''<none>'')))))))
      | PrintIdentity \<Rightarrow>
          io_bind (lib (build_agent env cfg)) (\<lambda>agent.
          let identity = from_agent X agent in
          io_bind (io_lift (map_err JsonPrintError (i_json_identity I identity))) (\<lambda>text.
          emit (Println text)))
      | PrintCapability \<Rightarrow>
          io_bind (lib (build_agent env cfg)) (\<lambda>agent. \<lambda>w.
          let identity = from_agent X agent;
              capability = announcement_local (m_sys I (w_trace w)) (m_now I (w_trace w)) cfg identity in
          io_bind (io_lift (map_err JsonPrintError (i_json_capability I capability))) (\<lambda>text.
          emit (Println text)) w)
      | PrintConfig write \<Rightarrow>
          io_bind
            (if write then
               io_bind (lib (write_default env (i_dirs I) (i_toml I) (cli_config args))) (\<lambda>p.
               emit (Eprintln (''wrote default config to '' @ path_display p)))
             else io_return ()) (\<lambda>_.
          io_bind (io_lift (map_err TomlPrintError (toml_to_string_pretty (i_toml I) cfg))) (\<lambda>text.
          emit (Println text)))))"

definition computed_main :: "'cs installation \<Rightarrow> computed_cli \<Rightarrow> (main_error, unit) io" where
  "computed_main I args =
     (let env = m_env I; X = m_ext I in
      io_bind (lib (load_or_default env (i_dirs I) (i_toml I) (ccli_config args))) (\<lambda>cfg.
      if ccli_check args then
        io_bind (lib (build_agent env cfg)) (\<lambda>agent.
        let identity = from_agent X agent in
        io_bind (emit (Println ''daemon configuration ok'')) (\<lambda>_.
        io_bind (emit (Println (''agent_id: '' @ ais_agent_id identity))) (\<lambda>_.
        emit (Println (''machine_id: '' @ ais_machine_id identity)))))
      else start_daemon I cfg))"

end
