(* ===== verification/Fixtures.thy ===== *)
theory Fixtures
  imports Cli
begin

text \<open>
  The inputs of the program's own unit tests, and concrete instances of the foreign functions,
  at which the theorems are evaluated.
\<close>

section \<open>Configurations\<close>

definition test_dirs :: directories where
  "test_dirs =
     \<lparr>dirs_config_dir = Some \<lparr>p_abs = True, p_comps = [''etc'']\<rparr>,
      dirs_data_dir = None,
      env_current_dir = Inr \<lparr>p_abs = True, p_comps = [''home'']\<rparr>\<rparr>"

text \<open>The models of the runtime tests and of the daemon tests, in their order.\<close>

definition qwen_model :: model_config where
  "qwen_model =
     \<lparr>mc_id = ''qwen3.5:32b'', mc_family = ''qwen3.5'', mc_context_window_tokens = 131072,
      mc_max_output_tokens = 8192, mc_max_parallel_reservations = 2,
      mc_tags = [''coding'', ''reasoning'']\<rparr>"

definition gemma_model :: model_config where
  "gemma_model =
     \<lparr>mc_id = ''gemma-4:27b'', mc_family = ''gemma-4'', mc_context_window_tokens = 65536,
      mc_max_output_tokens = 4096, mc_max_parallel_reservations = 1, mc_tags = [''fast'']\<rparr>"

definition runtime_test_config :: compute_config where
  "runtime_test_config =
     \<lparr>api_bind = SocketAddr (V4 0x7F000001) 12800,
      data_dir = \<lparr>p_abs = False, p_comps = [''.'', ''var'', ''test'']\<rparr>,
      capability_topic = CAPABILITY_TOPIC,
      join_network_on_start = False, announce_on_start = False, require_user_id = False,
      resource_announce_interval_secs = 60,
      cfg_mesh = default_mesh_config, cfg_runtime = default_runtime_config,
      cfg_models = [qwen_model, gemma_model],
      cfg_x0x = default_x0x_config\<rparr>"

definition daemon_test_config :: compute_config where
  "daemon_test_config = runtime_test_config\<lparr>cfg_models := [gemma_model, qwen_model]\<rparr>"

definition relaxed_config :: "directories \<Rightarrow> compute_config" where
  "relaxed_config dirs =
     (default_compute_config dirs)
       \<lparr>cfg_mesh := default_mesh_config
          \<lparr>mesh_trusted_friends_only := False, mesh_require_trusted_contacts := False\<rparr>\<rparr>"

section \<open>Reservations\<close>

definition test_request :: "string \<Rightarrow> u16 \<Rightarrow> create_reservation_request" where
  "test_request model slots =
     \<lparr>crr_model = model, crr_consumer = ''alice'', crr_requested_slots = slots\<rparr>"

definition test_runtime :: skeleton_runtime_adapter where
  "test_runtime = skeleton_new runtime_test_config"

lemma test_models:
  "sk_models test_runtime = [(''gemma-4:27b'', gemma_model), (''qwen3.5:32b'', qwen_model)]"
  by (simp add: test_runtime_def skeleton_new_def runtime_test_config_def bt_collect_def
      qwen_model_def gemma_model_def)

lemma test_state: "lock_state test_runtime = skeleton_state_default"
  by (simp add: test_runtime_def skeleton_new_def lock_state_data mutex_new_def)

lemma test_inv: "runtime_inv test_runtime"
  by (simp add: test_runtime_def runtime_inv_new)

lemma trim_alice: "trim ''alice'' = ''alice''"
  by (simp add: trim_def trim_chars_def is_lead_def is_whitespace_def white_space_def)

lemmas runtime_eval = bt_get_def test_models test_state skeleton_state_default_def
  qwen_model_def gemma_model_def

text \<open>The first reservation of the tests, and the runtime after it.\<close>

abbreviation first_request :: create_reservation_request where
  "first_request \<equiv> test_request ''qwen3.5:32b'' 1"

definition first_reservation :: model_reservation where
  "first_reservation = granted 5000000000 first_request test_runtime"

definition runtime_after_first :: skeleton_runtime_adapter where
  "runtime_after_first = store_state test_runtime (after_grant 5000000000 first_request test_runtime)"

lemma grantable_first: "grantable first_request test_runtime"
  by (simp add: grantable_def test_request_def runtime_eval held_def trim_alice)

lemma create_first:
  "create_reservation 5000000000 first_request test_runtime = (Inr first_reservation, runtime_after_first)"
  unfolding first_reservation_def runtime_after_first_def
  by (rule create_reservation_grantable [OF test_inv grantable_first])

lemma inv_after_first: "runtime_inv runtime_after_first"
  unfolding runtime_after_first_def by (rule runtime_inv_grant [OF test_inv grantable_first])

lemma first_simps [simp]:
  "mr_reservation_id first_reservation = ''resv-000001''"
  "mr_model first_reservation = ''qwen3.5:32b''"
  "mr_consumer first_reservation = ''alice''"
  "mr_requested_slots first_reservation = 1"
proof -
  have id: "''resv-'' @ pad6 1 = ''resv-000001''" by code_simp
  show "mr_reservation_id first_reservation = ''resv-000001''"
    using id by (simp add: first_reservation_def runtime_eval reservation_id_def saturating_add_def)
qed (simp_all add: first_reservation_def test_request_def)

lemma reservations_after_first: "reservations runtime_after_first = [first_reservation]"
  by (simp add: runtime_after_first_def reservations_def bt_values_def runtime_eval first_reservation_def)

lemma counter_free_test: "n < 2 ^ 64 \<Longrightarrow> counter_free test_runtime n"
  unfolding test_runtime_def by (rule counter_free_new)

lemma run_first:
  "runtime_run [CreateOp 5000000000 first_request] (skeleton_new runtime_test_config)
     = ([CreateReply (Inr first_reservation)], runtime_after_first)"
  by (simp add: create_first flip: test_runtime_def)

section \<open>Announcements\<close>

definition test_agent :: "u8 \<Rightarrow> agent_id" where
  "test_agent b = AgentId (replicate 32 b)"

definition test_machine :: "u8 \<Rightarrow> machine_id" where
  "test_machine b = MachineId (replicate 32 b)"

definition capability_for ::
  "'a hex_codec_scheme \<Rightarrow> agent_id \<Rightarrow> machine_id \<Rightarrow> string \<Rightarrow> string list \<Rightarrow> capability_announcement" where
  "capability_for H agent machine mesh available =
     \<lparr>cap_protocol_version = PROTOCOL_VERSION,
      cap_identity =
        \<lparr>ais_machine_id = encode_machine_id H machine,
         ais_agent_id = encode_agent_id H agent, ais_user_id = None\<rparr>,
      cap_hardware =
        \<lparr>hw_hostname = Some ''friendbox'', hw_cpu_brand = ''Apple M4'', hw_logical_cores = 10,
         hw_total_memory_bytes = 64 * 1024, hw_available_memory_bytes = 32 * 1024\<rparr>,
      cap_policy =
        \<lparr>pol_mesh_name = mesh, pol_trusted_friends_only = True,
         pol_require_trusted_contacts = True, pol_prefer_user_identity = True\<rparr>,
      cap_available_models = available,
      cap_observed_at_unix_secs = 1\<rparr>"

text \<open>
  A wire format for a given list of announcements, the index of one as a single byte, and a
  contact store as a list of trust decisions, unknown where an agent is missing.
\<close>

type_synonym test_store = "(agent_id \<times> trust_decision) list"

definition test_externals :: "capability_announcement list \<Rightarrow> test_store mesh_externals" where
  "test_externals caps =
     \<lparr>hex_encode = hex_encode hex_executable, hex_decode = hex_decode hex_executable,
      json_from_slice = (\<lambda>bs. case bs of
          [b] \<Rightarrow> if unat b < length caps then Inr (caps ! unat b) else Inl ''invalid''
        | _ \<Rightarrow> Inl ''invalid''),
      json_to_vec = (\<lambda>cap.
          case List.find (\<lambda>i. caps ! i = cap) [0..<length caps] of
            Some i \<Rightarrow> Inr [of_nat i] | None \<Rightarrow> Inl ''unknown''),
      trust_evaluate = (\<lambda>store a m. case map_of store a of Some d \<Rightarrow> d | None \<Rightarrow> Unknown)\<rparr>"

definition payload_message :: "agent_id \<Rightarrow> u8 list \<Rightarrow> pubsub_message" where
  "payload_message sender payload =
     \<lparr>ps_topic = CAPABILITY_TOPIC, ps_payload = payload, ps_sender = Some sender,
      ps_verified = True\<rparr>"

definition test_message :: "agent_id \<Rightarrow> u8 \<Rightarrow> pubsub_message" where
  "test_message sender i = payload_message sender [i]"

lemma test_externals_hex [simp]:
  "hex_encode (test_externals caps) = hex_encode hex_executable"
  "hex_decode (test_externals caps) = hex_decode hex_executable"
  "encode_agent_id (test_externals caps) = encode_agent_id hex_executable"
  "encode_machine_id (test_externals caps) = encode_machine_id hex_executable"
  "encode_user_id (test_externals caps) = encode_user_id hex_executable"
  "parse_machine_id_hex (test_externals caps) = parse_machine_id_hex hex_executable"
  by (simp_all add: test_externals_def encode_agent_id_def encode_machine_id_def
      encode_user_id_def parse_machine_id_hex_def parse_hex_32_def fun_eq_iff)

lemma test_externals_json [simp]:
  "unat b < length caps \<Longrightarrow> json_from_slice (test_externals caps) [b] = Inr (caps ! unat b)"
  "trust_evaluate (test_externals caps) store a m =
     (case map_of store a of Some d \<Rightarrow> d | None \<Rightarrow> Unknown)"
  by (simp_all add: test_externals_def)

lemma encode_test_agent [simp]:
  "encode_agent_id hex_executable (test_agent a) = encode_agent_id hex_executable (test_agent b)
     \<longleftrightarrow> a = b"
  by (simp add: encode_agent_id_def test_agent_def hex.enc_inject)

lemma parse_test_machine [simp]:
  "parse_machine_id_hex hex_executable (encode_machine_id hex_executable (test_machine b))
     = Inr (test_machine b)"
  by (simp add: parse_machine_id_Inr encode_machine_id_def test_machine_def hex.dec_enc)

lemma capability_for_simps [simp]:
  "cap_protocol_version (capability_for H a m mesh ms) = PROTOCOL_VERSION"
  "ais_agent_id (cap_identity (capability_for H a m mesh ms)) = encode_agent_id H a"
  "ais_machine_id (cap_identity (capability_for H a m mesh ms)) = encode_machine_id H m"
  "pol_mesh_name (cap_policy (capability_for H a m mesh ms)) = mesh"
  by (simp_all add: capability_for_def)

lemma test_message_simps [simp]:
  "ps_sender (test_message s p) = Some s" "ps_payload (test_message s p) = [p]"
  "ps_verified (test_message s p)"
  by (simp_all add: test_message_def payload_message_def)

text \<open>The name this node announces itself under, in the mesh tests.\<close>

definition test_me :: string where
  "test_me = encode_agent_id hex_executable (test_agent 0)"

lemma test_me_other [simp]:
  "encode_agent_id hex_executable (test_agent a) = test_me \<longleftrightarrow> a = 0"
  by (simp add: test_me_def)

definition test_mesh_config :: compute_config where
  "test_mesh_config = default_compute_config test_dirs"

lemma test_mesh_name [simp]: "mesh_name (cfg_mesh test_mesh_config) = ''friends''"
  by (simp add: test_mesh_config_def default_compute_config_def default_mesh_config_def)

text \<open>A verified announcement of a trusted peer in the mesh of the tests is admitted.\<close>

lemma admission_test:
  assumes "a \<noteq> 0" and "unat i < length caps"
    and "caps ! unat i = capability_for hex_executable (test_agent a) (test_machine m) ''friends'' ms"
    and "map_of store (test_agent a) = Some Accept"
  shows "admission (test_externals caps) test_mesh_config test_me store (test_message (test_agent a) i)
    = Some (capability_for hex_executable (test_agent a) (test_machine m) ''friends'' ms, Accept)"
  using assms by (simp add: admission_def)

section \<open>The outside world\<close>

definition calm_env :: environment where
  "calm_env =
     \<lparr>env_fault = (\<lambda>h e. None), env_io_text = (\<lambda>e. ''os error''),
      env_agent = (\<lambda>b. \<lparr>xa_machine_id = test_machine 1, xa_agent_id = test_agent 1, xa_user_id = None\<rparr>)\<rparr>"

definition empty_world :: world where
  "empty_world = \<lparr>w_fs = Map.empty, w_trace = []\<rparr>"

text \<open>A TOML codec for two given configurations.\<close>

definition test_toml :: "compute_config \<Rightarrow> compute_config \<Rightarrow> toml_codec" where
  "test_toml a b =
     \<lparr>toml_from_str = (\<lambda>s. if s = ''a'' then Inr a else if s = ''b'' then Inr b else Inl ''parse''),
      toml_to_string_pretty = (\<lambda>c. if c = a then Inr ''a'' else if c = b then Inr ''b'' else Inl ''value'')\<rparr>"

end
