(* ===== verification/Grant_Order.thy ===== *)
theory Grant_Order
  imports Adapter "HOL-Library.Multiset"
begin

text \<open>
  The order of the active reservations.  A reference keeps them as a log: a grant is written at
  the end, a release strikes its entry out.  The adapter keeps a map ordered by identifier as
  text; as long as the padded numbers have six digits its list is that log.
\<close>

section \<open>The log of grants\<close>

text \<open>The log after the answered operations of a run; refusals and completions leave it.\<close>

fun grant_log ::
  "runtime_op list \<Rightarrow> runtime_reply list \<Rightarrow> model_reservation list \<Rightarrow> model_reservation list" where
  "grant_log (op # ops) (reply # replies) log =
     grant_log ops replies
       (case (op, reply) of
          (_, CreateReply (Inr r)) \<Rightarrow> log @ [r]
        | (ReleaseOp rid, ReleaseReply (Inr _)) \<Rightarrow> filter (\<lambda>r. mr_reservation_id r \<noteq> rid) log
        | _ \<Rightarrow> log)"
| "grant_log _ _ log = log"

section \<open>One operation\<close>

lemma filter_bt_insert: "filter (\<lambda>e. fst e \<noteq> k) (bt_insert k v m) = filter (\<lambda>e. fst e \<noteq> k) m"
  by (induction m) auto

lemma bt_insert_last: "(\<And>e. e \<in> set m \<Longrightarrow> fst e < k) \<Longrightarrow> bt_insert k v m = m @ [(k, v)]"
  by (induction m) (force dest: less_asym)+

lemma entry_key:
  assumes "runtime_inv a" and "e \<in> set (st_reservations (lock_state a))"
  shows "fst e = mr_reservation_id (snd e)"
    "\<exists>n. n \<le> unat (st_next_reservation_id (lock_state a)) \<and> fst e = ''resv-'' @ pad6 n"
proof -
  have "bt_get (st_reservations (lock_state a)) (fst e) = Some (snd e)"
    using bt.in_entries [OF runtime_invD(2) [OF assms(1)], of "fst e" "snd e"] assms(2) by simp
  from runtime_invD(4) [OF assms(1) this]
  show "fst e = mr_reservation_id (snd e)"
    "\<exists>n. n \<le> unat (st_next_reservation_id (lock_state a)) \<and> fst e = ''resv-'' @ pad6 n"
    by (auto simp: reservation_ok_def)
qed

lemma reservations_without:
  assumes "runtime_inv a"
  shows "map snd (filter (\<lambda>e. fst e \<noteq> rid) (st_reservations (lock_state a)))
    = filter (\<lambda>r. mr_reservation_id r \<noteq> rid) (reservations a)"
proof -
  have "filter (\<lambda>e. fst e \<noteq> rid) (st_reservations (lock_state a))
      = filter (\<lambda>e. mr_reservation_id (snd e) \<noteq> rid) (st_reservations (lock_state a))"
    by (rule filter_cong) (simp_all add: entry_key [OF assms])
  then show ?thesis by (simp add: reservations_def bt_values_def filter_map comp_def)
qed

lemma release_strikes_out:
  assumes "runtime_inv a"
  shows "reservations (snd (release_reservation rid a)) = filter (\<lambda>r. mr_reservation_id r \<noteq> rid) (reservations a)"
proof (cases "bt_get (st_reservations (lock_state a)) rid")
  case None
  then have "rid \<notin> mr_reservation_id ` set (reservations a)" by (simp add: known_ids [OF assms])
  then have "filter (\<lambda>r. mr_reservation_id r \<noteq> rid) (reservations a) = reservations a"
    by (intro filter_True) auto
  with None show ?thesis by (simp add: release_reservation_cases)
next
  case (Some r)
  then show ?thesis
    using reservations_without [OF assms, of rid]
    by (simp add: release_reservation_cases reservations_def bt_values_def bt_remove_def)
qed

text \<open>Without the new entry the list is what it was, whether or not the identifier was new.\<close>

lemma grant_keeps_others:
  assumes "runtime_inv a" and "create_reservation now req a = (Inr r, a')"
  shows "filter (\<lambda>q. mr_reservation_id q \<noteq> mr_reservation_id r) (reservations a')
    = filter (\<lambda>q. mr_reservation_id q \<noteq> mr_reservation_id r) (reservations a)"
proof -
  note g = create_reservation_granted [OF assms]
  have "runtime_inv a'" using create_reservation_inv [OF assms(1), of now req] assms(2) by simp
  from reservations_without [OF this, of "mr_reservation_id r"]
    reservations_without [OF assms(1), of "mr_reservation_id r"] show ?thesis
    by (simp add: g(2,3) filter_bt_insert)
qed

text \<open>A grant and its release, whatever the counter.\<close>

lemma release_undoes_grant:
  assumes inv: "runtime_inv a"
    and c: "create_reservation now req a = (Inr r, a')"
    and d: "release_reservation (mr_reservation_id r) a' = (res, a'')"
  shows "res = Inr ()"
    "reservations a'' = filter (\<lambda>q. mr_reservation_id q \<noteq> mr_reservation_id r) (reservations a)"
    "unat (st_next_reservation_id (lock_state a)) < 2 ^ 64 - 1 \<Longrightarrow> reservations a'' = reservations a"
proof -
  have inv': "runtime_inv a'" using create_reservation_inv [OF inv, of now req] c by simp
  show "reservations a'' = filter (\<lambda>q. mr_reservation_id q \<noteq> mr_reservation_id r) (reservations a)"
    using release_strikes_out [OF inv', of "mr_reservation_id r"] grant_keeps_others [OF inv c] d by simp
  note g = create_reservation_granted [OF inv c]
  have "bt_get (st_reservations (lock_state a')) (mr_reservation_id r) = Some r"
    using runtime_invD(2) [OF inv] by (simp add: g(2,3) bt.get_ins)
  then show "res = Inr ()" using d by (simp add: release_reservation_cases)
  assume "unat (st_next_reservation_id (lock_state a)) < 2 ^ 64 - 1"
  then have "counter_free a 1" by (simp add: counter_free_def)
  with inv c d show "reservations a'' = reservations a"
    using skeleton.create_then_release [of a now req r a' res a''] by (simp add: skeleton_methods_def)
qed

text \<open>As a multiset, and with a new identifier while the counter can grow.\<close>

lemma mset_insert_fresh:
  "distinct xs \<Longrightarrow> distinct ys \<Longrightarrow> x \<notin> set xs \<Longrightarrow> set ys = insert x (set xs) \<Longrightarrow> mset ys = add_mset x (mset xs)"
  by (metis distinct.simps(2) list.simps(15) mset.simps(2) set_eq_iff_mset_eq_distinct)

lemma reservations_after_grant:
  assumes inv: "runtime_inv a" and c: "create_reservation now req a = (Inr r, a')"
    and free: "unat (st_next_reservation_id (lock_state a)) < 2 ^ 64 - 1"
  shows "mset (reservations a') = add_mset r (mset (reservations a))"
    "mr_reservation_id r \<notin> mr_reservation_id ` set (reservations a)"
proof -
  have inv': "runtime_inv a'" using create_reservation_inv [OF inv, of now req] c by simp
  have "counter_free a 1" using free by (simp add: counter_free_def)
  note g = reservations_grant [OF inv this c]
  then show "mr_reservation_id r \<notin> mr_reservation_id ` set (reservations a)" by simp
  have "distinct (reservations b)" if "runtime_inv b" for b
    using skeleton.reservations_sorted [OF that] by (simp add: skeleton_methods_def strict_sorted_iff distinct_map)
  with inv inv' g show "mset (reservations a') = add_mset r (mset (reservations a))"
    by (intro mset_insert_fresh) (auto simp: rev_image_eqI)
qed

lemma grant_appends:
  assumes inv: "runtime_inv a" and c: "create_reservation now req a = (Inr r, a')"
    and small: "unat (st_next_reservation_id (lock_state a)) < 999999"
  shows "reservations a' = reservations a @ [r]"
proof -
  note g = create_reservation_granted [OF inv c]
  let ?n = "unat (st_next_reservation_id (lock_state a))"
  have "counter_free a 1" using small by (simp add: counter_free_def)
  then have id: "mr_reservation_id r = ''resv-'' @ pad6 (Suc ?n)"
    using unat_next_free [of a 0] by (simp add: g(2) reservation_id_def)
  have "fst e < mr_reservation_id r" if "e \<in> set (st_reservations (lock_state a))" for e
    using entry_key(2) [OF inv that] small by (auto simp: id pad6_less_iff)
  from bt_insert_last [OF this, of _ r] show ?thesis
    by (simp add: g(2,3) reservations_def bt_values_def)
qed

section \<open>A run\<close>

lemma exec_logs:
  assumes "runtime_inv a" and "unat (st_next_reservation_id (lock_state a)) < 999999"
    and "runtime_exec op a = (reply, b)"
  shows "reservations b =
    (case (op, reply) of
       (_, CreateReply (Inr r)) \<Rightarrow> reservations a @ [r]
     | (ReleaseOp rid, ReleaseReply (Inr _)) \<Rightarrow> filter (\<lambda>r. mr_reservation_id r \<noteq> rid) (reservations a)
     | _ \<Rightarrow> reservations a)"
proof (cases op)
  case (CreateOp now req)
  then show ?thesis
    using assms(3) grant_appends [OF assms(1) _ assms(2)]
    by (cases "create_reservation now req a"; cases "fst (create_reservation now req a)")
      (auto dest: create_refused [OF assms(1)])
next
  case (ReleaseOp rid)
  then show ?thesis
    using assms(3) release_strikes_out [OF assms(1), of rid]
    by (auto simp: release_reservation_cases split: if_splits)
next
  case (ChatOp now req)
  then show ?thesis
    using assms(3) skeleton.chat_reservations [of now req a]
    by (cases "chat_completion now req a") (auto simp: skeleton_methods_def)
qed

lemma run_logs:
  "runtime_inv a \<Longrightarrow> unat (st_next_reservation_id (lock_state a)) + length ops < 1000000 \<Longrightarrow>
     runtime_run ops a = (replies, a') \<Longrightarrow> reservations a' = grant_log ops replies (reservations a)"
proof (induction ops arbitrary: a replies)
  case Nil
  then show ?case by simp
next
  case (Cons op ops)
  obtain reply b where e: "runtime_exec op a = (reply, b)" by (cases "runtime_exec op a")
  obtain replies' where r: "runtime_run ops b = (replies', a')" and reps: "replies = reply # replies'"
    using Cons.prems(3) e by (auto split: prod.splits)
  have "runtime_inv b" "unat (st_next_reservation_id (lock_state b)) + length ops < 1000000"
    using runtime_exec_inv [OF Cons.prems(1), of op] counter_grows [of op a] Cons.prems(2) e by simp_all
  from Cons.IH [OF this r] exec_logs [OF Cons.prems(1) _ e] Cons.prems(2) show ?case
    by (simp add: reps)
qed

end
