(* ===== verification/Runtime_Props.thy ===== *)
theory Runtime_Props
  imports Fixtures Grant_Order
begin

text \<open>
  The properties of the local runtime: capacity, the decision and the effect of every operation,
  the refinement of the slot pool, identifiers and their order, and the gateway, with their
  witnesses at the inputs of the unit tests.
\<close>

section \<open>The end of the counter\<close>

text \<open>An inventory of one reservation, granted under the largest value of the counter.\<close>

definition last_reservation :: model_reservation where
  "last_reservation =
     \<lparr>mr_reservation_id = reservation_id (- 1), mr_model = ''qwen3.5:32b'', mr_consumer = ''bob'',
      mr_requested_slots = 1, mr_granted_at_unix_secs = 5\<rparr>"

definition runtime_at_limit :: skeleton_runtime_adapter where
  "runtime_at_limit =
     store_state test_runtime
       (skeleton_state_default\<lparr>st_next_reservation_id := - 1,
          st_reservations := [(reservation_id (- 1), last_reservation)]\<rparr>)"

lemma inv_at_limit: "runtime_inv runtime_at_limit"
proof -
  have "trim ''bob'' = ''bob''"
    by (simp add: trim_def trim_chars_def is_lead_def is_whitespace_def white_space_def)
  moreover have "\<exists>n > 0. n \<le> unat (- 1 :: u64) \<and> reservation_id (- 1) = ''resv-'' @ pad6 n"
    by (intro exI [of _ "unat (- 1 :: u64)"]) (simp add: reservation_id_def unat_max_word_eq)
  ultimately show ?thesis
    by (auto simp: runtime_inv_def runtime_at_limit_def bt_get_def test_models bt_ok_def held_def
        reservation_ok_def last_reservation_def qwen_model_def gemma_model_def skeleton_state_default_def
        split: if_splits)
qed

section \<open>Capacity and reservations\<close>

text \<open>
  C2. After any sequence of operations on a runtime built from a configuration, every inventory
  entry adds up: reserved plus available slots are the configured total, and the reserved slots
  are exactly the slots of the active reservations of that model.  So no model is ever promised
  more slots than it has, and the saturating arithmetic never hides an excess.
\<close>

theorem runtime_never_oversubscribed:
  assumes "a = snd (runtime_run ops (skeleton_new cfg))" and "lm \<in> set (local_models a)"
  shows "unat (lm_reserved_slots lm) + unat (lm_available_slots lm) = unat (lm_total_slots lm)
    \<and> unat (lm_reserved_slots lm) =
        sum_list (map (\<lambda>r. unat (mr_requested_slots r))
          (filter (\<lambda>r. mr_model r = lm_id lm) (reservations a)))"
  using skeleton.inventory [of a lm] reachable_inv [of ops cfg] assms
  by (simp add: skeleton_methods_def)

theorem runtime_never_oversubscribed_witness:
  "inventory_for_model runtime_after_first qwen_model 1 \<in> set (local_models runtime_after_first)
   \<and> unat (1 :: u16) + unat (1 :: u16) = unat (lm_total_slots (inventory_for_model runtime_after_first qwen_model 1))
   \<and> sum_list (map (\<lambda>r. unat (mr_requested_slots r))
        (filter (\<lambda>r. mr_model r = ''qwen3.5:32b'') (reservations runtime_after_first))) = 1"
proof -
  have lm: "inventory_for_model runtime_after_first qwen_model 1 \<in> set (local_models runtime_after_first)"
    by (simp add: local_models_def Let_def runtime_after_first_def runtime_eval bt_values_def
        reserved_slots_for_model_def granted_def test_request_def inventory_for_model_def saturating_add_def)
  have a: "runtime_after_first = snd (runtime_run [CreateOp 5000000000 first_request] (skeleton_new runtime_test_config))"
    by (simp only: run_first snd_conv)
  from runtime_never_oversubscribed [OF a lm] have
    "unat (1 :: u16) + unat (1 :: u16) = unat (lm_total_slots (inventory_for_model runtime_after_first qwen_model 1))
     \<and> sum_list (map (\<lambda>r. unat (mr_requested_slots r))
          (filter (\<lambda>r. mr_model r = ''qwen3.5:32b'') (reservations runtime_after_first))) = 1"
    by (simp add: reservations_after_first inventory_for_model_def saturating_sub_def qwen_model_def)
  with lm show ?thesis by (rule conjI)
qed

text \<open>
  C1. Refinement: a run of fewer than 2^64 operations of the skeleton runtime is a run of the
  abstract pool of slots.  Every granted request is a grant of the pool under a new identifier
  within the capacity, every successful release frees a held reservation, and refused requests
  and completions leave the pool as it was.
\<close>

theorem runtime_refines_slot_pool:
  assumes "length ops < 2 ^ 64" and "runtime_run ops (skeleton_new cfg) = (replies, a)"
  shows "pool_run (pool_of (skeleton_new cfg)) (pool_events ops replies) (pool_of a)"
  using runtime_run_refines [OF runtime_inv_new counter_free_new [OF assms(1)] assms(2)] by simp

theorem runtime_refines_slot_pool_witness:
  "pool_run (pool_of (skeleton_new runtime_test_config)) [Grant ''resv-000001'' ''qwen3.5:32b'' 1]
     (pool_of runtime_after_first)"
  using runtime_refines_slot_pool [OF _ run_first] by simp

text \<open>
  C10. The decision of a reservation request, for every input and in the order of the code: an
  empty consumer, zero slots and an unknown model are refused with their own errors, and
  otherwise the request is granted exactly when the slots really held plus the requested ones
  fit the configured maximum; a capacity error names the number of slots still free.
\<close>

theorem create_reservation_decides:
  assumes "runtime_inv a"
  shows "fst (create_reservation now req a) =
    (if trim (crr_consumer req) = [] then Inl (InvalidReservationRequest ''consumer must not be empty'')
     else if crr_requested_slots req = 0 then
       Inl (InvalidReservationRequest ''requested_slots must be at least 1'')
     else case bt_get (sk_models a) (crr_model req) of
       None \<Rightarrow> Inl (ModelNotFound (crr_model req))
     | Some model \<Rightarrow>
         let total = unat (mc_max_parallel_reservations model); used = held (lock_state a) (crr_model req)
         in if used + unat (crr_requested_slots req) \<le> total then Inr (granted now req a)
            else Inl (ModelCapacityExceeded (crr_model req) (crr_requested_slots req) (of_nat (total - used))))"
proof (cases "bt_get (sk_models a) (crr_model req)")
  case None
  then show ?thesis using assms by (simp add: create_reservation_cases)
next
  case (Some model)
  have "saturating_sub (mc_max_parallel_reservations model) (reserved_slots_for_model (lock_state a) (crr_model req))
      = of_nat (unat (mc_max_parallel_reservations model) - held (lock_state a) (crr_model req))"
    using reserved_exact [OF assms Some] by (metis unat_saturating_sub of_nat_unat ucast_id)
  with Some assms show ?thesis by (simp add: create_reservation_cases Let_def)
qed

theorem create_reservation_decides_witness:
  "fst (create_reservation 0 (test_request ''gemma-4:27b'' 2) test_runtime) =
     Inl (ModelCapacityExceeded ''gemma-4:27b'' 2 1)"
  using create_reservation_decides [OF test_inv, of 0 "test_request ''gemma-4:27b'' 2"]
  by (simp add: test_request_def trim_alice runtime_eval held_def)

text \<open>
  The effect of a granted request while the counter can still grow: the new reservation has
  an identifier no active reservation has, it joins the active ones and changes nothing else,
  its model holds exactly the requested slots more, and every other model what it held before.
\<close>

lemma create_reservation_effect:
  assumes "runtime_inv a" and "counter_free a 1" and "create_reservation now req a = (Inr r, a')"
  shows "set (reservations a') = insert r (set (reservations a))
    \<and> mr_reservation_id r \<notin> mr_reservation_id ` set (reservations a)
    \<and> held (lock_state a') m =
        held (lock_state a) m + (if m = crr_model req then unat (crr_requested_slots req) else 0)
    \<and> sk_models a' = sk_models a"
  using reservations_grant [OF assms] create_reservation_granted [OF assms(1,3)]
    held_after_grant [OF assms(1), of 0 now req m] assms(2) by simp

text \<open>
  Releasing: an active reservation is released, leaves all others in place and frees exactly
  its slots; any other identifier is answered with not-found and changes nothing.
\<close>

lemma release_reservation_effect:
  assumes "runtime_inv a"
  shows "case bt_get (st_reservations (lock_state a)) rid of
      Some r \<Rightarrow> fst (release_reservation rid a) = Inr ()
        \<and> set (reservations (snd (release_reservation rid a)))
            = {q \<in> set (reservations a). mr_reservation_id q \<noteq> rid}
        \<and> held (lock_state (snd (release_reservation rid a))) m
              + (if mr_model r = m then unat (mr_requested_slots r) else 0) = held (lock_state a) m
    | None \<Rightarrow> rid \<notin> mr_reservation_id ` set (reservations a)
        \<and> release_reservation rid a = (Inl (ReservationNotFound rid), a)"
  using reservations_release [OF assms, of rid] known_ids [OF assms, of rid]
    held_after_release [OF runtime_invD(2) [OF assms], of rid _ m]
  by (auto simp: release_reservation_cases split: option.split)

text \<open>
  C11. Round trip: a reservation that is granted and then released leaves the active reservations
  without any under its identifier, in their order and whatever the counter; while the 64-bit
  counter is below its largest value the identifier was new, so that the list of active
  reservations and the whole model inventory are what they were before.
\<close>

theorem create_then_release_restores:
  assumes inv: "runtime_inv a"
    and c: "create_reservation now req a = (Inr r, a')"
    and d: "release_reservation (mr_reservation_id r) a' = (res, a'')"
  shows "res = Inr ()
    \<and> reservations a'' = filter (\<lambda>q. mr_reservation_id q \<noteq> mr_reservation_id r) (reservations a)
    \<and> (unat (st_next_reservation_id (lock_state a)) < 2 ^ 64 - 1 \<longrightarrow>
         reservations a'' = reservations a \<and> local_models a'' = local_models a)"
proof -
  note rs = release_undoes_grant [OF inv c d]
  have "local_models a'' = local_models a" if "unat (st_next_reservation_id (lock_state a)) < 2 ^ 64 - 1"
  proof -
    have "held (lock_state a'') m = held (lock_state a) m" for m
      by (simp add: held_reservations rs(3) [OF that])
    then have "reserved_slots_for_model (lock_state a'') m = reserved_slots_for_model (lock_state a) m" for m
      by (simp add: word_unat_eq_iff unat_reserved_slots)
    moreover have "sk_models a'' = sk_models a" "sk_backend a'' = sk_backend a"
      using d by (auto simp: create_reservation_granted(3) [OF inv c] release_reservation_cases split: if_splits)
    ultimately show ?thesis by (simp add: local_models_def Let_def inventory_for_model_def)
  qed
  with rs show ?thesis by blast
qed

theorem create_then_release_restores_witness:
  "reservations (snd (release_reservation ''resv-000001'' runtime_after_first)) = reservations test_runtime
   \<and> local_models (snd (release_reservation ''resv-000001'' runtime_after_first)) = local_models test_runtime"
proof -
  have "unat (st_next_reservation_id (lock_state test_runtime)) < 2 ^ 64 - 1" by (simp add: runtime_eval)
  with create_then_release_restores [OF test_inv create_first surjective_pairing, THEN conjunct2, THEN conjunct2] show ?thesis by simp
qed

text \<open>
  C12. Capacity is never lost: in every reachable state the listed reservations can be released one
  after the other, each release succeeds, and afterwards nothing is reserved and every model has
  all its slots free again.
\<close>

theorem capacity_is_recoverable:
  assumes "a = snd (runtime_run ops (skeleton_new cfg))"
    and "runtime_run (map ReleaseOp (map mr_reservation_id (reservations a))) a = (replies, b)"
  shows "(\<forall>reply \<in> set replies. reply = ReleaseReply (Inr ())) \<and> reservations b = []
    \<and> (\<forall>lm \<in> set (local_models b). lm_reserved_slots lm = 0 \<and> lm_available_slots lm = lm_total_slots lm)"
proof -
  have inv: "runtime_inv a" using reachable_inv assms(1) by simp
  have "distinct (map mr_reservation_id (reservations a))"
    using skeleton.reservations_sorted [OF inv] by (simp add: skeleton_methods_def strict_sorted_iff)
  from release_all [OF inv this _ assms(2)] have rep: "replies = map (\<lambda>_. ReleaseReply (Inr ())) (map mr_reservation_id (reservations a))"
    and b: "runtime_inv b" and "set (reservations b) = {}" by auto
  then have empty: "reservations b = []" by simp
  have "lm_reserved_slots lm = 0 \<and> lm_available_slots lm = lm_total_slots lm" if "lm \<in> set (local_models b)" for lm
    using local_models_inventory [OF b that] by (simp add: held_reservations empty word_unat_eq_iff)
  with rep empty show ?thesis by auto
qed

theorem capacity_is_recoverable_witness:
  "reservations (snd (runtime_run [ReleaseOp ''resv-000001''] runtime_after_first)) = []"
proof -
  have "runtime_after_first = snd (runtime_run [CreateOp 5000000000 first_request] (skeleton_new runtime_test_config))"
    by (simp only: run_first snd_conv)
  from capacity_is_recoverable [OF this surjective_pairing] show ?thesis
    by (simp add: reservations_after_first split_beta)
qed

section \<open>Identifiers\<close>

text \<open>
  C22. The identifiers granted in a run of fewer than 2^64 operations are pairwise distinct: a
  released identifier is never given to another reservation.
\<close>

theorem granted_ids_distinct:
  assumes "length ops < 2 ^ 64"
  shows "distinct (granted_ids (fst (runtime_run ops (skeleton_new cfg))))"
proof -
  obtain replies a where run: "runtime_run ops (skeleton_new cfg) = (replies, a)"
    by (cases "runtime_run ops (skeleton_new cfg)")
  from granted_ids_numbers [OF counter_free_new [OF assms] run] obtain ns where
    "granted_ids replies = map (\<lambda>n. ''resv-'' @ pad6 n) ns" "sorted_wrt (<) ns" by blast
  then show ?thesis
    by (simp add: run distinct_map strict_sorted_iff inj_on_def)
qed

theorem granted_ids_distinct_witness:
  "distinct (granted_ids (fst (runtime_run
      [CreateOp 0 first_request, ReleaseOp ''resv-000001'', CreateOp 0 first_request] (skeleton_new runtime_test_config))))"
  by (rule granted_ids_distinct) simp

text \<open>
  C24. The list of active reservations, which the map orders by identifier as text, is in the
  order of the grants: after any run of fewer than a million operations it is the log to which
  every granted reservation was appended when it was granted, and from which every released one
  was struck out.  The zero padding of the identifiers is what makes it so.
\<close>

theorem reservations_in_grant_order:
  assumes "length ops < 1000000" and "runtime_run ops (skeleton_new cfg) = (replies, a)"
  shows "reservations a = grant_log ops replies []"
  using run_logs [OF runtime_inv_new _ assms(2)] assms(1)
  by (simp add: skeleton_new_def lock_state_data mutex_new_def skeleton_state_default_def reservations_def bt_values_def)

definition order_ops :: "runtime_op list" where
  "order_ops =
     [CreateOp 5000000000 first_request, CreateOp 5000000000 (test_request ''gemma-4:27b'' 1),
      ReleaseOp ''resv-000001'', CreateOp 5000000000 first_request,
      CreateOp 5000000000 (test_request ''gemma-4:27b'' 1)]"

lemma first_ids:
  "reservation_id 1 = ''resv-000001''" "reservation_id 2 = ''resv-000002''" "reservation_id 3 = ''resv-000003''"
  by code_simp+

theorem reservations_in_grant_order_witness:
  "map mr_reservation_id (reservations (snd (runtime_run order_ops (skeleton_new runtime_test_config))))
     = [''resv-000002'', ''resv-000003'']"
proof -
  have "reservations (snd (runtime_run order_ops test_runtime))
      = grant_log order_ops (fst (runtime_run order_ops test_runtime)) []"
    unfolding test_runtime_def
    by (rule reservations_in_grant_order) (simp_all add: order_ops_def del: runtime_run.simps)
  then show ?thesis
    by (simp add: order_ops_def Let_def create_reservation_def trim_alice ensure_model_exists_def runtime_eval
        test_request_def reserved_slots_for_model_def bt_values_def saturating_add_def saturating_sub_def first_ids
        release_reservation_def bt_remove_def runtime_timestamp_secs_def flip: test_runtime_def)
qed

text \<open>
  C23. At the end of the counter's range identifiers repeat.  Once the counter has reached its
  largest value every further grant gets the identifier of that value again; an active
  reservation under it is replaced without having been released, so a consumer that was granted
  slots loses them and the number of active reservations does not grow.
\<close>

theorem saturated_counter_replaces_reservation:
  assumes inv: "runtime_inv a" and sat: "st_next_reservation_id (lock_state a) = - 1"
    and old: "bt_get (st_reservations (lock_state a)) (reservation_id (- 1)) = Some old"
    and c: "create_reservation now req a = (Inr r, a')"
  shows "mr_reservation_id r = mr_reservation_id old
    \<and> (old \<in> set (reservations a') \<longleftrightarrow> old = r)
    \<and> length (reservations a') = length (reservations a)"
proof -
  note g = create_reservation_granted [OF inv c]
  have nxt: "saturating_add (- 1 :: u64) 1 = - 1" by (simp add: saturating_add_eq_self_iff)
  have id: "mr_reservation_id old = reservation_id (- 1)" "mr_reservation_id r = reservation_id (- 1)"
    using runtime_invD(4) [OF inv old] sat nxt by (simp_all add: reservation_ok_def g(2))
  have inv': "runtime_inv a'" using create_reservation_inv [OF inv, of now req] c by simp
  have "bt_get (st_reservations (lock_state a')) (reservation_id (- 1)) = Some r"
    using runtime_invD(2) [OF inv] sat nxt by (simp add: g(2,3) bt.get_ins)
  then have "old \<in> set (reservations a') \<longleftrightarrow> old = r"
    using reservations_by_id [OF inv', of old] id by auto
  moreover have "length (reservations a') = length (reservations a)"
    using bt.length_ins [OF runtime_invD(2) [OF inv], of "reservation_id (- 1)" r] old sat nxt
    by (simp add: reservations_def bt_values_def g(2,3))
  ultimately show ?thesis using id by simp
qed

theorem saturated_counter_replaces_reservation_witness:
  "let (result, a') = create_reservation 5000000000 first_request runtime_at_limit
   in \<not> isl result \<and> last_reservation \<notin> set (reservations a') \<and> length (reservations a') = 1"
proof -
  have g: "grantable first_request runtime_at_limit"
    by (simp add: grantable_def test_request_def runtime_at_limit_def bt_get_def test_models
        qwen_model_def held_def last_reservation_def skeleton_state_default_def trim_alice)
  have old: "bt_get (st_reservations (lock_state runtime_at_limit)) (reservation_id (- 1)) = Some last_reservation"
    and sat: "st_next_reservation_id (lock_state runtime_at_limit) = - 1"
    and len: "length (reservations runtime_at_limit) = 1"
    by (simp_all add: runtime_at_limit_def bt_get_def reservations_def bt_values_def)
  have "granted 5000000000 first_request runtime_at_limit \<noteq> last_reservation"
    by (simp add: granted_def last_reservation_def test_request_def)
  with saturated_counter_replaces_reservation [OF inv_at_limit sat old
      create_reservation_grantable [OF inv_at_limit g, of 5000000000]] len
  show ?thesis by (auto simp: create_reservation_grantable [OF inv_at_limit g] )
qed

end
