(* ===== verification/Gateway_Props.thy ===== *)
theory Gateway_Props
  imports Fixtures
begin

text \<open>
  The properties of the inventory and of the OpenAI-compatible gateway: which models are listed,
  what a completion contains, how its tokens are counted, and that a poisoned lock changes no
  answer.
\<close>

section \<open>Helpers\<close>

lemma sk_models_collect:
  "a = snd (runtime_run ops (skeleton_new cfg)) \<Longrightarrow>
     sk_models a = bt_collect (map (\<lambda>model. (mc_id model, model)) (cfg_models cfg))"
  by (simp add: runtime_run_models skeleton_new_def)

lemma keys_bt_collect: "fst ` set (bt_collect kvs) = fst ` set kvs"
proof (induction kvs rule: rev_induct)
  case Nil
  then show ?case by (simp add: bt_collect_def)
next
  case (snoc e kvs)
  then show ?case by (cases e) (simp add: bt_collect_snoc keys_bt_insert)
qed

lemma local_models_ids:
  assumes "runtime_inv a"
  shows "map lm_id (local_models a) = map fst (sk_models a)"
proof -
  have "mc_id (snd e) = fst e" if "e \<in> set (sk_models a)" for e
    using that runtime_invD(3) [OF assms, of "fst e" "snd e"]
      bt.in_entries [OF runtime_invD(1) [OF assms], of "fst e" "snd e"] by simp
  then show ?thesis
    by (simp add: local_models_def Let_def bt_values_def comp_def inventory_for_model_def)
qed

lemma map_of_rev_SomeD:
  "map_of (rev (map (\<lambda>x. (f x, x)) xs)) k = Some v \<Longrightarrow>
     \<exists>pre post. xs = pre @ v # post \<and> f v = k \<and> k \<notin> f ` set post"
proof (induction xs rule: rev_induct)
  case Nil
  then show ?case by simp
next
  case (snoc x xs)
  show ?case
  proof (cases "f x = k")
    case True
    with snoc.prems have "v = x" by simp
    with True show ?thesis by (intro exI [of _ xs] exI [of _ "[]"]) simp
  next
    case False
    with snoc obtain pre post where "xs = pre @ v # post" "f v = k" "k \<notin> f ` set post" by auto
    with False show ?thesis by (intro exI [of _ pre] exI [of _ "post @ [x]"]) simp
  qed
qed

lemma bracketed_word: "split_whitespace (''['' @ model @ '']'') \<noteq> []"
proof -
  have "hd (chars (''['' @ model @ '']'')) \<in> set (chars (''['' @ model @ '']''))"
    using chars_bracketed(1) [of model] by (rule hd_in_set)
  then have "''['' \<in> set (chars (''['' @ model @ '']''))" by (simp only: chars_bracketed(2))
  then have "\<not> list_all is_whitespace (chars (''['' @ model @ '']''))"
    using bracket_not_whitespace(1) unfolding list_all_iff by blast
  then show ?thesis by (simp only: split_whitespace_eq_Nil trim_eq_Nil not_False_eq_True)
qed

text \<open>The runtime with the poison flag of its lock set, as a panic under the lock leaves it.\<close>

definition poison :: "skeleton_runtime_adapter \<Rightarrow> skeleton_runtime_adapter" where
  "poison a = a\<lparr>sk_state := (sk_state a)\<lparr>mx_poisoned := True\<rparr>\<rparr>"

lemma poison_simps [simp]:
  "lock_state (poison a) = lock_state a"
  "sk_models (poison a) = sk_models a"
  "sk_backend (poison a) = sk_backend a"
  "sk_response_prefix (poison a) = sk_response_prefix a"
  "store_state (poison a) st = poison (store_state a st)"
  by (simp_all add: poison_def lock_state_data store_state_def)

lemma exec_poisoned: "runtime_exec op (poison a) = map_prod id poison (runtime_exec op a)"
proof (cases op)
  case (CreateOp now req)
  then show ?thesis
    by (simp add: create_reservation_def ensure_model_exists_def Let_def split: sum.split)
next
  case (ReleaseOp rid)
  then show ?thesis by (simp add: release_reservation_def Let_def split: option.split)
next
  case (ChatOp now req)
  then show ?thesis
    by (simp add: chat_completion_def ensure_model_exists_def Let_def split: sum.split)
qed

section \<open>The inventory\<close>

text \<open>
  The inventory and the OpenAI model list show every configured model id once, in byte order
  of the ids, whatever the order and the repetitions in the configuration and after any sequence
  of operations.
\<close>

lemma inventory_lists_configured_models:
  assumes "a = snd (runtime_run ops (skeleton_new cfg))"
  shows "map lm_id (local_models a) = sorted_list_of_set (mc_id ` set (cfg_models cfg))
    \<and> map card_id (list_data (openai_models a)) = sorted_list_of_set (mc_id ` set (cfg_models cfg))"
proof -
  have inv: "runtime_inv a" using reachable_inv assms by simp
  have "set (map fst (sk_models a)) = mc_id ` set (cfg_models cfg)"
    unfolding sk_models_collect [OF assms] by (simp add: keys_bt_collect image_image)
  moreover have "sorted_wrt (<) (map fst (sk_models a))"
    using runtime_invD(1) [OF inv] by (simp add: bt_ok_def)
  ultimately have "map fst (sk_models a) = sorted_list_of_set (mc_id ` set (cfg_models cfg))"
    by (metis sorted_list_of_set.idem_if_sorted_distinct strict_sorted_iff)
  then show ?thesis
    using local_models_ids [OF inv] skeleton.openai_ids [of a] by (simp add: skeleton_methods_def)
qed

text \<open>
  When a model id is configured more than once, its last definition is the one in force: every
  inventory entry shows the values of a configured model after which no other has its id.
\<close>

lemma last_model_definition_wins:
  assumes "a = snd (runtime_run ops (skeleton_new cfg))" and "lm \<in> set (local_models a)"
  shows "\<exists>pre model post. cfg_models cfg = pre @ model # post \<and> mc_id model \<notin> mc_id ` set post
    \<and> lm_id lm = mc_id model \<and> lm_family lm = mc_family model
    \<and> lm_total_slots lm = mc_max_parallel_reservations model
    \<and> lm_context_window_tokens lm = mc_context_window_tokens model
    \<and> lm_max_output_tokens lm = mc_max_output_tokens model \<and> lm_tags lm = mc_tags model"
proof -
  have "runtime_inv a" using reachable_inv assms(1) by simp
  with assms(2) obtain model where m: "bt_get (sk_models a) (lm_id lm) = Some model"
    and lm: "lm = inventory_for_model a model (reserved_slots_for_model (lock_state a) (mc_id model))"
    by (auto simp: in_local_models)
  from m obtain pre post where "cfg_models cfg = pre @ model # post" "mc_id model = lm_id lm"
    "lm_id lm \<notin> mc_id ` set post"
    unfolding sk_models_collect [OF assms(1)] bt_get_collect by (auto dest: map_of_rev_SomeD)
  moreover have "lm_family lm = mc_family model \<and> lm_total_slots lm = mc_max_parallel_reservations model
      \<and> lm_context_window_tokens lm = mc_context_window_tokens model
      \<and> lm_max_output_tokens lm = mc_max_output_tokens model \<and> lm_tags lm = mc_tags model"
    using lm by (simp add: inventory_for_model_def)
  ultimately show ?thesis by metis
qed

section \<open>Completions\<close>

text \<open>
  A completion is answered exactly for a known model, without streaming and with at least one
  message, under the next completion identifier; a refusal names the first of the three that fails
  and changes nothing.  In no case does a completion touch the reservations or the inventory.
\<close>

lemma chat_completion_outcome:
  "(let known = (bt_get (sk_models a) (ccr_model req) \<noteq> None); next = saturating_add (st_next_completion_id (lock_state a)) 1 in
    case chat_completion now req a of
      (Inl e, a') \<Rightarrow> a' = a
        \<and> (e = ModelNotFound (ccr_model req) \<longleftrightarrow> \<not> known)
        \<and> (e = UnsupportedFeature ''streaming chat completions are not implemented yet'' \<longleftrightarrow> known \<and> ccr_stream req)
        \<and> (e = InvalidChatRequest ''messages must not be empty'' \<longleftrightarrow> known \<and> \<not> ccr_stream req \<and> ccr_messages req = [])
    | (Inr resp, a') \<Rightarrow> known \<and> \<not> ccr_stream req \<and> ccr_messages req \<noteq> []
        \<and> cc_id resp = completion_id next \<and> st_next_completion_id (lock_state a') = next)
   \<and> reservations (snd (chat_completion now req a)) = reservations a
   \<and> local_models (snd (chat_completion now req a)) = local_models a"
proof (intro conjI)
  show "reservations (snd (chat_completion now req a)) = reservations a"
    using skeleton.chat_reservations [of now req a] by (simp add: skeleton_methods_def)
  show "local_models (snd (chat_completion now req a)) = local_models a"
    by (simp add: chat_completion_state local_models_def Let_def inventory_for_model_def reserved_slots_for_model_def)
qed (cases "bt_get (sk_models a) (ccr_model req)";
     simp add: chat_completion_def ensure_model_exists_def Let_def)

text \<open>
  C28. The answer to a completion request names the requested model and has one finished choice of
  the assistant: the configured prefix without leading white space, the model in brackets and,
  unless it is blank, the prompt without the white space around it.
\<close>

theorem chat_completion_content:
  assumes "runtime_inv a" and "chat_completion now req a = (Inr resp, a')"
  shows "cc_model resp = ccr_model req \<and> cc_object resp = ''chat.completion''
    \<and> (let prompt = trim (select_prompt (ccr_messages req)) in
       cc_choices resp =
         [\<lparr>ch_index = 0,
           ch_message = \<lparr>msg_role = ''assistant'',
             msg_content = trim_start (sk_response_prefix a @ '' '') @ ''['' @ ccr_model req @ '']''
               @ (if prompt = [] then [] else CHR '' '' # prompt)\<rparr>,
           ch_finish_reason = ''stop''\<rparr>])"
proof -
  from assms(2) obtain model where m: "bt_get (sk_models a) (ccr_model req) = Some model"
    by (auto simp: chat_completion_def ensure_model_exists_def ok_or_def split: option.splits)
  have "mc_id model = ccr_model req" using runtime_invD(3) [OF assms(1) m] .
  with m assms(2) show ?thesis
    by (auto simp: chat_completion_def ensure_model_exists_def Let_def completion_text_shape
        split: if_splits)
qed

definition user_message :: "string \<Rightarrow> openai_chat_message" where
  "user_message s = \<lparr>msg_role = ''user'', msg_content = s\<rparr>"

definition test_chat :: "openai_chat_message list \<Rightarrow> openai_chat_completion_request" where
  "test_chat ms =
     \<lparr>ccr_model = ''gemma-4:27b'', ccr_messages = ms, ccr_stream = False, ccr_max_tokens = None,
      ccr_temperature = None\<rparr>"

lemma test_chat_Inr:
  assumes "ms \<noteq> []"
  shows "chat_completion now (test_chat ms) test_runtime =
    (Inr (projr (fst (chat_completion now (test_chat ms) test_runtime))),
     snd (chat_completion now (test_chat ms) test_runtime))"
  using assms
  by (simp add: chat_completion_def ensure_model_exists_def Let_def test_chat_def bt_get_def test_models)

theorem chat_completion_content_witness:
  "map (msg_content \<circ> ch_message)
     (cc_choices (projr (fst (chat_completion 0 (test_chat [user_message ''hello'']) test_runtime))))
   = [''x0x-compute skeleton response [gemma-4:27b] hello'']"
proof -
  have hello: "trim ''hello'' = ''hello''"
    by (simp add: trim_def trim_chars_def is_lead_def is_whitespace_def white_space_def)
  have prefix: "trim_start ''x0x-compute skeleton response '' = ''x0x-compute skeleton response ''"
    by (simp add: trim_start_def is_lead_def is_whitespace_def white_space_def)
  have p: "sk_response_prefix test_runtime = ''x0x-compute skeleton response''"
    by (simp add: test_runtime_def skeleton_new_def runtime_test_config_def default_runtime_config_def)
  from chat_completion_content [OF test_inv test_chat_Inr, of "[user_message ''hello'']" 0] show ?thesis
    by (simp add: Let_def test_chat_def user_message_def select_prompt_def hello prefix p)
qed

text \<open>
  The prompt is the content of the last message with the role \<open>user\<close>; without any such
  message it is the content of the last message of all.
\<close>

lemma prompt_is_last_user_message:
  assumes "(msg_role m = ''user'' \<and> (\<forall>q \<in> set post. msg_role q \<noteq> ''user''))
    \<or> (post = [] \<and> (\<forall>q \<in> set (pre @ [m]). msg_role q \<noteq> ''user''))"
  shows "select_prompt (pre @ m # post) = msg_content m"
proof -
  have skip: "List.find (\<lambda>q. msg_role q = ''user'') (xs @ ys) = List.find (\<lambda>q. msg_role q = ''user'') ys"
    if "\<forall>q \<in> set xs. msg_role q \<noteq> ''user''" for xs ys using that by (induction xs) auto
  have none: "List.find (\<lambda>q. msg_role q = ''user'') xs = None"
    if "\<forall>q \<in> set xs. msg_role q \<noteq> ''user''" for xs using that by (simp add: find_None_iff)
  from assms show ?thesis
  proof
    assume "msg_role m = ''user'' \<and> (\<forall>q \<in> set post. msg_role q \<noteq> ''user'')"
    then show ?thesis by (simp add: select_prompt_def skip)
  next
    assume "post = [] \<and> (\<forall>q \<in> set (pre @ [m]). msg_role q \<noteq> ''user'')"
    then show ?thesis by (cases pre) (simp_all add: select_prompt_def skip none)
  qed
qed

text \<open>
  C27. The usage of a completion counts words: those of all messages of the request, at least one,
  those of the answer, which are the words of the prefix, of the bracketed model and of the
  prompt, and their sum; a count that does not fit 32 bits is cut off at the maximum.
\<close>

theorem chat_completion_usage:
  assumes "runtime_inv a" and "chat_completion now req a = (Inr resp, a')"
  shows "let words = \<lambda>s. length (split_whitespace s); u = cc_usage resp; top = 2 ^ 32 - 1;
      prompt = sum_list (map (\<lambda>m. words (msg_content m)) (ccr_messages req));
      answer = words (sk_response_prefix a) + words (''['' @ ccr_model req @ '']'')
        + words (select_prompt (ccr_messages req))
    in unat (us_prompt_tokens u) = min (max prompt 1) top
       \<and> unat (us_completion_tokens u) = min answer top
       \<and> unat (us_total_tokens u) = min (min (max prompt 1) top + min answer top) top"
proof -
  from assms(2) obtain model where m: "bt_get (sk_models a) (ccr_model req) = Some model"
    by (auto simp: chat_completion_def ensure_model_exists_def ok_or_def split: option.splits)
  have id: "mc_id model = ccr_model req" using runtime_invD(3) [OF assms(1) m] .
  have u: "cc_usage resp =
      (let p = estimated_tokens (str_join '' '' (map msg_content (ccr_messages req)));
           c = estimated_tokens (completion_text (sk_response_prefix a) (ccr_model req) (select_prompt (ccr_messages req)))
       in \<lparr>us_prompt_tokens = p, us_completion_tokens = c, us_total_tokens = saturating_add p c\<rparr>)"
    using m assms(2) by (auto simp: id chat_completion_def ensure_model_exists_def Let_def split: if_splits)
  have "max (x + length (split_whitespace (''['' @ ccr_model req @ '']'')) + y) 1
      = x + length (split_whitespace (''['' @ ccr_model req @ '']'')) + y" for x y
    using bracketed_word [of "ccr_model req", folded length_greater_0_conv] by linarith
  then have c: "length (split_whitespace (completion_text (sk_response_prefix a) (ccr_model req) (select_prompt (ccr_messages req))))
      = length (split_whitespace (sk_response_prefix a)) + length (split_whitespace (''['' @ ccr_model req @ '']''))
        + length (split_whitespace (select_prompt (ccr_messages req)))"
    and mx: "max (length (split_whitespace (completion_text (sk_response_prefix a) (ccr_model req) (select_prompt (ccr_messages req))))) 1
      = length (split_whitespace (completion_text (sk_response_prefix a) (ccr_model req) (select_prompt (ccr_messages req))))"
    by (simp_all only: completion_text_words length_append add.assoc)
  have p: "length (split_whitespace (str_join '' '' (map msg_content (ccr_messages req))))
      = sum_list (map (\<lambda>m. length (split_whitespace (msg_content m))) (ccr_messages req))"
    by (simp only: split_whitespace_join length_concat map_map comp_def)
  show ?thesis
    unfolding Let_def u
    by (simp only: openai_usage.simps unat_saturating_add estimated_tokens_def unat_u32_try_from_or_max mx p)
      (simp add: c)
qed

theorem chat_completion_usage_witness:
  "unat (us_prompt_tokens (cc_usage (projr (fst
      (chat_completion 0 (test_chat [user_message ''hi'', user_message '''']) test_runtime))))) = 1"
proof -
  have w: "length (split_whitespace ''hi'') = 1" "length (split_whitespace []) = 0"
    by (simp_all add: split_whitespace_def is_lead_def is_whitespace_def white_space_def)
  from chat_completion_usage [OF test_inv test_chat_Inr, of "[user_message ''hi'', user_message '''']" 0] w
  show ?thesis by (simp add: Let_def test_chat_def user_message_def)
qed

section \<open>Poisoning\<close>

text \<open>
  A poisoned lock is harmless: with the poison flag set, every sequence of operations gives
  the same answers and the same state as without it, and the views show the same.
\<close>

lemma poisoned_lock_is_harmless:
  "runtime_run ops (poison a) = map_prod id poison (runtime_run ops a)
   \<and> reservations (poison a) = reservations a \<and> local_models (poison a) = local_models a"
proof (intro conjI)
  show "runtime_run ops (poison a) = map_prod id poison (runtime_run ops a)"
    by (induction ops arbitrary: a) (simp_all add: exec_poisoned split_beta map_prod_def)
qed (simp_all add: reservations_def local_models_def inventory_for_model_def)

end
