(* ===== verification/Mesh_Props.thy ===== *)
theory Mesh_Props
  imports Fixtures
begin

text \<open>
  The properties of the peer registry: which messages are admitted, that nobody can speak for
  another agent, the registry as the summary of the admitted announcements, what every record
  satisfies, and how time and the order of messages matter.
\<close>

section \<open>Inputs of the witnesses\<close>

definition test_caps :: "capability_announcement list" where
  "test_caps =
     [capability_for hex_executable (test_agent 1) (test_machine 11) ''friends'' [''qwen3.5:32b''],
      capability_for hex_executable (test_agent 2) (test_machine 12) ''friends'' []]"

abbreviation test_X :: "test_store mesh_externals" where
  "test_X \<equiv> test_externals test_caps"

definition trusted_both :: test_store where
  "trusted_both = [(test_agent 1, Accept), (test_agent 2, Accept)]"

definition event_from :: "u8 \<Rightarrow> test_store \<Rightarrow> system_time \<Rightarrow> test_store gossip_event" where
  "event_from a store now =
     \<lparr>ge_message = test_message (test_agent a) (a - 1), ge_contacts = store, ge_now = now\<rparr>"

lemma event_from_simps [simp]:
  "ge_message (event_from a store now) = test_message (test_agent a) (a - 1)"
  "ge_contacts (event_from a store now) = store" "ge_now (event_from a store now) = now"
  by (simp_all add: event_from_def)

lemma test_agent_inject [simp]: "test_agent a = test_agent b \<longleftrightarrow> a = b"
  by (simp add: test_agent_def)

lemma admission_1:
  "admission test_X test_mesh_config test_me trusted_both (test_message (test_agent 1) 0) = Some (test_caps ! 0, Accept)"
  by (subst admission_test [where m = 11 and ms = "[''qwen3.5:32b'']"])
    (simp_all add: test_caps_def trusted_both_def)

lemma admission_2:
  "admission test_X test_mesh_config test_me trusted_both (test_message (test_agent 2) 1) = Some (test_caps ! 1, Accept)"
  by (subst admission_test [where m = 12 and ms = "[]"]) (simp_all add: test_caps_def trusted_both_def)

lemma admission_blocked:
  "admission test_X test_mesh_config test_me [(test_agent 1, RejectBlocked)] (test_message (test_agent 1) 0) = None"
  by (simp add: admission_def test_caps_def)

lemma test_caps_ids [simp]:
  "ais_agent_id (cap_identity (test_caps ! 0)) = encode_agent_id hex_executable (test_agent 1)"
  "ais_agent_id (cap_identity (test_caps ! Suc 0)) = encode_agent_id hex_executable (test_agent 2)"
  by (simp_all add: test_caps_def)

text \<open>The registry after one announcement of the first test agent.\<close>

definition registry_1 :: trusted_peer_registry where
  "registry_1 = subscription_loop test_X test_mesh_config test_me [event_from 1 trusted_both 5000000000] registry_new"

lemma mesh_timestamp_5: "mesh_timestamp_secs 5000000000 = 5"
  by (simp add: mesh_timestamp_secs_def secs_since_epoch_def)

lemma registry_1_eq:
  "registry_1 = \<lparr>reg_peers = [(encode_agent_id hex_executable (test_agent 1),
     \<lparr>pr_capability = test_caps ! 0, pr_trust_decision = Accept,
      pr_first_seen_unix_secs = 5, pr_last_seen_unix_secs = 5\<rparr>)]\<rparr>"
  by (simp add: registry_1_def apply_message_admitted [OF admission_1] record_peer_def Let_def
      registry_new_def bt_get_def mesh_timestamp_5)

text \<open>The registry after the same announcement at two times.\<close>

definition registry_twice :: trusted_peer_registry where
  "registry_twice = subscription_loop test_X test_mesh_config test_me
     [event_from 1 trusted_both 5000000000, event_from 1 trusted_both 9000000000] registry_new"

lemma registry_twice_eq:
  "registry_twice = \<lparr>reg_peers = [(encode_agent_id hex_executable (test_agent 1),
     \<lparr>pr_capability = test_caps ! 0, pr_trust_decision = Accept,
      pr_first_seen_unix_secs = 5, pr_last_seen_unix_secs = 9\<rparr>)]\<rparr>"
  by (simp add: registry_twice_def apply_message_admitted [OF admission_1] record_peer_def Let_def
      registry_new_def bt_get_def mesh_timestamp_secs_def secs_since_epoch_def)

text \<open>An announcement that spells its machine id in capital letters, and its registry.\<close>

definition shout_cap :: capability_announcement where
  "shout_cap = (capability_for hex_executable (test_agent 1) (test_machine 11) ''friends'' [])
     \<lparr>cap_identity := \<lparr>ais_machine_id = concat (replicate 32 ''AB''),
        ais_agent_id = encode_agent_id hex_executable (test_agent 1), ais_user_id = None\<rparr>\<rparr>"

definition shout_record :: peer_capability_record where
  "shout_record = \<lparr>pr_capability = shout_cap, pr_trust_decision = Accept,
     pr_first_seen_unix_secs = 5, pr_last_seen_unix_secs = 5\<rparr>"

definition registry_shout :: trusted_peer_registry where
  "registry_shout = subscription_loop (test_externals [shout_cap]) test_mesh_config test_me
     [event_from 1 trusted_both 5000000000] registry_new"

lemma decode_shout: "hex_decode_bytes (concat (replicate n ''AB'')) = Inr (replicate n 0xAB)"
  by (induction n) (simp_all add: hex_nibble_def)

lemma parse_shout:
  "parse_machine_id_hex hex_executable (concat (replicate 32 ''AB'')) = Inr (MachineId (replicate 32 0xAB))"
  unfolding parse_machine_id_Inr by (simp only: hex_executable_def hex_codec.simps decode_shout) simp

lemma admission_shout:
  "admission (test_externals [shout_cap]) test_mesh_config test_me trusted_both (test_message (test_agent 1) 0)
     = Some (shout_cap, Accept)"
  by (simp add: admission_def shout_cap_def parse_shout trusted_both_def del: replicate.simps)

lemma registry_shout_eq:
  "registry_shout = \<lparr>reg_peers = [(encode_agent_id hex_executable (test_agent 1), shout_record)]\<rparr>"
  by (simp add: registry_shout_def apply_message_admitted [OF admission_shout] record_peer_def Let_def
      registry_new_def bt_get_def mesh_timestamp_5 shout_record_def) (simp add: shout_cap_def)

section \<open>One message\<close>

text \<open>
  C19. The decision about one message does not depend on the order of the nine checks.  A message
  is admitted when all of them hold; then the registry holds for its sender exactly the announced
  capability, the trust decision and the time of the message as the last sighting, with the first
  sighting of the record that was there or else the same time, it is reported as a new peer
  exactly when there was no record, and no other entry changes.  A message that is not admitted
  is reported as ignored or rejected and leaves the registry as it was.
\<close>

theorem apply_message_decides:
  assumes "bt_ok (reg_peers r)" and "apply_message X now cfg me contacts m r = (disposition, r')"
  shows "case admission X cfg me contacts m of
      None \<Rightarrow> disposition \<noteq> AcceptedNewPeer \<and> disposition \<noteq> UpdatedPeer \<and> r' = r
    | Some (cap, d) \<Rightarrow>
        let k = ais_agent_id (cap_identity cap); t = mesh_timestamp_secs now; old = bt_get (reg_peers r) k in
        disposition = (if old = None then AcceptedNewPeer else UpdatedPeer)
        \<and> bt_get (reg_peers r') k = Some
            \<lparr>pr_capability = cap, pr_trust_decision = d,
             pr_first_seen_unix_secs = (case old of Some p \<Rightarrow> pr_first_seen_unix_secs p | None \<Rightarrow> t),
             pr_last_seen_unix_secs = t\<rparr>
        \<and> (\<forall>j. j \<noteq> k \<longrightarrow> bt_get (reg_peers r') j = bt_get (reg_peers r) j)"
proof (cases "admission X cfg me contacts m")
  case None
  then show ?thesis using apply_message_not_admitted [OF None, of now r] assms(2) by (simp add: writes_def)
next
  case (Some a)
  obtain cap d where a: "a = (cap, d)" by (cases a)
  have r': "r' = snd (apply_message X now cfg me contacts m r)" using assms(2) by simp
  have "disposition = fst (record_peer cap d (mesh_timestamp_secs now) r)"
    using assms(2) Some a by (simp add: apply_message_admitted)
  then show ?thesis
    using apply_message_get [OF assms(1), of X now cfg me contacts m]
    by (auto simp: Some a r' record_peer_def Let_def split: option.split)
qed

theorem apply_message_decides_witness:
  "bt_get (reg_peers registry_1) (encode_agent_id hex_executable (test_agent 1)) = Some
     \<lparr>pr_capability = test_caps ! 0, pr_trust_decision = Accept, pr_first_seen_unix_secs = 5,
      pr_last_seen_unix_secs = 5\<rparr>"
  using apply_message_decides [OF _ surjective_pairing, of registry_new test_X 5000000000 test_mesh_config test_me trusted_both
      "test_message (test_agent 1) 0"]
  by (simp add: admission_1 registry_new_def bt.get_empty registry_1_def Let_def mesh_timestamp_5)

text \<open>
  C6. Nobody speaks for another agent: when a message changes what the registry holds for a peer,
  the message was verified, its sender is that peer and not this node, the announcement names the
  sender as its agent, and the trust evaluation of that agent and machine allows it.
\<close>

theorem only_the_peer_changes_its_record:
  assumes "bt_ok (reg_peers r)"
    and "bt_get (reg_peers (snd (apply_message X now cfg me contacts m r))) k \<noteq> bt_get (reg_peers r) k"
  shows "\<exists>s cap mid. ps_sender m = Some s \<and> ps_verified m \<and> encode_agent_id X s = k \<and> k \<noteq> me
    \<and> json_from_slice X (ps_payload m) = Inr cap \<and> ais_agent_id (cap_identity cap) = k
    \<and> parse_machine_id_hex X (ais_machine_id (cap_identity cap)) = Inr mid
    \<and> allows_peer cfg (trust_evaluate X contacts s mid)"
proof -
  from assms obtain cap d where a: "admission X cfg me contacts m = Some (cap, d)"
    and k: "ais_agent_id (cap_identity cap) = k"
    by (auto simp: apply_message_get split: option.splits if_splits)
  from a show ?thesis by (rule admission_SomeE) (use k in auto)
qed

theorem only_the_peer_changes_its_record_witness:
  "\<exists>s. ps_sender (test_message (test_agent 1) 0) = Some s
     \<and> encode_agent_id test_X s = encode_agent_id hex_executable (test_agent 1)"
proof -
  have "bt_get (reg_peers registry_1) (encode_agent_id hex_executable (test_agent 1))
      \<noteq> bt_get (reg_peers registry_new) (encode_agent_id hex_executable (test_agent 1))"
    by (simp add: registry_1_eq registry_new_def bt_get_def)
  then have "bt_get (reg_peers (snd (apply_message test_X 5000000000 test_mesh_config test_me trusted_both
        (test_message (test_agent 1) 0) registry_new))) (encode_agent_id hex_executable (test_agent 1))
      \<noteq> bt_get (reg_peers registry_new) (encode_agent_id hex_executable (test_agent 1))"
    by (simp add: registry_1_def)
  from only_the_peer_changes_its_record [OF _ this] show ?thesis
    by (auto simp: registry_new_def)
qed

section \<open>The registry after a run\<close>

text \<open>
  C5. After any run of the subscription loop from the empty registry, the record of a peer is the
  summary of its admitted announcements: the capability and the trust decision of the last one,
  first seen at the time of the first and last seen at the time of the last; a peer without an
  admitted announcement has no record.
\<close>

theorem registry_is_summary_of_admissions:
  "bt_get (reg_peers (subscription_loop X cfg me es registry_new)) k = summary (peer_history X cfg me es k)"
  using subscription_loop_get [of registry_new X cfg me es k]
  by (simp add: registry_new_def bt.get_empty fold_refresh_summary)

text \<open>
  C20. Every record the registry ever shows belongs to another agent of the configured mesh, speaks
  the supported protocol version, names a well-formed machine and carries a trust decision the
  policy allows.
\<close>

theorem snapshot_records_are_admissible:
  assumes "p \<in> set (registry_snapshot (subscription_loop X cfg me es registry_new))"
  shows "let cap = pr_capability p; k = ais_agent_id (cap_identity cap) in
    k \<noteq> me \<and> (\<exists>a. k = encode_agent_id X a)
    \<and> cap_protocol_version cap = PROTOCOL_VERSION
    \<and> pol_mesh_name (cap_policy cap) = mesh_name (cfg_mesh cfg)
    \<and> (\<exists>mid. parse_machine_id_hex X (ais_machine_id (cap_identity cap)) = Inr mid)
    \<and> allows_peer cfg (pr_trust_decision p)"
proof -
  have inv: "registry_inv X cfg me (subscription_loop X cfg me es registry_new)"
    by (rule subscription_loop_inv [OF registry_inv_new])
  then obtain k where "bt_get (reg_peers (subscription_loop X cfg me es registry_new)) k = Some p"
    using assms by (auto simp: registry_snapshot_def registry_inv_def in_bt_values)
  with inv have "peer_ok X cfg me k p" by (simp add: registry_inv_def)
  then show ?thesis by (simp add: peer_ok_def Let_def)
qed

theorem snapshot_records_are_admissible_witness:
  "ais_agent_id (cap_identity (test_caps ! 0)) \<noteq> test_me \<and> cap_protocol_version (test_caps ! 0) = PROTOCOL_VERSION"
proof -
  have "\<lparr>pr_capability = test_caps ! 0, pr_trust_decision = Accept, pr_first_seen_unix_secs = 5,
      pr_last_seen_unix_secs = 5\<rparr> \<in> set (registry_snapshot registry_1)"
    by (simp add: registry_1_eq registry_snapshot_def bt_values_def)
  from snapshot_records_are_admissible [OF this [unfolded registry_1_def]] show ?thesis
    by (simp add: Let_def)
qed

text \<open>
  C21. Under the strict policy, trusted friends only or trusted contacts required, every record was
  admitted with the decision to accept; a flagged acceptance is recorded only when both switches
  are off.
\<close>

theorem strict_policy_records_only_accepted:
  assumes "mesh_trusted_friends_only (cfg_mesh cfg) \<or> mesh_require_trusted_contacts (cfg_mesh cfg)"
    and "p \<in> set (registry_snapshot (subscription_loop X cfg me es registry_new))"
  shows "pr_trust_decision p = Accept"
proof -
  have inv: "registry_inv X cfg me (subscription_loop X cfg me es registry_new)"
    by (rule subscription_loop_inv [OF registry_inv_new])
  then obtain k where "bt_get (reg_peers (subscription_loop X cfg me es registry_new)) k = Some p"
    using assms(2) by (auto simp: registry_snapshot_def registry_inv_def in_bt_values)
  with inv have "allows_peer cfg (pr_trust_decision p)" by (auto simp: registry_inv_def peer_ok_def)
  with assms(1) show ?thesis by (cases "pr_trust_decision p") auto
qed

theorem strict_policy_records_only_accepted_witness:
  "pr_trust_decision (hd (registry_snapshot registry_1)) = Accept"
proof -
  have "mesh_trusted_friends_only (cfg_mesh test_mesh_config)"
    by (simp add: test_mesh_config_def default_compute_config_def default_mesh_config_def)
  moreover have "hd (registry_snapshot registry_1) \<in> set (registry_snapshot registry_1)"
    by (simp add: registry_1_eq registry_snapshot_def bt_values_def)
  ultimately show ?thesis
    unfolding registry_1_def by (intro strict_policy_records_only_accepted [OF disjI1])
qed

text \<open>
  The snapshot lists every peer once, in byte order of the agent ids, and the two size queries
  agree with it.
\<close>

lemma snapshot_is_ordered_and_counted:
  assumes "r = subscription_loop X cfg me es registry_new"
  shows "sorted_wrt (<) (map (\<lambda>p. ais_agent_id (cap_identity (pr_capability p))) (registry_snapshot r))
    \<and> length (registry_snapshot r) = registry_len r
    \<and> (registry_is_empty r \<longleftrightarrow> registry_len r = 0)"
proof -
  have inv: "registry_inv X cfg me r" unfolding assms by (rule subscription_loop_inv [OF registry_inv_new])
  then have ok: "bt_ok (reg_peers r)" by (simp add: registry_inv_def)
  have "ais_agent_id (cap_identity (pr_capability (snd e))) = fst e" if "e \<in> set (reg_peers r)" for e
    using that inv bt.in_entries [OF ok, of "fst e" "snd e"] by (auto simp: registry_inv_def peer_ok_def)
  then have "map (\<lambda>p. ais_agent_id (cap_identity (pr_capability p))) (registry_snapshot r) = map fst (reg_peers r)"
    by (simp add: registry_snapshot_def bt_values_def)
  with ok have "sorted_wrt (<) (map (\<lambda>p. ais_agent_id (cap_identity (pr_capability p))) (registry_snapshot r))"
    by (simp only: bt_ok_def)
  then show ?thesis by (simp add: registry_snapshot_def bt_values_def registry_len_def registry_is_empty_def)
qed

section \<open>Order and time\<close>

text \<open>
  C15. The registry depends on the order of the messages of each single sender only: two runs of
  the subscription loop over messages that agree sender by sender, in the order of each sender,
  end in the same registry, however the senders interleave and wherever messages without a
  sender stand.
\<close>

theorem registry_depends_on_sender_order_only:
  assumes "bt_ok (reg_peers r)"
    and "\<And>k. filter (\<lambda>e. sender_hex X (ge_message e) = Some k) es
             = filter (\<lambda>e. sender_hex X (ge_message e) = Some k) fs"
  shows "subscription_loop X cfg me es r = subscription_loop X cfg me fs r"
  using assms by (intro subscription_loop_eqI) (metis peer_history_filter)+

theorem registry_depends_on_sender_order_only_witness:
  "subscription_loop test_X test_mesh_config test_me
     [event_from 1 trusted_both 5000000000, event_from 2 trusted_both 6000000000,
      event_from 1 trusted_both 9000000000] registry_new
   = subscription_loop test_X test_mesh_config test_me
     [event_from 2 trusted_both 6000000000, event_from 1 trusted_both 5000000000,
      event_from 1 trusted_both 9000000000] registry_new"
  by (rule registry_depends_on_sender_order_only) (auto simp: registry_new_def sender_hex_def)

text \<open>Two neighbouring messages of different senders commute.\<close>

lemma messages_of_different_senders_commute:
  assumes "bt_ok (reg_peers r)"
    and "\<And>s t. ps_sender (ge_message e) = Some s \<Longrightarrow> ps_sender (ge_message f) = Some t \<Longrightarrow>
           encode_agent_id X s \<noteq> encode_agent_id X t"
  shows "subscription_loop X cfg me (e # f # es) r = subscription_loop X cfg me (f # e # es) r"
proof (rule subscription_loop_eqI [OF assms(1)])
  fix k
  have "sender_hex X (ge_message e) \<noteq> Some k \<or> sender_hex X (ge_message f) \<noteq> Some k"
    using assms(2) by (auto simp: sender_hex_def)
  then show "peer_history X cfg me (e # f # es) k = peer_history X cfg me (f # e # es) k"
    by (subst (1 2) peer_history_filter [symmetric]) auto
qed

text \<open>
  C16. Termination of the receiving loop: it returns exactly when the subscription ends at some
  point, whatever it receives, and then with the registry to which the messages before that
  point lead; while the subscription goes on it does not return.
\<close>

theorem receive_loop_ends_with_the_subscription:
  "receive_loop X cfg me recv 0 r =
     (if \<exists>n. recv n = None
      then Some (subscription_loop X cfg me (map (\<lambda>i. the (recv i)) [0..<LEAST n. recv n = None]) r)
      else None)"
proof (cases "\<exists>n. recv n = None")
  case True
  then have "recv (LEAST n. recv n = None) = None" by (rule LeastI_ex)
  moreover have "recv i \<noteq> None" if "i < (LEAST n. recv n = None)" for i
    using not_less_Least [OF that] .
  ultimately have "receive_loop X cfg me recv 0 r = Some (subscription_loop X cfg me
      (map (\<lambda>i. the (recv i)) [0..<LEAST n. recv n = None]) r)"
    by (rule receive_loop_closed)
  with True show ?thesis by (simp only: if_True)
next
  case False
  then have "receive_loop X cfg me recv 0 r = None"
    using receive_loop_returns [of X cfg me recv 0 r] by (cases "receive_loop X cfg me recv 0 r") fastforce+
  with False show ?thesis by (simp only: if_False)
qed

text \<open>
  C29. With a clock that does not run backwards, no record was first seen after it was last seen.
\<close>

theorem first_seen_before_last_seen:
  assumes "sorted_wrt (\<le>) (map ge_now es)" and "\<forall>e \<in> set es. clock_range (ge_now e)"
    and "p \<in> set (registry_snapshot (subscription_loop X cfg me es registry_new))"
  shows "pr_first_seen_unix_secs p \<le> pr_last_seen_unix_secs p"
proof -
  have mono: "mesh_timestamp_secs s \<le> mesh_timestamp_secs t" if "s \<le> t" "clock_range t" for s t
    using secs_since_epoch_mono [of s t] that
    by (auto simp: mesh_timestamp_secs_def split: option.split)
      (simp add: secs_since_epoch_def split: if_splits)
  have in_hist: "\<exists>e \<in> set xs. t = mesh_timestamp_secs (ge_now e)" if "t \<in> snd ` set (peer_history X cfg me xs k)"
    for t xs k using that by (induction xs) (auto split: option.splits if_splits)
  have sorted: "sorted_wrt (\<le>) (map snd (peer_history X cfg me xs k))"
    if "sorted_wrt (\<le>) (map ge_now xs)" "\<forall>e \<in> set xs. clock_range (ge_now e)" for xs k
    using that
  proof (induction xs)
    case Nil
    then show ?case by simp
  next
    case (Cons x xs)
    have "mesh_timestamp_secs (ge_now x) \<le> t" if "t \<in> snd ` set (peer_history X cfg me xs k)" for t
      using in_hist [OF that] Cons.prems mono by auto
    with Cons show ?case by (auto split: option.split)
  qed
  let ?r = "subscription_loop X cfg me es registry_new"
  have "bt_ok (reg_peers ?r)"
    using subscription_loop_inv [OF registry_inv_new, of X cfg me es] by (simp add: registry_inv_def)
  then obtain k where "bt_get (reg_peers ?r) k = Some p"
    using assms(3) by (auto simp: registry_snapshot_def in_bt_values)
  moreover have "bt_get (reg_peers ?r) k = summary (peer_history X cfg me es k)"
    using subscription_loop_get [of registry_new X cfg me es k]
    by (simp add: registry_new_def bt.get_empty fold_refresh_summary)
  ultimately have h: "summary (peer_history X cfg me es k) = Some p" by simp
  have "snd (hd h) \<le> snd (last h)" if "sorted_wrt (\<le>) (map snd h)" "h \<noteq> []"
    for h :: "((capability_announcement \<times> trust_decision) \<times> u64) list"
    using that by (cases h) auto
  with sorted [OF assms(1,2), of k] h show ?thesis
    by (auto simp: summary_def split: if_splits)
qed

theorem first_seen_before_last_seen_witness:
  "pr_first_seen_unix_secs (hd (registry_snapshot registry_twice)) \<le> pr_last_seen_unix_secs (hd (registry_snapshot registry_twice))
   \<and> map pr_last_seen_unix_secs (registry_snapshot registry_twice) = [9]"
proof
  have p: "hd (registry_snapshot registry_twice) \<in> set (registry_snapshot registry_twice)"
    by (simp add: registry_twice_eq registry_snapshot_def bt_values_def)
  show "pr_first_seen_unix_secs (hd (registry_snapshot registry_twice)) \<le> pr_last_seen_unix_secs (hd (registry_snapshot registry_twice))"
    by (rule first_seen_before_last_seen [OF _ _ p [unfolded registry_twice_def], folded registry_twice_def])
      (simp_all add: clock_range_def)
qed (simp add: registry_twice_eq registry_snapshot_def bt_values_def)

text \<open>
  C30. A record never leaves the registry and keeps its first sighting.  Once a peer has been
  admitted, a later message that is refused, also because the contact was blocked in the
  meantime, leaves its record exactly as it was.
\<close>

theorem admitted_peers_stay:
  assumes "bt_ok (reg_peers r)" and "bt_get (reg_peers r) k = Some p"
  shows "\<exists>q. bt_get (reg_peers (subscription_loop X cfg me es r)) k = Some q
    \<and> pr_first_seen_unix_secs q = pr_first_seen_unix_secs p
    \<and> (peer_history X cfg me es k = [] \<longrightarrow> q = p)"
proof (cases "peer_history X cfg me es k = []")
  case True
  with assms show ?thesis by (simp add: subscription_loop_get)
next
  case False
  with assms show ?thesis by (simp add: subscription_loop_get fold_refresh_Some)
qed

theorem admitted_peers_stay_witness:
  "fst (apply_message test_X 9000000000 test_mesh_config test_me [(test_agent 1, RejectBlocked)]
      (test_message (test_agent 1) 0) registry_1) = RejectedTrust RejectBlocked
   \<and> bt_get (reg_peers (subscription_loop test_X test_mesh_config test_me
        [event_from 1 [(test_agent 1, RejectBlocked)] 9000000000] registry_1))
       (encode_agent_id hex_executable (test_agent 1)) = Some (snd (hd (reg_peers registry_1)))"
proof
  show "fst (apply_message test_X 9000000000 test_mesh_config test_me [(test_agent 1, RejectBlocked)]
      (test_message (test_agent 1) 0) registry_1) = RejectedTrust RejectBlocked"
    by (simp add: apply_message_def Let_def test_caps_def)
  have "bt_ok (reg_peers registry_1)"
    "bt_get (reg_peers registry_1) (encode_agent_id hex_executable (test_agent 1)) = Some (snd (hd (reg_peers registry_1)))"
    by (simp_all add: registry_1_eq bt_ok_def bt_get_def)
  from admitted_peers_stay [OF this, of test_X test_mesh_config test_me
      "[event_from 1 [(test_agent 1, RejectBlocked)] 9000000000]"]
  show "bt_get (reg_peers (subscription_loop test_X test_mesh_config test_me
        [event_from 1 [(test_agent 1, RejectBlocked)] 9000000000] registry_1))
       (encode_agent_id hex_executable (test_agent 1)) = Some (snd (hd (reg_peers registry_1)))"
    by (simp add: admission_blocked)
qed

text \<open>
  C31. Identifiers in the registry: with a hex codec that keeps its contract, the agent id of every
  record is the lowercase encoding of an agent, and its machine id spells the 32 bytes of a
  machine up to the case of the letters only.  Both are stored as the peer wrote them: the record
  shows, unchanged, the announcement that was decoded from a received message of that agent.
\<close>

theorem registry_identifiers:
  assumes "hex_contract (hex_encode X) (hex_decode X)"
    and "p \<in> set (registry_snapshot (subscription_loop X cfg me es registry_new))"
  shows "is_lower_hex (ais_agent_id (cap_identity (pr_capability p)))
    \<and> (\<exists>mid. length (machine_bytes mid) = 32
         \<and> map ascii_lower (ais_machine_id (cap_identity (pr_capability p))) = encode_machine_id X mid)
    \<and> (\<exists>e \<in> set es. \<exists>a. ps_sender (ge_message e) = Some a
         \<and> ais_agent_id (cap_identity (pr_capability p)) = encode_agent_id X a
         \<and> json_from_slice X (ps_payload (ge_message e)) = Inr (pr_capability p))"
proof -
  from snapshot_received [OF assms(2)] obtain e where e: "e \<in> set es"
    and "admission X cfg me (ge_contacts e) (ge_message e) = Some (pr_capability p, pr_trust_decision p)" by blast
  from this(2) obtain a mid where a: "ps_sender (ge_message e) = Some a"
      "json_from_slice X (ps_payload (ge_message e)) = Inr (pr_capability p)"
      "ais_agent_id (cap_identity (pr_capability p)) = encode_agent_id X a"
    and m: "parse_machine_id_hex X (ais_machine_id (cap_identity (pr_capability p))) = Inr mid"
    by (rule admission_SomeE)
  from m have "hex_decode X (ais_machine_id (cap_identity (pr_capability p))) = Inr (machine_bytes mid)"
    and "length (machine_bytes mid) = 32" by (simp_all add: parse_machine_id_Inr)
  then show ?thesis
    using e a hex_contract.enc_lower [OF assms(1)] hex_contract.dec_lower [OF assms(1)]
    by (auto simp: encode_agent_id_def encode_machine_id_def)
qed

theorem registry_identifiers_witness:
  "\<exists>p \<in> set (registry_snapshot registry_shout).
     \<not> is_lower_hex (ais_machine_id (cap_identity (pr_capability p)))
     \<and> (\<exists>mid. map ascii_lower (ais_machine_id (cap_identity (pr_capability p))) = encode_machine_id hex_executable mid)"
proof -
  have H: "hex_contract (hex_encode (test_externals [shout_cap])) (hex_decode (test_externals [shout_cap]))"
    using hex.hex_contract_axioms by simp
  have p: "shout_record \<in> set (registry_snapshot registry_shout)"
    by (simp add: registry_shout_eq registry_snapshot_def bt_values_def)
  from registry_identifiers [OF H p [unfolded registry_shout_def]] have
    "\<exists>mid. map ascii_lower (ais_machine_id (cap_identity (pr_capability shout_record))) = encode_machine_id hex_executable mid"
    by auto
  moreover have "\<not> is_lower_hex (ais_machine_id (cap_identity (pr_capability shout_record)))"
    by (simp add: shout_record_def shout_cap_def is_lower_hex_def lower_hex_digits_def)
  ultimately show ?thesis using p by blast
qed

end
