(* ===== verification/Setup_Props.thy ===== *)
theory Setup_Props
  imports Fixtures
begin

text \<open>
  The properties of what surrounds the daemon: identifiers and their text, the agent that is
  built, the configuration file, and the answers to errors.
\<close>

section \<open>Identifiers\<close>

text \<open>
  C32. The identifiers and their text.  Exactly the texts of 64 hexadecimal digits, in either case,
  are parsed as an agent or a machine; the parsed identifier has 32 bytes and is encoded as the
  text in lowercase, so that an identifier of 32 bytes is read back from its encoding.  Every other
  text is refused with an error that names the field, and says what the codec said of it or, when
  the digits are in order, how many bytes they are.
\<close>

theorem identifiers_round_trip:
  assumes "hex_reader (hex_encode H) (hex_decode H)"
  shows "(case parse_agent_id_hex H s of
       Inr a \<Rightarrow> is_hex_id s \<and> length (agent_bytes a) = 32 \<and> encode_agent_id H a = map ascii_lower s
     | Inl e \<Rightarrow> \<not> is_hex_id s \<and> e = InvalidIdentityEncoding ''agent_id''
         (case hex_decode H s of Inl err \<Rightarrow> err | Inr _ \<Rightarrow> ''expected 32 bytes, got '' @ decimal (length s div 2)))
   \<and> (case parse_machine_id_hex H s of
       Inr m \<Rightarrow> is_hex_id s \<and> length (machine_bytes m) = 32 \<and> encode_machine_id H m = map ascii_lower s
     | Inl e \<Rightarrow> \<not> is_hex_id s \<and> e = InvalidIdentityEncoding ''machine_id''
         (case hex_decode H s of Inl err \<Rightarrow> err | Inr _ \<Rightarrow> ''expected 32 bytes, got '' @ decimal (length s div 2)))
   \<and> (parse_agent_id_hex H (encode_agent_id H a) = Inr a \<longleftrightarrow> length (agent_bytes a) = 32)
   \<and> (parse_machine_id_hex H (encode_machine_id H m) = Inr m \<longleftrightarrow> length (machine_bytes m) = 32)"
proof (intro conjI)
  note con = hex_reader.axioms(1) [OF assms]
  show "parse_agent_id_hex H (encode_agent_id H a) = Inr a \<longleftrightarrow> length (agent_bytes a) = 32"
    "parse_machine_id_hex H (encode_machine_id H m) = Inr m \<longleftrightarrow> length (machine_bytes m) = 32"
    by (simp_all add: parse_agent_id_Inr parse_machine_id_Inr encode_agent_id_def encode_machine_id_def
        hex_contract.dec_enc [OF con])
  note [simp] = parse_agent_id_hex_def parse_machine_id_hex_def encode_agent_id_def encode_machine_id_def
  show "case parse_agent_id_hex H s of
       Inr a \<Rightarrow> is_hex_id s \<and> length (agent_bytes a) = 32 \<and> encode_agent_id H a = map ascii_lower s
     | Inl e \<Rightarrow> \<not> is_hex_id s \<and> e = InvalidIdentityEncoding ''agent_id''
         (case hex_decode H s of Inl err \<Rightarrow> err | Inr _ \<Rightarrow> ''expected 32 bytes, got '' @ decimal (length s div 2))"
    using parse_hex_32_spec [OF assms, of s "''agent_id''"] by (cases "parse_hex_32 H s ''agent_id''") simp_all
  show "case parse_machine_id_hex H s of
       Inr m \<Rightarrow> is_hex_id s \<and> length (machine_bytes m) = 32 \<and> encode_machine_id H m = map ascii_lower s
     | Inl e \<Rightarrow> \<not> is_hex_id s \<and> e = InvalidIdentityEncoding ''machine_id''
         (case hex_decode H s of Inl err \<Rightarrow> err | Inr _ \<Rightarrow> ''expected 32 bytes, got '' @ decimal (length s div 2))"
    using parse_hex_32_spec [OF assms, of s "''machine_id''"] by (cases "parse_hex_32 H s ''machine_id''") simp_all
qed

theorem identifiers_round_trip_witness:
  "parse_agent_id_hex hex_executable (encode_agent_id hex_executable (test_agent 7)) = Inr (test_agent 7)
   \<and> (\<exists>a. parse_agent_id_hex hex_executable (replicate 64 (CHR ''A'')) = Inr a
        \<and> encode_agent_id hex_executable a = replicate 64 (CHR ''a''))
   \<and> parse_machine_id_hex hex_executable ''ABCD'' = Inl (InvalidIdentityEncoding ''machine_id'' ''expected 32 bytes, got 2'')"
proof (intro conjI)
  note ids = identifiers_round_trip [OF hex.hex_reader_axioms]
  show "parse_agent_id_hex hex_executable (encode_agent_id hex_executable (test_agent 7)) = Inr (test_agent 7)"
    using ids [of _ "test_agent 7"] by (simp add: test_agent_def)
  have "is_hex_id (replicate 64 (CHR ''A''))" "map ascii_lower (replicate 64 (CHR ''A'')) = replicate 64 (CHR ''a'')"
    by code_simp+
  with ids [of "replicate 64 (CHR ''A'')", THEN conjunct1]
  show "\<exists>a. parse_agent_id_hex hex_executable (replicate 64 (CHR ''A'')) = Inr a
      \<and> encode_agent_id hex_executable a = replicate 64 (CHR ''a'')"
    by (cases "parse_agent_id_hex hex_executable (replicate 64 (CHR ''A''))") (simp_all del: map_replicate)
  have "\<not> is_hex_id ''ABCD''" "\<exists>bs. hex_decode hex_executable ''ABCD'' = Inr bs"
    "''expected 32 bytes, got '' @ decimal (length ''ABCD'' div 2) = ''expected 32 bytes, got 2''"
    by (simp add: is_hex_id_def, simp add: hex.dec_accepts is_hex_digit_def, code_simp)
  with ids [of "''ABCD''", THEN conjunct2, THEN conjunct1]
  show "parse_machine_id_hex hex_executable ''ABCD'' = Inl (InvalidIdentityEncoding ''machine_id'' ''expected 32 bytes, got 2'')"
    by (cases "parse_machine_id_hex hex_executable ''ABCD''") auto
qed

text \<open>
  The identity snapshot loses nothing: two agents have the same snapshot only if they are the
  same, so comparing the strings is comparing the identities.
\<close>

lemma snapshot_identifies_agent:
  assumes "hex_contract (hex_encode H) (hex_decode H)"
  shows "from_agent H a = from_agent H b \<longleftrightarrow> a = b"
proof -
  note inj = hex_contract.enc_inject [OF assms]
  have m: "encode_machine_id H x = encode_machine_id H y \<longleftrightarrow> x = y" for x y
    by (cases x; cases y) (simp add: encode_machine_id_def inj)
  have g: "encode_agent_id H x = encode_agent_id H y \<longleftrightarrow> x = y" for x y
    by (cases x; cases y) (simp add: encode_agent_id_def inj)
  have u: "inj (encode_user_id H)"
    by (rule injI) (metis encode_user_id_def inj user_id.expand)
  have "map_option (encode_user_id H) x = map_option (encode_user_id H) y \<longleftrightarrow> x = y" for x y
    using inj_eq [OF option.inj_map [OF u]] .
  then show ?thesis by (cases a; cases b) (simp add: from_agent_def m g)
qed

text \<open>
  Building the agent makes one attempt, with exactly the configured paths, and leaves the files
  of the program alone.  It fails with the error of x0x, or with the missing user when one is
  required; an agent that is returned is the one x0x built, with a user when one is required.
\<close>

lemma build_agent_outcome:
  "let b = \<lparr>ab_machine_key = machine_key_path (cfg_x0x cfg), ab_agent_key = agent_key_path (cfg_x0x cfg),
        ab_user_key = user_key_path (cfg_x0x cfg), ab_contact_store = contact_store_path (cfg_x0x cfg)\<rparr>
   in w_trace (snd (build_agent env cfg w)) = w_trace w @ [BuildAgent b]
      \<and> w_fs (snd (build_agent env cfg w)) = w_fs w
      \<and> (case fst (build_agent env cfg w) of
           Inr agent \<Rightarrow> agent = env_agent env b \<and> \<not> (require_user_id cfg \<and> xa_user_id agent = None)
         | Inl e \<Rightarrow> (\<exists>msg. e = X0xIdentity msg \<and> env_fault env (w_trace w) (BuildAgent b) = Some msg)
             \<or> (e = UserIdentityRequired \<and> require_user_id cfg \<and> xa_user_id (env_agent env b) = None))"
  by (simp add: build_agent_run configured_builder_paths Let_def split: option.split)

section \<open>The configuration file\<close>

text \<open>
  C36. Round trip through the file system: a configuration that was written to a path and whose
  encoding decodes to itself is what loading that path returns, wherever the path lies and
  whatever was there before.
\<close>

theorem written_config_loads_back:
  assumes "write_to_path env T cfg p w = (Inr u, w')"
    and "\<And>raw. toml_to_string_pretty T cfg = Inr raw \<Longrightarrow> toml_from_str T raw = Inr cfg"
    and "env_fault env (w_trace w') (ReadToString p) = None"
  shows "fst (load_or_default env d T (Some p) w') = Inr cfg"
proof -
  from write_to_path_Inr [OF assms(1)] obtain raw where raw: "toml_to_string_pretty T cfg = Inr raw"
    and content: "w_fs w' p = Some (FileNode raw)" by auto
  show ?thesis
    using load_or_default_file [of w' d "Some p" raw env T] content assms(2) [OF raw] assms(3)
    by (simp add: resolve_path_def)
qed

theorem written_config_loads_back_witness:
  "\<exists>w'. write_to_path calm_env (test_toml (relaxed_config test_dirs) runtime_test_config) runtime_test_config
       \<lparr>p_abs = True, p_comps = [''etc'', ''c.toml'']\<rparr> empty_world = (Inr (), w')
     \<and> fst (load_or_default calm_env test_dirs (test_toml (relaxed_config test_dirs) runtime_test_config)
             (Some \<lparr>p_abs = True, p_comps = [''etc'', ''c.toml'']\<rparr>) w') = Inr runtime_test_config"
proof -
  let ?T = "test_toml (relaxed_config test_dirs) runtime_test_config"
  let ?p = "\<lparr>p_abs = True, p_comps = [''etc'', ''c.toml'']\<rparr>"
  have "runtime_test_config \<noteq> (relaxed_config test_dirs)"
    by (simp add: runtime_test_config_def relaxed_config_def default_compute_config_def)
  then have T: "toml_to_string_pretty ?T runtime_test_config = Inr ''b''" "toml_from_str ?T ''b'' = Inr runtime_test_config"
    by (simp_all add: test_toml_def)
  then have "fst (write_to_path calm_env ?T runtime_test_config ?p empty_world) = Inr ()"
    by (simp add: write_to_path_def path_parent_def io_bind_def create_dir_all_def write_file_def
        perform_def calm_env_def empty_world_def path_prefixes_def is_dir_def)
  then obtain w' where w: "write_to_path calm_env ?T runtime_test_config ?p empty_world = (Inr (), w')"
    by (cases "write_to_path calm_env ?T runtime_test_config ?p empty_world") simp
  from written_config_loads_back [OF w, of test_dirs] w T show ?thesis by (auto simp: calm_env_def)
qed

text \<open>
  A write of the configuration touches nothing but its file and the directories above it, with
  whatever result, and when it succeeds the file holds the encoding of the configuration.
\<close>

lemma write_to_path_frame:
  assumes "write_to_path env T cfg p w = (res, w')"
  shows "(\<forall>q. q \<noteq> p \<longrightarrow> (\<forall>par. path_parent p = Some par \<longrightarrow> q \<notin> set (path_prefixes par)) \<longrightarrow>
            w_fs w' q = w_fs w q)
    \<and> (res = Inr () \<longrightarrow> (\<exists>raw. toml_to_string_pretty T cfg = Inr raw \<and> w_fs w' p = Some (FileNode raw)))
    \<and> (path_parent p = None \<longrightarrow> res = Inl (MissingParentDirectory p) \<and> w' = w)"
proof (intro conjI impI allI)
  fix q assume q: "q \<noteq> p" "\<forall>par. path_parent p = Some par \<longrightarrow> q \<notin> set (path_prefixes par)"
  have dir: "w_fs (snd (create_dir_all env par v)) q = w_fs v q" if "path_parent p = Some par" for par v
    using that q(2) by (simp add: create_dir_all_def io_bind_def perform_def io_error_def split: option.split)
  have fil: "w_fs (snd (write_file env p raw v)) q = w_fs v q" for raw v
    using q(1) by (simp add: write_file_def io_bind_def perform_def io_error_def split: option.split)
  show "w_fs w' q = w_fs w q"
  proof (cases "path_parent p")
    case None
    with assms show ?thesis by (auto simp: write_to_path_def io_bind_def)
  next
    case (Some par)
    obtain r1 v1 where d: "create_dir_all env par w = (r1, v1)" by (cases "create_dir_all env par w")
    with dir [OF Some, of w] have v1: "w_fs v1 q = w_fs w q" by simp
    have "w_fs w' q = w_fs v1 q"
    proof (cases "toml_to_string_pretty T cfg")
      case (Inl e)
      with assms Some d show ?thesis by (auto simp: write_to_path_def io_bind_def split: sum.splits)
    next
      case (Inr raw)
      obtain r2 v2 where f: "write_file env p raw v1 = (r2, v2)" by (cases "write_file env p raw v1")
      with fil [of raw v1] have "w_fs v2 q = w_fs v1 q" by simp
      with assms Some d f Inr show ?thesis by (auto simp: write_to_path_def io_bind_def split: sum.splits)
    qed
    with v1 show ?thesis by simp
  qed
next
  assume "res = Inr ()"
  with assms write_to_path_Inr [of env T cfg p w "()" w']
  show "\<exists>raw. toml_to_string_pretty T cfg = Inr raw \<and> w_fs w' p = Some (FileNode raw)" by auto
qed (use assms in \<open>auto simp: write_to_path_def io_bind_def\<close>)

text \<open>
  Without a configuration file the program runs on the default configuration and touches
  nothing: it stays off the network, and of the five trust decisions only the unflagged
  acceptance lets a peer in.
\<close>

lemma missing_config_is_strict:
  assumes "\<not> path_exists w (resolve_path d p)"
  shows "\<exists>cfg. load_or_default env d T p w = (Inr cfg, w) \<and> \<not> join_network_on_start cfg
    \<and> \<not> announce_on_start cfg \<and> cfg_models cfg = [] \<and> capability_topic cfg = CAPABILITY_TOPIC
    \<and> (\<forall>decision. allows_peer cfg decision \<longleftrightarrow> decision = Accept)"
proof -
  have "allows_peer (default_compute_config d) decision \<longleftrightarrow> decision = Accept" for decision
    by (cases decision) (simp_all add: default_compute_config_def default_mesh_config_def)
  then show ?thesis
    using load_or_default_missing [OF assms, of env T] by (simp add: default_compute_config_def)
qed

section \<open>Errors and announcements\<close>

text \<open>
  Every error becomes an answer with a client or server error status; the type in the body and
  the status determine each other, the message is the text of the error, and exactly the five
  errors that come from other crates or the system are internal.
\<close>

lemma error_answers:
  "BAD_REQUEST \<le> fst (into_response e)
   \<and> (fst (into_response e) = fst (into_response f) \<longleftrightarrow> err_type (snd (into_response e)) = err_type (snd (into_response f)))
   \<and> err_message (snd (into_response e)) = error_display e
   \<and> (fst (into_response e) = INTERNAL_SERVER_ERROR \<longleftrightarrow>
        (\<exists>msg. e \<in> {X0xIdentity msg, Io msg, Json msg, TomlDecode msg, TomlEncode msg}))"
  using error_class_ge_400 [of e] error_class_status_type [of e f] by (cases e) simp_all

text \<open>
  The announcement of a node speaks the protocol version of the library, repeats the identity
  and the mesh policy of the configuration, lists the configured model ids in their order, never
  has an empty CPU brand, and does not go back in time when the clock does not.
\<close>

lemma announcement_mirrors_configuration:
  assumes "now \<le> later" and "clock_range later"
  shows "let cap = announcement_local sys now cfg identity in
      cap_protocol_version cap = PROTOCOL_VERSION \<and> cap_identity cap = identity
      \<and> pol_mesh_name (cap_policy cap) = mesh_name (cfg_mesh cfg)
      \<and> pol_trusted_friends_only (cap_policy cap) = mesh_trusted_friends_only (cfg_mesh cfg)
      \<and> pol_require_trusted_contacts (cap_policy cap) = mesh_require_trusted_contacts (cfg_mesh cfg)
      \<and> cap_available_models cap = map mc_id (cfg_models cfg)
      \<and> hw_cpu_brand (cap_hardware cap) \<noteq> []
      \<and> hw_logical_cores (cap_hardware cap) = length (sys_cpu_brands sys)
      \<and> cap_observed_at_unix_secs cap \<le> cap_observed_at_unix_secs (announcement_local sys' later cfg' identity')"
  using capability_timestamp_mono [OF assms] announced_cpu_brand_nonempty [of sys]
  by (simp add: announcement_local_def)

end
