(* ===== verification/Daemon_Spec.thy ===== *)
theory Daemon_Spec
  imports Daemon
begin

text \<open>
  What the daemon promises: routing, the frame of a request, the statuses, the HTTP client lemmas
  of the adapter contract, the invariant of the running daemon, and its startup as a script.
\<close>

section \<open>Routing\<close>

lemma route_cases:
  "route_request m segs =
     (if segs = [''health''] then (if m \<in> {GET, HEAD} then Handler Health else WrongMethod)
      else if segs = [''v1'', ''identity''] then (if m \<in> {GET, HEAD} then Handler IdentityView else WrongMethod)
      else if segs = [''v1'', ''capabilities'', ''local''] then (if m \<in> {GET, HEAD} then Handler LocalCapability else WrongMethod)
      else if segs = [''v1'', ''capabilities'', ''peers''] then (if m \<in> {GET, HEAD} then Handler PeerCapabilities else WrongMethod)
      else if segs = [''v1'', ''config''] then (if m \<in> {GET, HEAD} then Handler ConfigView else WrongMethod)
      else if segs = [''v1'', ''models'', ''local''] then (if m \<in> {GET, HEAD} then Handler LocalModels else WrongMethod)
      else if segs = [''v1'', ''reservations''] then
        (if m \<in> {GET, HEAD} then Handler ListReservations else if m = POST then Handler CreateReservation else WrongMethod)
      else if \<exists>rid. rid \<noteq> [] \<and> segs = [''v1'', ''reservations'', rid] then
        (if m = DELETE then Handler DeleteReservation else WrongMethod)
      else if segs = [''v1'', ''openai'', ''models''] then (if m \<in> {GET, HEAD} then Handler OpenaiModels else WrongMethod)
      else if segs = [''v1'', ''openai'', ''chat'', ''completions''] then
        (if m = POST then Handler OpenaiChatCompletions else WrongMethod)
      else NoRoute)"
proof (cases "\<exists>rid. rid \<noteq> [] \<and> segs = [''v1'', ''reservations'', rid]")
  case True
  then obtain rid where "rid \<noteq> []" "segs = [''v1'', ''reservations'', rid]" by blast
  then show ?thesis
    by (cases m) (simp_all add: route_request_def router_def path_matches_def method_matches_def)
next
  case False
  then have "\<not> path_matches [Lit ''v1'', Lit ''reservations'', Param] segs"
    by (auto simp: path_matches_def list_all2_Cons1)
  moreover have "path_matches (map Lit ss) segs \<longleftrightarrow> segs = ss" for ss
    unfolding path_matches_def by (induction ss arbitrary: segs) (auto simp: list_all2_Cons1)
  note this [of "[_]"] this [of "[_, _]"] this [of "[_, _, _]"] this [of "[_, _, _, _]"]
  ultimately show ?thesis
    by (cases m) (simp_all add: False route_request_def router_def method_matches_def)
qed

text \<open>The endpoints that can change something are the ones of POST and DELETE.\<close>

definition changing :: "endpoint \<Rightarrow> bool" where
  "changing e \<longleftrightarrow> e \<in> {CreateReservation, DeleteReservation, OpenaiChatCompletions}"

lemma route_changing: "route_request m segs = Handler e \<Longrightarrow> changing e \<Longrightarrow> m = POST \<or> m = DELETE"
  by (auto simp: route_cases changing_def split: if_splits)

lemma route_delete: "route_request DELETE [''v1'', ''reservations'', rid] =
    (if rid = [] then NoRoute else Handler DeleteReservation)"
  by (simp add: route_cases)

text \<open>Two patterns overlap when some path could match both; no two of the table do.\<close>

fun may_equal :: "segment \<Rightarrow> segment \<Rightarrow> bool" where
  "may_equal (Lit s) (Lit t) \<longleftrightarrow> s = t"
| "may_equal _ _ \<longleftrightarrow> True"

lemma overlap: "path_matches p segs \<Longrightarrow> path_matches q segs \<Longrightarrow> list_all2 may_equal p q"
  unfolding path_matches_def
proof (induction p arbitrary: q segs)
  case Nil
  then show ?case by (cases segs; cases q) simp_all
next
  case (Cons a p)
  from Cons.prems(1) obtain t ts where segs: "segs = t # ts" by (cases segs) simp_all
  with Cons.prems(2) obtain b q' where q: "q = b # q'" by (cases q) simp_all
  with Cons segs show ?case by (cases a; cases b) auto
qed

lemma router_patterns:
  "list_all (\<lambda>x. list_all (\<lambda>y. list_all2 may_equal (fst x) (fst y) \<longrightarrow> x = y) router) router"
  by (simp add: router_def)

lemma router_unique:
  "x \<in> set router \<Longrightarrow> y \<in> set router \<Longrightarrow> path_matches (fst x) segs \<Longrightarrow> path_matches (fst y) segs \<Longrightarrow> x = y"
  using router_patterns overlap by (fastforce simp: list_all_iff)

lemma router_methods:
  "x \<in> set router \<Longrightarrow> y \<in> set (snd x) \<Longrightarrow> z \<in> set (snd x) \<Longrightarrow>
     method_matches (fst y) m \<Longrightarrow> method_matches (fst z) m \<Longrightarrow> y = z"
  by (auto simp: router_def method_matches_def)

lemma find_unique:
  "(\<And>x y. x \<in> set xs \<Longrightarrow> y \<in> set xs \<Longrightarrow> P x \<Longrightarrow> P y \<Longrightarrow> x = y) \<Longrightarrow>
     List.find P xs = Some x \<longleftrightarrow> x \<in> set xs \<and> P x"
proof
  assume "List.find P xs = Some x"
  then show "x \<in> set xs \<and> P x" by (auto simp: find_Some_iff)
next
  assume u: "\<And>x y. x \<in> set xs \<Longrightarrow> y \<in> set xs \<Longrightarrow> P x \<Longrightarrow> P y \<Longrightarrow> x = y" and x: "x \<in> set xs \<and> P x"
  then obtain y where y: "List.find P xs = Some y" by (cases "List.find P xs") (auto simp: find_None_iff)
  then have "y \<in> set xs" "P y" by (auto simp: find_Some_iff)
  with u x y show "List.find P xs = Some x" by auto
qed

lemma find_route:
  "List.find (\<lambda>(pat, _). path_matches pat segs) router = Some x \<longleftrightarrow> x \<in> set router \<and> path_matches (fst x) segs"
  by (subst find_unique) (auto dest: router_unique simp: case_prod_beta)

lemma find_method:
  "(p, ms) \<in> set router \<Longrightarrow> List.find (\<lambda>(d, _). method_matches d m) ms = Some y
     \<longleftrightarrow> y \<in> set ms \<and> method_matches (fst y) m"
  using router_methods [of "(p, ms)"] by (subst find_unique) (auto simp: case_prod_beta)

section \<open>One request\<close>

lemma dispatch_frame: "\<exists>rt. snd (dispatch D now rq s) = s\<lparr>as_runtime := rt\<rparr>"
proof -
  have same: "\<exists>rt. s = s\<lparr>as_runtime := rt\<rparr>" by (intro exI [of _ "as_runtime s"]) simp
  show ?thesis
    by (auto simp: dispatch_def create_reservation_handler_def delete_reservation_def
        openai_chat_completions_def same split: route.split endpoint.split option.split prod.split)
qed

lemma dispatch_unchanging:
  "(\<And>e. route_request (rq_method rq) (rq_segments rq) = Handler e \<Longrightarrow> \<not> changing e) \<Longrightarrow>
     snd (dispatch D now rq s) = s"
  by (auto simp: dispatch_def changing_def split: route.split endpoint.split)

text \<open>The registry plays no part in a request but the listing of the peers.\<close>

lemma dispatch_peers:
  "snd (dispatch D now rq (s\<lparr>as_peers := r\<rparr>)) = (snd (dispatch D now rq s))\<lparr>as_peers := r\<rparr>"
  "route_request (rq_method rq) (rq_segments rq) \<noteq> Handler PeerCapabilities \<Longrightarrow>
     fst (dispatch D now rq (s\<lparr>as_peers := r\<rparr>)) = fst (dispatch D now rq s)"
  by (auto simp: dispatch_def identity_handler_def local_capability_def config_view_def local_models_handler_def
      list_reservations_def create_reservation_handler_def delete_reservation_def openai_models_handler_def
      openai_chat_completions_def split_beta split: route.split endpoint.split option.split)

lemma answer_simps [simp]:
  "answer ok (Inr x) = ok x"
  "answer ok (Inl e) = (fst (error_class e), ErrorBody (snd (into_response e)))"
  by (simp_all add: answer_def map_prod_def split_beta)

lemma error_not_below [simp]: "\<not> fst (error_class e) < BAD_REQUEST"
  using error_class_ge_400 [of e] by (simp add: not_less)

lemma statuses_below [simp]:
  "OK < BAD_REQUEST" "CREATED < BAD_REQUEST" "NO_CONTENT < BAD_REQUEST"
  "\<not> BAD_REQUEST \<le> OK" "\<not> BAD_REQUEST \<le> CREATED" "\<not> BAD_REQUEST \<le> NO_CONTENT"
  by (simp_all add: less_status_code_def less_eq_status_code_def)

lemma error_class_not_created [simp]: "fst (error_class e) \<noteq> CREATED"
  using error_not_below [of e] statuses_below(2) by metis

lemma answer_status:
  assumes "answer ok r = (st, b)"
    and "\<And>x. fst (ok x) \<in> {OK, CREATED, NO_CONTENT} \<and> (\<forall>e. snd (ok x) \<noteq> ErrorBody e)"
  shows "((\<exists>e. b = ErrorBody e) \<longleftrightarrow> BAD_REQUEST \<le> st) \<and> (\<not> BAD_REQUEST \<le> st \<longrightarrow> st \<in> {OK, CREATED, NO_CONTENT})"
proof (cases r)
  case (Inl e)
  with assms(1) error_class_ge_400 [of e] show ?thesis by auto
next
  case (Inr x)
  with assms(1) have "st = fst (ok x)" "b = snd (ok x)" by simp_all
  with assms(2) [of x] show ?thesis by auto
qed

lemma handler_status:
  "fst (create_reservation_handler now req s) = (st, b) \<Longrightarrow>
     ((\<exists>e. b = ErrorBody e) \<longleftrightarrow> BAD_REQUEST \<le> st) \<and> (\<not> BAD_REQUEST \<le> st \<longrightarrow> st \<in> {OK, CREATED, NO_CONTENT})"
  "fst (delete_reservation rid s) = (st, b) \<Longrightarrow>
     ((\<exists>e. b = ErrorBody e) \<longleftrightarrow> BAD_REQUEST \<le> st) \<and> (\<not> BAD_REQUEST \<le> st \<longrightarrow> st \<in> {OK, CREATED, NO_CONTENT})"
  "fst (openai_chat_completions now creq s) = (st, b) \<Longrightarrow>
     ((\<exists>e. b = ErrorBody e) \<longleftrightarrow> BAD_REQUEST \<le> st) \<and> (\<not> BAD_REQUEST \<le> st \<longrightarrow> st \<in> {OK, CREATED, NO_CONTENT})"
  using answer_status [of "\<lambda>r. (CREATED, ReservationBody r)" _ st b] answer_status [of "\<lambda>_. (NO_CONTENT, EmptyBody)" _ st b]
    answer_status [of "\<lambda>r. (OK, ChatBody r)" _ st b]
  by (simp_all add: create_reservation_handler_def delete_reservation_def openai_chat_completions_def split_beta)

section \<open>Types of answers\<close>

text \<open>
  The type of the answer a handler is declared with: the status of its success and the body.
  The handlers declared with a \<open>Result\<close> may answer with an error in its place.
\<close>

fun declared_reply :: "endpoint \<Rightarrow> reply \<Rightarrow> bool" where
  "declared_reply Health (st, b) \<longleftrightarrow> st = OK \<and> b = HealthBody ''ok''"
| "declared_reply IdentityView (st, b) \<longleftrightarrow> st = OK \<and> (\<exists>x. b = IdentityBody x)"
| "declared_reply LocalCapability (st, b) \<longleftrightarrow> st = OK \<and> (\<exists>x. b = CapabilityBody x)"
| "declared_reply PeerCapabilities (st, b) \<longleftrightarrow> st = OK \<and> (\<exists>x. b = PeersBody x)"
| "declared_reply ConfigView (st, b) \<longleftrightarrow> st = OK \<and> (\<exists>x. b = ConfigBody x)"
| "declared_reply LocalModels (st, b) \<longleftrightarrow> st = OK \<and> (\<exists>x. b = ModelsBody x)"
| "declared_reply ListReservations (st, b) \<longleftrightarrow> st = OK \<and> (\<exists>x. b = ReservationsBody x)"
| "declared_reply CreateReservation (st, b) \<longleftrightarrow> st = CREATED \<and> (\<exists>x. b = ReservationBody x)"
| "declared_reply DeleteReservation (st, b) \<longleftrightarrow> st = NO_CONTENT \<and> b = EmptyBody"
| "declared_reply OpenaiModels (st, b) \<longleftrightarrow> st = OK \<and> (\<exists>x. b = OpenaiModelsBody x)"
| "declared_reply OpenaiChatCompletions (st, b) \<longleftrightarrow> st = OK \<and> (\<exists>x. b = ChatBody x)"

definition error_reply :: "reply \<Rightarrow> bool" where
  "error_reply rep \<longleftrightarrow> (\<exists>e. rep = (fst (error_class e), ErrorBody (snd (into_response e))))"

lemma answer_type: "(\<forall>x. declared_reply e (ok x)) \<Longrightarrow> declared_reply e (answer ok r) \<or> error_reply (answer ok r)"
  by (cases r) (auto simp: error_reply_def)

lemma handler_type:
  "\<not> error_reply (fst (create_reservation_handler now req s)) \<Longrightarrow>
     declared_reply CreateReservation (fst (create_reservation_handler now req s))"
  "\<not> error_reply (fst (delete_reservation rid s)) \<Longrightarrow>
     declared_reply DeleteReservation (fst (delete_reservation rid s))"
  "\<not> error_reply (fst (openai_chat_completions now creq s)) \<Longrightarrow>
     declared_reply OpenaiChatCompletions (fst (openai_chat_completions now creq s))"
  using answer_type [of CreateReservation "\<lambda>r. (CREATED, ReservationBody r)"]
    answer_type [of DeleteReservation "\<lambda>_. (NO_CONTENT, EmptyBody)"]
    answer_type [of OpenaiChatCompletions "\<lambda>r. (OK, ChatBody r)"]
  by (auto simp: create_reservation_handler_def delete_reservation_def openai_chat_completions_def split_beta)

section \<open>Clients of the adapter contract\<close>

context adapter_contract
begin

lemma dispatch_inv:
  assumes "as_methods s = A" and "inv (as_runtime s)"
  shows "inv (as_runtime (snd (dispatch D now rq s)))"
proof -
  have "inv (as_runtime (snd (create_reservation_handler now req s)))" for req
    using assms inv_create [of "as_runtime s" now req]
    by (auto simp: create_reservation_handler_def split: prod.split)
  moreover have "inv (as_runtime (snd (delete_reservation rid s)))" for rid
    using assms inv_release [of "as_runtime s" rid]
    by (auto simp: delete_reservation_def split: prod.split)
  moreover have "inv (as_runtime (snd (openai_chat_completions now req s)))" for req
    using assms inv_chat [of "as_runtime s" now req]
    by (auto simp: openai_chat_completions_def split: prod.split)
  ultimately show ?thesis using assms(2)
    by (auto simp: dispatch_def split: route.split endpoint.split option.split)
qed

lemma reach_inv:
  assumes "daemon_reach X D s evs t" and "as_methods s = A" and "inv (as_runtime s)"
  shows "inv (as_runtime t) \<and> as_methods t = as_methods s"
  using assms
proof (induction rule: daemon_reach.induct)
  case (start s)
  then show ?case by simp
next
  case (step s evs t ev u)
  then have t: "inv (as_runtime t)" "as_methods t = A" by simp_all
  from step.hyps(2) show ?case
  proof cases
    case (http now rq out)
    then have "u = snd (dispatch D now rq t)" by simp
    with dispatch_inv [OF t(2,1), of D now rq] dispatch_frame [of D now rq t] t step.prems show ?thesis by auto
  qed (use t step.prems in simp)
qed

lemma reach_capacity:
  assumes "daemon_reach X D s evs t" and "as_methods s = A" and "inv (as_runtime s)"
    and "lm \<in> set (ra_local_models (as_methods t) (as_runtime t))"
  shows "sum_list (map (\<lambda>r. unat (mr_requested_slots r))
      (filter (\<lambda>r. mr_model r = lm_id lm) (ra_reservations (as_methods t) (as_runtime t)))) \<le> unat (lm_total_slots lm)"
  using reach_inv [OF assms(1-3)] assms(2,4) never_oversubscribed [of "as_runtime t" lm] by simp

end

section \<open>The running daemon\<close>

lemma reach_constant:
  "daemon_reach X D s evs t \<Longrightarrow>
     as_config t = as_config s \<and> as_identity t = as_identity s \<and> as_capability t = as_capability s
     \<and> as_methods t = as_methods s"
proof (induction rule: daemon_reach.induct)
  case (start s)
  then show ?case by simp
next
  case (step s evs t ev u)
  from step.hyps(2) show ?case
  proof cases
    case (http now rq out)
    then have "u = snd (dispatch D now rq t)" by simp
    with dispatch_frame [of D now rq t] step.IH show ?thesis by auto
  qed (use step.IH in simp)
qed

lemma reach_registry:
  "daemon_reach X D s evs t \<Longrightarrow> registry_inv X (as_config s) (ais_agent_id (as_identity s)) (as_peers s) \<Longrightarrow>
     registry_inv X (as_config t) (ais_agent_id (as_identity t)) (as_peers t)"
proof (induction rule: daemon_reach.induct)
  case (start s)
  then show ?case by simp
next
  case (step s evs t ev u)
  from step.hyps(2) show ?case
  proof cases
    case (http now rq out)
    then have "u = snd (dispatch D now rq t)" by simp
    with dispatch_frame [of D now rq t] step.IH step.prems show ?thesis by auto
  next
    case (gossip e disp r)
    have u: "u = t\<lparr>as_peers := snd (apply_message X (ge_now e) (as_config t) (ais_agent_id (as_identity t))
        (ge_contacts e) (ge_message e) (as_peers t))\<rparr>"
      using gossip by (simp only: snd_conv)
    show ?thesis using step.IH [OF step.prems] by (simp add: u apply_message_inv)
  qed
qed

section \<open>Startup\<close>

text \<open>
  The startup of the daemon as a script.  The payload of the first announcement is computed after
  the subscription is running, hence the history it depends on.
\<close>

definition announce_actions :: "'cs machine \<Rightarrow> 's compute_daemon \<Rightarrow> effect list \<Rightarrow> compute_error action list" where
  "announce_actions M d h =
     (if announce_on_start (d_config d) then
        (case json_to_vec (m_ext M) (announcement_local (m_sys M h) (m_now M h) (d_config d) (d_identity d)) of
           Inl err \<Rightarrow> [Abort (Json err)]
         | Inr payload \<Rightarrow> [Try X0xIdentity (Publish (capability_topic (d_config d)) payload)])
      else [])"

definition network_actions :: "'s compute_daemon \<Rightarrow> compute_error action list" where
  "network_actions d =
     [Try X0xIdentity JoinNetwork, Try X0xIdentity (Subscribe (capability_topic (d_config d))),
      Emit (SpawnSubscriptionLoop (ais_agent_id (d_identity d)))]"

definition startup_script :: "'cs machine \<Rightarrow> 's compute_daemon \<Rightarrow> effect list \<Rightarrow> compute_error action list" where
  "startup_script M d h =
     (if join_network_on_start (d_config d)
      then network_actions d @ announce_actions M d (h @ script_effects (network_actions d)) else [])
     @ [Try Io (TcpBind (api_bind (d_config d))), Try Io Serve]"

lemma perform_cases:
  "env_fault env (w_trace w) e = None \<Longrightarrow> perform env conv e w = (Inr (), w\<lparr>w_trace := w_trace w @ [e]\<rparr>)"
  "env_fault env (w_trace w) e = Some msg \<Longrightarrow> perform env conv e w = (Inl (conv msg), w\<lparr>w_trace := w_trace w @ [e]\<rparr>)"
  by (simp_all add: perform_def)

lemma io_bind_cases:
  "m w = (Inr x, v) \<Longrightarrow> io_bind m f w = f x v"
  "m w = (Inl e, v) \<Longrightarrow> io_bind m f w = (Inl e, v)"
  by (simp_all add: io_bind_def)

lemma io_bind_io_return [simp]: "io_bind (io_return x) f = f x"
  by (simp add: io_bind_def fun_eq_iff)

lemma daemon_run_script: "daemon_run M d w = run_script (m_env M) (startup_script M d (w_trace w)) w"
proof (cases "join_network_on_start (d_config d)")
  case False
  then show ?thesis by (simp add: daemon_run_def Let_def startup_script_def)
next
  case True
  let ?env = "m_env M" and ?sub = "Subscribe (capability_topic (d_config d))"
  show ?thesis
  proof (cases "env_fault ?env (w_trace w) JoinNetwork")
    case (Some msg)
    with True show ?thesis
      by (simp add: daemon_run_def Let_def startup_script_def network_actions_def io_bind_def perform_cases)
  next
    case j: None
    show ?thesis
    proof (cases "env_fault ?env (w_trace w @ [JoinNetwork]) ?sub")
      case (Some msg)
      with True j show ?thesis
        by (simp add: daemon_run_def Let_def startup_script_def network_actions_def
            start_capability_subscription_loop_def io_bind_def perform_cases)
    next
      case s: None
      show ?thesis
        using True j s
        by (cases "announce_on_start (d_config d)";
            cases "json_to_vec (m_ext M) (announcement_local
              (m_sys M (w_trace w @ script_effects (network_actions d)))
              (m_now M (w_trace w @ script_effects (network_actions d))) (d_config d) (d_identity d))")
          (simp_all add: daemon_run_def Let_def startup_script_def network_actions_def announce_actions_def
            start_capability_subscription_loop_def announce_local_capability_def Let_def
            io_bind_def perform_def emit_def split: option.split)
    qed
  qed
qed

end
