(* ===== verification/Daemon_Props.thy ===== *)
theory Daemon_Props
  imports Fixtures Daemon_Spec Grant_Order
begin

text \<open>
  The properties of the daemon: routing, what an answer says, reservations over HTTP, the safety
  of every interleaving of requests and gossip, and the order of the startup.
\<close>

section \<open>Inputs of the witnesses\<close>

text \<open>The body of the first request, which leaves the number of slots to its default.\<close>

definition first_fields :: create_reservation_fields where
  "first_fields = \<lparr>crf_model = ''qwen3.5:32b'', crf_consumer = ''alice'', crf_requested_slots = None\<rparr>"

lemma first_fields_request [simp]: "create_request_of first_fields = first_request"
  by (simp add: create_request_of_def first_fields_def default_requested_slots_def test_request_def)

definition test_decoders :: body_decoders where
  "test_decoders = \<lparr>dec_create = (\<lambda>b. if b = [1] then Some first_fields else None), dec_chat = (\<lambda>b. None)\<rparr>"

definition post_reservation :: http_request where
  "post_reservation = \<lparr>rq_method = POST, rq_segments = [''v1'', ''reservations''], rq_body = [1]\<rparr>"

definition delete_request :: "string \<Rightarrow> http_request" where
  "delete_request rid = \<lparr>rq_method = DELETE, rq_segments = [''v1'', ''reservations'', rid], rq_body = []\<rparr>"

definition get_request :: "string list \<Rightarrow> http_request" where
  "get_request segs = \<lparr>rq_method = GET, rq_segments = segs, rq_body = []\<rparr>"

definition test_computer :: "'cs mesh_externals \<Rightarrow> 'cs machine" where
  "test_computer X =
     \<lparr>m_env = calm_env, m_ext = X,
      m_sys = (\<lambda>h. \<lparr>sys_host_name = None, sys_cpu_brands = [], sys_total_memory = 1, sys_available_memory = 1\<rparr>),
      m_now = (\<lambda>h. 5000000000)\<rparr>"

definition test_daemon :: "skeleton_runtime_adapter compute_daemon" where
  "test_daemon = projr (fst (from_config (test_computer (test_externals [])) runtime_test_config empty_world))"

definition test_state :: "skeleton_runtime_adapter app_state" where
  "test_state = app_state_of test_daemon"

definition test_state_after_first :: "skeleton_runtime_adapter app_state" where
  "test_state_after_first = test_state\<lparr>as_runtime := runtime_after_first\<rparr>"

lemma test_daemon_built:
  "from_config (test_computer (test_externals [])) runtime_test_config empty_world =
     (Inr test_daemon, snd (from_config (test_computer (test_externals [])) runtime_test_config empty_world))"
  by (simp add: test_daemon_def from_config_def test_computer_def io_bind_def create_dir_all_def
      perform_def calm_env_def empty_world_def build_agent_run Let_def runtime_test_config_def path_prefixes_def)

lemma from_config_daemon:
  assumes "from_config M cfg w = (Inr d, w')"
  shows "d_config d = cfg" "d_identity d = from_agent (m_ext M) (d_agent d)" "d_peers d = registry_new"
    "d_methods d = skeleton_methods" "d_runtime d = skeleton_new cfg"
  using assms by (auto simp: from_config_def build_runtime_def Let_def dest!: io_bind_InrD)

lemma test_state_simps [simp]:
  "as_methods test_state = skeleton_methods" "as_runtime test_state = test_runtime"
  "as_config test_state = runtime_test_config" "as_peers test_state = registry_new"
  using from_config_daemon [OF test_daemon_built]
  by (simp_all add: test_state_def app_state_of_def test_runtime_def)

lemma post_test_state:
  "dispatch test_decoders 5000000000 post_reservation test_state =
     (Replied (CREATED, ReservationBody first_reservation), test_state_after_first)"
  by (simp add: dispatch_def post_reservation_def route_cases test_decoders_def create_reservation_handler_def
      skeleton_methods_def create_first test_state_after_first_def)

lemma test_state_after_first_simps [simp]:
  "as_methods test_state_after_first = skeleton_methods"
  "as_runtime test_state_after_first = runtime_after_first"
  by (simp_all add: test_state_after_first_def)

text \<open>The same state with the network switched on, and a message of another agent.\<close>

definition online_state :: "skeleton_runtime_adapter app_state" where
  "online_state = test_state\<lparr>as_config := runtime_test_config\<lparr>join_network_on_start := True\<rparr>\<rparr>"

definition test_gossip :: "test_store gossip_event" where
  "test_gossip = \<lparr>ge_message = test_message (test_agent 2) 0, ge_contacts = [(test_agent 2, Accept)], ge_now = 0\<rparr>"

section \<open>Routing and answers\<close>

text \<open>
  C25. Routing is unambiguous.  At most one route pattern matches a path, so the outcome does not
  depend on the order in which the routes are declared: a handler runs exactly when its pattern
  matches and one of its methods does, where a GET route also takes HEAD; and a path is unknown
  exactly when no pattern matches.
\<close>

theorem routing_is_unambiguous:
  "(\<forall>p ms q ns. (p, ms) \<in> set router \<and> (q, ns) \<in> set router \<and> path_matches p segs \<and> path_matches q segs
       \<longrightarrow> (p, ms) = (q, ns))
   \<and> (route_request m segs = Handler e \<longleftrightarrow>
        (\<exists>p ms d. (p, ms) \<in> set router \<and> path_matches p segs \<and> (d, e) \<in> set ms \<and> method_matches d m))
   \<and> (route_request m segs = NoRoute \<longleftrightarrow> (\<forall>(p, ms) \<in> set router. \<not> path_matches p segs))"
proof (intro conjI)
  show "\<forall>p ms q ns. (p, ms) \<in> set router \<and> (q, ns) \<in> set router \<and> path_matches p segs \<and> path_matches q segs
      \<longrightarrow> (p, ms) = (q, ns)"
    using router_unique by fastforce
  have "route_request m segs = Handler e \<longleftrightarrow>
      (\<exists>p ms. List.find (\<lambda>(pat, _). path_matches pat segs) router = Some (p, ms)
         \<and> (\<exists>d. List.find (\<lambda>(d, _). method_matches d m) ms = Some (d, e)))"
    by (auto simp: route_request_def split: option.split)
  also have "\<dots> \<longleftrightarrow> (\<exists>p ms. (p, ms) \<in> set router \<and> path_matches p segs
      \<and> (\<exists>d. (d, e) \<in> set ms \<and> method_matches d m))"
    by (intro ex_cong1) (auto simp: find_route find_method)
  finally show "route_request m segs = Handler e \<longleftrightarrow>
      (\<exists>p ms d. (p, ms) \<in> set router \<and> path_matches p segs \<and> (d, e) \<in> set ms \<and> method_matches d m)"
    by blast
  show "route_request m segs = NoRoute \<longleftrightarrow> (\<forall>(p, ms) \<in> set router. \<not> path_matches p segs)"
  proof (cases "List.find (\<lambda>(pat, _). path_matches pat segs) router")
    case None
    then have "route_request m segs = NoRoute" by (simp add: route_request_def)
    then show ?thesis using None by (auto simp: find_None_iff)
  next
    case (Some x)
    then have x: "x \<in> set router" "path_matches (fst x) segs" by (simp_all add: find_route)
    have "\<not> (\<forall>(p, ms) \<in> set router. \<not> path_matches p segs)"
      by (rule notI, drule bspec [OF _ x(1)]) (simp add: x(2) split_beta)
    moreover have "route_request m segs \<noteq> NoRoute"
      using Some by (simp add: route_request_def split: prod.split option.split)
    ultimately show ?thesis by (simp only: simp_thms)
  qed
qed

theorem routing_is_unambiguous_witness:
  "route_request HEAD [''v1'', ''models'', ''local''] = Handler LocalModels"
proof -
  have "([Lit ''v1'', Lit ''models'', Lit ''local''], [(GET, LocalModels)]) \<in> set router"
    by (simp add: router_def)
  moreover have "path_matches [Lit ''v1'', Lit ''models'', Lit ''local''] [''v1'', ''models'', ''local'']"
    "method_matches GET HEAD" by (simp_all add: path_matches_def method_matches_def)
  ultimately show ?thesis
    using conjunct1 [OF conjunct2 [OF routing_is_unambiguous [of "[''v1'', ''models'', ''local'']" HEAD LocalModels]]]
    by (metis list.set_intros(1))
qed

text \<open>
  Every answer of a handler, with any runtime behind the trait, is an error body exactly when
  its status is a client or server error; otherwise the status is 200, 201 or 204.
\<close>

lemma error_status_iff_error_body:
  assumes "fst (dispatch D now rq s) = Replied (st, b)"
  shows "((\<exists>e. b = ErrorBody e) \<longleftrightarrow> BAD_REQUEST \<le> st)
    \<and> (\<not> BAD_REQUEST \<le> st \<longrightarrow> st \<in> {OK, CREATED, NO_CONTENT})"
  using assms
  by (auto simp: dispatch_def health_def identity_handler_def local_capability_def peer_capabilities_def
      config_view_def local_models_handler_def list_reservations_def openai_models_handler_def
      dest: handler_status split: route.splits endpoint.splits option.splits)

text \<open>
  C17. Every answer has its type.  With any runtime behind the trait, a request that reaches a
  handler is answered with the success status and a body of the type that handler is declared
  with, or, at the three handlers declared with a \<open>Result\<close>, with the status and the body of one
  error of the program; only the two handlers that take a body can refuse it.  No handler touches
  the configuration, the identity, the announcement, the peers or the choice of the runtime.
\<close>

theorem replies_are_well_typed:
  assumes "route_request (rq_method rq) (rq_segments rq) = Handler e"
  shows "(case fst (dispatch D now rq s) of
       Replied rep \<Rightarrow> declared_reply e rep \<or> (changing e \<and> error_reply rep)
     | BodyRefused \<Rightarrow> (e = CreateReservation \<and> dec_create D (rq_body rq) = None)
         \<or> (e = OpenaiChatCompletions \<and> dec_chat D (rq_body rq) = None)
     | _ \<Rightarrow> False)
   \<and> (\<exists>rt. snd (dispatch D now rq s) = s\<lparr>as_runtime := rt\<rparr>)"
proof
  show "case fst (dispatch D now rq s) of
       Replied rep \<Rightarrow> declared_reply e rep \<or> (changing e \<and> error_reply rep)
     | BodyRefused \<Rightarrow> (e = CreateReservation \<and> dec_create D (rq_body rq) = None)
         \<or> (e = OpenaiChatCompletions \<and> dec_chat D (rq_body rq) = None)
     | _ \<Rightarrow> False"
    by (cases e) (auto simp: handler_type dispatch_def assms changing_def health_def identity_handler_def local_capability_def
        peer_capabilities_def config_view_def local_models_handler_def list_reservations_def
        openai_models_handler_def split: option.split)
qed (rule dispatch_frame)

theorem replies_are_well_typed_witness:
  "\<exists>st b. fst (dispatch test_decoders 0 (delete_request ''resv-000009'') test_state) = Replied (st, b)
     \<and> (declared_reply DeleteReservation (st, b) \<or> error_reply (st, b))"
proof -
  have r: "route_request (rq_method (delete_request ''resv-000009'')) (rq_segments (delete_request ''resv-000009''))
      = Handler DeleteReservation"
    by (simp add: delete_request_def route_delete)
  from replies_are_well_typed [OF r, of test_decoders 0 test_state] show ?thesis
    by (auto split: http_outcome.splits)
qed

text \<open>
  C26. A reservation posted to the daemon is answered with 201 and the reservation exactly when it
  is well formed and fits the free slots of a configured model; 400 means an empty consumer or no
  slots, 404 an unknown model, and 409 a known model without enough free slots; a body without a number of slots asks for one.
\<close>

theorem reservation_request_statuses:
  assumes "as_methods s = skeleton_methods" and "runtime_inv (as_runtime s)"
    and "rq_method rq = POST" and "rq_segments rq = [''v1'', ''reservations'']"
    and "dec_create D (rq_body rq) = Some body" and req: "req = create_request_of body"
  shows "\<exists>st b. fst (dispatch D now rq s) = Replied (st, b)
    \<and> (let valid = (trim (crr_consumer req) \<noteq> [] \<and> 0 < unat (crr_requested_slots req));
            known = (bt_get (sk_models (as_runtime s)) (crr_model req) \<noteq> None) in
         (crf_requested_slots body = None \<longrightarrow> crr_requested_slots req = 1)
         \<and> (st = CREATED \<longleftrightarrow> grantable req (as_runtime s))
         \<and> (st = CREATED \<longrightarrow> b = ReservationBody (granted now req (as_runtime s)))
         \<and> (st = BAD_REQUEST \<longleftrightarrow> \<not> valid)
         \<and> (st = NOT_FOUND \<longleftrightarrow> valid \<and> \<not> known)
         \<and> (st = CONFLICT \<longleftrightarrow> valid \<and> known \<and> \<not> grantable req (as_runtime s)))"
proof -
  have "fst (dispatch D now rq s) =
      Replied (answer (\<lambda>r. (CREATED, ReservationBody r)) (fst (create_reservation now req (as_runtime s))))"
    using assms by (simp add: dispatch_def route_cases create_reservation_handler_def skeleton_methods_def split_beta)
  moreover have "bt_get (sk_models (as_runtime s)) (crr_model req) = None \<Longrightarrow> \<not> grantable req (as_runtime s)"
    by (simp add: grantable_def)
  ultimately show ?thesis
    unfolding create_reservation_cases [OF assms(2)]
    by (cases "bt_get (sk_models (as_runtime s)) (crr_model req)")
      (auto simp: grantable_def word_zero_unat Let_def req create_request_of_def default_requested_slots_def)
qed

theorem reservation_request_statuses_witness:
  "fst (dispatch test_decoders 5000000000 post_reservation test_state) =
     Replied (CREATED, ReservationBody (granted 5000000000 first_request test_runtime))"
  using reservation_request_statuses [of test_state post_reservation test_decoders first_fields first_request 5000000000]
    grantable_first
  by (auto simp: test_inv post_reservation_def test_decoders_def)

text \<open>
  C14. Over HTTP a reservation that is posted and then deleted under the identifier of the answer is
  gone: the deletion is answered with 204, and the list of reservations is what it was without any
  reservation under that identifier.  While the 64-bit counter of the runtime is below its largest
  value the identifier was new, so that the list is what it was.
\<close>

theorem http_create_then_delete_restores:
  assumes "as_methods s = skeleton_methods" and inv: "runtime_inv (as_runtime s)"
    and "rq_method rq = POST" and "rq_segments rq = [''v1'', ''reservations'']"
    and "dispatch D now rq s = (Replied (CREATED, ReservationBody r), s')"
    and "rq_method rq' = DELETE" and "rq_segments rq' = [''v1'', ''reservations'', mr_reservation_id r]"
    and "dispatch D now' rq' s' = (out, s'')"
  shows "out = Replied (NO_CONTENT, EmptyBody)
    \<and> list_reservations s'' = (OK, ReservationsBody (filter (\<lambda>q. mr_reservation_id q \<noteq> mr_reservation_id r)
         (reservations (as_runtime s))))
    \<and> (unat (st_next_reservation_id (lock_state (as_runtime s))) < 2 ^ 64 - 1 \<longrightarrow>
         list_reservations s'' = list_reservations s)"
proof -
  from assms(3-5) obtain req where c: "create_reservation_handler now req s = ((CREATED, ReservationBody r), s')"
    by (auto simp: dispatch_def route_cases split: option.splits prod.splits)
  then obtain rt where rt: "create_reservation now req (as_runtime s) = (Inr r, rt)"
    and s': "s' = s\<lparr>as_runtime := rt\<rparr>"
    using assms(1) by (cases "fst (create_reservation now req (as_runtime s))")
      (auto simp: create_reservation_handler_def skeleton_methods_def split: prod.splits)
  have "mr_reservation_id r \<noteq> []"
    using create_reservation_id [OF rt] by (simp add: reservation_id_def)
  with assms(6-8) have d: "(out, s'') = map_prod Replied id (delete_reservation (mr_reservation_id r) s')"
    by (auto simp: dispatch_def route_delete)
  obtain res rt' where rt': "release_reservation (mr_reservation_id r) rt = (res, rt')"
    by (cases "release_reservation (mr_reservation_id r) rt")
  from release_undoes_grant [OF inv rt rt'] d show ?thesis
    using assms(1) by (simp add: s' rt' delete_reservation_def skeleton_methods_def list_reservations_def)
qed

theorem http_create_then_delete_restores_witness:
  "case dispatch test_decoders 6000000000 (delete_request ''resv-000001'') test_state_after_first of
     (out, s) \<Rightarrow> out = Replied (NO_CONTENT, EmptyBody) \<and> list_reservations s = list_reservations test_state"
proof -
  obtain out s where d: "dispatch test_decoders 6000000000 (delete_request ''resv-000001'') test_state_after_first = (out, s)"
    by (rule prod.exhaust)
  have "unat (st_next_reservation_id (lock_state (as_runtime test_state))) < 2 ^ 64 - 1" by (simp add: runtime_eval)
  with http_create_then_delete_restores [OF _ _ _ _ post_test_state _ _ d]
  have "out = Replied (NO_CONTENT, EmptyBody)" "list_reservations s = list_reservations test_state"
    by (auto simp: test_inv post_reservation_def delete_request_def)
  then show ?thesis by (simp add: d)
qed

section \<open>Every interleaving\<close>

text \<open>
  Safety of the running daemon: from a daemon built from a configuration, after every
  interleaving of HTTP requests and gossip messages, the configuration, the identity and the
  announced capability are the ones it was built with, no model is reserved beyond its slots, and
  every peer shown is an admissible agent of the mesh other than this node.
\<close>

lemma running_daemon_is_safe:
  assumes "from_config M cfg w = (Inr d, w')" and "daemon_reach (m_ext M) D (app_state_of d) evs s"
  shows "as_config s = cfg \<and> as_identity s = from_agent (m_ext M) (d_agent d) \<and> as_capability s = d_capability d
    \<and> (\<forall>lm \<in> set (ra_local_models (as_methods s) (as_runtime s)).
         sum_list (map (\<lambda>r. unat (mr_requested_slots r))
           (filter (\<lambda>r. mr_model r = lm_id lm) (ra_reservations (as_methods s) (as_runtime s)))) \<le> unat (lm_total_slots lm))
    \<and> (\<forall>p \<in> set (registry_snapshot (as_peers s)).
         peer_ok (m_ext M) cfg (encode_agent_id (m_ext M) (xa_agent_id (d_agent d)))
           (ais_agent_id (cap_identity (pr_capability p))) p)"
proof (intro conjI ballI)
  note d = from_config_daemon [OF assms(1)] and const = reach_constant [OF assms(2)]
  show "as_config s = cfg" "as_identity s = from_agent (m_ext M) (d_agent d)" "as_capability s = d_capability d"
    using d const by (simp_all add: app_state_of_def)
  show "sum_list (map (\<lambda>r. unat (mr_requested_slots r))
      (filter (\<lambda>r. mr_model r = lm_id lm) (ra_reservations (as_methods s) (as_runtime s)))) \<le> unat (lm_total_slots lm)"
    if "lm \<in> set (ra_local_models (as_methods s) (as_runtime s))" for lm
    using skeleton.reach_capacity [OF assms(2) _ _ that] d by (simp add: app_state_of_def runtime_inv_new)
  have "registry_inv (m_ext M) cfg (encode_agent_id (m_ext M) (xa_agent_id (d_agent d))) (as_peers s)"
    using reach_registry [OF assms(2)] d const by (simp add: app_state_of_def registry_inv_new from_agent_def)
  then show "peer_ok (m_ext M) cfg (encode_agent_id (m_ext M) (xa_agent_id (d_agent d)))
      (ais_agent_id (cap_identity (pr_capability p))) p" if "p \<in> set (registry_snapshot (as_peers s))" for p
    using that by (auto simp: registry_inv_def registry_snapshot_def in_bt_values) (auto simp: peer_ok_def)
qed

text \<open>
  C18. Requests and gossip do not interfere: a request followed by a gossip message ends in the same
  state as the message followed by the request, and the answer to the request is the same in both
  orders unless it asks for the peers.
\<close>

theorem requests_and_gossip_commute:
  assumes "daemon_step X D s (HttpEvent now rq out) t" and "daemon_step X D t (GossipEvent e disp) u"
  shows "\<exists>t' out'. daemon_step X D s (GossipEvent e disp) t' \<and> daemon_step X D t' (HttpEvent now rq out') u
    \<and> (route_request (rq_method rq) (rq_segments rq) \<noteq> Handler PeerCapabilities \<longrightarrow> out' = out)"
proof -
  from assms(1) have d: "dispatch D now rq s = (out, t)" by auto
  from assms(2) obtain r where join: "join_network_on_start (as_config t)" and u: "u = t\<lparr>as_peers := r\<rparr>"
    and m: "apply_message X (ge_now e) (as_config t) (ais_agent_id (as_identity t)) (ge_contacts e)
      (ge_message e) (as_peers t) = (disp, r)" by blast
  from d dispatch_frame [of D now rq s] obtain rt where t: "t = s\<lparr>as_runtime := rt\<rparr>" by auto
  have g: "daemon_step X D s (GossipEvent e disp) (s\<lparr>as_peers := r\<rparr>)"
    using join m by (intro daemon_step.gossip) (simp_all add: t)
  have "snd (dispatch D now rq (s\<lparr>as_peers := r\<rparr>)) = u" using d by (simp add: dispatch_peers u)
  then have h: "daemon_step X D (s\<lparr>as_peers := r\<rparr>)
      (HttpEvent now rq (fst (dispatch D now rq (s\<lparr>as_peers := r\<rparr>)))) u"
    by (intro daemon_step.http) (metis prod.collapse)
  show ?thesis
    using g h dispatch_peers(2) [of rq D now r s] d by (metis fst_conv)
qed

theorem requests_and_gossip_commute_witness:
  "\<exists>disp t' u. daemon_step (test_externals []) test_decoders online_state (GossipEvent test_gossip disp) t'
     \<and> daemon_step (test_externals []) test_decoders t'
         (HttpEvent 5000000000 post_reservation (Replied (CREATED, ReservationBody first_reservation))) u"
proof -
  have "dispatch test_decoders 5000000000 post_reservation online_state =
      (Replied (CREATED, ReservationBody first_reservation), online_state\<lparr>as_runtime := runtime_after_first\<rparr>)"
    by (simp add: dispatch_def post_reservation_def route_cases test_decoders_def create_reservation_handler_def
        skeleton_methods_def create_first online_state_def)
  then have a: "daemon_step (test_externals []) test_decoders online_state
      (HttpEvent 5000000000 post_reservation (Replied (CREATED, ReservationBody first_reservation)))
      (online_state\<lparr>as_runtime := runtime_after_first\<rparr>)" by (rule daemon_step.http)
  let ?t = "online_state\<lparr>as_runtime := runtime_after_first\<rparr>"
  obtain disp r where "apply_message (test_externals []) (ge_now test_gossip) (as_config ?t)
      (ais_agent_id (as_identity ?t)) (ge_contacts test_gossip) (ge_message test_gossip) (as_peers ?t) = (disp, r)"
    by (rule prod.exhaust)
  from daemon_step.gossip [OF _ this] have b: "daemon_step (test_externals []) test_decoders ?t
      (GossipEvent test_gossip disp) (?t\<lparr>as_peers := r\<rparr>)" by (simp add: online_state_def)
  have "route_request (rq_method post_reservation) (rq_segments post_reservation) \<noteq> Handler PeerCapabilities"
    by (simp add: post_reservation_def route_cases)
  with requests_and_gossip_commute [OF a b] show ?thesis by metis
qed

text \<open>
  C13. Startup order: whatever fails, the effects of running the daemon are a prefix of one fixed
  sequence, and all of it when it succeeds.  With the network switched on it joins, subscribes,
  starts the loop and publishes the announcement, if it announces, before it binds and serves;
  with the network switched off it only binds and serves.
\<close>

theorem startup_order:
  "let cfg = d_config d; h = w_trace w @ [JoinNetwork, Subscribe (capability_topic cfg), SpawnSubscriptionLoop (ais_agent_id (d_identity d))];
       payload = (case json_to_vec (m_ext M) (announcement_local (m_sys M h) (m_now M h) cfg (d_identity d)) of
                    Inr bytes \<Rightarrow> bytes | Inl err \<Rightarrow> []);
       effects = (if join_network_on_start cfg then
           [JoinNetwork, Subscribe (capability_topic cfg), SpawnSubscriptionLoop (ais_agent_id (d_identity d))]
             @ (if announce_on_start cfg then [Publish (capability_topic cfg) payload] else [])
         else []) @ [TcpBind (api_bind cfg), Serve]
   in \<exists>k. w_trace (snd (daemon_run M d w)) = w_trace w @ take k effects
        \<and> (isl (fst (daemon_run M d w)) \<or> length effects \<le> k)"
proof -
  let ?as = "startup_script M d (w_trace w)"
  obtain k where k: "w_trace (snd (daemon_run M d w)) = w_trace w @ take k (script_effects ?as)"
    "isl (fst (daemon_run M d w)) \<or> length (script_effects ?as) \<le> k \<and> \<not> aborts ?as"
    using run_script_trace [of "m_env M" ?as w] unfolding daemon_run_script by blast
  show ?thesis
  proof (cases "aborts ?as")
    case False
    with k show ?thesis
      unfolding Let_def
      by (intro exI [of _ k])
        (auto simp: startup_script_def announce_actions_def network_actions_def aborts_def
          simp del: take_append split: sum.splits if_splits)
  next
    case True
    then have "join_network_on_start (d_config d)" "script_effects ?as = script_effects (network_actions d)"
      by (auto simp: startup_script_def announce_actions_def network_actions_def aborts_def split: sum.splits if_splits)
    moreover have "take (min k 3) (x # y # z # rest) = take k [x, y, z]" for x y z :: effect and rest
      by (auto simp: min_def take_Cons')
    ultimately show ?thesis using k True
      unfolding Let_def by (intro exI [of _ "min k 3"]) (simp add: network_actions_def)
  qed
qed

end
