(* ===== verification/Cli_Props.thy ===== *)
theory Cli_Props
  imports Fixtures
begin

text \<open>
  The properties of the two binaries: which commands stay away from the network, and what
  \<open>print-config\<close> prints.
\<close>

section \<open>Computations without network effects\<close>

definition network_effect :: "effect \<Rightarrow> bool" where
  "network_effect e =
     (case e of JoinNetwork \<Rightarrow> True | Subscribe _ \<Rightarrow> True | SpawnSubscriptionLoop _ \<Rightarrow> True
      | Publish _ _ \<Rightarrow> True | TcpBind _ \<Rightarrow> True | Serve \<Rightarrow> True | _ \<Rightarrow> False)"

definition offline :: "('e, 'a) io \<Rightarrow> bool" where
  "offline m \<longleftrightarrow> (\<forall>w. \<exists>es. w_trace (snd (m w)) = w_trace w @ es \<and> list_all (\<lambda>e. \<not> network_effect e) es)"

named_theorems offline_intros \<open>composition of computations without network effects\<close>

lemma offlineI:
  "(\<And>w. \<exists>es. w_trace (snd (m w)) = w_trace w @ es \<and> list_all (\<lambda>e. \<not> network_effect e) es) \<Longrightarrow> offline m"
  by (simp add: offline_def)

lemma offline_bind [offline_intros]: "offline m \<Longrightarrow> (\<And>x. offline (f x)) \<Longrightarrow> offline (io_bind m f)"
proof (rule offlineI)
  fix w
  assume m: "offline m" and f: "\<And>x. offline (f x)"
  obtain r v where mw: "m w = (r, v)" by (rule prod.exhaust)
  with m obtain es where es: "w_trace v = w_trace w @ es" "list_all (\<lambda>e. \<not> network_effect e) es"
    unfolding offline_def by (metis snd_conv)
  show "\<exists>es. w_trace (snd (io_bind m f w)) = w_trace w @ es \<and> list_all (\<lambda>e. \<not> network_effect e) es"
  proof (cases r)
    case (Inl e)
    with mw es show ?thesis by (auto simp: io_bind_def)
  next
    case (Inr x)
    from f [of x] obtain fs where "w_trace (snd (f x v)) = w_trace v @ fs" "list_all (\<lambda>e. \<not> network_effect e) fs"
      unfolding offline_def by blast
    with Inr mw es show ?thesis by (intro exI [of _ "es @ fs"]) (simp add: io_bind_def)
  qed
qed

lemma offline_world: "(\<And>v. offline (m v)) \<Longrightarrow> offline (\<lambda>w. m w w)"
  by (simp add: offline_def)

lemma offline_perform [offline_intros]: "\<not> network_effect e \<Longrightarrow> offline (perform env conv e)"
  by (rule offlineI) (simp add: perform_def split: option.split)

lemma offline_emit [offline_intros]: "\<not> network_effect e \<Longrightarrow> offline (emit e)"
  by (rule offlineI) (simp add: emit_def)

lemma offline_lift [offline_intros]: "offline (io_lift r)" "offline (io_return x)"
  by (simp_all add: offline_def)

lemma offline_map_err [offline_intros]: "offline m \<Longrightarrow> offline (io_map_err g m)"
  by (simp add: offline_def)

lemma offline_lib [offline_intros]: "offline m \<Longrightarrow> offline (lib m)"
  unfolding lib_def by (rule offline_map_err)

lemma offline_if [offline_intros]: "offline m \<Longrightarrow> offline n \<Longrightarrow> offline (if b then m else n)"
  by simp

lemma local_effects [simp]:
  "\<not> network_effect (ReadToString p)" "\<not> network_effect (CreateDirAll p)" "\<not> network_effect (WriteFile p s)"
  "\<not> network_effect (BuildAgent b)" "\<not> network_effect (Println s)" "\<not> network_effect (Eprintln s)"
  by (simp_all add: network_effect_def)

lemma offline_files [offline_intros]:
  "offline (read_to_string env p)" "offline (create_dir_all env p)" "offline (write_file env p s)"
  by (rule offlineI, force simp: read_to_string_def create_dir_all_def write_file_def io_bind_def perform_def
      io_error_def split: option.split fs_node.split)+

lemma offline_load [offline_intros]: "offline (load_or_default env d T p)"
proof -
  have "offline (\<lambda>w. if path_exists v (resolve_path d p)
      then io_bind (read_to_string env (resolve_path d p)) (\<lambda>raw. io_lift (map_err TomlDecode (toml_from_str T raw))) w
      else io_return (default_compute_config d) w)" for v
    by (cases "path_exists v (resolve_path d p)") (simp_all add: offline_intros del: io_simps)
  then show ?thesis unfolding load_or_default_def [abs_def] Let_def by (rule offline_world)
qed

lemma offline_build [offline_intros]: "offline (build_agent env cfg)"
  unfolding build_agent_def Let_def by (intro offline_intros) simp

lemma offline_write_default [offline_intros]: "offline (write_default env d T p)"
  unfolding write_default_def write_to_path_def Let_def by (intro offline_intros)

section \<open>The commands\<close>

text \<open>
  C38. Only starting the daemon uses the network: the commands \<open>check\<close>, \<open>identity\<close>,
  \<open>capability\<close> and \<open>print-config\<close>, and the daemon binary with \<open>--check\<close>, neither
  join, subscribe, publish, bind nor serve, whatever the configuration says and whatever fails.
\<close>

theorem only_start_uses_the_network:
  assumes "cli_command args = Some c" and "c \<noteq> Start" and "ccli_check cargs"
  shows "\<exists>es fs. w_trace (snd (compute_main I args w)) = w_trace w @ es
    \<and> w_trace (snd (computed_main I cargs w)) = w_trace w @ fs
    \<and> list_all (\<lambda>e. \<not> network_effect e) (es @ fs)"
proof -
  have capability: "offline (\<lambda>w. io_bind (io_lift (map_err JsonPrintError (i_json_capability I
        (announcement_local (m_sys I (w_trace w)) (m_now I (w_trace w)) cfg identity)))) (\<lambda>text. emit (Println text)) w)"
    for cfg identity by (rule offline_world) (intro offline_intros local_effects)
  have main: "offline (compute_main I args)"
    using assms(2) unfolding compute_main_def Let_def assms(1) option.case
    by (cases c) (auto intro!: offline_bind offline_lib offline_load offline_build offline_emit offline_lift
        offline_write_default offline_if capability simp del: io_simps)
  have "offline (computed_main I cargs)"
    unfolding computed_main_def Let_def using assms(3)
    by (auto intro!: offline_bind offline_lib offline_load offline_build offline_emit simp del: io_simps)
  with main show ?thesis unfolding offline_def by (metis list_all_append)
qed

section \<open>Inputs of the witnesses\<close>

definition test_installation :: "test_store installation" where
  "test_installation =
     \<lparr>m_env = calm_env, m_ext = test_externals [],
      m_sys = (\<lambda>h. \<lparr>sys_host_name = None, sys_cpu_brands = [], sys_total_memory = 1, sys_available_memory = 1\<rparr>),
      m_now = (\<lambda>h. 5000000000),
      i_dirs = test_dirs, i_toml = test_toml runtime_test_config (default_compute_config test_dirs),
      i_json_identity = (\<lambda>i. Inr ''identity''), i_json_capability = (\<lambda>c. Inr ''capability'')\<rparr>"

text \<open>A world with a configuration file at the default place.\<close>

definition configured_world :: world where
  "configured_world = \<lparr>w_fs = [default_path test_dirs \<mapsto> FileNode ''a''], w_trace = []\<rparr>"

definition print_config_args :: "bool \<Rightarrow> cli" where
  "print_config_args write = \<lparr>cli_config = None, cli_command = Some (PrintConfig write)\<rparr>"

lemma configs_differ: "default_compute_config test_dirs \<noteq> runtime_test_config"
  by (simp add: default_compute_config_def runtime_test_config_def)

lemma test_installation_simps [simp]:
  "m_env test_installation = calm_env" "i_dirs test_installation = test_dirs"
  "toml_from_str (i_toml test_installation) ''a'' = Inr runtime_test_config"
  "toml_to_string_pretty (i_toml test_installation) runtime_test_config = Inr ''a''"
  "toml_to_string_pretty (i_toml test_installation) (default_compute_config test_dirs) = Inr ''b''"
  using configs_differ by (simp_all add: test_installation_def test_toml_def)

lemma load_configured:
  "load_or_default calm_env test_dirs (i_toml test_installation) None configured_world =
     (Inr runtime_test_config, configured_world\<lparr>w_trace := [ReadToString (default_path test_dirs)]\<rparr>)"
  by (simp add: load_or_default_def path_exists_def resolve_path_def configured_world_def
      read_to_string_def io_bind_def perform_def calm_env_def Let_def)

lemma default_place: "default_path test_dirs = \<lparr>p_abs = True, p_comps = [''etc'', ''x0x-compute'', ''config.toml'']\<rparr>"
  by (simp add: default_path_def default_config_dir_def test_dirs_def path_join_def)

lemma print_config_runs:
  "fst (compute_main test_installation (print_config_args True) configured_world) = Inr ()"
proof -
  have prefixes: "path_prefixes \<lparr>p_abs = True, p_comps = [''etc'', ''x0x-compute'']\<rparr> =
      [\<lparr>p_abs = True, p_comps = [''etc'']\<rparr>, \<lparr>p_abs = True, p_comps = [''etc'', ''x0x-compute'']\<rparr>]"
    by (simp add: path_prefixes_def)
  let ?w = "configured_world\<lparr>w_trace := [ReadToString (default_path test_dirs)]\<rparr>"
  have "fst (write_default calm_env test_dirs (i_toml test_installation) None ?w) = Inr (default_path test_dirs)"
    by (simp add: write_default_def write_to_path_def resolve_path_def default_place Let_def path_parent_def
        io_bind_def create_dir_all_def write_file_def perform_def calm_env_def configured_world_def
        prefixes is_dir_def)
  then obtain v where "write_default calm_env test_dirs (i_toml test_installation) None ?w = (Inr (default_path test_dirs), v)"
    by (cases "write_default calm_env test_dirs (i_toml test_installation) None ?w") simp
  then show ?thesis
    by (simp add: compute_main_def print_config_args_def lib_def io_map_err_def load_configured Let_def
        io_bind_def emit_def)
qed

theorem only_start_uses_the_network_witness:
  "\<exists>es. w_trace (snd (compute_main test_installation (print_config_args True) configured_world)) = es
     \<and> list_all (\<lambda>e. \<not> network_effect e) es"
  using only_start_uses_the_network [of "print_config_args True" "PrintConfig True"
      "\<lparr>ccli_config = None, ccli_check = True\<rparr>" test_installation configured_world]
  by (auto simp: print_config_args_def configured_world_def)

text \<open>
  C37. \<open>print-config\<close> prints the configuration that was in force when it started: the last
  thing it does is to print the encoding of the loaded configuration, also with
  \<open>--write-default\<close>, where the file at the configuration path holds the default
  configuration afterwards.
\<close>

theorem print_config_prints_loaded_config:
  assumes "fst (load_or_default (m_env I) (i_dirs I) (i_toml I) p w) = Inr cfg"
    and "compute_main I \<lparr>cli_config = p, cli_command = Some (PrintConfig write)\<rparr> w = (Inr u, w')"
  shows "\<exists>text h. toml_to_string_pretty (i_toml I) cfg = Inr text \<and> w_trace w' = h @ [Println text]
    \<and> (if write then (\<exists>raw. toml_to_string_pretty (i_toml I) (default_compute_config (i_dirs I)) = Inr raw
           \<and> w_fs w' (resolve_path (i_dirs I) p) = Some (FileNode raw))
       else w_fs w' = w_fs w)"
proof -
  obtain v where v: "load_or_default (m_env I) (i_dirs I) (i_toml I) p w = (Inr cfg, v)"
    using assms(1) by (cases "load_or_default (m_env I) (i_dirs I) (i_toml I) p w") simp
  have fs: "w_fs v = w_fs w" using load_or_default_fs [of "m_env I" "i_dirs I" "i_toml I" p w] v by simp
  show ?thesis
  proof (cases "write")
    case False
    with assms(2) v fs show ?thesis
      by (auto simp: compute_main_def lib_def io_map_err_def Let_def io_bind_def emit_def map_err_def split: sum.splits)
  next
    case True
    let ?wr = "write_default (m_env I) (i_dirs I) (i_toml I) p v"
    from True assms(2) v obtain q x where wr: "?wr = (Inr q, x)"
      by (cases ?wr; cases "fst ?wr")
        (auto simp: compute_main_def lib_def io_map_err_def Let_def io_bind_def)
    then obtain t where "write_to_path (m_env I) (i_toml I) (default_compute_config (i_dirs I)) (resolve_path (i_dirs I) p) v = (Inr t, x)"
      by (auto simp: write_default_def Let_def dest!: io_bind_InrD)
    from write_to_path_Inr [OF this] True assms(2) v wr show ?thesis
      by (auto simp: compute_main_def lib_def io_map_err_def Let_def io_bind_def emit_def map_err_def split: sum.splits)
  qed
qed

theorem print_config_prints_loaded_config_witness:
  "let w' = snd (compute_main test_installation (print_config_args True) configured_world) in
   last (w_trace w') = Println ''a'' \<and> w_fs w' (default_path test_dirs) = Some (FileNode ''b'')"
proof -
  have l: "fst (load_or_default (m_env test_installation) (i_dirs test_installation) (i_toml test_installation) None
      configured_world) = Inr runtime_test_config" by (simp add: load_configured)
  obtain w' where w': "compute_main test_installation (print_config_args True) configured_world = (Inr (), w')"
    using print_config_runs by (cases "compute_main test_installation (print_config_args True) configured_world") simp
  from print_config_prints_loaded_config [OF l w' [unfolded print_config_args_def]] show ?thesis
    by (auto simp: w' resolve_path_def)
qed

end
