(* ===== verification/Wire.thy ===== *)
theory Wire
  imports Daemon "HOL-Library.Monad_Syntax"
begin

text \<open>
  The serde derives of the data types, as values: what a record becomes and which values become
  a record again.  The names and the order of the fields, the defaults and the renamings are the
  attributes of the source.  Text is a parameter: a parser and a printer of values, and the
  texts of the types of the standard library and of x0x.
\<close>

section \<open>Values\<close>

text \<open>
  A number is an integer or the literal of any other number.  An object is the list of its
  members as they were written, so that a repeated key is seen.
\<close>

datatype wire_value =
    VNull
  | VBool bool
  | VInt int
  | VReal string
  | VString string
  | VArray "wire_value list"
  | VObject "(string \<times> wire_value) list"

section \<open>Serialization\<close>

definition v_uint :: "'a::len word \<Rightarrow> wire_value" where
  "v_uint w = VInt (uint w)"

definition v_opt :: "('a \<Rightarrow> wire_value) \<Rightarrow> 'a option \<Rightarrow> wire_value" where
  "v_opt f x = (case x of Some y \<Rightarrow> f y | None \<Rightarrow> VNull)"

definition v_list :: "('a \<Rightarrow> wire_value) \<Rightarrow> 'a list \<Rightarrow> wire_value" where
  "v_list f xs = VArray (map f xs)"

definition identity_value :: "agent_identity_snapshot \<Rightarrow> wire_value" where
  "identity_value i =
     VObject [(''machine_id'', VString (ais_machine_id i)), (''agent_id'', VString (ais_agent_id i)),
              (''user_id'', v_opt VString (ais_user_id i))]"

definition hardware_value :: "hardware_profile \<Rightarrow> wire_value" where
  "hardware_value h =
     VObject [(''hostname'', v_opt VString (hw_hostname h)), (''cpu_brand'', VString (hw_cpu_brand h)),
              (''logical_cores'', VInt (int (hw_logical_cores h))),
              (''total_memory_bytes'', v_uint (hw_total_memory_bytes h)),
              (''available_memory_bytes'', v_uint (hw_available_memory_bytes h))]"

definition policy_value :: "trusted_mesh_policy \<Rightarrow> wire_value" where
  "policy_value p =
     VObject [(''mesh_name'', VString (pol_mesh_name p)),
              (''trusted_friends_only'', VBool (pol_trusted_friends_only p)),
              (''require_trusted_contacts'', VBool (pol_require_trusted_contacts p)),
              (''prefer_user_identity'', VBool (pol_prefer_user_identity p))]"

definition announcement_value :: "capability_announcement \<Rightarrow> wire_value" where
  "announcement_value a =
     VObject [(''protocol_version'', v_uint (cap_protocol_version a)),
              (''identity'', identity_value (cap_identity a)),
              (''hardware'', hardware_value (cap_hardware a)),
              (''policy'', policy_value (cap_policy a)),
              (''available_models'', v_list VString (cap_available_models a)),
              (''observed_at_unix_secs'', v_uint (cap_observed_at_unix_secs a))]"

text \<open>The names of trust decisions belong to x0x and are a parameter.\<close>

definition peer_record_value :: "(trust_decision \<Rightarrow> string) \<Rightarrow> peer_capability_record \<Rightarrow> wire_value" where
  "peer_record_value names p =
     VObject [(''capability'', announcement_value (pr_capability p)),
              (''trust_decision'', VString (names (pr_trust_decision p))),
              (''first_seen_unix_secs'', v_uint (pr_first_seen_unix_secs p)),
              (''last_seen_unix_secs'', v_uint (pr_last_seen_unix_secs p))]"

fun backend_value :: "runtime_backend \<Rightarrow> wire_value" where
  "backend_value Skeleton = VString ''skeleton''"

definition inventory_value :: "local_model_inventory \<Rightarrow> wire_value" where
  "inventory_value m =
     VObject [(''id'', VString (lm_id m)), (''family'', VString (lm_family m)),
              (''runtime_backend'', backend_value (lm_runtime_backend m)),
              (''context_window_tokens'', v_uint (lm_context_window_tokens m)),
              (''max_output_tokens'', v_uint (lm_max_output_tokens m)),
              (''total_slots'', v_uint (lm_total_slots m)),
              (''reserved_slots'', v_uint (lm_reserved_slots m)),
              (''available_slots'', v_uint (lm_available_slots m)),
              (''tags'', v_list VString (lm_tags m))]"

definition reservation_value :: "model_reservation \<Rightarrow> wire_value" where
  "reservation_value r =
     VObject [(''reservation_id'', VString (mr_reservation_id r)), (''model'', VString (mr_model r)),
              (''consumer'', VString (mr_consumer r)),
              (''requested_slots'', v_uint (mr_requested_slots r)),
              (''granted_at_unix_secs'', v_uint (mr_granted_at_unix_secs r))]"

definition model_card_value :: "openai_model_card \<Rightarrow> wire_value" where
  "model_card_value c =
     VObject [(''id'', VString (card_id c)), (''object'', VString (card_object c)),
              (''created'', v_uint (card_created c)), (''owned_by'', VString (card_owned_by c))]"

definition model_list_value :: "openai_model_list_response \<Rightarrow> wire_value" where
  "model_list_value l =
     VObject [(''object'', VString (list_object l)), (''data'', v_list model_card_value (list_data l))]"

definition message_value :: "openai_chat_message \<Rightarrow> wire_value" where
  "message_value m = VObject [(''role'', VString (msg_role m)), (''content'', VString (msg_content m))]"

definition choice_value :: "openai_chat_choice \<Rightarrow> wire_value" where
  "choice_value c =
     VObject [(''index'', v_uint (ch_index c)), (''message'', message_value (ch_message c)),
              (''finish_reason'', VString (ch_finish_reason c))]"

definition usage_value :: "openai_usage \<Rightarrow> wire_value" where
  "usage_value u =
     VObject [(''prompt_tokens'', v_uint (us_prompt_tokens u)),
              (''completion_tokens'', v_uint (us_completion_tokens u)),
              (''total_tokens'', v_uint (us_total_tokens u))]"

definition completion_value :: "openai_chat_completion_response \<Rightarrow> wire_value" where
  "completion_value r =
     VObject [(''id'', VString (cc_id r)), (''object'', VString (cc_object r)),
              (''created'', v_uint (cc_created r)), (''model'', VString (cc_model r)),
              (''choices'', v_list choice_value (cc_choices r)), (''usage'', usage_value (cc_usage r))]"

definition error_value :: "error_body \<Rightarrow> wire_value" where
  "error_value e =
     VObject [(''error'', VObject [(''type'', VString (err_type e)), (''message'', VString (err_message e))])]"

definition health_value :: "string \<Rightarrow> wire_value" where
  "health_value status = VObject [(''status'', VString status)]"

section \<open>Deserialization\<close>

text \<open>
  A derived struct is read from an object, by name: unknown members are ignored and a known one
  must not be repeated; or from an array, by position: the last elements may be missing when their
  fields have a default.
\<close>

definition struct_fields ::
  "string list \<Rightarrow> wire_value \<Rightarrow> (bool \<times> (string \<times> wire_value) list) option" where
  "struct_fields names v =
     (case v of
        VObject members \<Rightarrow>
          if distinct (filter (\<lambda>k. k \<in> set names) (map fst members)) then Some (False, members) else None
      | VArray vs \<Rightarrow> if length vs \<le> length names then Some (True, zip names vs) else None
      | _ \<Rightarrow> None)"

definition required :: "(wire_value \<Rightarrow> 'a option) \<Rightarrow> string \<Rightarrow> bool \<times> (string \<times> wire_value) list \<Rightarrow> 'a option" where
  "required dec name fs = Option.bind (map_of (snd fs) name) dec"

definition defaulted ::
  "'a \<Rightarrow> (wire_value \<Rightarrow> 'a option) \<Rightarrow> string \<Rightarrow> bool \<times> (string \<times> wire_value) list \<Rightarrow> 'a option" where
  "defaulted d dec name fs = (case map_of (snd fs) name of Some v \<Rightarrow> dec v | None \<Rightarrow> Some d)"

text \<open>An \<open>Option\<close> field without a default may be missing from an object, not from an array.\<close>

definition optional ::
  "(wire_value \<Rightarrow> 'a option) \<Rightarrow> string \<Rightarrow> bool \<times> (string \<times> wire_value) list \<Rightarrow> 'a option option" where
  "optional dec name fs =
     (case map_of (snd fs) name of
        Some v \<Rightarrow> if v = VNull then Some None else map_option Some (dec v)
      | None \<Rightarrow> if fst fs then None else Some None)"

definition dec_string :: "wire_value \<Rightarrow> string option" where
  "dec_string v = (case v of VString s \<Rightarrow> Some s | _ \<Rightarrow> None)"

definition dec_bool :: "wire_value \<Rightarrow> bool option" where
  "dec_bool v = (case v of VBool b \<Rightarrow> Some b | _ \<Rightarrow> None)"

definition dec_uint :: "wire_value \<Rightarrow> 'a::len word option" where
  "dec_uint v =
     (case v of VInt n \<Rightarrow> if 0 \<le> n \<and> n < 2 ^ LENGTH('a) then Some (word_of_int n) else None | _ \<Rightarrow> None)"

definition dec_usize :: "wire_value \<Rightarrow> nat option" where
  "dec_usize v = (case v of VInt n \<Rightarrow> if 0 \<le> n \<and> n < 2 ^ 64 then Some (nat n) else None | _ \<Rightarrow> None)"

definition dec_option :: "(wire_value \<Rightarrow> 'a option) \<Rightarrow> wire_value \<Rightarrow> 'a option option" where
  "dec_option dec v = (if v = VNull then Some None else map_option Some (dec v))"

definition dec_list :: "(wire_value \<Rightarrow> 'a option) \<Rightarrow> wire_value \<Rightarrow> 'a list option" where
  "dec_list dec v = (case v of VArray vs \<Rightarrow> those (map dec vs) | _ \<Rightarrow> None)"

definition identity_of_value :: "wire_value \<Rightarrow> agent_identity_snapshot option" where
  "identity_of_value v = do {
     fs \<leftarrow> struct_fields [''machine_id'', ''agent_id'', ''user_id''] v;
     machine_id \<leftarrow> required dec_string ''machine_id'' fs;
     agent_id \<leftarrow> required dec_string ''agent_id'' fs;
     user_id \<leftarrow> optional dec_string ''user_id'' fs;
     Some \<lparr>ais_machine_id = machine_id, ais_agent_id = agent_id, ais_user_id = user_id\<rparr>
   }"

definition hardware_of_value :: "wire_value \<Rightarrow> hardware_profile option" where
  "hardware_of_value v = do {
     fs \<leftarrow> struct_fields [''hostname'', ''cpu_brand'', ''logical_cores'', ''total_memory_bytes'',
                       ''available_memory_bytes''] v;
     hostname \<leftarrow> optional dec_string ''hostname'' fs;
     cpu_brand \<leftarrow> required dec_string ''cpu_brand'' fs;
     logical_cores \<leftarrow> required dec_usize ''logical_cores'' fs;
     total_memory \<leftarrow> required dec_uint ''total_memory_bytes'' fs;
     available_memory \<leftarrow> required dec_uint ''available_memory_bytes'' fs;
     Some \<lparr>hw_hostname = hostname, hw_cpu_brand = cpu_brand, hw_logical_cores = logical_cores,
           hw_total_memory_bytes = total_memory, hw_available_memory_bytes = available_memory\<rparr>
   }"

definition policy_of_value :: "wire_value \<Rightarrow> trusted_mesh_policy option" where
  "policy_of_value v = do {
     fs \<leftarrow> struct_fields [''mesh_name'', ''trusted_friends_only'', ''require_trusted_contacts'',
                       ''prefer_user_identity''] v;
     mesh_name \<leftarrow> required dec_string ''mesh_name'' fs;
     friends_only \<leftarrow> required dec_bool ''trusted_friends_only'' fs;
     trusted_contacts \<leftarrow> required dec_bool ''require_trusted_contacts'' fs;
     user_identity \<leftarrow> required dec_bool ''prefer_user_identity'' fs;
     Some \<lparr>pol_mesh_name = mesh_name, pol_trusted_friends_only = friends_only,
           pol_require_trusted_contacts = trusted_contacts, pol_prefer_user_identity = user_identity\<rparr>
   }"

definition announcement_fields :: "string list" where
  "announcement_fields =
     [''protocol_version'', ''identity'', ''hardware'', ''policy'', ''available_models'', ''observed_at_unix_secs'']"

definition announcement_of_value :: "wire_value \<Rightarrow> capability_announcement option" where
  "announcement_of_value v = do {
     fs \<leftarrow> struct_fields announcement_fields v;
     protocol_version \<leftarrow> required dec_uint ''protocol_version'' fs;
     identity \<leftarrow> required identity_of_value ''identity'' fs;
     hardware \<leftarrow> required hardware_of_value ''hardware'' fs;
     policy \<leftarrow> required policy_of_value ''policy'' fs;
     available_models \<leftarrow> required (dec_list dec_string) ''available_models'' fs;
     observed_at \<leftarrow> required dec_uint ''observed_at_unix_secs'' fs;
     Some \<lparr>cap_protocol_version = protocol_version, cap_identity = identity, cap_hardware = hardware,
           cap_policy = policy, cap_available_models = available_models,
           cap_observed_at_unix_secs = observed_at\<rparr>
   }"

text \<open>The two request bodies.  A missing field with a default stays missing here.\<close>

definition create_fields_of_value :: "wire_value \<Rightarrow> create_reservation_fields option" where
  "create_fields_of_value v = do {
     fs \<leftarrow> struct_fields [''model'', ''consumer'', ''requested_slots''] v;
     model \<leftarrow> required dec_string ''model'' fs;
     consumer \<leftarrow> required dec_string ''consumer'' fs;
     slots \<leftarrow> defaulted None (\<lambda>u. map_option Some (dec_uint u)) ''requested_slots'' fs;
     Some \<lparr>crf_model = model, crf_consumer = consumer, crf_requested_slots = slots\<rparr>
   }"

definition message_of_value :: "wire_value \<Rightarrow> openai_chat_message option" where
  "message_of_value v = do {
     fs \<leftarrow> struct_fields [''role'', ''content''] v;
     role \<leftarrow> required dec_string ''role'' fs;
     content \<leftarrow> required dec_string ''content'' fs;
     Some \<lparr>msg_role = role, msg_content = content\<rparr>
   }"

text \<open>How a number becomes the bits of an \<open>f32\<close> is a parameter.\<close>

definition chat_fields_of_value :: "(wire_value \<Rightarrow> u32 option) \<Rightarrow> wire_value \<Rightarrow> chat_completion_fields option" where
  "chat_fields_of_value dec_f32 v = do {
     fs \<leftarrow> struct_fields [''model'', ''messages'', ''stream'', ''max_tokens'', ''temperature''] v;
     model \<leftarrow> required dec_string ''model'' fs;
     messages \<leftarrow> required (dec_list message_of_value) ''messages'' fs;
     stream \<leftarrow> defaulted None (\<lambda>u. map_option Some (dec_bool u)) ''stream'' fs;
     max_tokens \<leftarrow> defaulted None (dec_option dec_uint) ''max_tokens'' fs;
     temperature \<leftarrow> defaulted None (dec_option dec_f32) ''temperature'' fs;
     Some \<lparr>ccf_model = model, ccf_messages = messages, ccf_stream = stream,
           ccf_max_tokens = max_tokens, ccf_temperature = temperature\<rparr>
   }"

section \<open>The configuration\<close>

text \<open>
  The texts of socket addresses and of paths are parameters.  A unit variant is read from its name; the table spelling is left out.
\<close>

record config_texts =
  addr_text :: "socket_addr \<Rightarrow> string"
  addr_parse :: "string \<Rightarrow> socket_addr option"
  path_text :: "path \<Rightarrow> string"
  path_parse :: "string \<Rightarrow> path"

definition mesh_config_value :: "mesh_config \<Rightarrow> wire_value" where
  "mesh_config_value m =
     VObject [(''name'', VString (mesh_name m)),
              (''trusted_friends_only'', VBool (mesh_trusted_friends_only m)),
              (''require_trusted_contacts'', VBool (mesh_require_trusted_contacts m)),
              (''prefer_user_identity'', VBool (mesh_prefer_user_identity m))]"

definition runtime_config_value :: "runtime_config \<Rightarrow> wire_value" where
  "runtime_config_value r =
     VObject [(''backend'', backend_value (rt_backend r)),
              (''skeleton_response_prefix'', VString (rt_skeleton_response_prefix r))]"

definition model_config_value :: "model_config \<Rightarrow> wire_value" where
  "model_config_value m =
     VObject [(''id'', VString (mc_id m)), (''family'', VString (mc_family m)),
              (''context_window_tokens'', v_uint (mc_context_window_tokens m)),
              (''max_output_tokens'', v_uint (mc_max_output_tokens m)),
              (''max_parallel_reservations'', v_uint (mc_max_parallel_reservations m)),
              (''tags'', v_list VString (mc_tags m))]"

definition x0x_config_value :: "config_texts \<Rightarrow> x0x_config \<Rightarrow> wire_value" where
  "x0x_config_value W x =
     (let p = v_opt (\<lambda>q. VString (path_text W q)) in
      VObject [(''machine_key_path'', p (machine_key_path x)), (''agent_key_path'', p (agent_key_path x)),
               (''user_key_path'', p (user_key_path x)), (''contact_store_path'', p (contact_store_path x))])"

definition config_value :: "config_texts \<Rightarrow> compute_config \<Rightarrow> wire_value" where
  "config_value W c =
     VObject [(''api_bind'', VString (addr_text W (api_bind c))),
              (''data_dir'', VString (path_text W (data_dir c))),
              (''capability_topic'', VString (capability_topic c)),
              (''join_network_on_start'', VBool (join_network_on_start c)),
              (''announce_on_start'', VBool (announce_on_start c)),
              (''require_user_id'', VBool (require_user_id c)),
              (''resource_announce_interval_secs'', v_uint (resource_announce_interval_secs c)),
              (''mesh'', mesh_config_value (cfg_mesh c)),
              (''runtime'', runtime_config_value (cfg_runtime c)),
              (''models'', v_list model_config_value (cfg_models c)),
              (''x0x'', x0x_config_value W (cfg_x0x c))]"

definition mesh_config_of_value :: "wire_value \<Rightarrow> mesh_config option" where
  "mesh_config_of_value v = do {
     fs \<leftarrow> struct_fields [''name'', ''trusted_friends_only'', ''require_trusted_contacts'',
                       ''prefer_user_identity''] v;
     name \<leftarrow> required dec_string ''name'' fs;
     friends_only \<leftarrow> required dec_bool ''trusted_friends_only'' fs;
     trusted_contacts \<leftarrow> required dec_bool ''require_trusted_contacts'' fs;
     user_identity \<leftarrow> required dec_bool ''prefer_user_identity'' fs;
     Some \<lparr>mesh_name = name, mesh_trusted_friends_only = friends_only,
           mesh_require_trusted_contacts = trusted_contacts, mesh_prefer_user_identity = user_identity\<rparr>
   }"

definition backend_of_value :: "wire_value \<Rightarrow> runtime_backend option" where
  "backend_of_value v = (if v = VString ''skeleton'' then Some Skeleton else None)"

definition runtime_config_of_value :: "wire_value \<Rightarrow> runtime_config option" where
  "runtime_config_of_value v = do {
     fs \<leftarrow> struct_fields [''backend'', ''skeleton_response_prefix''] v;
     backend \<leftarrow> required backend_of_value ''backend'' fs;
     response_prefix \<leftarrow> required dec_string ''skeleton_response_prefix'' fs;
     Some \<lparr>rt_backend = backend, rt_skeleton_response_prefix = response_prefix\<rparr>
   }"

definition model_config_of_value :: "wire_value \<Rightarrow> model_config option" where
  "model_config_of_value v = do {
     fs \<leftarrow> struct_fields [''id'', ''family'', ''context_window_tokens'', ''max_output_tokens'',
                       ''max_parallel_reservations'', ''tags''] v;
     id \<leftarrow> required dec_string ''id'' fs;
     family \<leftarrow> required dec_string ''family'' fs;
     context_window \<leftarrow> required dec_uint ''context_window_tokens'' fs;
     max_output \<leftarrow> required dec_uint ''max_output_tokens'' fs;
     max_parallel \<leftarrow> required dec_uint ''max_parallel_reservations'' fs;
     tags \<leftarrow> defaulted [] (dec_list dec_string) ''tags'' fs;
     Some \<lparr>mc_id = id, mc_family = family, mc_context_window_tokens = context_window,
           mc_max_output_tokens = max_output, mc_max_parallel_reservations = max_parallel, mc_tags = tags\<rparr>
   }"

definition x0x_config_of_value :: "config_texts \<Rightarrow> wire_value \<Rightarrow> x0x_config option" where
  "x0x_config_of_value W v = do {
     fs \<leftarrow> struct_fields [''machine_key_path'', ''agent_key_path'', ''user_key_path'', ''contact_store_path''] v;
     machine_key \<leftarrow> optional (\<lambda>u. map_option (path_parse W) (dec_string u)) ''machine_key_path'' fs;
     agent_key \<leftarrow> optional (\<lambda>u. map_option (path_parse W) (dec_string u)) ''agent_key_path'' fs;
     user_key \<leftarrow> optional (\<lambda>u. map_option (path_parse W) (dec_string u)) ''user_key_path'' fs;
     contact_store \<leftarrow> optional (\<lambda>u. map_option (path_parse W) (dec_string u)) ''contact_store_path'' fs;
     Some \<lparr>machine_key_path = machine_key, agent_key_path = agent_key, user_key_path = user_key,
           contact_store_path = contact_store\<rparr>
   }"

definition config_of_value :: "config_texts \<Rightarrow> wire_value \<Rightarrow> compute_config option" where
  "config_of_value W v = do {
     fs \<leftarrow> struct_fields [''api_bind'', ''data_dir'', ''capability_topic'', ''join_network_on_start'',
                       ''announce_on_start'', ''require_user_id'', ''resource_announce_interval_secs'',
                       ''mesh'', ''runtime'', ''models'', ''x0x''] v;
     bind_addr \<leftarrow> required (\<lambda>u. Option.bind (dec_string u) (addr_parse W)) ''api_bind'' fs;
     dir \<leftarrow> required (\<lambda>u. map_option (path_parse W) (dec_string u)) ''data_dir'' fs;
     topic \<leftarrow> required dec_string ''capability_topic'' fs;
     join \<leftarrow> required dec_bool ''join_network_on_start'' fs;
     announce \<leftarrow> required dec_bool ''announce_on_start'' fs;
     user_required \<leftarrow> required dec_bool ''require_user_id'' fs;
     interval \<leftarrow> required dec_uint ''resource_announce_interval_secs'' fs;
     mesh \<leftarrow> required mesh_config_of_value ''mesh'' fs;
     runtime \<leftarrow> required runtime_config_of_value ''runtime'' fs;
     models \<leftarrow> defaulted [] (dec_list model_config_of_value) ''models'' fs;
     x0x \<leftarrow> required (x0x_config_of_value W) ''x0x'' fs;
     Some \<lparr>api_bind = bind_addr, data_dir = dir, capability_topic = topic, join_network_on_start = join,
           announce_on_start = announce, require_user_id = user_required,
           resource_announce_interval_secs = interval, cfg_mesh = mesh, cfg_runtime = runtime,
           cfg_models = models, cfg_x0x = x0x\<rparr>
   }"

section \<open>The body of an answer\<close>

definition body_value :: "config_texts \<Rightarrow> (trust_decision \<Rightarrow> string) \<Rightarrow> api_body \<Rightarrow> wire_value option" where
  "body_value W names b =
     (case b of
        HealthBody status \<Rightarrow> Some (health_value status)
      | IdentityBody i \<Rightarrow> Some (identity_value i)
      | CapabilityBody a \<Rightarrow> Some (announcement_value a)
      | PeersBody ps \<Rightarrow> Some (v_list (peer_record_value names) ps)
      | ConfigBody c \<Rightarrow> Some (config_value W c)
      | ModelsBody ms \<Rightarrow> Some (v_list inventory_value ms)
      | ReservationsBody rs \<Rightarrow> Some (v_list reservation_value rs)
      | ReservationBody r \<Rightarrow> Some (reservation_value r)
      | OpenaiModelsBody l \<Rightarrow> Some (model_list_value l)
      | ChatBody r \<Rightarrow> Some (completion_value r)
      | ErrorBody e \<Rightarrow> Some (error_value e)
      | EmptyBody \<Rightarrow> None)"

section \<open>Text\<close>

record json_text =
  json_parse :: "u8 list \<Rightarrow> string + wire_value"
  json_print :: "wire_value \<Rightarrow> u8 list"
  json_f32 :: "wire_value \<Rightarrow> u32 option"
  json_mismatch :: string

text \<open>
  The text of the error for a value of the wrong shape belongs to serde.
  \<open>serde_json::from_slice\<close> and \<open>serde_json::to_vec\<close> at the types
  the program uses.
\<close>

definition announcement_from_slice :: "json_text \<Rightarrow> u8 list \<Rightarrow> string + capability_announcement" where
  "announcement_from_slice T bs =
     res_bind (json_parse T bs) (\<lambda>v. ok_or (announcement_of_value v) (json_mismatch T))"

definition wire_externals ::
  "hex_codec \<Rightarrow> json_text \<Rightarrow> ('cs \<Rightarrow> agent_id \<Rightarrow> machine_id \<Rightarrow> trust_decision) \<Rightarrow> 'cs mesh_externals" where
  "wire_externals H T evaluate =
     \<lparr>hex_encode = hex_encode H, hex_decode = hex_decode H,
      json_from_slice = announcement_from_slice T,
      json_to_vec = (\<lambda>a. Inr (json_print T (announcement_value a))),
      trust_evaluate = evaluate\<rparr>"

definition wire_decoders :: "json_text \<Rightarrow> body_decoders" where
  "wire_decoders T =
     \<lparr>dec_create = (\<lambda>bs. case json_parse T bs of Inr v \<Rightarrow> create_fields_of_value v | Inl _ \<Rightarrow> None),
      dec_chat = (\<lambda>bs. case json_parse T bs of Inr v \<Rightarrow> chat_fields_of_value (json_f32 T) v | Inl _ \<Rightarrow> None)\<rparr>"

text \<open>
  \<open>toml::from_str\<close> and \<open>toml::to_string_pretty\<close> at the configuration: the printer
  of TOML decides which values it can write.
\<close>

record toml_text =
  toml_parse :: "string \<Rightarrow> string + wire_value"
  toml_print :: "wire_value \<Rightarrow> string + string"
  toml_mismatch :: string

definition wire_toml :: "config_texts \<Rightarrow> toml_text \<Rightarrow> toml_codec" where
  "wire_toml W T =
     \<lparr>toml_from_str = (\<lambda>s. res_bind (toml_parse T s) (\<lambda>v. ok_or (config_of_value W v) (toml_mismatch T))),
      toml_to_string_pretty = (\<lambda>c. toml_print T (config_value W c))\<rparr>"

section \<open>One exchange over HTTP\<close>

text \<open>
  A request and the JSON of its answer; nothing when axum answers it without a handler.  The bodies
  are decoded as the \<open>Json\<close> extractor does once it has accepted the headers and the length.
\<close>

definition exchange ::
  "json_text \<Rightarrow> config_texts \<Rightarrow> (trust_decision \<Rightarrow> string) \<Rightarrow> system_time \<Rightarrow> http_request \<Rightarrow> 's app_state
     \<Rightarrow> (status_code \<times> wire_value option) option \<times> 's app_state" where
  "exchange T W names now rq s =
     (case dispatch (wire_decoders T) now rq s of
        (Replied (status, body), s') \<Rightarrow> (Some (status, body_value W names body), s')
      | (_, s') \<Rightarrow> (None, s'))"

text \<open>Indexing a JSON value by a key, which yields null where there is none.\<close>

definition at_key :: "string \<Rightarrow> wire_value \<Rightarrow> wire_value" where
  "at_key k v =
     (case v of
        VObject members \<Rightarrow> (case map_of members k of Some u \<Rightarrow> u | None \<Rightarrow> VNull)
      | _ \<Rightarrow> VNull)"

end
