(* ===== verification/Unit_Tests.thy ===== *)
theory Unit_Tests
  imports Fixtures Wire "HOL-Library.Sublist"
begin

text \<open>
  The program's own unit tests, module by module.  A test is the boolean it asserts; an
  \<open>expect\<close> that panics and an index out of range make it false.  Generated keys are arguments,
  and so are the directories, the clock and the foreign functions, so that a test is one
  statement about every run of it.
\<close>

section \<open>The contact store of x0x\<close>

text \<open>
  The constructors the tests use; the last one of each type stands for the others.  A store is
  of the type \<open>'cs\<close> over which trust is evaluated.
\<close>

datatype trust_level = Trusted | Known | OtherTrustLevel
datatype identity_type = Pinned | OtherIdentityType

record machine_record =
  mrec_machine_id :: machine_id
  mrec_label :: "string option"
  mrec_pinned :: bool

record contact =
  con_agent_id :: agent_id
  con_trust_level :: trust_level
  con_label :: "string option"
  con_added_at :: u64
  con_last_seen :: "u64 option"
  con_identity_type :: identity_type
  con_machines :: "machine_record list"

record 'cs contact_store =
  cs_new :: "path \<Rightarrow> 'cs"
  cs_set_trust :: "agent_id \<Rightarrow> trust_level \<Rightarrow> 'cs \<Rightarrow> 'cs"
  cs_add :: "contact \<Rightarrow> 'cs \<Rightarrow> 'cs"
  machine_record_new :: "machine_id \<Rightarrow> string option \<Rightarrow> machine_record"

text \<open>What a run of the tests finds around it: the directories, a temporary directory, the clock.\<close>

record test_bench =
  tb_dirs :: directories
  tb_tempdir :: path
  tb_now :: system_time
  tb_later :: system_time

section \<open>Configuration\<close>

definition default_config_has_trusted_friends_policy :: "test_bench \<Rightarrow> bool" where
  "default_config_has_trusted_friends_policy B \<longleftrightarrow>
     (let config = default_compute_config (tb_dirs B) in
      mesh_trusted_friends_only (cfg_mesh config)
      \<and> mesh_require_trusted_contacts (cfg_mesh config)
      \<and> mesh_prefer_user_identity (cfg_mesh config))"

definition default_runtime_uses_skeleton_backend :: "test_bench \<Rightarrow> bool" where
  "default_runtime_uses_skeleton_backend B \<longleftrightarrow>
     (let config = default_compute_config (tb_dirs B) in
      rt_backend (cfg_runtime config) = Skeleton \<and> cfg_models config = [])"

text \<open>\<open>Path::file_name\<close>: the last component, when it is a name.\<close>

definition path_file_name :: "path \<Rightarrow> string option" where
  "path_file_name p =
     (if p_comps p = [] \<or> last (p_comps p) \<in> {''.'', ''..''} then None else Some (last (p_comps p)))"

definition default_path_ends_with_config_toml :: "test_bench \<Rightarrow> bool" where
  "default_path_ends_with_config_toml B \<longleftrightarrow>
     path_file_name (default_path (tb_dirs B)) = Some ''config.toml''"

section \<open>Capability announcement\<close>

definition capability_snapshot_carries_identity_and_policy :: "system_info \<Rightarrow> test_bench \<Rightarrow> bool" where
  "capability_snapshot_carries_identity_and_policy sys B \<longleftrightarrow>
     (let config = default_compute_config (tb_dirs B);
          identity = \<lparr>ais_machine_id = ''machine-123'', ais_agent_id = ''agent-456'',
                      ais_user_id = Some ''user-789''\<rparr>;
          capability = announcement_local sys (tb_now B) config identity
      in ais_machine_id (cap_identity capability) = ais_machine_id identity
         \<and> ais_agent_id (cap_identity capability) = ais_agent_id identity
         \<and> pol_trusted_friends_only (cap_policy capability)
         \<and> cap_available_models capability = []
         \<and> cap_observed_at_unix_secs capability > 0)"

definition capability_snapshot_includes_configured_models :: "system_info \<Rightarrow> test_bench \<Rightarrow> bool" where
  "capability_snapshot_includes_configured_models sys B \<longleftrightarrow>
     (let config = (default_compute_config (tb_dirs B))
            \<lparr>cfg_models :=
               [\<lparr>mc_id = ''qwen3.5:32b'', mc_family = ''qwen3.5'', mc_context_window_tokens = 131072,
                 mc_max_output_tokens = 8192, mc_max_parallel_reservations = 2,
                 mc_tags = [''coding'']\<rparr>]\<rparr>;
          identity = \<lparr>ais_machine_id = ''machine-123'', ais_agent_id = ''agent-456'', ais_user_id = None\<rparr>;
          capability = announcement_local sys (tb_now B) config identity
      in cap_available_models capability = [''qwen3.5:32b''])"

section \<open>Identity\<close>

definition identity_snapshot_uses_full_hex_identifiers ::
  "'a hex_codec_scheme \<Rightarrow> machine_id \<Rightarrow> agent_id \<Rightarrow> bool" where
  "identity_snapshot_uses_full_hex_identifiers H machine agent \<longleftrightarrow>
     (let snapshot = \<lparr>ais_machine_id = encode_machine_id H machine,
                      ais_agent_id = encode_agent_id H agent, ais_user_id = None\<rparr>
      in length (ais_machine_id snapshot) = 64 \<and> length (ais_agent_id snapshot) = 64)"

definition parse_agent_id_round_trips_full_hex :: "'a hex_codec_scheme \<Rightarrow> agent_id \<Rightarrow> bool" where
  "parse_agent_id_round_trips_full_hex H original \<longleftrightarrow>
     (case parse_agent_id_hex H (encode_agent_id H original) of
        Inr parsed \<Rightarrow> parsed = original
      | Inl _ \<Rightarrow> False)"

definition parse_machine_id_rejects_wrong_length :: "'a hex_codec_scheme \<Rightarrow> bool" where
  "parse_machine_id_rejects_wrong_length H \<longleftrightarrow>
     (case parse_machine_id_hex H ''abcd'' of
        Inl (InvalidIdentityEncoding field _) \<Rightarrow> field = ''machine_id''
      | _ \<Rightarrow> False)"

section \<open>Trusted peer registry\<close>

text \<open>\<open>message_for\<close> panics when the announcement cannot be serialised.\<close>

definition message_for ::
  "'cs mesh_externals \<Rightarrow> agent_id \<Rightarrow> capability_announcement \<Rightarrow> pubsub_message option" where
  "message_for X sender capability =
     (case json_to_vec X capability of
        Inr payload \<Rightarrow> Some (payload_message sender payload)
      | Inl _ \<Rightarrow> None)"

definition store :: "'cs contact_store \<Rightarrow> test_bench \<Rightarrow> 'cs" where
  "store K B = cs_new K (path_join (tb_tempdir B) ''contacts.json'')"

definition contact_for ::
  "agent_id \<Rightarrow> trust_level \<Rightarrow> identity_type \<Rightarrow> machine_record list \<Rightarrow> contact" where
  "contact_for agent level kind machines =
     \<lparr>con_agent_id = agent, con_trust_level = level, con_label = Some ''friend'', con_added_at = 1,
      con_last_seen = None, con_identity_type = kind, con_machines = machines\<rparr>"

text \<open>\<open>registry.snapshot()[0]\<close>.\<close>

definition first_record :: "trusted_peer_registry \<Rightarrow> (peer_capability_record \<Rightarrow> bool) \<Rightarrow> bool" where
  "first_record r P \<longleftrightarrow> (case registry_snapshot r of p # _ \<Rightarrow> P p | [] \<Rightarrow> False)"

definition accepts_trusted_peer_with_matching_sender ::
  "'cs mesh_externals \<Rightarrow> 'cs contact_store \<Rightarrow> test_bench \<Rightarrow> agent_id \<Rightarrow> agent_id \<Rightarrow> machine_id \<Rightarrow> bool" where
  "accepts_trusted_peer_with_matching_sender X K B local_agent sender machine_id \<longleftrightarrow>
     (let capability = capability_for X sender machine_id ''friends'' [''qwen3.5:32b''] in
      case message_for X sender capability of None \<Rightarrow> False | Some message \<Rightarrow>
      let contacts = cs_set_trust K sender Trusted (store K B);
          (disposition, registry) = apply_message X (tb_now B) (default_compute_config (tb_dirs B))
             (encode_agent_id X local_agent) contacts message registry_new
      in disposition = AcceptedNewPeer
         \<and> registry_len registry = 1
         \<and> first_record registry (\<lambda>p. pr_capability p = capability)
         \<and> first_record registry (\<lambda>p. pr_trust_decision p = Accept))"

definition rejects_sender_mismatch ::
  "'cs mesh_externals \<Rightarrow> 'cs contact_store \<Rightarrow> test_bench \<Rightarrow> agent_id \<Rightarrow> agent_id \<Rightarrow> agent_id
     \<Rightarrow> machine_id \<Rightarrow> bool" where
  "rejects_sender_mismatch X K B local_agent sender different_agent machine_id \<longleftrightarrow>
     (let capability = capability_for X different_agent machine_id ''friends'' [] in
      case message_for X sender capability of None \<Rightarrow> False | Some message \<Rightarrow>
      let contacts = cs_set_trust K sender Trusted (store K B);
          (disposition, registry) = apply_message X (tb_now B) (default_compute_config (tb_dirs B))
             (encode_agent_id X local_agent) contacts message registry_new
      in disposition = RejectedSenderMismatch \<and> registry_is_empty registry)"

definition rejects_unknown_peer_under_trusted_friends_policy ::
  "'cs mesh_externals \<Rightarrow> 'cs contact_store \<Rightarrow> test_bench \<Rightarrow> agent_id \<Rightarrow> agent_id \<Rightarrow> machine_id \<Rightarrow> bool" where
  "rejects_unknown_peer_under_trusted_friends_policy X K B local_agent sender machine_id \<longleftrightarrow>
     (let capability = capability_for X sender machine_id ''friends'' [] in
      case message_for X sender capability of None \<Rightarrow> False | Some message \<Rightarrow>
      let (disposition, registry) = apply_message X (tb_now B) (default_compute_config (tb_dirs B))
             (encode_agent_id X local_agent) (store K B) message registry_new
      in disposition = RejectedTrust Unknown \<and> registry_is_empty registry)"

definition accepts_known_peer_when_policy_is_relaxed ::
  "'cs mesh_externals \<Rightarrow> 'cs contact_store \<Rightarrow> test_bench \<Rightarrow> agent_id \<Rightarrow> agent_id \<Rightarrow> machine_id \<Rightarrow> bool" where
  "accepts_known_peer_when_policy_is_relaxed X K B local_agent sender machine_id \<longleftrightarrow>
     (let capability = capability_for X sender machine_id ''friends'' [''gemma-4''] in
      case message_for X sender capability of None \<Rightarrow> False | Some message \<Rightarrow>
      let contacts = cs_set_trust K sender Known (store K B);
          (disposition, registry) = apply_message X (tb_now B) (relaxed_config (tb_dirs B))
             (encode_agent_id X local_agent) contacts message registry_new
      in disposition = AcceptedNewPeer
         \<and> first_record registry (\<lambda>p. pr_trust_decision p = AcceptWithFlag))"

definition rejects_known_peer_when_policy_requires_trusted_contacts ::
  "'cs mesh_externals \<Rightarrow> 'cs contact_store \<Rightarrow> test_bench \<Rightarrow> agent_id \<Rightarrow> agent_id \<Rightarrow> machine_id \<Rightarrow> bool" where
  "rejects_known_peer_when_policy_requires_trusted_contacts X K B local_agent sender machine_id \<longleftrightarrow>
     (let capability = capability_for X sender machine_id ''friends'' [] in
      case message_for X sender capability of None \<Rightarrow> False | Some message \<Rightarrow>
      let contacts = cs_set_trust K sender Known (store K B);
          (disposition, registry) = apply_message X (tb_now B) (default_compute_config (tb_dirs B))
             (encode_agent_id X local_agent) contacts message registry_new
      in disposition = RejectedTrust AcceptWithFlag \<and> registry_is_empty registry)"

definition rejects_pinned_machine_mismatch ::
  "'cs mesh_externals \<Rightarrow> 'cs contact_store \<Rightarrow> test_bench \<Rightarrow> agent_id \<Rightarrow> agent_id \<Rightarrow> machine_id
     \<Rightarrow> machine_id \<Rightarrow> bool" where
  "rejects_pinned_machine_mismatch X K B local_agent sender pinned_machine other_machine \<longleftrightarrow>
     (let capability = capability_for X sender other_machine ''friends'' [] in
      case message_for X sender capability of None \<Rightarrow> False | Some message \<Rightarrow>
      let rec = (machine_record_new K pinned_machine (Some ''pinned''))\<lparr>mrec_pinned := True\<rparr>;
          contacts = cs_add K (contact_for sender Trusted Pinned [rec]) (store K B);
          (disposition, registry) = apply_message X (tb_now B) (default_compute_config (tb_dirs B))
             (encode_agent_id X local_agent) contacts message registry_new
      in disposition = RejectedTrust RejectMachineMismatch \<and> registry_is_empty registry)"

definition accepts_pinned_machine_match ::
  "'cs mesh_externals \<Rightarrow> 'cs contact_store \<Rightarrow> test_bench \<Rightarrow> agent_id \<Rightarrow> agent_id \<Rightarrow> machine_id \<Rightarrow> bool" where
  "accepts_pinned_machine_match X K B local_agent sender pinned_machine \<longleftrightarrow>
     (let capability = capability_for X sender pinned_machine ''friends'' [] in
      case message_for X sender capability of None \<Rightarrow> False | Some message \<Rightarrow>
      let rec = (machine_record_new K pinned_machine (Some ''pinned''))\<lparr>mrec_pinned := True\<rparr>;
          contacts = cs_add K (contact_for sender Trusted Pinned [rec]) (store K B);
          (disposition, registry) = apply_message X (tb_now B) (default_compute_config (tb_dirs B))
             (encode_agent_id X local_agent) contacts message registry_new
      in disposition = AcceptedNewPeer \<and> first_record registry (\<lambda>p. pr_trust_decision p = Accept))"

definition ignores_self_announcement ::
  "'cs mesh_externals \<Rightarrow> 'cs contact_store \<Rightarrow> test_bench \<Rightarrow> agent_id \<Rightarrow> machine_id \<Rightarrow> bool" where
  "ignores_self_announcement X K B local_agent machine_id \<longleftrightarrow>
     (let capability = capability_for X local_agent machine_id ''friends'' [] in
      case message_for X local_agent capability of None \<Rightarrow> False | Some message \<Rightarrow>
      let (disposition, registry) = apply_message X (tb_now B) (default_compute_config (tb_dirs B))
             (encode_agent_id X local_agent) (store K B) message registry_new
      in disposition = IgnoredSelf \<and> registry_is_empty registry)"

definition rejects_wrong_mesh_name ::
  "'cs mesh_externals \<Rightarrow> 'cs contact_store \<Rightarrow> test_bench \<Rightarrow> agent_id \<Rightarrow> agent_id \<Rightarrow> machine_id \<Rightarrow> bool" where
  "rejects_wrong_mesh_name X K B local_agent sender machine_id \<longleftrightarrow>
     (let capability = capability_for X sender machine_id ''other-mesh'' [] in
      case message_for X sender capability of None \<Rightarrow> False | Some message \<Rightarrow>
      let contacts = cs_set_trust K sender Trusted (store K B);
          (disposition, registry) = apply_message X (tb_now B) (default_compute_config (tb_dirs B))
             (encode_agent_id X local_agent) contacts message registry_new
      in disposition = RejectedWrongMesh \<and> registry_is_empty registry)"

definition updates_existing_peer_record ::
  "'cs mesh_externals \<Rightarrow> 'cs contact_store \<Rightarrow> test_bench \<Rightarrow> agent_id \<Rightarrow> agent_id \<Rightarrow> machine_id \<Rightarrow> bool" where
  "updates_existing_peer_record X K B local_agent sender machine_id \<longleftrightarrow>
     (let first = capability_for X sender machine_id ''friends'' [''gemma-4''];
          second = capability_for X sender machine_id ''friends'' [''gemma-4'', ''qwen3.5:32b''];
          contacts = cs_set_trust K sender Trusted (store K B)
      in case message_for X sender first of None \<Rightarrow> False | Some first_message \<Rightarrow>
      let (first_disposition, registry1) = apply_message X (tb_now B) (default_compute_config (tb_dirs B))
             (encode_agent_id X local_agent) contacts first_message registry_new
      in case message_for X sender second of None \<Rightarrow> False | Some second_message \<Rightarrow>
      let (second_disposition, registry) = apply_message X (tb_later B) (default_compute_config (tb_dirs B))
             (encode_agent_id X local_agent) contacts second_message registry1
      in first_disposition = AcceptedNewPeer
         \<and> second_disposition = UpdatedPeer
         \<and> registry_len registry = 1
         \<and> first_record registry
             (\<lambda>p. cap_available_models (pr_capability p) = cap_available_models second))"

definition not_json :: "u8 list" where
  "not_json = map of_char ''not-json''"

definition rejects_invalid_payload ::
  "'cs mesh_externals \<Rightarrow> 'cs contact_store \<Rightarrow> test_bench \<Rightarrow> agent_id \<Rightarrow> agent_id \<Rightarrow> bool" where
  "rejects_invalid_payload X K B local_agent sender \<longleftrightarrow>
     (let contacts = cs_set_trust K sender Trusted (store K B);
          message = \<lparr>ps_topic = CAPABILITY_TOPIC, ps_payload = not_json, ps_sender = Some sender,
                     ps_verified = True\<rparr>;
          (disposition, registry) = apply_message X (tb_now B) (default_compute_config (tb_dirs B))
             (encode_agent_id X local_agent) contacts message registry_new
      in disposition = RejectedInvalidPayload \<and> registry_is_empty registry)"

definition rejects_unverified_sender ::
  "'cs mesh_externals \<Rightarrow> 'cs contact_store \<Rightarrow> test_bench \<Rightarrow> agent_id \<Rightarrow> agent_id \<Rightarrow> machine_id \<Rightarrow> bool" where
  "rejects_unverified_sender X K B local_agent sender machine_id \<longleftrightarrow>
     (let capability = capability_for X sender machine_id ''friends'' [] in
      case message_for X sender capability of None \<Rightarrow> False | Some message \<Rightarrow>
      let contacts = cs_set_trust K sender Trusted (store K B);
          (disposition, registry) = apply_message X (tb_now B) (default_compute_config (tb_dirs B))
             (encode_agent_id X local_agent) contacts (message\<lparr>ps_verified := False\<rparr>) registry_new
      in disposition = RejectedUnverifiedSender \<and> registry_is_empty registry)"

section \<open>Skeleton runtime\<close>

definition local_inventory_reflects_configured_models :: bool where
  "local_inventory_reflects_configured_models \<longleftrightarrow>
     (let models = local_models (skeleton_new runtime_test_config) in
      length models = 2 \<and> lm_id (models ! 0) = ''gemma-4:27b'' \<and> lm_id (models ! 1) = ''qwen3.5:32b'')"

definition reservation_reduces_available_slots :: "test_bench \<Rightarrow> bool" where
  "reservation_reduces_available_slots B \<longleftrightarrow>
     (case create_reservation (tb_now B) (test_request ''qwen3.5:32b'' 1) (skeleton_new runtime_test_config) of
        (Inl _, _) \<Rightarrow> False
      | (Inr reservation, runtime) \<Rightarrow>
          (case List.find (\<lambda>model. lm_id model = ''qwen3.5:32b'') (local_models runtime) of
             None \<Rightarrow> False
           | Some qwen \<Rightarrow>
               mr_model reservation = ''qwen3.5:32b''
               \<and> lm_reserved_slots qwen = 1 \<and> lm_available_slots qwen = 1))"

definition reservation_rejects_capacity_overflow :: "test_bench \<Rightarrow> bool" where
  "reservation_rejects_capacity_overflow B \<longleftrightarrow>
     (case create_reservation (tb_now B) (test_request ''gemma-4:27b'' 2) (skeleton_new runtime_test_config) of
        (Inl (ModelCapacityExceeded model requested_slots available_slots), _) \<Rightarrow>
          requested_slots = 2 \<and> available_slots = 1 \<and> model = ''gemma-4:27b''
      | _ \<Rightarrow> False)"

definition release_reservation_removes_it :: "test_bench \<Rightarrow> bool" where
  "release_reservation_removes_it B \<longleftrightarrow>
     (case create_reservation (tb_now B) (test_request ''gemma-4:27b'' 1) (skeleton_new runtime_test_config) of
        (Inl _, _) \<Rightarrow> False
      | (Inr reservation, runtime) \<Rightarrow>
          (case release_reservation (mr_reservation_id reservation) runtime of
             (Inl _, _) \<Rightarrow> False
           | (Inr _, runtime) \<Rightarrow>
               reservations runtime = []
               \<and> (case List.find (\<lambda>model. lm_id model = ''gemma-4:27b'') (local_models runtime) of
                    None \<Rightarrow> False
                  | Some gemma \<Rightarrow> lm_available_slots gemma = 1)))"

definition openai_models_reflect_inventory :: bool where
  "openai_models_reflect_inventory \<longleftrightarrow>
     (let models = openai_models (skeleton_new runtime_test_config) in
      list_object models = ''list'' \<and> length (list_data models) = 2
      \<and> card_object (list_data models ! 0) = ''model'')"

definition user_chat :: "string \<Rightarrow> bool \<Rightarrow> openai_chat_completion_request" where
  "user_chat content stream =
     \<lparr>ccr_model = ''qwen3.5:32b'', ccr_messages = [\<lparr>msg_role = ''user'', msg_content = content\<rparr>],
      ccr_stream = stream, ccr_max_tokens = None, ccr_temperature = None\<rparr>"

definition chat_completion_returns_skeleton_response :: "test_bench \<Rightarrow> bool" where
  "chat_completion_returns_skeleton_response B \<longleftrightarrow>
     (case chat_completion (tb_now B) (user_chat ''hello trusted mesh'' False) (skeleton_new runtime_test_config) of
        (Inl _, _) \<Rightarrow> False
      | (Inr response, _) \<Rightarrow>
          cc_object response = ''chat.completion''
          \<and> cc_model response = ''qwen3.5:32b''
          \<and> (case cc_choices response of
               [] \<Rightarrow> False
             | choice # _ \<Rightarrow> sublist ''hello trusted mesh'' (msg_content (ch_message choice)))
          \<and> us_total_tokens (cc_usage response) \<ge> us_prompt_tokens (cc_usage response))"

definition chat_completion_rejects_streaming_requests :: "test_bench \<Rightarrow> bool" where
  "chat_completion_rejects_streaming_requests B \<longleftrightarrow>
     (case chat_completion (tb_now B) (user_chat ''hello'' True) (skeleton_new runtime_test_config) of
        (Inl (UnsupportedFeature _), _) \<Rightarrow> True
      | _ \<Rightarrow> False)"

section \<open>HTTP routes and handlers\<close>

text \<open>
  A test sends requests to the router, as axum's \<open>oneshot\<close> does, and reads the JSON of the
  answers.  The clones of the router share the runtime, so the state is threaded.  The text of
  JSON and the texts of x0x and of the standard library are parameters; a request that axum answers
  itself yields no answer here.
\<close>

record json_kit =
  jk_text :: json_text
  jk_texts :: config_texts
  jk_decisions :: "trust_decision \<Rightarrow> string"

definition send ::
  "json_kit \<Rightarrow> test_bench \<Rightarrow> http_request \<Rightarrow> 's app_state
     \<Rightarrow> (status_code \<times> wire_value option) option \<times> 's app_state" where
  "send J B rq s =
     exchange (jk_text J) (jk_texts J) (jk_decisions J) (tb_now B) rq s"

definition http_get :: "string list \<Rightarrow> http_request" where
  "http_get segs = \<lparr>rq_method = GET, rq_segments = segs, rq_body = []\<rparr>"

definition http_post :: "json_kit \<Rightarrow> string list \<Rightarrow> wire_value \<Rightarrow> http_request" where
  "http_post J segs body = \<lparr>rq_method = POST, rq_segments = segs, rq_body = json_print (jk_text J) body\<rparr>"

definition http_delete :: "string list \<Rightarrow> http_request" where
  "http_delete segs = \<lparr>rq_method = DELETE, rq_segments = segs, rq_body = []\<rparr>"

definition repeated_hex :: "char \<Rightarrow> string" where
  "repeated_hex ch = replicate 64 ch"

definition sample_capability :: "string \<Rightarrow> string \<Rightarrow> capability_announcement" where
  "sample_capability agent_id machine_id =
     \<lparr>cap_protocol_version = PROTOCOL_VERSION,
      cap_identity = \<lparr>ais_machine_id = machine_id, ais_agent_id = agent_id, ais_user_id = None\<rparr>,
      cap_hardware =
        \<lparr>hw_hostname = Some ''friendbox'', hw_cpu_brand = ''Apple M4'', hw_logical_cores = 10,
         hw_total_memory_bytes = 1024, hw_available_memory_bytes = 512\<rparr>,
      cap_policy =
        \<lparr>pol_mesh_name = ''friends'', pol_trusted_friends_only = True,
         pol_require_trusted_contacts = True, pol_prefer_user_identity = True\<rparr>,
      cap_available_models = [''qwen3.5:32b''],
      cap_observed_at_unix_secs = 1\<rparr>"

definition http_test_state :: "system_info \<Rightarrow> test_bench \<Rightarrow> skeleton_runtime_adapter app_state" where
  "http_test_state sys B =
     (let config = daemon_test_config;
          identity = \<lparr>ais_machine_id = repeated_hex CHR ''a'', ais_agent_id = repeated_hex CHR ''b'',
                      ais_user_id = None\<rparr>;
          runtime = build_runtime config
      in \<lparr>as_config = config, as_identity = identity,
          as_capability = announcement_local sys (tb_now B) config identity,
          as_peers = registry_new, as_methods = fst runtime, as_runtime = snd runtime\<rparr>)"

definition peers_endpoint_returns_registry_snapshot ::
  "'cs mesh_externals \<Rightarrow> 'cs contact_store \<Rightarrow> json_kit \<Rightarrow> system_info \<Rightarrow> test_bench \<Rightarrow> bool" where
  "peers_endpoint_returns_registry_snapshot X K J sys B \<longleftrightarrow>
     (let agent_id = repeated_hex CHR ''c'';
          machine_id = repeated_hex CHR ''d'';
          capability = sample_capability agent_id machine_id
      in case parse_agent_id_hex X agent_id of Inl _ \<Rightarrow> False | Inr parsed_agent \<Rightarrow>
      let contacts = cs_set_trust K parsed_agent Trusted (store K B)
      in case message_for X parsed_agent capability of None \<Rightarrow> False | Some message \<Rightarrow>
      let registry = snd (apply_message X (tb_now B) daemon_test_config (repeated_hex CHR ''f'')
             contacts message registry_new);
          state = (http_test_state sys B)\<lparr>as_peers := registry\<rparr>
      in case send J B (http_get [''v1'', ''capabilities'', ''peers'']) state of
           (Some (status, Some (VArray peer_list)), _) \<Rightarrow>
             status = OK \<and> length peer_list = 1
             \<and> at_key ''agent_id'' (at_key ''identity'' (at_key ''capability'' (peer_list ! 0))) = VString agent_id
             \<and> at_key ''trust_decision'' (peer_list ! 0) = VString ''accept''
         | _ \<Rightarrow> False)"

definition local_models_endpoint_returns_inventory ::
  "json_kit \<Rightarrow> system_info \<Rightarrow> test_bench \<Rightarrow> bool" where
  "local_models_endpoint_returns_inventory J sys B \<longleftrightarrow>
     (case send J B (http_get [''v1'', ''models'', ''local'']) (http_test_state sys B) of
        (Some (status, Some (VArray model_list)), _) \<Rightarrow>
          status = OK \<and> length model_list = 2
          \<and> at_key ''id'' (model_list ! 0) = VString ''gemma-4:27b''
          \<and> at_key ''available_slots'' (model_list ! 1) = VInt 2
      | _ \<Rightarrow> False)"

definition reservation_json :: "string \<Rightarrow> int \<Rightarrow> wire_value" where
  "reservation_json model slots =
     VObject [(''model'', VString model), (''consumer'', VString ''alice''), (''requested_slots'', VInt slots)]"

definition reservation_endpoints_create_list_and_delete ::
  "json_kit \<Rightarrow> system_info \<Rightarrow> test_bench \<Rightarrow> bool" where
  "reservation_endpoints_create_list_and_delete J sys B \<longleftrightarrow>
     (case send J B (http_post J [''v1'', ''reservations''] (reservation_json ''qwen3.5:32b'' 1))
         (http_test_state sys B) of
        (Some (created, Some reservation), s1) \<Rightarrow>
          created = CREATED
          \<and> (case at_key ''reservation_id'' reservation of
               VString rid \<Rightarrow>
                 (case send J B (http_get [''v1'', ''reservations'']) s1 of
                    (Some (_, Some (VArray reservation_list)), s2) \<Rightarrow>
                      length reservation_list = 1
                      \<and> (case send J B (http_delete [''v1'', ''reservations'', rid]) s2 of
                           (Some (deleted, _), _) \<Rightarrow> deleted = NO_CONTENT
                         | _ \<Rightarrow> False)
                  | _ \<Rightarrow> False)
             | _ \<Rightarrow> False)
      | _ \<Rightarrow> False)"

definition reservation_endpoint_rejects_capacity_conflict ::
  "json_kit \<Rightarrow> system_info \<Rightarrow> test_bench \<Rightarrow> bool" where
  "reservation_endpoint_rejects_capacity_conflict J sys B \<longleftrightarrow>
     (case send J B (http_post J [''v1'', ''reservations''] (reservation_json ''gemma-4:27b'' 2))
         (http_test_state sys B) of
        (Some (status, _), _) \<Rightarrow> status = CONFLICT
      | _ \<Rightarrow> False)"

definition hello_mesh_messages :: wire_value where
  "hello_mesh_messages =
     VArray [VObject [(''role'', VString ''user''), (''content'', VString ''hello mesh'')]]"

definition openai_gateway_endpoints_return_skeleton_data ::
  "json_kit \<Rightarrow> system_info \<Rightarrow> test_bench \<Rightarrow> bool" where
  "openai_gateway_endpoints_return_skeleton_data J sys B \<longleftrightarrow>
     (case send J B (http_get [''v1'', ''openai'', ''models'']) (http_test_state sys B) of
        (Some (models_status, _), s1) \<Rightarrow>
          models_status = OK
          \<and> (case send J B (http_post J [''v1'', ''openai'', ''chat'', ''completions'']
                 (VObject [(''model'', VString ''qwen3.5:32b''), (''messages'', hello_mesh_messages)])) s1 of
               (Some (chat_status, Some completion), _) \<Rightarrow>
                 chat_status = OK
                 \<and> at_key ''object'' completion = VString ''chat.completion''
                 \<and> (case at_key ''choices'' completion of
                      VArray (choice # _) \<Rightarrow>
                        (case at_key ''content'' (at_key ''message'' choice) of
                           VString content \<Rightarrow> sublist ''hello mesh'' content
                         | _ \<Rightarrow> False)
                    | _ \<Rightarrow> False)
             | _ \<Rightarrow> False)
      | _ \<Rightarrow> False)"

definition openai_gateway_reports_unsupported_streaming ::
  "json_kit \<Rightarrow> system_info \<Rightarrow> test_bench \<Rightarrow> bool" where
  "openai_gateway_reports_unsupported_streaming J sys B \<longleftrightarrow>
     (case send J B (http_post J [''v1'', ''openai'', ''chat'', ''completions'']
         (VObject [(''model'', VString ''qwen3.5:32b''), (''stream'', VBool True),
                   (''messages'', hello_mesh_messages)])) (http_test_state sys B) of
        (Some (status, _), _) \<Rightarrow> status = NOT_IMPLEMENTED
      | _ \<Rightarrow> False)"

definition reservation_delete_reports_not_found :: "json_kit \<Rightarrow> system_info \<Rightarrow> test_bench \<Rightarrow> bool" where
  "reservation_delete_reports_not_found J sys B \<longleftrightarrow>
     (case send J B (http_delete [''v1'', ''reservations'', ''resv-999999'']) (http_test_state sys B) of
        (Some (status, _), _) \<Rightarrow> status = NOT_FOUND
      | _ \<Rightarrow> False)"

definition health_endpoint_reports_ok :: "json_kit \<Rightarrow> system_info \<Rightarrow> test_bench \<Rightarrow> bool" where
  "health_endpoint_reports_ok J sys B \<longleftrightarrow>
     (case send J B (http_get [''health'']) (http_test_state sys B) of
        (Some (status, _), _) \<Rightarrow> status = OK
      | _ \<Rightarrow> False)"

end
