(* ===== verification/Wire_Spec.thy ===== *)
theory Wire_Spec
  imports Wire Grant_Order
begin

text \<open>
  Reading back what was written.  Each reader of a field inverts its writer, so each record is
  read back, from an object with its members in any order and among unknown ones.
\<close>

section \<open>Fields\<close>

lemma dec_simps [simp]:
  "dec_string (VString s) = Some s" "dec_bool (VBool b) = Some b"
  "dec_uint (v_uint w) = Some w"
  "n < 2 ^ 64 \<Longrightarrow> dec_usize (VInt (int n)) = Some n"
  by (simp_all add: dec_string_def dec_bool_def dec_uint_def v_uint_def dec_usize_def uint_lt2p)

lemma those_map_Some: "(\<And>x. x \<in> set xs \<Longrightarrow> f (g x) = Some x) \<Longrightarrow> those (map (f \<circ> g) xs) = Some xs"
  by (induction xs) simp_all

lemma dec_list_v_list: "(\<And>x. x \<in> set xs \<Longrightarrow> dec (f x) = Some x) \<Longrightarrow> dec_list dec (v_list f xs) = Some xs"
  by (simp add: dec_list_def v_list_def those_map_Some)

lemma dec_strings [simp]: "dec_list dec_string (v_list VString xs) = Some xs"
  by (rule dec_list_v_list) simp

lemma v_opt_not_null: "(\<And>y. f y \<noteq> VNull) \<Longrightarrow> v_opt f x = VNull \<longleftrightarrow> x = None"
  by (cases x) (simp_all add: v_opt_def)

text \<open>
  Members read as the given ones: the known ones are the same, each once, in any order, with any
  unknown members between them.
\<close>

definition reads_as :: "string list \<Rightarrow> (string \<times> wire_value) list \<Rightarrow> (string \<times> wire_value) list \<Rightarrow> bool" where
  "reads_as names members canonical \<longleftrightarrow>
     mset (filter (\<lambda>m. fst m \<in> set names) members) = mset canonical"

lemma reads_as_fields:
  assumes "reads_as names members canonical" and "distinct (map fst canonical)" and "k \<in> set names"
  shows "map_of members k = map_of canonical k"
proof -
  let ?known = "filter (\<lambda>m. fst m \<in> set names) members"
  have eq: "mset ?known = mset canonical" using assms(1) by (simp add: reads_as_def)
  then have "mset (map fst ?known) = mset (map fst canonical)" by (simp only: mset_map)
  then have d: "distinct (map fst ?known)" using assms(2) mset_eq_imp_distinct_iff by blast
  from eq have "set ?known = set canonical" by (metis set_mset_mset)
  then have "map_of ?known = map_of canonical" 
    using d assms(2) by (simp only: map_of_inject_set)
  moreover have "map_of ?known k = map_of members k"
    using assms(3) by (induction members) auto
  ultimately show ?thesis by simp
qed

lemma reads_as_struct:
  assumes "reads_as names members canonical" and "distinct (map fst canonical)"
  shows "struct_fields names (VObject members) = Some (False, members)"
proof -
  have "mset (map fst (filter (\<lambda>m. fst m \<in> set names) members)) = mset (map fst canonical)"
    using assms(1) by (simp only: reads_as_def mset_map)
  then have "distinct (map fst (filter (\<lambda>m. fst m \<in> set names) members))"
    using assms(2) mset_eq_imp_distinct_iff by blast
  moreover have "map fst (filter (\<lambda>m. fst m \<in> set names) members) = filter (\<lambda>k. k \<in> set names) (map fst members)"
    by (simp add: filter_map comp_def)
  ultimately show ?thesis by (simp add: struct_fields_def)
qed

lemma reads_as_self: "set (map fst canonical) \<subseteq> set names \<Longrightarrow> reads_as names canonical canonical"
  unfolding reads_as_def by (subst filter_True) auto

section \<open>Records\<close>

lemmas read_eval = struct_fields_def required_def optional_def defaulted_def

lemma identity_round_trip [simp]: "identity_of_value (identity_value i) = Some i"
  by (cases "ais_user_id i") (simp_all add: identity_of_value_def identity_value_def read_eval v_opt_def)

lemma hardware_round_trip [simp]:
  "hw_logical_cores h < 2 ^ 64 \<Longrightarrow> hardware_of_value (hardware_value h) = Some h"
  by (cases "hw_hostname h") (simp_all add: hardware_of_value_def hardware_value_def read_eval v_opt_def)

lemma policy_round_trip [simp]: "policy_of_value (policy_value p) = Some p"
  by (simp add: policy_of_value_def policy_value_def read_eval)

definition announcement_members :: "capability_announcement \<Rightarrow> (string \<times> wire_value) list" where
  "announcement_members a = (case announcement_value a of VObject ms \<Rightarrow> ms | _ \<Rightarrow> [])"

lemma announcement_members_eq: "announcement_value a = VObject (announcement_members a)"
  "map fst (announcement_members a) = announcement_fields"
  by (simp_all add: announcement_members_def announcement_value_def announcement_fields_def)

lemma announcement_read:
  assumes "reads_as announcement_fields members (announcement_members a)" and "hw_logical_cores (cap_hardware a) < 2 ^ 64"
  shows "announcement_of_value (VObject members) = Some a"
proof -
  have d: "distinct (map fst (announcement_members a))"
    unfolding announcement_members_eq by (simp add: announcement_fields_def)
  have lookup: "map_of members k = map_of (announcement_members a) k" if "k \<in> set announcement_fields" for k
    using reads_as_fields [OF assms(1) d that] .
  have "map_of members ''protocol_version'' = Some (v_uint (cap_protocol_version a))"
    "map_of members ''identity'' = Some (identity_value (cap_identity a))"
    "map_of members ''hardware'' = Some (hardware_value (cap_hardware a))"
    "map_of members ''policy'' = Some (policy_value (cap_policy a))"
    "map_of members ''available_models'' = Some (v_list VString (cap_available_models a))"
    "map_of members ''observed_at_unix_secs'' = Some (v_uint (cap_observed_at_unix_secs a))"
    by (simp_all add: lookup announcement_fields_def announcement_members_def announcement_value_def)
  then show ?thesis
    using assms(2) by (simp add: announcement_of_value_def reads_as_struct [OF assms(1) d] required_def)
qed

lemma announcement_round_trip:
  "hw_logical_cores (cap_hardware a) < 2 ^ 64 \<Longrightarrow> announcement_of_value (announcement_value a) = Some a"
  unfolding announcement_members_eq
  by (rule announcement_read) (simp_all add: reads_as_self announcement_members_eq)

lemma message_round_trip [simp]: "message_of_value (message_value m) = Some m"
  by (simp add: message_of_value_def message_value_def read_eval)

text \<open>What is known of a reservation body that was read.\<close>

lemma create_fields_read:
  assumes "create_fields_of_value (VObject members) = Some f"
  shows "map_of members ''model'' = Some (VString (crf_model f))"
    "map_of members ''consumer'' = Some (VString (crf_consumer f))"
    "map_of members ''requested_slots'' = map_option v_uint (crf_requested_slots f)"
proof -
  have slots: "(dec_uint v :: u16 option) = Some n \<Longrightarrow> v = v_uint n" for v n
    by (auto simp: dec_uint_def v_uint_def uint_word_of_int_eq take_bit_int_eq_self split: wire_value.splits if_splits)
  have str: "dec_string v = Some t \<longleftrightarrow> v = VString t" for v t
    by (cases v) (auto simp: dec_string_def)
  show "map_of members ''model'' = Some (VString (crf_model f))"
    "map_of members ''consumer'' = Some (VString (crf_consumer f))"
    "map_of members ''requested_slots'' = map_option v_uint (crf_requested_slots f)"
    using assms
    by (auto simp: create_fields_of_value_def read_eval str bind_eq_Some_conv dest: slots
        split: if_splits option.splits)
qed

lemma mesh_config_round_trip [simp]: "mesh_config_of_value (mesh_config_value m) = Some m"
  by (simp add: mesh_config_of_value_def mesh_config_value_def read_eval)

lemma runtime_config_round_trip [simp]: "runtime_config_of_value (runtime_config_value r) = Some r"
  by (cases "rt_backend r") (simp add: runtime_config_of_value_def runtime_config_value_def backend_of_value_def read_eval)

lemma model_config_round_trip [simp]: "model_config_of_value (model_config_value m) = Some m"
  by (simp add: model_config_of_value_def model_config_value_def read_eval)

section \<open>Answers\<close>

lemma at_key_simps [simp]:
  "at_key k (VObject ((k, v) # ms)) = v"
  "k \<noteq> l \<Longrightarrow> at_key k (VObject ((l, v) # ms)) = at_key k (VObject ms)"
  by (simp_all add: at_key_def)

lemma body_value_simps [simp]:
  "body_value W names (ModelsBody ms) = Some (VArray (map inventory_value ms))"
  "body_value W names (PeersBody ps) = Some (VArray (map (peer_record_value names) ps))"
  "body_value W names (ReservationsBody rs) = Some (VArray (map reservation_value rs))"
  "body_value W names (ReservationBody r) = Some (reservation_value r)"
  "body_value W names (ChatBody c) = Some (completion_value c)"
  by (simp_all add: body_value_def v_list_def)

text \<open>An integer member, and one entry of the inventory after some more slots were taken.\<close>

definition int_at :: "string \<Rightarrow> wire_value \<Rightarrow> int" where
  "int_at k v = (case at_key k v of VInt n \<Rightarrow> n | _ \<Rightarrow> 0)"

definition slots_taken :: "int \<Rightarrow> wire_value \<Rightarrow> wire_value \<Rightarrow> bool" where
  "slots_taken n m m' \<longleftrightarrow>
     int_at ''reserved_slots'' m' = int_at ''reserved_slots'' m + n
     \<and> int_at ''available_slots'' m' = int_at ''available_slots'' m - n
     \<and> (\<forall>k. k \<noteq> ''reserved_slots'' \<and> k \<noteq> ''available_slots'' \<longrightarrow> at_key k m' = at_key k m)"

lemma slots_taken_inventory:
  assumes "uint reserved' = uint reserved + n"
    and "uint (saturating_sub (mc_max_parallel_reservations model) reserved')
       = uint (saturating_sub (mc_max_parallel_reservations model) reserved) - n"
    and "sk_backend a' = sk_backend a"
  shows "slots_taken n (inventory_value (inventory_for_model a model reserved))
     (inventory_value (inventory_for_model a' model reserved'))"
  using assms
  by (simp add: slots_taken_def int_at_def inventory_value_def inventory_for_model_def at_key_def v_uint_def)

lemma inventory_after_grant:
  assumes inv: "runtime_inv a" and c: "create_reservation now req a = (Inr r, a')"
    and free: "unat (st_next_reservation_id (lock_state a)) < 2 ^ 64 - 1"
  shows "list_all2 (\<lambda>m m'. slots_taken (if at_key ''id'' m = VString (mr_model r) then uint (mr_requested_slots r) else 0) m m')
     (map inventory_value (local_models a)) (map inventory_value (local_models a'))"
proof -
  note g = create_reservation_granted [OF inv c]
  have inv': "runtime_inv a'" using create_reservation_inv [OF inv, of now req] c by simp
  have models: "sk_models a' = sk_models a" "sk_backend a' = sk_backend a" by (simp_all add: g(3))
  have cf: "counter_free a (Suc 0)" using free by (simp add: counter_free_def)
  have "slots_taken (if mc_id model = mr_model r then uint (mr_requested_slots r) else 0)
      (inventory_value (inventory_for_model a model (reserved_slots_for_model (lock_state a) (mc_id model))))
      (inventory_value (inventory_for_model a' model (reserved_slots_for_model (lock_state a') (mc_id model))))"
    if mem: "model \<in> set (bt_values (sk_models a))" for model
  proof -
    obtain k where "bt_get (sk_models a) k = Some model"
      using mem in_bt_values [OF runtime_invD(1) [OF inv], of model] by blast
    moreover from this have k: "mc_id model = k" by (rule runtime_invD(3) [OF inv])
    ultimately have m: "bt_get (sk_models a) (mc_id model) = Some model" "bt_get (sk_models a') (mc_id model) = Some model"
      by (simp_all add: models)
    let ?n = "if mc_id model = mr_model r then unat (mr_requested_slots r) else 0"
    have "held (lock_state a') (mc_id model) = held (lock_state a) (mc_id model) + ?n"
      using held_after_grant [OF inv cf, of now req "mc_id model"] by (simp add: g(2,3))
    then have taken: "unat (reserved_slots_for_model (lock_state a') (mc_id model))
        = unat (reserved_slots_for_model (lock_state a) (mc_id model)) + ?n"
      by (simp only: reserved_exact [OF inv m(1)] reserved_exact [OF inv' m(2)])
    have fits: "unat (reserved_slots_for_model (lock_state a') (mc_id model)) \<le> unat (mc_max_parallel_reservations model)"
      using runtime_invD(5) [OF inv' m(2)] by (simp only: reserved_exact [OF inv' m(2)])
    have n: "(if mc_id model = mr_model r then uint (mr_requested_slots r) else 0) = int ?n" by simp
    show ?thesis unfolding n
    proof (rule slots_taken_inventory)
      show "uint (reserved_slots_for_model (lock_state a') (mc_id model))
          = uint (reserved_slots_for_model (lock_state a) (mc_id model)) + int ?n"
        using taken by (simp only: uint_nat of_nat_add)
      show "uint (saturating_sub (mc_max_parallel_reservations model) (reserved_slots_for_model (lock_state a') (mc_id model)))
          = uint (saturating_sub (mc_max_parallel_reservations model) (reserved_slots_for_model (lock_state a) (mc_id model))) - int ?n"
        using taken fits by (simp only: uint_nat unat_saturating_sub)
    qed (rule models(2))
  qed
  moreover have "at_key ''id'' (inventory_value (inventory_for_model a model n)) = VString (mc_id model)" for model n
    by (simp add: inventory_value_def inventory_for_model_def)
  ultimately show ?thesis
    by (simp add: local_models_def Let_def models list_all2_map1 list_all2_map2 list.rel_refl_strong comp_def)
qed

section \<open>The configuration\<close>

text \<open>
  What the \<open>toml\<close> crate documents.  TOML has no null, so an absent option is left out, and its
  integers are signed and of 64 bits, so a larger number cannot be written; what is written is
  parsed again.
\<close>

fun toml_value :: "wire_value \<Rightarrow> wire_value option" where
  "toml_value (VInt n) = (if - (2 ^ 63) \<le> n \<and> n < 2 ^ 63 then Some (VInt n) else None)"
| "toml_value (VArray vs) = map_option VArray (those (map toml_value vs))"
| "toml_value (VObject members) =
     map_option VObject (those (map (\<lambda>(k, v). map_option (Pair k) (toml_value v))
       (filter (\<lambda>(k, v). v \<noteq> VNull) members)))"
| "toml_value v = Some v"

definition toml_documented :: "toml_text \<Rightarrow> wire_value \<Rightarrow> bool" where
  "toml_documented T v \<longleftrightarrow>
     (case (toml_value v, toml_print T v) of
        (Some u, Inr raw) \<Rightarrow> toml_parse T raw = Inr u
      | (None, Inl _) \<Rightarrow> True
      | _ \<Rightarrow> False)"

lemma those_Some: "those (map (\<lambda>x. Some (f x)) xs) = Some (map f xs)"
  by (induction xs) simp_all

lemma uint_above: "- 9223372036854775808 \<le> uint w"
  using uint_ge_0 [of w] by linarith

lemma toml_simps [simp]:
  "toml_value (v_list VString xs) = Some (v_list VString xs)"
  "toml_value (v_uint (w :: u64)) = (if uint w < 2 ^ 63 then Some (v_uint w) else None)"
  "toml_value (v_uint (n :: u32)) = Some (v_uint n)"
  "toml_value (v_uint (k :: u16)) = Some (v_uint k)"
  using uint_lt2p [of n] uint_lt2p [of k]
  by (simp_all add: v_list_def v_uint_def comp_def those_Some uint_above)

lemma toml_mesh_config [simp]: "toml_value (mesh_config_value m) = Some (mesh_config_value m)"
  by (simp add: mesh_config_value_def)

lemma backend_not_null [simp]: "backend_value b \<noteq> VNull" "toml_value (backend_value b) = Some (backend_value b)"
  by (cases b; simp)+

lemma not_null [simp]: "v_uint w \<noteq> VNull" "v_list f xs \<noteq> VNull"
  by (simp_all add: v_uint_def v_list_def)

lemma toml_runtime_config [simp]: "toml_value (runtime_config_value r) = Some (runtime_config_value r)"
  by (simp add: runtime_config_value_def)

lemma toml_model_config [simp]: "toml_value (model_config_value m) = Some (model_config_value m)"
  by (simp add: model_config_value_def)

lemma toml_models [simp]: "toml_value (v_list model_config_value ms) = Some (v_list model_config_value ms)"
  by (simp add: v_list_def comp_def those_Some)

text \<open>The texts of the address and the paths of a configuration are read back as they were.\<close>

definition paths_of :: "compute_config \<Rightarrow> path list" where
  "paths_of c =
     data_dir c # List.map_filter id [machine_key_path (cfg_x0x c), agent_key_path (cfg_x0x c),
       user_key_path (cfg_x0x c), contact_store_path (cfg_x0x c)]"

definition texts_read_back :: "config_texts \<Rightarrow> compute_config \<Rightarrow> bool" where
  "texts_read_back W c \<longleftrightarrow>
     addr_parse W (addr_text W (api_bind c)) = Some (api_bind c)
     \<and> list_all (\<lambda>p. path_parse W (path_text W p) = p) (paths_of c)"

lemma texts_read_backD:
  assumes "texts_read_back W c"
  shows "addr_parse W (addr_text W (api_bind c)) = Some (api_bind c)"
    "path_parse W (path_text W (data_dir c)) = data_dir c"
    "machine_key_path (cfg_x0x c) = Some p \<Longrightarrow> path_parse W (path_text W p) = p"
    "agent_key_path (cfg_x0x c) = Some p \<Longrightarrow> path_parse W (path_text W p) = p"
    "user_key_path (cfg_x0x c) = Some p \<Longrightarrow> path_parse W (path_text W p) = p"
    "contact_store_path (cfg_x0x c) = Some p \<Longrightarrow> path_parse W (path_text W p) = p"
  using assms by (auto simp: texts_read_back_def paths_of_def map_filter_simps split: option.splits)

lemma toml_x0x_config:
  assumes "texts_read_back W c"
  shows "\<exists>v. toml_value (x0x_config_value W (cfg_x0x c)) = Some v \<and> v \<noteq> VNull \<and> x0x_config_of_value W v = Some (cfg_x0x c)"
  using texts_read_backD(3-6) [OF assms]
  by (cases "machine_key_path (cfg_x0x c)"; cases "agent_key_path (cfg_x0x c)";
      cases "user_key_path (cfg_x0x c)"; cases "contact_store_path (cfg_x0x c)")
    (simp_all add: x0x_config_value_def x0x_config_of_value_def v_opt_def Let_def read_eval)

lemma toml_config:
  assumes "texts_read_back W c"
  shows "if uint (resource_announce_interval_secs c) < 2 ^ 63
    then \<exists>v. toml_value (config_value W c) = Some v \<and> config_of_value W v = Some c
    else toml_value (config_value W c) = None"
proof -
  obtain x where x: "toml_value (x0x_config_value W (cfg_x0x c)) = Some x" "x0x_config_of_value W x = Some (cfg_x0x c)"
    using toml_x0x_config [OF assms] by blast
  have nn: "x0x_config_value W y \<noteq> VNull" "mesh_config_value m \<noteq> VNull" "runtime_config_value r \<noteq> VNull" for y m r
    by (simp_all add: x0x_config_value_def Let_def mesh_config_value_def runtime_config_value_def)
  show ?thesis
    using texts_read_backD(1,2) [OF assms]
    by (simp add: config_value_def nn x) (simp add: config_of_value_def read_eval dec_list_v_list x)
qed

end
