(* ===== verification/Unit_Test_Props.thy ===== *)
theory Unit_Test_Props
  imports Unit_Tests Wire_Spec Daemon_Spec
begin

text \<open>
  Every unit test of the program passes, for every choice of the generated keys and every
  behaviour of the foreign functions that keeps its documentation.
\<close>

section \<open>What the tests rely on\<close>

text \<open>
  \<open>json_round_trips\<close> is what serde promises of one announcement;
  \<open>contacts_documented\<close> is what x0x documents of the contact store that a test opens under
  its fresh temporary directory, with at most one contact: without it the sender is unknown, a trusted contact is accepted, a
  known one is accepted with a flag, and a contact pinned to one machine is accepted from that
  machine only.
\<close>

definition json_round_trips :: "'cs mesh_externals \<Rightarrow> capability_announcement \<Rightarrow> bool" where
  "json_round_trips X cap \<longleftrightarrow>
     (case json_to_vec X cap of Inr bs \<Rightarrow> json_from_slice X bs = Inr cap | Inl _ \<Rightarrow> False)"

definition contacts_documented :: "'cs mesh_externals \<Rightarrow> 'cs contact_store \<Rightarrow> test_bench \<Rightarrow> bool" where
  "contacts_documented X K B \<longleftrightarrow>
     (\<forall>a m. trust_evaluate X (store K B) a m = Unknown
        \<and> trust_evaluate X (cs_set_trust K a Trusted (store K B)) a m = Accept
        \<and> trust_evaluate X (cs_set_trust K a Known (store K B)) a m = AcceptWithFlag)
     \<and> (\<forall>c rec m. con_trust_level c = Trusted \<and> con_identity_type c = Pinned
          \<and> con_machines c = [rec] \<and> mrec_pinned rec \<longrightarrow>
          trust_evaluate X (cs_add K c (store K B)) (con_agent_id c) m =
            (if m = mrec_machine_id rec then Accept else RejectMachineMismatch))
     \<and> (\<forall>m l. mrec_machine_id (machine_record_new K m l) = m)"

lemma message_for_json:
  "json_round_trips X cap \<Longrightarrow> \<exists>bs. message_for X s cap = Some (payload_message s bs)
     \<and> json_from_slice X bs = Inr cap"
  by (auto simp: json_round_trips_def message_for_def split: sum.splits)

lemma contacts_documentedD [simp]:
  assumes "contacts_documented X K B"
  shows "trust_evaluate X (store K B) a m = Unknown"
    "trust_evaluate X (cs_set_trust K a Trusted (store K B)) a m = Accept"
    "trust_evaluate X (cs_set_trust K a Known (store K B)) a m = AcceptWithFlag"
    "trust_evaluate X (cs_add K (contact_for a Trusted Pinned
       [(machine_record_new K pinned l)\<lparr>mrec_pinned := True\<rparr>]) (store K B)) a m =
       (if m = pinned then Accept else RejectMachineMismatch)"
proof -
  let ?rec = "(machine_record_new K pinned l)\<lparr>mrec_pinned := True\<rparr>"
  have "mrec_machine_id ?rec = pinned" using assms by (simp add: contacts_documented_def)
  moreover have "trust_evaluate X (cs_add K (contact_for a Trusted Pinned [?rec]) (store K B))
      (con_agent_id (contact_for a Trusted Pinned [?rec])) m =
      (if m = mrec_machine_id ?rec then Accept else RejectMachineMismatch)"
    by (rule assms [unfolded contacts_documented_def, THEN conjunct2, THEN conjunct1, rule_format])
      (simp add: contact_for_def)
  ultimately show "trust_evaluate X (cs_add K (contact_for a Trusted Pinned [?rec]) (store K B)) a m =
       (if m = pinned then Accept else RejectMachineMismatch)"
    by (simp add: contact_for_def)
qed (use assms in \<open>simp_all add: contacts_documented_def\<close>)

lemma payload_message_simps [simp]:
  "ps_sender (payload_message s bs) = Some s" "ps_payload (payload_message s bs) = bs"
  "ps_verified (payload_message s bs)"
  by (simp_all add: payload_message_def)

lemma encode_agent_inject:
  "hex_contract (hex_encode X) (hex_decode X) \<Longrightarrow> encode_agent_id X a = encode_agent_id X b \<longleftrightarrow> a = b"
  by (auto simp: encode_agent_id_def hex_contract.enc_inject agent_id.expand)

lemma parse_encoded_machine:
  "hex_contract (hex_encode X) (hex_decode X) \<Longrightarrow> length (machine_bytes m) = 32 \<Longrightarrow>
     parse_machine_id_hex X (encode_machine_id X m) = Inr m"
  by (simp add: parse_machine_id_Inr encode_machine_id_def hex_contract.dec_enc)

lemma default_mesh_simps [simp]:
  "mesh_name (cfg_mesh (default_compute_config dirs)) = ''friends''"
  "mesh_name (cfg_mesh (relaxed_config dirs)) = ''friends''"
  "\<not> mesh_trusted_friends_only (cfg_mesh (relaxed_config dirs))"
  "\<not> mesh_require_trusted_contacts (cfg_mesh (relaxed_config dirs))"
  "mesh_trusted_friends_only (cfg_mesh (default_compute_config dirs))"
  by (simp_all add: default_compute_config_def relaxed_config_def default_mesh_config_def)

lemmas registry_eval = apply_message_def record_peer_def Let_def registry_new_def bt_get_def registry_len_def
  registry_is_empty_def first_record_def registry_snapshot_def bt_values_def

text \<open>The setting of the mesh tests: contracts of the foreign functions, two agents, one machine.\<close>

definition mesh_setting ::
  "'cs mesh_externals \<Rightarrow> 'cs contact_store \<Rightarrow> test_bench \<Rightarrow> agent_id \<Rightarrow> agent_id \<Rightarrow> machine_id \<Rightarrow> bool" where
  "mesh_setting X K B local_agent sender machine \<longleftrightarrow>
     hex_contract (hex_encode X) (hex_decode X) \<and> contacts_documented X K B \<and> local_agent \<noteq> sender
     \<and> length (machine_bytes machine) = 32"

lemma mesh_settingD [simp]:
  assumes "mesh_setting X K B l s m"
  shows "contacts_documented X K B" "encode_agent_id X s \<noteq> encode_agent_id X l" "l \<noteq> s"
    "parse_machine_id_hex X (encode_machine_id X m) = Inr m"
    "encode_agent_id X a = encode_agent_id X b \<longleftrightarrow> a = b"
  using assms encode_agent_inject [of X] parse_encoded_machine [of X m] by (auto simp: mesh_setting_def)

section \<open>Trusted peer registry\<close>

lemma accepts_trusted_peer_with_matching_sender_passes:
  "mesh_setting X K B l s m \<Longrightarrow> json_round_trips X (capability_for X s m ''friends'' [''qwen3.5:32b'']) \<Longrightarrow> 
     accepts_trusted_peer_with_matching_sender X K B l s m"
  by (drule message_for_json [where s = s]) (auto simp: accepts_trusted_peer_with_matching_sender_def registry_eval)

lemma rejects_sender_mismatch_passes:
  "mesh_setting X K B l s m \<Longrightarrow> json_round_trips X (capability_for X d m ''friends'' []) \<Longrightarrow> d \<noteq> s \<Longrightarrow>
     rejects_sender_mismatch X K B l s d m"
  by (drule message_for_json [where s = s]) (auto simp: rejects_sender_mismatch_def registry_eval)

lemma rejects_unknown_peer_under_trusted_friends_policy_passes:
  "mesh_setting X K B l s m \<Longrightarrow> json_round_trips X (capability_for X s m ''friends'' []) \<Longrightarrow> 
     rejects_unknown_peer_under_trusted_friends_policy X K B l s m"
  by (drule message_for_json [where s = s]) (auto simp: rejects_unknown_peer_under_trusted_friends_policy_def registry_eval)

lemma accepts_known_peer_when_policy_is_relaxed_passes:
  "mesh_setting X K B l s m \<Longrightarrow> json_round_trips X (capability_for X s m ''friends'' [''gemma-4'']) \<Longrightarrow> 
     accepts_known_peer_when_policy_is_relaxed X K B l s m"
  by (drule message_for_json [where s = s]) (auto simp: accepts_known_peer_when_policy_is_relaxed_def registry_eval)

lemma rejects_known_peer_when_policy_requires_trusted_contacts_passes:
  "mesh_setting X K B l s m \<Longrightarrow> json_round_trips X (capability_for X s m ''friends'' []) \<Longrightarrow> 
     rejects_known_peer_when_policy_requires_trusted_contacts X K B l s m"
  by (drule message_for_json [where s = s]) (auto simp: rejects_known_peer_when_policy_requires_trusted_contacts_def registry_eval)

lemma rejects_pinned_machine_mismatch_passes:
  "mesh_setting X K B l s m \<Longrightarrow> json_round_trips X (capability_for X s m ''friends'' []) \<Longrightarrow> pinned \<noteq> m \<Longrightarrow>
     rejects_pinned_machine_mismatch X K B l s pinned m"
  by (drule message_for_json [where s = s]) (auto simp: rejects_pinned_machine_mismatch_def registry_eval)

lemma accepts_pinned_machine_match_passes:
  "mesh_setting X K B l s m \<Longrightarrow> json_round_trips X (capability_for X s m ''friends'' []) \<Longrightarrow> 
     accepts_pinned_machine_match X K B l s m"
  by (drule message_for_json [where s = s]) (auto simp: accepts_pinned_machine_match_def registry_eval)

lemma ignores_self_announcement_passes:
  "mesh_setting X K B l s m \<Longrightarrow> json_round_trips X (capability_for X l m ''friends'' []) \<Longrightarrow> 
     ignores_self_announcement X K B l m"
  by (drule message_for_json [where s = l]) (auto simp: ignores_self_announcement_def registry_eval)

lemma rejects_wrong_mesh_name_passes:
  "mesh_setting X K B l s m \<Longrightarrow> json_round_trips X (capability_for X s m ''other-mesh'' []) \<Longrightarrow> 
     rejects_wrong_mesh_name X K B l s m"
  by (drule message_for_json [where s = s]) (auto simp: rejects_wrong_mesh_name_def registry_eval)

lemma rejects_unverified_sender_passes:
  "mesh_setting X K B l s m \<Longrightarrow> json_round_trips X (capability_for X s m ''friends'' []) \<Longrightarrow> 
     rejects_unverified_sender X K B l s m"
  by (drule message_for_json [where s = s]) (auto simp: rejects_unverified_sender_def registry_eval)

lemma updates_existing_peer_record_passes:
  "mesh_setting X K B l s m \<Longrightarrow> json_round_trips X (capability_for X s m ''friends'' [''gemma-4'']) \<Longrightarrow>
     json_round_trips X (capability_for X s m ''friends'' [''gemma-4'', ''qwen3.5:32b'']) \<Longrightarrow>
     updates_existing_peer_record X K B l s m"
  by (drule message_for_json [where s = s], drule message_for_json [where s = s])
    (auto simp: updates_existing_peer_record_def registry_eval capability_for_def)

lemma rejects_invalid_payload_passes:
  "mesh_setting X K B l s m \<Longrightarrow> json_from_slice X not_json = Inl e \<Longrightarrow> rejects_invalid_payload X K B l s"
  by (auto simp: rejects_invalid_payload_def registry_eval)

lemmas mesh_passes = accepts_trusted_peer_with_matching_sender_passes rejects_sender_mismatch_passes rejects_unknown_peer_under_trusted_friends_policy_passes accepts_known_peer_when_policy_is_relaxed_passes rejects_known_peer_when_policy_requires_trusted_contacts_passes rejects_pinned_machine_mismatch_passes accepts_pinned_machine_match_passes ignores_self_announcement_passes rejects_wrong_mesh_name_passes rejects_unverified_sender_passes updates_existing_peer_record_passes rejects_invalid_payload_passes

section \<open>Skeleton runtime\<close>

lemma daemon_test_runtime: "skeleton_new daemon_test_config = test_runtime"
  by (simp add: test_runtime_def skeleton_new_def daemon_test_config_def runtime_test_config_def bt_collect_def
      qwen_model_def gemma_model_def)

lemma test_request_simps [simp]:
  "crr_model (test_request m n) = m" "crr_consumer (test_request m n) = ''alice''"
  "crr_requested_slots (test_request m n) = n"
  by (simp_all add: test_request_def)

lemma create_test:
  "create_reservation now (test_request ''qwen3.5:32b'' 1) test_runtime =
     (Inr (granted now (test_request ''qwen3.5:32b'' 1) test_runtime),
      store_state test_runtime (after_grant now (test_request ''qwen3.5:32b'' 1) test_runtime))"
  "create_reservation now (test_request ''gemma-4:27b'' 1) test_runtime =
     (Inr (granted now (test_request ''gemma-4:27b'' 1) test_runtime),
      store_state test_runtime (after_grant now (test_request ''gemma-4:27b'' 1) test_runtime))"
  by (rule create_reservation_grantable [OF test_inv];
      simp add: grantable_def runtime_eval held_def trim_alice)+

lemmas test_eval = runtime_eval reservations_def local_models_def inventory_for_model_def reserved_slots_for_model_def
  bt_values_def Let_def saturating_add_def saturating_sub_def

lemma local_inventory_reflects_configured_models_passes: "local_inventory_reflects_configured_models"
  by (simp add: local_inventory_reflects_configured_models_def test_eval flip: test_runtime_def)

lemma reservation_reduces_available_slots_passes: "reservation_reduces_available_slots B"
  by (simp add: reservation_reduces_available_slots_def create_test test_eval flip: test_runtime_def)

lemma create_overflow:
  "create_reservation now (test_request ''gemma-4:27b'' 2) test_runtime
     = (Inl (ModelCapacityExceeded ''gemma-4:27b'' 2 1), test_runtime)"
  by (simp add: create_reservation_cases [OF test_inv] trim_alice test_eval held_def)

lemma reservation_rejects_capacity_overflow_passes: "reservation_rejects_capacity_overflow B"
  by (simp add: reservation_rejects_capacity_overflow_def create_overflow flip: test_runtime_def)

lemma release_reservation_removes_it_passes: "release_reservation_removes_it B"
  by (simp add: release_reservation_removes_it_def create_test release_reservation_cases bt_remove_def test_eval flip: test_runtime_def)

lemma openai_models_reflect_inventory_passes: "openai_models_reflect_inventory"
  by (simp add: openai_models_reflect_inventory_def openai_models_def test_eval flip: test_runtime_def)

lemma chat_simps [simp]:
  "ccr_model (user_chat t b) = ''qwen3.5:32b''" "ccr_stream (user_chat t b) = b"
  "ccr_messages (user_chat t b) = [\<lparr>msg_role = ''user'', msg_content = t\<rparr>]"
  by (simp_all add: user_chat_def)

lemma trim_hello: "trim ''hello mesh'' = ''hello mesh''" "trim ''hello trusted mesh'' = ''hello trusted mesh''"
  by (simp_all add: trim_def trim_chars_def is_lead_def is_whitespace_def white_space_def)

lemma chat_eval:
  assumes "trim t = t" "t \<noteq> []"
  shows "\<exists>r a'. chat_completion now (user_chat t False) test_runtime = (Inr r, a')
     \<and> cc_object r = ''chat.completion'' \<and> cc_model r = ''qwen3.5:32b''
     \<and> (\<exists>c. cc_choices r = [c] \<and> sublist t (msg_content (ch_message c)))
     \<and> us_prompt_tokens (cc_usage r) \<le> us_total_tokens (cc_usage r)"
proof -
  have "completion_text p m t = (trim_start (p @ '' '') @ ''['' @ m @ ''] '') @ t" for p m
    using assms by (simp add: completion_text_shape)
  then have s: "sublist t (completion_text p m t)" for p m
    by (simp only: sublist_append_leftI sublist_order.order_refl)
  have le: "(x :: u32) \<le> saturating_add x y" for x y
    using unsigned_less [of x, where ?'a = nat] by (simp add: word_le_nat_alt u_arith)
  from s le show ?thesis
    by (simp add: chat_completion_def ensure_model_exists_def test_eval select_prompt_def Let_def)
qed

lemma chat_completion_returns_skeleton_response_passes: "chat_completion_returns_skeleton_response B"
  using chat_eval [OF trim_hello(2), of "tb_now B"]
  by (auto simp: chat_completion_returns_skeleton_response_def simp flip: test_runtime_def)

lemma chat_completion_rejects_streaming_requests_passes: "chat_completion_rejects_streaming_requests B"
  by (simp add: chat_completion_rejects_streaming_requests_def chat_completion_def ensure_model_exists_def test_eval
     flip: test_runtime_def)

lemmas runtime_passes = local_inventory_reflects_configured_models_passes reservation_reduces_available_slots_passes reservation_rejects_capacity_overflow_passes release_reservation_removes_it_passes openai_models_reflect_inventory_passes chat_completion_returns_skeleton_response_passes chat_completion_rejects_streaming_requests_passes

section \<open>HTTP routes and handlers\<close>

lemma http_test_state_simps [simp]:
  "as_methods (http_test_state sys B) = skeleton_methods" "as_runtime (http_test_state sys B) = test_runtime"
  "as_config (http_test_state sys B) = daemon_test_config"
  by (simp_all add: http_test_state_def Let_def build_runtime_def daemon_test_runtime)

lemma http_request_simps [simp]:
  "rq_method (http_get segs) = GET" "rq_segments (http_get segs) = segs"
  "rq_method (http_post J segs body) = POST" "rq_segments (http_post J segs body) = segs"
  "rq_body (http_post J segs body) = json_print (jk_text J) body"
  "rq_method (http_delete segs) = DELETE" "rq_segments (http_delete segs) = segs"
  by (simp_all add: http_get_def http_post_def http_delete_def)

text \<open>
  What the tests rely on: the four bodies they post are parsed back as they were printed, and x0x
  writes the decision to accept as \<open>accept\<close>.
\<close>

definition posted_bodies :: "wire_value list" where
  "posted_bodies =
     [reservation_json ''qwen3.5:32b'' 1, reservation_json ''gemma-4:27b'' 2,
      VObject [(''model'', VString ''qwen3.5:32b''), (''messages'', hello_mesh_messages)],
      VObject [(''model'', VString ''qwen3.5:32b''), (''stream'', VBool True), (''messages'', hello_mesh_messages)]]"

definition json_documented :: "json_kit \<Rightarrow> bool" where
  "json_documented J \<longleftrightarrow>
     list_all (\<lambda>v. json_parse (jk_text J) (json_print (jk_text J) v) = Inr v) posted_bodies
     \<and> jk_decisions J Accept = ''accept''"

lemma json_decision [simp]: "json_documented J \<Longrightarrow> jk_decisions J Accept = ''accept''"
  by (simp add: json_documented_def)

lemma hello_messages: "dec_list message_of_value hello_mesh_messages = Some [\<lparr>msg_role = ''user'', msg_content = ''hello mesh''\<rparr>]"
  by (simp add: dec_list_def hello_mesh_messages_def message_of_value_def read_eval)

lemma posted_create [simp]:
  assumes "json_documented J" and "n = 1 \<and> m = ''qwen3.5:32b'' \<or> n = 2 \<and> m = ''gemma-4:27b''"
  shows "dec_create (wire_decoders (jk_text J)) (json_print (jk_text J) (reservation_json m n)) =
    Some \<lparr>crf_model = m, crf_consumer = ''alice'', crf_requested_slots = Some (word_of_int n)\<rparr>"
proof -
  have "json_parse (jk_text J) (json_print (jk_text J) (reservation_json m n)) = Inr (reservation_json m n)"
    using assms by (auto simp: json_documented_def posted_bodies_def)
  with assms(2) show ?thesis
    by (auto simp: wire_decoders_def reservation_json_def create_fields_of_value_def read_eval dec_uint_def)
qed

lemma posted_chat [simp]:
  assumes "json_documented J"
  shows "dec_chat (wire_decoders (jk_text J)) (json_print (jk_text J)
      (VObject [(''model'', VString ''qwen3.5:32b''), (''messages'', hello_mesh_messages)])) =
      Some \<lparr>ccf_model = ''qwen3.5:32b'', ccf_messages = [\<lparr>msg_role = ''user'', msg_content = ''hello mesh''\<rparr>],
            ccf_stream = None, ccf_max_tokens = None, ccf_temperature = None\<rparr>"
    "dec_chat (wire_decoders (jk_text J)) (json_print (jk_text J)
      (VObject [(''model'', VString ''qwen3.5:32b''), (''stream'', VBool True), (''messages'', hello_mesh_messages)])) =
      Some \<lparr>ccf_model = ''qwen3.5:32b'', ccf_messages = [\<lparr>msg_role = ''user'', msg_content = ''hello mesh''\<rparr>],
            ccf_stream = Some True, ccf_max_tokens = None, ccf_temperature = None\<rparr>"
  using assms
  by (simp_all add: json_documented_def posted_bodies_def wire_decoders_def chat_fields_of_value_def read_eval hello_messages)

lemma request_of_simps [simp]:
  "create_request_of \<lparr>crf_model = m, crf_consumer = ''alice'', crf_requested_slots = Some n\<rparr> = test_request m n"
  "chat_request_of \<lparr>ccf_model = ''qwen3.5:32b'', ccf_messages = [\<lparr>msg_role = ''user'', msg_content = ''hello mesh''\<rparr>],
     ccf_stream = b, ccf_max_tokens = None, ccf_temperature = None\<rparr> = user_chat ''hello mesh'' (b = Some True)"
  by (cases b; simp add: create_request_of_def test_request_def chat_request_of_def user_chat_def)+

lemmas http_eval = dispatch_def route_cases health_def local_models_handler_def list_reservations_def
  create_reservation_handler_def delete_reservation_def openai_models_handler_def openai_chat_completions_def
  peer_capabilities_def skeleton_methods_def

lemma local_models_endpoint_returns_inventory_passes: "local_models_endpoint_returns_inventory J sys B"
  by (simp add: local_models_endpoint_returns_inventory_def send_def exchange_def http_eval test_eval inventory_value_def v_uint_def)

lemma rid_nonempty: "reservation_id n \<noteq> []"
  by (simp add: reservation_id_def)

lemma reservation_at_id [simp]: "at_key ''reservation_id'' (reservation_value r) = VString (mr_reservation_id r)"
  by (simp add: reservation_value_def)

lemma reservation_endpoints_create_list_and_delete_passes: "json_documented J \<Longrightarrow> reservation_endpoints_create_list_and_delete J sys B"
  by (simp add: reservation_endpoints_create_list_and_delete_def send_def exchange_def Let_def http_eval create_test rid_nonempty
      release_reservation_cases runtime_eval reservations_def bt_values_def)

lemma reservation_endpoint_rejects_capacity_conflict_passes: "json_documented J \<Longrightarrow> reservation_endpoint_rejects_capacity_conflict J sys B"
  by (simp add: reservation_endpoint_rejects_capacity_conflict_def send_def exchange_def Let_def http_eval create_overflow)

lemma completion_at [simp]:
  "at_key ''object'' (completion_value r) = VString (cc_object r)"
  "at_key ''choices'' (completion_value r) = VArray (map choice_value (cc_choices r))"
  "at_key ''content'' (at_key ''message'' (choice_value c)) = VString (msg_content (ch_message c))"
  by (simp_all add: completion_value_def choice_value_def message_value_def v_list_def)

lemma openai_gateway_endpoints_return_skeleton_data_passes: "json_documented J \<Longrightarrow> openai_gateway_endpoints_return_skeleton_data J sys B"
  using chat_eval [OF trim_hello(1), of "tb_now B"]
  by (auto simp: openai_gateway_endpoints_return_skeleton_data_def send_def exchange_def http_eval)

lemma openai_gateway_reports_unsupported_streaming_passes: "json_documented J \<Longrightarrow> openai_gateway_reports_unsupported_streaming J sys B"
  by (simp add: openai_gateway_reports_unsupported_streaming_def send_def exchange_def http_eval chat_completion_def ensure_model_exists_def
      runtime_eval)

lemma reservation_delete_reports_not_found_passes: "reservation_delete_reports_not_found J sys B"
  by (simp add: reservation_delete_reports_not_found_def send_def exchange_def http_eval release_reservation_cases runtime_eval)

lemma health_endpoint_reports_ok_passes: "health_endpoint_reports_ok J sys B"
  by (simp add: health_endpoint_reports_ok_def send_def exchange_def http_eval)

lemma peer_at [simp]:
  "at_key ''agent_id'' (at_key ''identity'' (at_key ''capability'' (peer_record_value names p)))
     = VString (ais_agent_id (cap_identity (pr_capability p)))"
  "at_key ''trust_decision'' (peer_record_value names p) = VString (names (pr_trust_decision p))"
  by (simp_all add: peer_record_value_def announcement_value_def identity_value_def)

lemma lower_letters: "map ascii_lower (repeated_hex CHR ''c'') = repeated_hex CHR ''c''"
  by (simp add: repeated_hex_def ascii_lower_def)

lemma repeated_hex_inject: "repeated_hex c = repeated_hex d \<longleftrightarrow> c = d"
  by (simp add: repeated_hex_def)

lemma daemon_mesh_name: "mesh_name (cfg_mesh daemon_test_config) = ''friends''"
  by (simp add: daemon_test_config_def runtime_test_config_def default_mesh_config_def)

lemma sample_simps [simp]:
  "cap_protocol_version (sample_capability a m) = PROTOCOL_VERSION"
  "ais_agent_id (cap_identity (sample_capability a m)) = a"
  "ais_machine_id (cap_identity (sample_capability a m)) = m"
  "pol_mesh_name (cap_policy (sample_capability a m)) = ''friends''"
  by (simp_all add: sample_capability_def)

lemma peers_endpoint_returns_registry_snapshot_passes:
  assumes hex: "hex_contract (hex_encode X) (hex_decode X)" and contacts: "contacts_documented X K B"
    and c: "hex_decode X (repeated_hex CHR ''c'') = Inr (replicate 32 0xCC)"
    and d: "hex_decode X (repeated_hex CHR ''d'') = Inr (replicate 32 0xDD)"
    and json: "json_round_trips X (sample_capability (repeated_hex CHR ''c'') (repeated_hex CHR ''d''))"
    and kit: "json_documented J"
  shows "peers_endpoint_returns_registry_snapshot X K J sys B"
proof -
  let ?a = "AgentId (replicate 32 0xCC)"
  have a: "parse_agent_id_hex X (repeated_hex CHR ''c'') = Inr ?a"
    and m: "parse_machine_id_hex X (repeated_hex CHR ''d'') = Inr (MachineId (replicate 32 0xDD))"
    by (simp_all add: parse_agent_id_Inr parse_machine_id_Inr c d)
  have enc: "encode_agent_id X ?a = repeated_hex CHR ''c''"
    using hex_contract.dec_lower [OF hex c] by (simp add: encode_agent_id_def lower_letters)
  from message_for_json [OF json, of ?a] show ?thesis
    by (auto simp: peers_endpoint_returns_registry_snapshot_def a m enc repeated_hex_inject daemon_mesh_name
        registry_eval send_def exchange_def http_eval contacts kit)
qed

lemmas daemon_passes = local_models_endpoint_returns_inventory_passes reservation_endpoints_create_list_and_delete_passes reservation_endpoint_rejects_capacity_conflict_passes openai_gateway_endpoints_return_skeleton_data_passes openai_gateway_reports_unsupported_streaming_passes reservation_delete_reports_not_found_passes health_endpoint_reports_ok_passes peers_endpoint_returns_registry_snapshot_passes

section \<open>Configuration, announcement and identity\<close>

lemma config_tests_pass:
  "default_config_has_trusted_friends_policy B" "default_runtime_uses_skeleton_backend B"
  "default_path_ends_with_config_toml B"
  by (simp_all add: default_config_has_trusted_friends_policy_def default_runtime_uses_skeleton_backend_def
      default_path_ends_with_config_toml_def default_compute_config_def default_mesh_config_def
      default_runtime_config_def Let_def path_file_name_def default_path_def path_join_def)

lemma timestamp_positive:
  assumes "1000000000 \<le> now" and "clock_range now"
  shows "0 < capability_timestamp_secs now"
proof -
  have "0 < now div 1000000000" "now div 1000000000 < 2 ^ 63"
    using assms by (simp_all add: clock_range_def div_less_iff_less_mult pos_imp_zdiv_pos_iff)
  then have "uint (word_of_int (now div 1000000000) :: u64) = now div 1000000000"
    by (simp add: uint_word_of_int_eq take_bit_int_eq_self)
  with \<open>0 < now div 1000000000\<close> have "0 < (word_of_int (now div 1000000000) :: u64)"
    by (simp only: word_less_alt) simp
  with assms(1) show ?thesis by (simp add: capability_timestamp_secs_def secs_since_epoch_def)
qed

lemma capability_tests_pass:
  "1000000000 \<le> tb_now B \<Longrightarrow> clock_range (tb_now B) \<Longrightarrow> capability_snapshot_carries_identity_and_policy sys B"
  "capability_snapshot_includes_configured_models sys B"
  by (simp_all add: capability_snapshot_carries_identity_and_policy_def capability_snapshot_includes_configured_models_def
      Let_def announcement_local_def default_compute_config_def default_mesh_config_def timestamp_positive)

lemma identity_tests_pass:
  assumes "hex_contract (hex_encode H) (hex_decode H)"
    and "length (machine_bytes m) = 32" and "length (agent_bytes a) = 32"
  shows "identity_snapshot_uses_full_hex_identifiers H m a" "parse_agent_id_round_trips_full_hex H a"
    "parse_machine_id_rejects_wrong_length H"
proof -
  note hex = hex_contract.length_enc [OF assms(1)] hex_contract.dec_enc [OF assms(1)]
  show "identity_snapshot_uses_full_hex_identifiers H m a"
    by (simp add: identity_snapshot_uses_full_hex_identifiers_def encode_machine_id_def encode_agent_id_def hex assms)
  have "parse_agent_id_hex H (encode_agent_id H a) = Inr a"
    by (simp add: parse_agent_id_Inr encode_agent_id_def hex assms)
  then show "parse_agent_id_round_trips_full_hex H a"
    by (simp add: parse_agent_id_round_trips_full_hex_def)
  have "parse_hex_32 H ''abcd'' f \<noteq> Inr bs" for f bs
    using hex_contract.dec_length [OF assms(1), of "''abcd''" bs] by (auto simp: parse_hex_32_Inr)
  then obtain e where "parse_hex_32 H ''abcd'' ''machine_id'' = Inl e"
    by (cases "parse_hex_32 H ''abcd'' ''machine_id''") auto
  with parse_hex_32_Inl [OF this] show "parse_machine_id_rejects_wrong_length H"
    by (auto simp: parse_machine_id_rejects_wrong_length_def parse_machine_id_hex_def)
qed

section \<open>An executable contact store\<close>

text \<open>
  A contact store as a list of contacts, an evaluator over it, and the wire format of
  \<open>test_externals\<close>: the instance at which the statements below are applied.
\<close>

type_synonym bench_store = "(agent_id \<times> contact) list"

definition bench_trust :: "contact \<Rightarrow> machine_id \<Rightarrow> trust_decision" where
  "bench_trust c m =
     (if con_identity_type c = Pinned
         \<and> m \<notin> set (map mrec_machine_id (filter mrec_pinned (con_machines c)))
      then RejectMachineMismatch
      else case con_trust_level c of Trusted \<Rightarrow> Accept | Known \<Rightarrow> AcceptWithFlag | OtherTrustLevel \<Rightarrow> Unknown)"

definition bench_externals :: "capability_announcement list \<Rightarrow> bench_store mesh_externals" where
  "bench_externals caps =
     \<lparr>hex_encode = hex_encode hex_executable, hex_decode = hex_decode hex_executable,
      json_from_slice = json_from_slice (test_externals caps), json_to_vec = json_to_vec (test_externals caps),
      trust_evaluate = (\<lambda>s a m. case map_of s a of None \<Rightarrow> Unknown | Some c \<Rightarrow> bench_trust c m)\<rparr>"

definition bench_contacts :: "bench_store contact_store" where
  "bench_contacts =
     \<lparr>cs_new = (\<lambda>p. []), cs_set_trust = (\<lambda>a l s. (a, contact_for a l OtherIdentityType []) # s),
      cs_add = (\<lambda>c s. (con_agent_id c, c) # s),
      machine_record_new = (\<lambda>m l. \<lparr>mrec_machine_id = m, mrec_label = l, mrec_pinned = False\<rparr>)\<rparr>"

definition bench :: test_bench where
  "bench = \<lparr>tb_dirs = test_dirs, tb_tempdir = \<lparr>p_abs = True, p_comps = [''tmp'']\<rparr>, tb_now = 5000000000,
            tb_later = 6000000000\<rparr>"

lemma bench_contacts_documented: "contacts_documented (bench_externals caps) bench_contacts bench"
  by (simp add: contacts_documented_def store_def bench_externals_def bench_contacts_def bench_trust_def contact_for_def)

lemma bench_hex: "hex_contract (hex_encode (bench_externals caps)) (hex_decode (bench_externals caps))"
  using hex.hex_contract_axioms by (simp add: bench_externals_def)

lemma bench_round_trip:
  assumes "cap \<in> set caps" and "length caps \<le> 256"
  shows "json_round_trips (bench_externals caps) cap"
proof -
  from assms(1) obtain j where "j < length caps" "caps ! j = cap" by (auto simp: in_set_conv_nth)
  then obtain i where i: "List.find (\<lambda>i. caps ! i = cap) [0..<length caps] = Some i"
    by (cases "List.find (\<lambda>i. caps ! i = cap) [0..<length caps]") (auto simp: find_None_iff)
  then have "i < length caps" "caps ! i = cap" by (auto simp: find_Some_iff)
  moreover from this assms(2) have "unat (of_nat i :: u8) = i" by (subst unat_of_nat) simp
  ultimately show ?thesis
    using i by (simp add: json_round_trips_def bench_externals_def test_externals_def)
qed

lemma bench_not_json: "json_from_slice (bench_externals caps) not_json = Inl ''invalid''"
  by (simp add: bench_externals_def test_externals_def not_json_def)

lemma decode_repeated: "hex_decode_bytes (replicate (2 * n) c) =
    (case hex_nibble c of Some h \<Rightarrow> Inr (replicate n (of_nat (16 * h + h)))
       | None \<Rightarrow> if n = 0 then Inr [] else Inl ''Invalid character'')"
  by (induction n) (simp_all split: option.split)

lemma bench_decode:
  "hex_decode (bench_externals caps) (repeated_hex CHR ''c'') = Inr (replicate 32 0xCC)"
  "hex_decode (bench_externals caps) (repeated_hex CHR ''d'') = Inr (replicate 32 0xDD)"
  using decode_repeated [of 32 "CHR ''c''"] decode_repeated [of 32 "CHR ''d''"]
  by (simp_all add: bench_externals_def hex_executable_def repeated_hex_def hex_nibble_def del: replicate.simps)

section \<open>Every test passes\<close>

text \<open>The announcements that the mesh tests serialise.\<close>

definition mesh_test_announcements ::
  "'a hex_codec_scheme \<Rightarrow> agent_id \<Rightarrow> agent_id \<Rightarrow> agent_id \<Rightarrow> machine_id \<Rightarrow> capability_announcement list" where
  "mesh_test_announcements H local_agent sender different_agent machine =
     [capability_for H sender machine ''friends'' [''qwen3.5:32b''],
      capability_for H different_agent machine ''friends'' [],
      capability_for H sender machine ''friends'' [],
      capability_for H sender machine ''friends'' [''gemma-4''],
      capability_for H local_agent machine ''friends'' [],
      capability_for H sender machine ''other-mesh'' [],
      capability_for H sender machine ''friends'' [''gemma-4'', ''qwen3.5:32b'']]"

text \<open>
  C39. The unit tests of the registry pass for all keys: with any generated agents and machines,
  distinct where the test generates two, with any hex codec, JSON codec and contact store that
  keep their documentation and at any time, a trusted peer is recorded, a second announcement
  updates its record, and a wrong sender, mesh, machine, trust level, payload or signature is
  refused with its own disposition and leaves the registry empty.
\<close>

theorem mesh_tests_pass:
  assumes "mesh_setting X K B local_agent sender machine" and "different_agent \<noteq> sender" and "pinned \<noteq> machine"
    and "list_all (json_round_trips X) (mesh_test_announcements X local_agent sender different_agent machine)"
    and "isl (json_from_slice X not_json)"
  shows "accepts_trusted_peer_with_matching_sender X K B local_agent sender machine
    \<and> rejects_sender_mismatch X K B local_agent sender different_agent machine
    \<and> rejects_unknown_peer_under_trusted_friends_policy X K B local_agent sender machine
    \<and> accepts_known_peer_when_policy_is_relaxed X K B local_agent sender machine
    \<and> rejects_known_peer_when_policy_requires_trusted_contacts X K B local_agent sender machine
    \<and> rejects_pinned_machine_mismatch X K B local_agent sender pinned machine
    \<and> accepts_pinned_machine_match X K B local_agent sender machine
    \<and> ignores_self_announcement X K B local_agent machine
    \<and> rejects_wrong_mesh_name X K B local_agent sender machine
    \<and> updates_existing_peer_record X K B local_agent sender machine
    \<and> rejects_invalid_payload X K B local_agent sender
    \<and> rejects_unverified_sender X K B local_agent sender machine"
proof -
  from assms(5) obtain e where "json_from_slice X not_json = Inl e" by (auto simp: isl_def)
  with assms(1-4) show ?thesis
    by (simp add: mesh_test_announcements_def mesh_passes)
qed

theorem mesh_tests_pass_witness:
  "let X = bench_externals (mesh_test_announcements hex_executable (test_agent 0) (test_agent 1) (test_agent 2) (test_machine 11)) in
     updates_existing_peer_record X bench_contacts bench (test_agent 0) (test_agent 1) (test_machine 11)
     \<and> rejects_pinned_machine_mismatch X bench_contacts bench (test_agent 0) (test_agent 1) (test_machine 12) (test_machine 11)"
proof -
  let ?caps = "mesh_test_announcements hex_executable (test_agent 0) (test_agent 1) (test_agent 2) (test_machine 11)"
  let ?X = "bench_externals ?caps"
  have "capability_for ?X = capability_for hex_executable"
    by (simp add: capability_for_def encode_agent_id_def encode_machine_id_def bench_externals_def fun_eq_iff)
  then have "mesh_test_announcements ?X = mesh_test_announcements hex_executable"
    by (simp add: mesh_test_announcements_def fun_eq_iff)
  moreover have "list_all (json_round_trips ?X) ?caps"
    by (simp add: list_all_iff bench_round_trip mesh_test_announcements_def)
  ultimately have "list_all (json_round_trips ?X)
      (mesh_test_announcements ?X (test_agent 0) (test_agent 1) (test_agent 2) (test_machine 11))" by simp
  moreover have "mesh_setting ?X bench_contacts bench (test_agent 0) (test_agent 1) (test_machine 11)"
    by (simp add: mesh_setting_def bench_hex bench_contacts_documented test_agent_def test_machine_def del: replicate.simps)
  ultimately show ?thesis
    using mesh_tests_pass [of ?X bench_contacts bench "test_agent 0" "test_agent 1" "test_machine 11" "test_agent 2" "test_machine 12"]
    by (simp add: bench_not_json test_agent_def test_machine_def del: replicate.simps)
qed

text \<open>
  The unit tests of the daemon pass at any time, on any machine and with any JSON text that
  is parsed back as it was printed: over HTTP the inventory, a reservation from its creation to its
  deletion, the refusal of one too many slots, a completion, the refusal of streaming, an unknown
  reservation, the liveness probe, and a trusted peer whose announcement came in by gossip are
  answered with the statuses and the contents the tests ask for.
\<close>

lemma daemon_tests_pass:
  assumes "hex_contract (hex_encode X) (hex_decode X)" and "contacts_documented X K B"
    and "hex_decode X (repeated_hex CHR ''c'') = Inr (replicate 32 0xCC)"
    and "hex_decode X (repeated_hex CHR ''d'') = Inr (replicate 32 0xDD)"
    and "json_round_trips X (sample_capability (repeated_hex CHR ''c'') (repeated_hex CHR ''d''))"
    and "json_documented J"
  shows "peers_endpoint_returns_registry_snapshot X K J sys B
    \<and> local_models_endpoint_returns_inventory J sys B
    \<and> reservation_endpoints_create_list_and_delete J sys B
    \<and> reservation_endpoint_rejects_capacity_conflict J sys B
    \<and> openai_gateway_endpoints_return_skeleton_data J sys B
    \<and> openai_gateway_reports_unsupported_streaming J sys B
    \<and> reservation_delete_reports_not_found J sys B
    \<and> health_endpoint_reports_ok J sys B"
  using assms by (simp add: daemon_passes)

text \<open>A text of JSON for finitely many values, which a position names.\<close>

definition test_json :: "wire_value list \<Rightarrow> json_text" where
  "test_json vs =
     \<lparr>json_parse = (\<lambda>bs. case bs of [b] \<Rightarrow> if unat b < length vs then Inr (vs ! unat b) else Inl ''EOF'' | _ \<Rightarrow> Inl ''EOF''),
      json_print = (\<lambda>v. case List.find (\<lambda>i. vs ! i = v) [0..<length vs] of Some i \<Rightarrow> [of_nat i] | None \<Rightarrow> []),
      json_f32 = (\<lambda>v. None), json_mismatch = ''mismatch''\<rparr>"

definition bench_kit :: json_kit where
  "bench_kit =
     \<lparr>jk_text = test_json posted_bodies,
      jk_texts = \<lparr>addr_text = (\<lambda>a. []), addr_parse = (\<lambda>s. None), path_text = path_display,
                  path_parse = (\<lambda>s. \<lparr>p_abs = True, p_comps = []\<rparr>)\<rparr>,
      jk_decisions = (\<lambda>d. if d = Accept then ''accept'' else ''other'')\<rparr>"

lemma bench_kit_documented: "json_documented bench_kit"
  by (simp add: json_documented_def bench_kit_def test_json_def posted_bodies_def reservation_json_def upt_rec)

text \<open>The assumptions are met by the executable contact store, hex codec and JSON text.\<close>

lemma daemon_tests_pass_on_bench:
  "let X = bench_externals [sample_capability (repeated_hex CHR ''c'') (repeated_hex CHR ''d'')];
       sys = \<lparr>sys_host_name = None, sys_cpu_brands = [], sys_total_memory = 1, sys_available_memory = 1\<rparr> in
     peers_endpoint_returns_registry_snapshot X bench_contacts bench_kit sys bench
     \<and> reservation_endpoints_create_list_and_delete bench_kit sys bench"
  using daemon_tests_pass [of "bench_externals [sample_capability (repeated_hex CHR ''c'') (repeated_hex CHR ''d'')]"
      bench_contacts bench bench_kit, OF bench_hex bench_contacts_documented bench_decode bench_round_trip bench_kit_documented]
  by (simp add: Let_def)

text \<open>The unit tests of the runtime, the configuration, the announcement and the identity pass.\<close>

lemma runtime_tests_pass:
  "local_inventory_reflects_configured_models \<and> reservation_reduces_available_slots B
   \<and> reservation_rejects_capacity_overflow B \<and> release_reservation_removes_it B
   \<and> openai_models_reflect_inventory \<and> chat_completion_returns_skeleton_response B
   \<and> chat_completion_rejects_streaming_requests B"
  by (simp add: runtime_passes)

end
