(* ===== verification/Concurrency.thy ===== *)
theory Concurrency
  imports Daemon_Spec
begin

text \<open>
  The daemon as it is scheduled.  \<open>axum\<close> runs every request in a task of its own, and the
  subscription loop of \<open>src/mesh.rs\<close> is one more task.  They share the peers behind an
  \<open>RwLock\<close> and the state of the runtime behind a \<open>Mutex\<close>; the loop also takes the
  \<open>RwLock\<close> of the contact store.  A step is what one task does between two points where
  another may run: taking a lock, computing inside it, writing back, giving it up.
\<close>

section \<open>Locks\<close>

record rw_lock =
  rw_readers :: nat
  rw_writer :: bool

definition rw_new :: rw_lock where
  "rw_new = \<lparr>rw_readers = 0, rw_writer = False\<rparr>"

datatype lock = NoLock | PeersRead | RuntimeMutex

text \<open>
  The lock a request takes.  The handlers of the runtime reach \<open>lock_state\<close> only after the
  checks that need none: a body that is refused, an empty consumer, no slots, an unknown model,
  streaming, no messages.
\<close>

definition endpoint_lock ::
  "body_decoders \<Rightarrow> (string, model_config) btree_map \<Rightarrow> http_request \<Rightarrow> endpoint \<Rightarrow> lock" where
  "endpoint_lock D models rq e =
     (case e of
        PeerCapabilities \<Rightarrow> PeersRead
      | LocalModels \<Rightarrow> RuntimeMutex
      | ListReservations \<Rightarrow> RuntimeMutex
      | DeleteReservation \<Rightarrow> RuntimeMutex
      | OpenaiModels \<Rightarrow> RuntimeMutex
      | CreateReservation \<Rightarrow>
          (case dec_create D (rq_body rq) of
             None \<Rightarrow> NoLock
           | Some body \<Rightarrow>
               let request = create_request_of body in
               if trim (crr_consumer request) = [] \<or> crr_requested_slots request = 0
                  \<or> bt_get models (crr_model request) = None
               then NoLock else RuntimeMutex)
      | OpenaiChatCompletions \<Rightarrow>
          (case dec_chat D (rq_body rq) of
             None \<Rightarrow> NoLock
           | Some body \<Rightarrow>
               let request = chat_request_of body in
               if bt_get models (ccr_model request) = None \<or> ccr_stream request
                  \<or> ccr_messages request = []
               then NoLock else RuntimeMutex)
      | _ \<Rightarrow> NoLock)"

definition lock_of ::
  "body_decoders \<Rightarrow> (string, model_config) btree_map \<Rightarrow> http_request \<Rightarrow> lock" where
  "lock_of D models rq =
     (case route_request (rq_method rq) (rq_segments rq) of
        Handler e \<Rightarrow> endpoint_lock D models rq e
      | _ \<Rightarrow> NoLock)"

section \<open>State\<close>

text \<open>
  A request waits for its lock, runs under it, has computed its answer and the runtime state it
  is about to leave, and has been answered.  It is dropped when its client disconnects while it
  waits: the only \<open>await\<close> of a handler is the one for its lock, so nothing is dropped later.
\<close>

datatype task =
    Waiting http_request
  | Running http_request
  | Computed http_request system_time http_outcome skeleton_runtime_adapter
  | Answered http_request http_outcome
  | Dropped

text \<open>The places of the subscription loop, in the order it passes them.\<close>

datatype loop_place =
    Stopped
  | Receiving
  | Received pubsub_message
  | ContactsHeld pubsub_message
  | BothHeld pubsub_message
  | Applied pubsub_message system_time capability_disposition trusted_peer_registry
  | Written
  | PeersReleased

record 'cs node =
  n_app :: "skeleton_runtime_adapter app_state"
  n_contacts :: 'cs
  n_contacts_lock :: rw_lock
  n_peers_lock :: rw_lock
  n_runtime_locked :: bool
  n_loop :: loop_place
  n_tasks :: "task list"

definition node_models :: "'cs node \<Rightarrow> (string, model_config) btree_map" where
  "node_models c = sk_models (as_runtime (n_app c))"

definition node_start :: "skeleton_runtime_adapter app_state \<Rightarrow> 'cs \<Rightarrow> 'cs node" where
  "node_start s contacts =
     \<lparr>n_app = s, n_contacts = contacts, n_contacts_lock = rw_new, n_peers_lock = rw_new,
      n_runtime_locked = False,
      n_loop = (if join_network_on_start (as_config s) then Receiving else Stopped),
      n_tasks = []\<rparr>"

section \<open>Steps of a request\<close>

fun lock_available :: "lock \<Rightarrow> 'cs node \<Rightarrow> bool" where
  "lock_available NoLock c \<longleftrightarrow> True"
| "lock_available PeersRead c \<longleftrightarrow> \<not> rw_writer (n_peers_lock c)"
| "lock_available RuntimeMutex c \<longleftrightarrow> \<not> n_runtime_locked c"

fun take_lock :: "lock \<Rightarrow> 'cs node \<Rightarrow> 'cs node" where
  "take_lock NoLock c = c"
| "take_lock PeersRead c =
     c\<lparr>n_peers_lock := (n_peers_lock c)\<lparr>rw_readers := rw_readers (n_peers_lock c) + 1\<rparr>\<rparr>"
| "take_lock RuntimeMutex c = c\<lparr>n_runtime_locked := True\<rparr>"

fun drop_lock :: "lock \<Rightarrow> 'cs node \<Rightarrow> 'cs node" where
  "drop_lock NoLock c = c"
| "drop_lock PeersRead c =
     c\<lparr>n_peers_lock := (n_peers_lock c)\<lparr>rw_readers := rw_readers (n_peers_lock c) - 1\<rparr>\<rparr>"
| "drop_lock RuntimeMutex c = c\<lparr>n_runtime_locked := False\<rparr>"

definition set_task :: "nat \<Rightarrow> task \<Rightarrow> 'cs node \<Rightarrow> 'cs node" where
  "set_task i t c = c\<lparr>n_tasks := (n_tasks c)[i := t]\<rparr>"

text \<open>What a request writes back before it gives its lock up; a reader writes nothing.\<close>

definition write_back :: "lock \<Rightarrow> skeleton_runtime_adapter \<Rightarrow> 'cs node \<Rightarrow> 'cs node" where
  "write_back k rt c = (if k = RuntimeMutex then c\<lparr>n_app := (n_app c)\<lparr>as_runtime := rt\<rparr>\<rparr> else c)"

inductive task_step ::
  "body_decoders \<Rightarrow> 'cs node \<Rightarrow> 'cs daemon_event option \<Rightarrow> 'cs node \<Rightarrow> bool" for D where
  acquire: "i < length (n_tasks c) \<Longrightarrow> n_tasks c ! i = Waiting rq \<Longrightarrow>
     k = lock_of D (node_models c) rq \<Longrightarrow> lock_available k c \<Longrightarrow>
     task_step D c None (set_task i (Running rq) (take_lock k c))"
| compute: "i < length (n_tasks c) \<Longrightarrow> n_tasks c ! i = Running rq \<Longrightarrow>
     dispatch D now rq (n_app c) = (out, s) \<Longrightarrow>
     task_step D c None (set_task i (Computed rq now out (as_runtime s)) c)"
| finish: "i < length (n_tasks c) \<Longrightarrow> n_tasks c ! i = Computed rq now out rt \<Longrightarrow>
     k = lock_of D (node_models c) rq \<Longrightarrow>
     task_step D c (Some (HttpEvent now rq out)) (set_task i (Answered rq out) (drop_lock k (write_back k rt c)))"

section \<open>Steps of the subscription loop\<close>

inductive loop_step ::
  "'cs mesh_externals \<Rightarrow> 'cs node \<Rightarrow> 'cs daemon_event option \<Rightarrow> 'cs node \<Rightarrow> bool" for X where
  read_contacts: "n_loop c = Received m \<Longrightarrow> \<not> rw_writer (n_contacts_lock c) \<Longrightarrow>
     loop_step X c None
       (c\<lparr>n_contacts_lock := (n_contacts_lock c)\<lparr>rw_readers := rw_readers (n_contacts_lock c) + 1\<rparr>,
          n_loop := ContactsHeld m\<rparr>)"
| write_peers: "n_loop c = ContactsHeld m \<Longrightarrow> \<not> rw_writer (n_peers_lock c) \<Longrightarrow>
     rw_readers (n_peers_lock c) = 0 \<Longrightarrow>
     loop_step X c None
       (c\<lparr>n_peers_lock := (n_peers_lock c)\<lparr>rw_writer := True\<rparr>, n_loop := BothHeld m\<rparr>)"
| apply_gossip: "n_loop c = BothHeld m \<Longrightarrow>
     apply_message X now (as_config (n_app c)) (ais_agent_id (as_identity (n_app c)))
       (n_contacts c) m (as_peers (n_app c)) = (disp, r) \<Longrightarrow>
     loop_step X c None (c\<lparr>n_loop := Applied m now disp r\<rparr>)"
| store_peers: "n_loop c = Applied m now disp r \<Longrightarrow>
     loop_step X c
       (Some (GossipEvent \<lparr>ge_message = m, ge_contacts = n_contacts c, ge_now = now\<rparr> disp))
       (c\<lparr>n_app := (n_app c)\<lparr>as_peers := r\<rparr>, n_loop := Written\<rparr>)"
| drop_peers: "n_loop c = Written \<Longrightarrow>
     loop_step X c None
       (c\<lparr>n_peers_lock := (n_peers_lock c)\<lparr>rw_writer := False\<rparr>, n_loop := PeersReleased\<rparr>)"
| drop_contacts: "n_loop c = PeersReleased \<Longrightarrow>
     loop_step X c None
       (c\<lparr>n_contacts_lock := (n_contacts_lock c)\<lparr>rw_readers := rw_readers (n_contacts_lock c) - 1\<rparr>,
          n_loop := Receiving\<rparr>)"

section \<open>Steps of the node\<close>

text \<open>
  An internal step is one of a task that has been given work.  The world outside sends requests
  and gives them up, sends messages, ends the subscription, and changes the contacts, for which it needs their lock
  for itself.
\<close>

inductive internal_step ::
  "'cs mesh_externals \<Rightarrow> body_decoders \<Rightarrow> 'cs node \<Rightarrow> 'cs daemon_event option \<Rightarrow> 'cs node \<Rightarrow> bool"
  for X D where
  task: "task_step D c ev c' \<Longrightarrow> internal_step X D c ev c'"
| loop: "loop_step X c ev c' \<Longrightarrow> internal_step X D c ev c'"

inductive outside_step :: "'cs node \<Rightarrow> 'cs node \<Rightarrow> bool" where
  request: "outside_step c (c\<lparr>n_tasks := n_tasks c @ [Waiting rq]\<rparr>)"
| disconnect: "i < length (n_tasks c) \<Longrightarrow> n_tasks c ! i = Waiting rq \<Longrightarrow>
     outside_step c (set_task i Dropped c)"
| message: "n_loop c = Receiving \<Longrightarrow> outside_step c (c\<lparr>n_loop := Received m\<rparr>)"
| closed: "n_loop c = Receiving \<Longrightarrow> outside_step c (c\<lparr>n_loop := Stopped\<rparr>)"
| contacts: "rw_readers (n_contacts_lock c) = 0 \<Longrightarrow> \<not> rw_writer (n_contacts_lock c) \<Longrightarrow>
     outside_step c (c\<lparr>n_contacts := cs\<rparr>)"

inductive node_reach ::
  "'cs mesh_externals \<Rightarrow> body_decoders \<Rightarrow> 'cs node \<Rightarrow> 'cs daemon_event list \<Rightarrow> 'cs node \<Rightarrow> bool"
  for X D where
  start: "node_reach X D c [] c"
| silent: "node_reach X D c evs d \<Longrightarrow> internal_step X D d None e \<Longrightarrow> node_reach X D c evs e"
| visible: "node_reach X D c evs d \<Longrightarrow> internal_step X D d (Some ev) e \<Longrightarrow> node_reach X D c (evs @ [ev]) e"
| outside: "node_reach X D c evs d \<Longrightarrow> outside_step d e \<Longrightarrow> node_reach X D c evs e"

inductive_cases task_stepE: "task_step D c ev c'"
inductive_cases loop_stepE: "loop_step X c ev c'"
inductive_cases internal_stepE: "internal_step X D c ev c'"
inductive_cases outside_stepE: "outside_step c c'"

end
