(* ===== verification/Concurrency_Spec.thy ===== *)
theory Concurrency_Spec
  imports Concurrency "HOL-Library.Multiset"
begin

text \<open>
  The scheduled daemon refines the atomic one of \<open>Daemon\<close>.  The invariant \<open>node_inv\<close>
  says that the locks count their holders, exclude what they must, and that every computed answer
  is still the answer to the shared state; from it follow the refinement, the exclusion and the
  progress of every task.
\<close>

section \<open>What a request depends on\<close>

lemma create_early:
  "trim (crr_consumer req) = [] \<or> crr_requested_slots req = 0 \<or> bt_get (sk_models a) (crr_model req) = None \<Longrightarrow>
     create_reservation now req a =
       (Inl (if trim (crr_consumer req) = [] then InvalidReservationRequest ''consumer must not be empty''
             else if crr_requested_slots req = 0 then InvalidReservationRequest ''requested_slots must be at least 1''
             else ModelNotFound (crr_model req)), a)"
  by (auto simp: create_reservation_def ensure_model_exists_def)

lemma chat_early:
  "bt_get (sk_models a) (ccr_model req) = None \<or> ccr_stream req \<or> ccr_messages req = [] \<Longrightarrow>
     chat_completion now req a =
       (Inl (if bt_get (sk_models a) (ccr_model req) = None then ModelNotFound (ccr_model req)
             else if ccr_stream req then UnsupportedFeature ''streaming chat completions are not implemented yet''
             else InvalidChatRequest ''messages must not be empty''), a)"
  by (cases "bt_get (sk_models a) (ccr_model req)") (auto simp: chat_completion_def ensure_model_exists_def)

lemmas lock_eval = lock_of_def endpoint_lock_def Let_def dispatch_def create_reservation_handler_def
  openai_chat_completions_def skeleton_methods_def

lemma dispatch_no_change:
  assumes "lock_of D (sk_models (as_runtime s)) rq \<noteq> RuntimeMutex" and "as_methods s = skeleton_methods"
  shows "snd (dispatch D now rq s) = s"
  using assms
  by (auto simp: lock_eval create_early chat_early split: route.splits endpoint.splits option.splits if_splits)

text \<open>Without a lock, the answer depends on the constant parts of the state only.\<close>

lemma dispatch_unlocked:
  assumes "lock_of D (sk_models (as_runtime s)) rq = NoLock" and "as_methods s = skeleton_methods"
    and "sk_models rt = sk_models (as_runtime s)"
  shows "fst (dispatch D now rq (s\<lparr>as_peers := r, as_runtime := rt\<rparr>)) = fst (dispatch D now rq s)"
  using assms
  by (auto simp: lock_eval create_early chat_early identity_handler_def local_capability_def config_view_def
      split: route.splits endpoint.splits option.splits if_splits)

lemma lock_peers: "lock_of D models rq = PeersRead \<longleftrightarrow> route_request (rq_method rq) (rq_segments rq) = Handler PeerCapabilities"
  by (auto simp: lock_of_def endpoint_lock_def Let_def split: route.splits endpoint.splits option.splits if_splits)

lemma dispatch_reader:
  "lock_of D models rq = PeersRead \<Longrightarrow> fst (dispatch D now rq (s\<lparr>as_runtime := rt\<rparr>)) = fst (dispatch D now rq s)"
  by (simp add: lock_peers dispatch_def peer_capabilities_def)

lemma dispatch_locked:
  "lock_of D models rq = RuntimeMutex \<Longrightarrow> dispatch D now rq s = (out, s\<lparr>as_runtime := rt\<rparr>) \<Longrightarrow>
     dispatch D now rq (s\<lparr>as_peers := r\<rparr>) = (out, s\<lparr>as_runtime := rt, as_peers := r\<rparr>)"
  using dispatch_peers [where D = D and now = now and rq = rq and s = s and r = r] lock_peers [of D models rq]
  by (intro prod_eqI) simp_all

lemma operation_models:
  "sk_models (snd (create_reservation now req a)) = sk_models a"
  "sk_models (snd (release_reservation rid a)) = sk_models a"
  "sk_models (snd (chat_completion now creq a)) = sk_models a"
  by (cases "bt_get (sk_models a) (crr_model req)")
    (simp_all add: create_reservation_def ensure_model_exists_def Let_def release_reservation_cases chat_completion_state)

lemma dispatch_models:
  "as_methods s = skeleton_methods \<Longrightarrow> sk_models (as_runtime (snd (dispatch D now rq s))) = sk_models (as_runtime s)"
  by (auto simp: dispatch_def create_reservation_handler_def openai_chat_completions_def delete_reservation_def
      skeleton_methods_def operation_models split_beta split: route.split endpoint.split option.split)

section \<open>The invariant\<close>

text \<open>A task holds the lock of its request while it runs and until it has written back.\<close>

definition holds :: "body_decoders \<Rightarrow> (string, model_config) btree_map \<Rightarrow> lock \<Rightarrow> task \<Rightarrow> bool" where
  "holds D models k t =
     (case t of
        Running rq \<Rightarrow> lock_of D models rq = k
      | Computed rq _ _ _ \<Rightarrow> lock_of D models rq = k
      | _ \<Rightarrow> False)"

definition holders :: "body_decoders \<Rightarrow> lock \<Rightarrow> 'cs node \<Rightarrow> nat" where
  "holders D k c = length (filter (holds D (node_models c) k) (n_tasks c))"

fun loop_writes :: "loop_place \<Rightarrow> bool" where
  "loop_writes (BothHeld _) \<longleftrightarrow> True"
| "loop_writes (Applied _ _ _ _) \<longleftrightarrow> True"
| "loop_writes Written \<longleftrightarrow> True"
| "loop_writes _ \<longleftrightarrow> False"

fun loop_reads_contacts :: "loop_place \<Rightarrow> bool" where
  "loop_reads_contacts (ContactsHeld _) \<longleftrightarrow> True"
| "loop_reads_contacts PeersReleased \<longleftrightarrow> True"
| "loop_reads_contacts p \<longleftrightarrow> loop_writes p"

definition locks_inv :: "body_decoders \<Rightarrow> 'cs node \<Rightarrow> bool" where
  "locks_inv D c \<longleftrightarrow>
     holders D PeersRead c = rw_readers (n_peers_lock c)
     \<and> holders D RuntimeMutex c = (if n_runtime_locked c then 1 else 0)
     \<and> (rw_writer (n_peers_lock c) \<longleftrightarrow> loop_writes (n_loop c))
     \<and> (rw_writer (n_peers_lock c) \<longrightarrow> rw_readers (n_peers_lock c) = 0)
     \<and> \<not> rw_writer (n_contacts_lock c)
     \<and> rw_readers (n_contacts_lock c) = (if loop_reads_contacts (n_loop c) then 1 else 0)"

text \<open>What a task has computed under its lock is what it would compute now.\<close>

definition computed_ok :: "body_decoders \<Rightarrow> skeleton_runtime_adapter app_state \<Rightarrow> task \<Rightarrow> bool" where
  "computed_ok D s t =
     (case t of
        Computed rq now out rt \<Rightarrow>
          if lock_of D (sk_models (as_runtime s)) rq = RuntimeMutex
          then dispatch D now rq s = (out, s\<lparr>as_runtime := rt\<rparr>)
          else dispatch D now rq s = (out, s)
      | _ \<Rightarrow> True)"

definition loop_ok :: "'cs mesh_externals \<Rightarrow> 'cs node \<Rightarrow> bool" where
  "loop_ok X c =
     (case n_loop c of
        Applied m now disp r \<Rightarrow>
          apply_message X now (as_config (n_app c)) (ais_agent_id (as_identity (n_app c)))
            (n_contacts c) m (as_peers (n_app c)) = (disp, r)
      | _ \<Rightarrow> True)"

definition node_inv :: "'cs mesh_externals \<Rightarrow> body_decoders \<Rightarrow> 'cs node \<Rightarrow> bool" where
  "node_inv X D c \<longleftrightarrow>
     as_methods (n_app c) = skeleton_methods
     \<and> (n_loop c \<noteq> Stopped \<longrightarrow> join_network_on_start (as_config (n_app c)))
     \<and> locks_inv D c
     \<and> list_all (computed_ok D (n_app c)) (n_tasks c)
     \<and> loop_ok X c"

lemma filter_update:
  "i < length ts \<Longrightarrow> length (filter P (ts[i := t])) + (if P (ts ! i) then 1 else 0)
     = length (filter P ts) + (if P t then 1 else 0)"
proof (induction ts arbitrary: i)
  case (Cons u ts)
  show ?case
  proof (cases i)
    case (Suc j)
    with Cons.prems have "j < length ts" by simp
    from Cons.IH [OF this] Suc show ?thesis by (cases "P u") simp_all
  qed simp
qed simp

lemma holders_set_task:
  assumes "i < length (n_tasks c)" and "n_tasks c' = (n_tasks c)[i := t]" and "node_models c' = node_models c"
  shows "holders D k c' + (if holds D (node_models c) k (n_tasks c ! i) then 1 else 0)
    = holders D k c + (if holds D (node_models c) k t then 1 else 0)"
  using filter_update [OF assms(1), of "holds D (node_models c) k" t] by (simp add: holders_def assms)

lemma holders_pos: "i < length (n_tasks c) \<Longrightarrow> holds D (node_models c) k (n_tasks c ! i) \<Longrightarrow> 0 < holders D k c"
  by (auto simp: holders_def length_greater_0_conv filter_empty_conv)

lemma holds_simps [simp]:
  "\<not> holds D models k (Waiting rq)" "\<not> holds D models k (Answered rq out)" "\<not> holds D models k Dropped"
  "holds D models k (Running rq) \<longleftrightarrow> lock_of D models rq = k"
  "holds D models k (Computed rq now out rt) \<longleftrightarrow> lock_of D models rq = k"
  by (simp_all add: holds_def)

lemma computed_ok_simps [simp]:
  "computed_ok D s (Waiting rq)" "computed_ok D s (Running rq)" "computed_ok D s (Answered rq out)" "computed_ok D s Dropped"
  by (simp_all add: computed_ok_def)

lemma lock_step_simps [simp]:
  "n_tasks (set_task i t c) = (n_tasks c)[i := t]" "n_app (set_task i t c) = n_app c"
  "n_contacts (set_task i t c) = n_contacts c" "n_loop (set_task i t c) = n_loop c"
  "n_peers_lock (set_task i t c) = n_peers_lock c" "n_contacts_lock (set_task i t c) = n_contacts_lock c"
  "n_runtime_locked (set_task i t c) = n_runtime_locked c"
  by (simp_all add: set_task_def)

lemma take_lock_simps [simp]:
  "n_tasks (take_lock k c) = n_tasks c" "n_app (take_lock k c) = n_app c" "n_contacts (take_lock k c) = n_contacts c"
  "n_loop (take_lock k c) = n_loop c" "n_contacts_lock (take_lock k c) = n_contacts_lock c"
  "rw_writer (n_peers_lock (take_lock k c)) = rw_writer (n_peers_lock c)"
  "rw_readers (n_peers_lock (take_lock k c)) = rw_readers (n_peers_lock c) + (if k = PeersRead then 1 else 0)"
  "n_runtime_locked (take_lock k c) \<longleftrightarrow> k = RuntimeMutex \<or> n_runtime_locked c"
  by (cases k; simp)+

lemma drop_lock_simps [simp]:
  "n_tasks (drop_lock k c) = n_tasks c" "n_app (drop_lock k c) = n_app c" "n_contacts (drop_lock k c) = n_contacts c"
  "n_loop (drop_lock k c) = n_loop c" "n_contacts_lock (drop_lock k c) = n_contacts_lock c"
  "rw_writer (n_peers_lock (drop_lock k c)) = rw_writer (n_peers_lock c)"
  "rw_readers (n_peers_lock (drop_lock k c)) = rw_readers (n_peers_lock c) - (if k = PeersRead then 1 else 0)"
  "n_runtime_locked (drop_lock k c) \<longleftrightarrow> k \<noteq> RuntimeMutex \<and> n_runtime_locked c"
  by (cases k; simp)+

lemma write_back_simps [simp]:
  "n_tasks (write_back k rt c) = n_tasks c" "n_contacts (write_back k rt c) = n_contacts c"
  "n_loop (write_back k rt c) = n_loop c" "n_contacts_lock (write_back k rt c) = n_contacts_lock c"
  "n_peers_lock (write_back k rt c) = n_peers_lock c" "n_runtime_locked (write_back k rt c) = n_runtime_locked c"
  "n_app (write_back k rt c) = (if k = RuntimeMutex then (n_app c)\<lparr>as_runtime := rt\<rparr> else n_app c)"
  by (simp_all add: write_back_def)

lemma loop_ok_cong:
  "n_loop c' = n_loop c \<Longrightarrow> n_contacts c' = n_contacts c \<Longrightarrow> as_config (n_app c') = as_config (n_app c) \<Longrightarrow>
     as_identity (n_app c') = as_identity (n_app c) \<Longrightarrow> as_peers (n_app c') = as_peers (n_app c) \<Longrightarrow>
     loop_ok X c' = loop_ok X c"
  by (cases "n_loop c") (simp_all add: loop_ok_def)

lemma node_inv_start: "as_methods s = skeleton_methods \<Longrightarrow> node_inv X D (node_start s contacts)"
  by (simp add: node_inv_def node_start_def locks_inv_def holders_def rw_new_def loop_ok_def)


subsection \<open>The locks\<close>

lemma locks_task_step:
  assumes "task_step D c ev c'" and "locks_inv D c" and "node_models c' = node_models c"
  shows "locks_inv D c'"
  using assms(1)
proof cases
  case (acquire i rq k)
  have "holders D l c' = holders D l c + (if k = l then 1 else 0)" for l
    using holders_set_task [of i c c' "Running rq" D l] acquire assms(3) by simp
  moreover have "k = PeersRead \<Longrightarrow> \<not> rw_writer (n_peers_lock c)" "k = RuntimeMutex \<Longrightarrow> \<not> n_runtime_locked c"
    using acquire(6) by auto
  ultimately show ?thesis using assms(2) acquire(2) by (auto simp: locks_inv_def)
next
  case (compute i rq now out s)
  have "holders D l c' = holders D l c" for l
    using holders_set_task [of i c c' "Computed rq now out (as_runtime s)" D l] compute assms(3) by simp
  then show ?thesis using assms(2) compute(2) by (simp add: locks_inv_def)
next
  case (finish i rq now out rt k)
  have h: "holders D l c' + (if k = l then 1 else 0) = holders D l c" for l
    using holders_set_task [of i c c' "Answered rq out" D l] finish assms(3) by simp
  show ?thesis using assms(2) finish(2) h [of PeersRead] h [of RuntimeMutex]
    by (cases k) (auto simp: locks_inv_def split: if_splits)
qed

lemma locks_loop_step:
  assumes "loop_step X c ev c'" and "locks_inv D c"
  shows "locks_inv D c'"
proof -
  have "n_tasks c' = n_tasks c" "node_models c' = node_models c"
    using assms(1) by (cases; simp add: node_models_def)+
  then have h: "holders D k c' = holders D k c" for k by (simp add: holders_def)
  from assms(1) show ?thesis
    using assms(2) unfolding locks_inv_def h by cases auto
qed

lemma locks_outside_step:
  assumes "outside_step c c'" and "locks_inv D c"
  shows "locks_inv D c'"
proof -
  have h: "holders D k c' = holders D k c" for k
    using assms(1)
  proof cases
    case (disconnect i rq)
    then show ?thesis using holders_set_task [of i c c' Dropped D k] by (simp add: node_models_def)
  qed (simp_all add: holders_def node_models_def)
  from assms(1) show ?thesis
    using assms(2) unfolding locks_inv_def h by cases auto
qed


subsection \<open>The computed answers\<close>

lemma list_all_update: "list_all P ts \<Longrightarrow> P t \<Longrightarrow> list_all P (ts[i := t])"
  using set_update_subset_insert [of ts i t] by (auto simp: list_all_iff)

lemma computed_ok_runtime:
  assumes "computed_ok D s t" and "as_methods s = skeleton_methods"
    and "sk_models rt = sk_models (as_runtime s)" and "\<not> holds D (sk_models (as_runtime s)) RuntimeMutex t"
  shows "computed_ok D (s\<lparr>as_runtime := rt\<rparr>) t"
proof (cases t)
  case (Computed rq now out rt')
  let ?s = "s\<lparr>as_runtime := rt\<rparr>" and ?k = "lock_of D (sk_models (as_runtime s)) rq"
  from assms(4) Computed have k: "?k \<noteq> RuntimeMutex" by simp
  have "fst (dispatch D now rq ?s) = fst (dispatch D now rq s)"
    using k dispatch_unlocked [of D s rq rt now "as_peers s", OF _ assms(2,3)] dispatch_reader [where D = D and models = "sk_models (as_runtime s)" and rq = rq and now = now and s = s and rt = rt]
    by (cases ?k) simp_all
  moreover have "snd (dispatch D now rq ?s) = ?s"
    by (rule dispatch_no_change) (simp_all add: assms(2,3) k)
  ultimately show ?thesis
    using assms(1,3) Computed k by (simp add: computed_ok_def prod_eq_iff)
qed simp_all

lemma computed_ok_peers:
  assumes "computed_ok D s t" and "as_methods s = skeleton_methods"
    and "\<not> holds D (sk_models (as_runtime s)) PeersRead t"
  shows "computed_ok D (s\<lparr>as_peers := r\<rparr>) t"
proof (cases t)
  case (Computed rq now out rt')
  let ?s = "s\<lparr>as_peers := r\<rparr>" and ?k = "lock_of D (sk_models (as_runtime s)) rq"
  show ?thesis
  proof (cases "?k = RuntimeMutex")
    case True
    then show ?thesis
      using assms(1) Computed dispatch_locked [OF True, where now = now and s = s and out = out and rt = rt' and r = r] by (simp add: computed_ok_def)
  next
    case False
    with assms(3) Computed have k: "?k = NoLock" by (cases ?k) simp_all
    have "fst (dispatch D now rq ?s) = fst (dispatch D now rq s)"
      using dispatch_unlocked [OF k assms(2), of "as_runtime s" now r] by simp
    moreover have "snd (dispatch D now rq ?s) = ?s"
      by (rule dispatch_no_change) (simp_all add: assms(2) k)
    ultimately show ?thesis using assms(1) Computed k by (simp add: computed_ok_def prod_eq_iff)
  qed
qed simp_all

lemma no_holders:
  "holders D k c = 0 \<Longrightarrow> t \<in> set (n_tasks c) \<Longrightarrow> \<not> holds D (node_models c) k t"
  by (auto simp: holders_def filter_empty_conv)

section \<open>Every step keeps the invariant and is a step of the atomic daemon\<close>

definition simulates ::
  "'cs mesh_externals \<Rightarrow> body_decoders \<Rightarrow> 'cs node \<Rightarrow> 'cs daemon_event option \<Rightarrow> 'cs node \<Rightarrow> bool" where
  "simulates X D c ev c' \<longleftrightarrow>
     (case ev of None \<Rightarrow> n_app c' = n_app c | Some e \<Rightarrow> daemon_step X D (n_app c) e (n_app c'))"

lemma task_step_sim:
  assumes step: "task_step D c ev c'" and inv: "node_inv X D c"
  shows "node_inv X D c' \<and> simulates X D c ev c'"
proof -
  from inv have methods: "as_methods (n_app c) = skeleton_methods" and locks: "locks_inv D c"
    and ok: "list_all (computed_ok D (n_app c)) (n_tasks c)" and lok: "loop_ok X c"
    by (simp_all add: node_inv_def)
  have lok': "loop_ok X c'"
  proof -
    from step have "loop_ok X c' = loop_ok X c" by cases (rule loop_ok_cong; simp)+
    with lok show ?thesis by simp
  qed
  from step show ?thesis
  proof cases
    case (acquire i rq k)
    then have "locks_inv D c'" by (intro locks_task_step [OF step locks]) (simp add: node_models_def)
    then show ?thesis using inv lok' acquire(1,2)
      by (simp add: node_inv_def list_all_update simulates_def)
  next
    case (compute i rq now out s)
    let ?t = "Computed rq now out (as_runtime s)"
    have "locks_inv D c'" using compute(2) by (intro locks_task_step [OF step locks]) (simp add: node_models_def)
    moreover have "computed_ok D (n_app c) ?t"
    proof (cases "lock_of D (sk_models (as_runtime (n_app c))) rq = RuntimeMutex")
      case True
      moreover obtain rt where "s = (n_app c)\<lparr>as_runtime := rt\<rparr>"
        using dispatch_frame [of D now rq "n_app c"] compute(5) by auto
      ultimately show ?thesis using compute(5) by (simp add: computed_ok_def)
    next
      case False
      then show ?thesis using compute(5) dispatch_no_change [OF False methods, of now] by (simp add: computed_ok_def)
    qed
    ultimately show ?thesis using inv lok' compute(1,2)
      by (simp add: node_inv_def list_all_update simulates_def)
  next
    case (finish i rq now out rt k)
    from ok finish(3,4) have c: "computed_ok D (n_app c) (Computed rq now out rt)"
      by (metis list_all_length)
    show ?thesis
    proof (cases "k = RuntimeMutex")
      case False
      with c finish(5) have d: "dispatch D now rq (n_app c) = (out, n_app c)"
        by (simp add: computed_ok_def node_models_def)
      have "locks_inv D c'" using finish(2) False by (intro locks_task_step [OF step locks]) (simp add: node_models_def)
      then show ?thesis using inv lok' finish(1,2) False daemon_step.http [OF d]
        by (simp add: node_inv_def list_all_update simulates_def)
    next
      case True
      let ?s = "(n_app c)\<lparr>as_runtime := rt\<rparr>"
      from c finish(5) True have d: "dispatch D now rq (n_app c) = (out, ?s)"
        by (simp add: computed_ok_def node_models_def)
      from dispatch_models [OF methods, of D now rq] d have models: "sk_models rt = sk_models (as_runtime (n_app c))" by simp
      then have nm: "node_models c' = node_models c" using finish(2) True by (simp add: node_models_def)
      then have locks': "locks_inv D c'" by (rule locks_task_step [OF step locks])
      then have "holders D RuntimeMutex c' = 0" using finish(2) True by (simp add: locks_inv_def)
      then have none: "\<not> holds D (node_models c) RuntimeMutex t" if "t \<in> set (n_tasks c')" for t
        using no_holders [OF _ that] nm by metis
      have "list_all (computed_ok D ?s) (n_tasks c')"
        unfolding list_all_iff
      proof
        fix t assume t: "t \<in> set (n_tasks c')"
        have "list_all (computed_ok D (n_app c)) (n_tasks c')" using ok finish(2) by (simp add: list_all_update)
        then have "computed_ok D (n_app c) t" using t by (simp add: list_all_iff)
        then show "computed_ok D ?s t"
          using none [OF t] by (intro computed_ok_runtime methods models) (simp_all add: node_models_def)
      qed
      then show ?thesis using inv lok' finish(1,2) True locks' daemon_step.http [OF d]
        by (simp add: node_inv_def simulates_def)
    qed
  qed
qed

lemma loop_step_sim:
  assumes step: "loop_step X c ev c'" and inv: "node_inv X D c"
  shows "node_inv X D c' \<and> simulates X D c ev c'"
proof -
  have locks': "locks_inv D c'" using locks_loop_step [OF step] inv by (simp add: node_inv_def)
  from step show ?thesis
  proof cases
    case (store_peers m now disp r)
    from inv have methods: "as_methods (n_app c) = skeleton_methods" and locks: "locks_inv D c"
      and ok: "list_all (computed_ok D (n_app c)) (n_tasks c)" and lok: "loop_ok X c"
      and join: "join_network_on_start (as_config (n_app c))"
      using store_peers(3) by (simp_all add: node_inv_def)
    from locks store_peers(3) have "holders D PeersRead c = 0" by (simp add: locks_inv_def)
    then have "list_all (computed_ok D ((n_app c)\<lparr>as_peers := r\<rparr>)) (n_tasks c)"
      using ok no_holders [of D PeersRead c] methods
      by (auto simp: list_all_iff node_models_def intro!: computed_ok_peers)
    moreover have "daemon_step X D (n_app c)
        (GossipEvent \<lparr>ge_message = m, ge_contacts = n_contacts c, ge_now = now\<rparr> disp) ((n_app c)\<lparr>as_peers := r\<rparr>)"
      using lok store_peers(3) join by (intro daemon_step.gossip) (simp_all add: loop_ok_def)
    ultimately show ?thesis using locks' store_peers(1,2) methods join
      by (simp add: node_inv_def loop_ok_def simulates_def)
  qed (use inv locks' in \<open>simp_all add: node_inv_def loop_ok_def simulates_def\<close>)
qed

lemma internal_step_sim:
  "internal_step X D c ev c' \<Longrightarrow> node_inv X D c \<Longrightarrow> node_inv X D c' \<and> simulates X D c ev c'"
  by (erule internal_stepE) (blast dest: task_step_sim loop_step_sim)+

lemma outside_step_inv:
  assumes step: "outside_step c c'" and inv: "node_inv X D c"
  shows "node_inv X D c' \<and> n_app c' = n_app c"
proof -
  have locks': "locks_inv D c'" using locks_outside_step [OF step] inv by (simp add: node_inv_def)
  from step show ?thesis
  proof cases
    case (contacts cs)
    with inv have "\<not> loop_reads_contacts (n_loop c)" by (auto simp: node_inv_def locks_inv_def split: if_splits)
    then have "loop_ok X c'" using contacts(1) by (cases "n_loop c") (simp_all add: loop_ok_def)
    then show ?thesis using inv locks' contacts(1) by (simp add: node_inv_def)
  next
    case (request rq)
    then have "loop_ok X c' = loop_ok X c" by (intro loop_ok_cong) simp_all
    with inv locks' request show ?thesis by (simp add: node_inv_def)
  next
    case (disconnect i rq)
    then have "loop_ok X c' = loop_ok X c" by (intro loop_ok_cong) simp_all
    with inv locks' disconnect show ?thesis by (simp add: node_inv_def list_all_update)
  qed (use inv locks' in \<open>simp_all add: node_inv_def loop_ok_def\<close>)
qed

lemma node_reach_sim:
  "node_reach X D c evs c' \<Longrightarrow> node_inv X D c \<Longrightarrow> node_inv X D c' \<and> daemon_reach X D (n_app c) evs (n_app c')"
proof (induction rule: node_reach.induct)
  case (start c)
  then show ?case by (simp add: daemon_reach.start)
next
  case (silent c evs d e)
  then show ?case using internal_step_sim [OF silent.hyps(2)] by (simp add: simulates_def)
next
  case (visible c evs d ev e)
  then show ?case using internal_step_sim [OF visible.hyps(2)] daemon_reach.step by (fastforce simp: simulates_def)
next
  case (outside c evs d e)
  then show ?case using outside_step_inv [OF outside.hyps(2), of X D] by simp
qed


section \<open>Progress\<close>

text \<open>The internal steps a node still has to take, exactly.\<close>

fun task_work :: "task \<Rightarrow> nat" where
  "task_work (Waiting _) = 3"
| "task_work (Running _) = 2"
| "task_work (Computed _ _ _ _) = 1"
| "task_work (Answered _ _) = 0"
| "task_work Dropped = 0"

fun loop_work :: "loop_place \<Rightarrow> nat" where
  "loop_work Stopped = 0"
| "loop_work Receiving = 0"
| "loop_work (Received _) = 6"
| "loop_work (ContactsHeld _) = 5"
| "loop_work (BothHeld _) = 4"
| "loop_work (Applied _ _ _ _) = 3"
| "loop_work Written = 2"
| "loop_work PeersReleased = 1"

definition work :: "'cs node \<Rightarrow> nat" where
  "work c = sum_list (map task_work (n_tasks c)) + loop_work (n_loop c)"

lemma work_set_task:
  assumes "i < length (n_tasks c)" and "n_tasks c' = (n_tasks c)[i := t]" and "n_loop c' = n_loop c"
    and "task_work (n_tasks c ! i) = Suc (task_work t)"
  shows "Suc (work c') = work c"
proof -
  have "task_work (n_tasks c ! i) \<le> sum_list (map task_work (n_tasks c))"
    using assms(1) by (intro member_le_sum_list) auto
  then show ?thesis
    using assms by (simp add: work_def map_update sum_list_update)
qed

lemma internal_step_work:
  assumes "internal_step X D c ev c'"
  shows "Suc (work c') = work c"
  using assms
proof cases
  case task
  then show ?thesis
  proof cases
    case (acquire i rq k)
    then show ?thesis by (intro work_set_task [of i c c' "Running rq"]) simp_all
  next
    case (compute i rq now out s)
    then show ?thesis by (intro work_set_task [of i c c' "Computed rq now out (as_runtime s)"]) simp_all
  next
    case (finish i rq now out rt k)
    then show ?thesis by (intro work_set_task [of i c c' "Answered rq out"]) simp_all
  qed
next
  case loop
  then show ?thesis by cases (simp_all add: work_def)
qed

lemma work_pos:
  "0 < work c \<longleftrightarrow> (\<exists>i < length (n_tasks c). 0 < task_work (n_tasks c ! i)) \<or> 0 < loop_work (n_loop c)"
proof -
  have "sum_list (map task_work ts) = 0 \<longleftrightarrow> (\<forall>i < length ts. task_work (ts ! i) = 0)" for ts
    by (simp add: all_set_conv_all_nth)
  then show ?thesis by (auto simp: work_def simp flip: neq0_conv)
qed

text \<open>As long as there is work, some task can take a step: nobody waits for ever.\<close>

lemma task_can_step:
  assumes "i < length (n_tasks c)" and "0 < task_work (n_tasks c ! i)" and "\<not> (\<exists>rq. n_tasks c ! i = Waiting rq)"
  shows "\<exists>ev c'. task_step D c ev c'"
proof (cases "n_tasks c ! i")
  case (Running rq)
  then show ?thesis using task_step.compute [OF assms(1) Running prod.collapse [symmetric]] by blast
next
  case (Computed rq now out rt)
  then show ?thesis using task_step.finish [OF assms(1) Computed refl] by blast
qed (use assms in auto)

lemma loop_can_step:
  assumes "locks_inv D c" and "holders D PeersRead c = 0" and "0 < loop_work (n_loop c)"
  shows "\<exists>ev c'. loop_step X c ev c'"
proof (cases "n_loop c")
  case (Received m)
  then show ?thesis using loop_step.read_contacts [OF Received, of X] assms(1) by (auto simp: locks_inv_def)
next
  case (ContactsHeld m)
  then show ?thesis using loop_step.write_peers [OF ContactsHeld, of X] assms(1,2) by (auto simp: locks_inv_def)
next
  case (BothHeld m)
  then show ?thesis using loop_step.apply_gossip [OF BothHeld prod.collapse [symmetric], of X] by blast
next
  case (Applied m now disp r)
  then show ?thesis using loop_step.store_peers [OF Applied, of X] by blast
next
  case Written
  then show ?thesis using loop_step.drop_peers [OF Written, of X] by blast
next
  case PeersReleased
  then show ?thesis using loop_step.drop_contacts [OF PeersReleased, of X] by blast
qed (use assms in auto)

lemma progress:
  assumes inv: "locks_inv D c" and work: "0 < work c"
  shows "\<exists>ev c'. internal_step X D c ev c'"
proof (cases "\<exists>i < length (n_tasks c). 0 < task_work (n_tasks c ! i) \<and> \<not> (\<exists>rq. n_tasks c ! i = Waiting rq)")
  case True
  then show ?thesis using task_can_step [of _ c D] by (blast intro: internal_step.task)
next
  case False
  then have "\<not> holds D (node_models c) k (n_tasks c ! i)" if "i < length (n_tasks c)" for i k
    using that by (cases "n_tasks c ! i") fastforce+
  then have free: "holders D k c = 0" for k
    by (auto simp: holders_def filter_empty_conv in_set_conv_nth)
  show ?thesis
  proof (cases "0 < loop_work (n_loop c)")
    case True
    then show ?thesis using loop_can_step [OF inv free, of X] by (blast intro: internal_step.loop)
  next
    case idle: False
    with work False obtain i rq where i: "i < length (n_tasks c)" "n_tasks c ! i = Waiting rq"
      by (auto simp: work_pos)
    have "\<not> rw_writer (n_peers_lock c)" "\<not> n_runtime_locked c"
      using inv idle free [of RuntimeMutex] by (cases "n_loop c"; auto simp: locks_inv_def split: if_splits)+
    then have "lock_available (lock_of D (node_models c) rq) c" by (cases "lock_of D (node_models c) rq") simp_all
    from task_step.acquire [OF i refl this] show ?thesis by (blast intro: internal_step.task)
  qed
qed

text \<open>Internal steps keep the tasks and the request of each.\<close>

fun task_request :: "task \<Rightarrow> http_request option" where
  "task_request (Waiting rq) = Some rq"
| "task_request (Running rq) = Some rq"
| "task_request (Computed rq _ _ _) = Some rq"
| "task_request (Answered rq _) = Some rq"
| "task_request Dropped = None"

lemma map_update_same: "f t = f (xs ! i) \<Longrightarrow> map f (xs[i := t]) = map f xs"
  by (metis list_update_beyond list_update_id map_update not_le_imp_less nth_map)

lemma internal_step_requests:
  assumes "internal_step X D c ev c'"
  shows "map task_request (n_tasks c') = map task_request (n_tasks c)"
  using assms
proof cases
  case task
  then show ?thesis by cases (simp_all add: map_update_same)
next
  case loop
  then show ?thesis by cases simp_all
qed

inductive internal_run ::
  "'cs mesh_externals \<Rightarrow> body_decoders \<Rightarrow> 'cs node \<Rightarrow> nat \<Rightarrow> 'cs node \<Rightarrow> bool" for X D where
  here: "internal_run X D c 0 c"
| more: "internal_step X D c ev d \<Longrightarrow> internal_run X D d n e \<Longrightarrow> internal_run X D c (Suc n) e"

lemma internal_run_inv:
  "internal_run X D c n e \<Longrightarrow> node_inv X D c \<Longrightarrow>
     node_inv X D e \<and> work c = n + work e \<and> map task_request (n_tasks e) = map task_request (n_tasks c)"
proof (induction rule: internal_run.induct)
  case (more c ev d n e)
  from internal_step_sim [OF more.hyps(1) more.prems] internal_step_work [OF more.hyps(1)]
    internal_step_requests [OF more.hyps(1)] more.IH show ?case by simp
qed simp

lemma idle_tasks:
  assumes "work e = 0" and "map task_request (n_tasks e) = map task_request (n_tasks c)"
    and "i < length (n_tasks c)" and "task_request (n_tasks c ! i) = Some rq"
  shows "\<exists>out. n_tasks e ! i = Answered rq out"
proof -
  have i: "i < length (n_tasks e)" using assms(2,3) by (metis length_map)
  have "task_request (n_tasks e ! i) = Some rq" using assms(2-4) i by (metis nth_map)
  moreover have "task_work (n_tasks e ! i) = 0" using assms(1) i work_pos [of e] by auto
  ultimately show ?thesis by (cases "n_tasks e ! i") simp_all
qed

lemma internal_run_complete:
  "node_inv X D c \<Longrightarrow> \<exists>e. internal_run X D c (work c) e"
proof (induction "work c" arbitrary: c)
  case 0
  then show ?case by (metis internal_run.here)
next
  case (Suc n)
  then obtain ev d where d: "internal_step X D c ev d" using progress [of D c X] by (auto simp: node_inv_def)
  with Suc have "n = work d" "node_inv X D d"
    using internal_step_work [OF d] internal_step_sim [OF d] by simp_all
  with Suc.hyps(1) [of d] Suc.hyps(2) d show ?case by (metis internal_run.more)
qed

section \<open>Answers\<close>

fun task_answer :: "task \<Rightarrow> (http_request \<times> http_outcome) option" where
  "task_answer (Answered rq out) = Some (rq, out)"
| "task_answer _ = None"

fun event_answer :: "'cs daemon_event \<Rightarrow> (http_request \<times> http_outcome) option" where
  "event_answer (HttpEvent now rq out) = Some (rq, out)"
| "event_answer _ = None"

definition task_answers :: "task list \<Rightarrow> (http_request \<times> http_outcome) multiset" where
  "task_answers ts = mset (List.map_filter task_answer ts)"

definition event_answers :: "'cs daemon_event list \<Rightarrow> (http_request \<times> http_outcome) multiset" where
  "event_answers evs = mset (List.map_filter event_answer evs)"

lemma task_answers_simps [simp]:
  "task_answers [] = {#}"
  "task_answers (t # ts) = (case task_answer t of None \<Rightarrow> task_answers ts | Some x \<Rightarrow> add_mset x (task_answers ts))"
  by (simp_all add: task_answers_def map_filter_simps split: option.split)

lemma task_answers_append [simp]: "task_answers (ts @ us) = task_answers ts + task_answers us"
  by (induction ts) (simp_all split: option.split)

lemma task_answers_update:
  "i < length ts \<Longrightarrow> task_answer (ts ! i) = None \<Longrightarrow>
     task_answers (ts[i := t]) = (case task_answer t of None \<Rightarrow> task_answers ts | Some x \<Rightarrow> add_mset x (task_answers ts))"
proof (induction ts arbitrary: i)
  case (Cons u ts)
  then show ?case by (cases i) (auto split: option.splits)
qed simp

lemma event_answers_append [simp]:
  "event_answers (evs @ [e]) = (case event_answer e of None \<Rightarrow> event_answers evs | Some x \<Rightarrow> add_mset x (event_answers evs))"
  by (simp add: event_answers_def map_filter_def split: option.split)

lemma internal_step_answers:
  assumes "internal_step X D c ev c'"
  shows "task_answers (n_tasks c') =
    (case ev of None \<Rightarrow> task_answers (n_tasks c)
     | Some e \<Rightarrow> (case event_answer e of None \<Rightarrow> task_answers (n_tasks c) | Some x \<Rightarrow> add_mset x (task_answers (n_tasks c))))"
  using assms
proof cases
  case task
  then show ?thesis by cases (simp_all add: task_answers_update)
next
  case loop
  then show ?thesis by cases simp_all
qed

lemma node_reach_answers:
  "node_reach X D c evs c' \<Longrightarrow> n_tasks c = [] \<Longrightarrow> event_answers evs = task_answers (n_tasks c')"
proof (induction rule: node_reach.induct)
  case (start c)
  then show ?case by (simp add: event_answers_def map_filter_simps)
next
  case (silent c evs d e)
  then show ?case using internal_step_answers [OF silent.hyps(2)] by simp
next
  case (visible c evs d ev e)
  then show ?case using internal_step_answers [OF visible.hyps(2)] by (simp split: option.split)
next
  case (outside c evs d e)
  from outside.hyps(2) have "task_answers (n_tasks e) = task_answers (n_tasks d)"
    by cases (simp_all add: task_answers_update)
  with outside show ?case by simp
qed

end
