(* ===== verification/Concurrency_Props.thy ===== *)
theory Concurrency_Props
  imports Concurrency_Spec Daemon_Props
begin

text \<open>
  The properties of the daemon as it is scheduled: the atomic daemon is a faithful account of it,
  its locks exclude what they must, and no task waits for ever.
\<close>

section \<open>A run for the witnesses\<close>

text \<open>One posted reservation, step by step.\<close>

definition node_0 :: "test_store node" where
  "node_0 = node_start test_state []"

definition node_1 :: "test_store node" where
  "node_1 = node_0\<lparr>n_tasks := [Waiting post_reservation]\<rparr>"

definition node_2 :: "test_store node" where
  "node_2 = set_task 0 (Running post_reservation) (take_lock RuntimeMutex node_1)"

definition node_3 :: "test_store node" where
  "node_3 = set_task 0 (Computed post_reservation 5000000000 (Replied (CREATED, ReservationBody first_reservation))
     runtime_after_first) node_2"

definition node_4 :: "test_store node" where
  "node_4 = set_task 0 (Answered post_reservation (Replied (CREATED, ReservationBody first_reservation)))
     (drop_lock RuntimeMutex (write_back RuntimeMutex runtime_after_first node_3))"

lemmas node_defs = node_0_def node_1_def node_2_def node_3_def node_4_def

lemma node_apps [simp]:
  "n_app node_0 = test_state" "n_app node_1 = test_state" "n_app node_2 = test_state" "n_app node_3 = test_state"
  "n_app node_4 = test_state_after_first"
  by (simp_all add: node_defs node_start_def test_state_after_first_def)

lemma node_tasks [simp]:
  "n_tasks node_0 = []" "n_tasks node_1 = [Waiting post_reservation]" "n_tasks node_2 = [Running post_reservation]"
  "n_tasks node_3 = [Computed post_reservation 5000000000 (Replied (CREATED, ReservationBody first_reservation)) runtime_after_first]"
  "n_tasks node_4 = [Answered post_reservation (Replied (CREATED, ReservationBody first_reservation))]"
  by (simp_all add: node_0_def node_start_def node_1_def node_2_def node_3_def node_4_def)

lemma node_loops [simp]: "n_loop node_1 = Stopped" "n_loop node_3 = Stopped"
  by (simp_all add: node_defs node_start_def runtime_test_config_def)

lemma post_lock [simp]: "lock_of test_decoders (node_models c) post_reservation = RuntimeMutex"
  if "n_app c = test_state"
  by (simp add: that lock_of_def endpoint_lock_def post_reservation_def route_cases test_decoders_def node_models_def
      runtime_eval Let_def test_request_def trim_alice)

lemma node_steps:
  "outside_step node_0 node_1"
  "internal_step X test_decoders node_1 None node_2"
  "internal_step X test_decoders node_2 None node_3"
  "internal_step X test_decoders node_3
     (Some (HttpEvent 5000000000 post_reservation (Replied (CREATED, ReservationBody first_reservation)))) node_4"
proof -
  show "outside_step node_0 node_1"
    using outside_step.request [of node_0 post_reservation] by (simp add: node_1_def)
  have "task_step test_decoders node_1 None node_2"
    unfolding node_2_def by (rule task_step.acquire) (simp_all add: node_1_def node_0_def node_start_def)
  then show "internal_step X test_decoders node_1 None node_2" by (rule internal_step.task)
  have "task_step test_decoders node_2 None node_3"
    using task_step.compute [of 0 node_2 post_reservation test_decoders 5000000000] post_test_state by (simp add: node_3_def)
  then show "internal_step X test_decoders node_2 None node_3" by (rule internal_step.task)
  have "task_step test_decoders node_3
     (Some (HttpEvent 5000000000 post_reservation (Replied (CREATED, ReservationBody first_reservation)))) node_4"
    unfolding node_4_def by (rule task_step.finish) simp_all
  then show "internal_step X test_decoders node_3
     (Some (HttpEvent 5000000000 post_reservation (Replied (CREATED, ReservationBody first_reservation)))) node_4"
    by (rule internal_step.task)
qed

lemma node_run:
  "node_reach X test_decoders (node_start test_state []) [] node_1"
  "node_reach X test_decoders (node_start test_state []) [] node_3"
  "node_reach X test_decoders (node_start test_state [])
     [HttpEvent 5000000000 post_reservation (Replied (CREATED, ReservationBody first_reservation))] node_4"
proof -
  have 0: "node_reach X test_decoders (node_start test_state []) [] node_0" unfolding node_0_def by (rule node_reach.start)
  show 1: "node_reach X test_decoders (node_start test_state []) [] node_1"
    by (rule node_reach.outside [OF 0 node_steps(1)])
  show 3: "node_reach X test_decoders (node_start test_state []) [] node_3"
    by (rule node_reach.silent [OF node_reach.silent [OF 1 node_steps(2)] node_steps(3)])
  show "node_reach X test_decoders (node_start test_state [])
     [HttpEvent 5000000000 post_reservation (Replied (CREATED, ReservationBody first_reservation))] node_4"
    using node_reach.visible [OF 3 node_steps(4)] by simp
qed

lemma node_reach_inv:
  "node_reach X D (node_start s contacts) evs c \<Longrightarrow> as_methods s = skeleton_methods \<Longrightarrow> node_inv X D c"
  by (rule conjunct1 [OF node_reach_sim]) (assumption, rule node_inv_start)

section \<open>Properties\<close>

text \<open>
  C4. The atomic daemon accounts for every schedule.  However the requests and the gossip
  interleave, with every task stopped between taking its lock, computing, and writing back, the
  shared state is one that the atomic daemon reaches by the same answers and dispositions in the
  order in which the tasks wrote back; and each answered request was answered exactly once, by
  the answer of its event.
\<close>

theorem scheduled_daemon_refines_atomic:
  assumes "node_reach X D (node_start s contacts) evs c" and "as_methods s = skeleton_methods"
  shows "daemon_reach X D s evs (n_app c) \<and> event_answers evs = task_answers (n_tasks c)"
  using node_reach_sim [OF assms(1) node_inv_start [OF assms(2)]] node_reach_answers [OF assms(1)]
  by (simp add: node_start_def)

theorem scheduled_daemon_refines_atomic_witness:
  "daemon_reach (test_externals []) test_decoders test_state
     [HttpEvent 5000000000 post_reservation (Replied (CREATED, ReservationBody first_reservation))] test_state_after_first"
  using scheduled_daemon_refines_atomic [OF node_run(3), of "test_externals []"] by simp

text \<open>
  C3. Safety of the running daemon.  From a daemon built from a configuration, after every schedule
  of its requests, its subscription loop and its contacts, the configuration, the identity and the
  announced capability are the ones it was built with, no model is reserved beyond its slots,
  and every peer shown is an admissible agent of the mesh other than this node.
\<close>

theorem scheduled_daemon_is_safe:
  assumes "from_config M cfg w = (Inr d, w')"
    and "node_reach (m_ext M) D (node_start (app_state_of d) contacts) evs c"
  shows "as_config (n_app c) = cfg \<and> as_identity (n_app c) = from_agent (m_ext M) (d_agent d)
    \<and> as_capability (n_app c) = d_capability d
    \<and> (\<forall>lm \<in> set (local_models (as_runtime (n_app c))).
         sum_list (map (\<lambda>r. unat (mr_requested_slots r))
           (filter (\<lambda>r. mr_model r = lm_id lm) (reservations (as_runtime (n_app c))))) \<le> unat (lm_total_slots lm))
    \<and> (\<forall>p \<in> set (registry_snapshot (as_peers (n_app c))).
         peer_ok (m_ext M) cfg (encode_agent_id (m_ext M) (xa_agent_id (d_agent d)))
           (ais_agent_id (cap_identity (pr_capability p))) p)"
proof -
  have methods: "as_methods (app_state_of d) = skeleton_methods"
    using from_config_daemon [OF assms(1)] by (simp add: app_state_of_def)
  have reach: "daemon_reach (m_ext M) D (app_state_of d) evs (n_app c)"
    using node_reach_sim [OF assms(2) node_inv_start [OF methods]] by (simp add: node_start_def)
  with methods have "as_methods (n_app c) = skeleton_methods" using reach_constant by metis
  then have "ra_local_models (as_methods (n_app c)) = local_models" "ra_reservations (as_methods (n_app c)) = reservations"
    by (simp_all add: skeleton_methods_def)
  from running_daemon_is_safe [OF assms(1) reach, unfolded this] show ?thesis .
qed

theorem scheduled_daemon_is_safe_witness:
  "as_config (n_app node_4) = runtime_test_config \<and> length (reservations (as_runtime (n_app node_4))) = 1"
proof -
  have "node_reach (m_ext (test_computer (test_externals []))) test_decoders (node_start (app_state_of test_daemon) [])
      [HttpEvent 5000000000 post_reservation (Replied (CREATED, ReservationBody first_reservation))] node_4"
    using node_run(3) [of "m_ext (test_computer (test_externals []))"] by (simp add: test_state_def)
  from scheduled_daemon_is_safe [OF test_daemon_built this] show ?thesis
    by (simp add: reservations_after_first)
qed

text \<open>
  C9. The locks exclude what they must: in every reachable state at most one task is between
  \<open>lock_state\<close> and its release, no task reads the peers while the subscription loop may write
  them, and an answer that a task has computed but not yet sent is still the answer to the
  current state.
\<close>

theorem locks_exclude:
  assumes "node_reach X D (node_start s contacts) evs c" and "as_methods s = skeleton_methods"
  shows "length (filter (holds D (node_models c) RuntimeMutex) (n_tasks c)) \<le> 1
    \<and> (loop_writes (n_loop c) \<longrightarrow> filter (holds D (node_models c) PeersRead) (n_tasks c) = [])
    \<and> (\<forall>rq now out rt. Computed rq now out rt \<in> set (n_tasks c) \<longrightarrow> fst (dispatch D now rq (n_app c)) = out)"
proof (intro conjI impI allI)
  have inv: "locks_inv D c" and ok: "list_all (computed_ok D (n_app c)) (n_tasks c)"
    using node_reach_inv [OF assms] by (simp_all add: node_inv_def)
  show "length (filter (holds D (node_models c) RuntimeMutex) (n_tasks c)) \<le> 1"
    using inv by (simp add: locks_inv_def holders_def)
  show "filter (holds D (node_models c) PeersRead) (n_tasks c) = []" if "loop_writes (n_loop c)"
    using inv that by (simp add: locks_inv_def holders_def flip: length_0_conv)
  show "fst (dispatch D now rq (n_app c)) = out" if "Computed rq now out rt \<in> set (n_tasks c)" for rq now out rt
  proof -
    have "computed_ok D (n_app c) (Computed rq now out rt)" using ok that by (simp add: list_all_iff)
    then show ?thesis by (simp add: computed_ok_def split: if_splits)
  qed
qed

theorem locks_exclude_witness:
  "length (filter (holds test_decoders (node_models node_3) RuntimeMutex) (n_tasks node_3)) = 1
   \<and> fst (dispatch test_decoders 5000000000 post_reservation test_state) = Replied (CREATED, ReservationBody first_reservation)"
  using locks_exclude [OF node_run(2)] by simp

text \<open>
  C8. No task waits for ever.  From every reachable state, whatever the scheduler does with the
  tasks that have work, some task can move until every request that was not given up by its client
  is answered and the subscription loop waits for its next message; that takes exactly \<open>work\<close> steps,
  at most three for each request and six for a message.  In particular the daemon has no deadlock.
\<close>

theorem every_request_is_answered:
  assumes "node_reach X D (node_start s contacts) evs c" and "as_methods s = skeleton_methods"
  shows "(\<forall>n e. internal_run X D c n e \<longrightarrow>
        n \<le> work c
        \<and> (n < work c \<longrightarrow> (\<exists>ev f. internal_step X D e ev f))
        \<and> (n = work c \<longrightarrow> n_loop e \<in> {Receiving, Stopped}
             \<and> (\<forall>i rq. i < length (n_tasks c) \<and> task_request (n_tasks c ! i) = Some rq
                    \<longrightarrow> (\<exists>out. n_tasks e ! i = Answered rq out))))
    \<and> (\<exists>e. internal_run X D c (work c) e)
    \<and> work c \<le> 3 * length (n_tasks c) + 6"
proof (intro conjI allI impI)
  note inv = node_reach_inv [OF assms]
  fix n e assume "internal_run X D c n e"
  then have e: "node_inv X D e" "work c = n + work e" "map task_request (n_tasks e) = map task_request (n_tasks c)"
    using internal_run_inv [OF _ inv] by simp_all
  then show "n \<le> work c" by simp
  show "\<exists>ev f. internal_step X D e ev f" if "n < work c"
    using progress [of D e X] e that by (simp add: node_inv_def)
  have "loop_work p = 0 \<Longrightarrow> p \<in> {Receiving, Stopped}" for p by (cases p) simp_all
  then show "n_loop e \<in> {Receiving, Stopped}" if "n = work c"
    using e(2) that by (simp add: work_def)
  show "\<exists>out. n_tasks e ! i = Answered rq out"
    if "n = work c" "i < length (n_tasks c) \<and> task_request (n_tasks c ! i) = Some rq" for i rq
    using idle_tasks [OF _ e(3)] e(2) that by simp
next
  show "\<exists>e. internal_run X D c (work c) e" by (rule internal_run_complete [OF node_reach_inv [OF assms]])
  have "task_work t \<le> 3" for t by (cases t) simp_all
  then have "sum_list (map task_work ts) \<le> 3 * length ts" for ts by (induction ts) (simp_all add: add_mono)
  moreover have "loop_work p \<le> 6" for p by (cases p) simp_all
  ultimately show "work c \<le> 3 * length (n_tasks c) + 6" unfolding work_def by (intro add_mono) simp_all
qed

theorem every_request_is_answered_witness:
  "work node_1 = 3 \<and> (\<exists>e out. internal_run (test_externals []) test_decoders node_1 3 e
     \<and> n_tasks e ! 0 = Answered post_reservation out)"
proof -
  have w: "work node_1 = 3" by (simp add: work_def)
  note live = every_request_is_answered [OF node_run(1), of "test_externals []", unfolded w]
  then obtain e where e: "internal_run (test_externals []) test_decoders node_1 3 e" by auto
  with live have "\<forall>i rq. i < length (n_tasks node_1) \<and> task_request (n_tasks node_1 ! i) = Some rq
      \<longrightarrow> (\<exists>out. n_tasks e ! i = Answered rq out)" by simp
  then have "\<exists>out. n_tasks e ! 0 = Answered post_reservation out" by simp
  with w e show ?thesis by blast
qed

end
