(* ===== verification/Wire_Props.thy ===== *)
theory Wire_Props
  imports Wire_Spec Unit_Test_Props Daemon_Props
begin

text \<open>
  The properties of the wire formats: an announcement survives the way through JSON, the
  configuration the way through TOML, and a request body is accepted exactly when it has the
  fields the source asks for.
\<close>

section \<open>Announcements\<close>

text \<open>
  C33. An announcement survives the wire.  From any object that has the members written for it, in
  any order and among any members the reader does not know, every node reads exactly the
  announcement that was sent.
\<close>

theorem announcement_survives_the_wire:
  assumes "json_parse T bs = Inr (VObject members)"
    and "reads_as announcement_fields members (announcement_members a)"
    and "hw_logical_cores (cap_hardware a) < 2 ^ 64"
  shows "json_from_slice (wire_externals H T evaluate) bs = Inr a"
  using assms(1) announcement_read [OF assms(2,3)]
  by (simp add: wire_externals_def announcement_from_slice_def)

definition test_wire_announcement :: capability_announcement where
  "test_wire_announcement = capability_for hex_executable (test_agent 1) (test_machine 11) ''friends'' []"

text \<open>The members in reverse, after one that no version of the program knows.\<close>

theorem announcement_survives_the_wire_witness:
  "json_from_slice (wire_externals hex_executable
       (test_json [VObject ((''region'', VString ''eu'') # rev (announcement_members test_wire_announcement))])
       (\<lambda>_ _ _. Unknown)) [0]
     = Inr test_wire_announcement"
proof (rule announcement_survives_the_wire)
  let ?ms = "(''region'', VString ''eu'') # rev (announcement_members test_wire_announcement)"
  show "json_parse (test_json [VObject ?ms]) [0] = Inr (VObject ?ms)" by (simp add: test_json_def)
  show "hw_logical_cores (cap_hardware test_wire_announcement) < 2 ^ 64"
    by (simp add: test_wire_announcement_def capability_for_def)
  have "\<forall>m \<in> set (announcement_members test_wire_announcement). fst m \<in> set announcement_fields"
    using announcement_members_eq(2) [of test_wire_announcement] by (metis image_eqI list.set_map)
  then have "filter (\<lambda>m. fst m \<in> set announcement_fields) (rev (announcement_members test_wire_announcement))
      = rev (announcement_members test_wire_announcement)" by (subst filter_True) simp_all
  then show "reads_as announcement_fields ?ms (announcement_members test_wire_announcement)"
    by (simp add: reads_as_def announcement_fields_def)
qed

section \<open>Request bodies\<close>

text \<open>
  C34. Which reservation bodies are accepted.  A JSON object posted to \<open>/v1/reservations\<close> reaches the
  runtime exactly when the model and the consumer are strings, the number of slots is missing or
  an integer of 16 bits, and none of the three is repeated; other members do not matter, and a
  missing number asks for one slot.  Every other object is refused and changes nothing.
\<close>

theorem reservation_body_accepted_iff:
  assumes "rq_method rq = POST" and "rq_segments rq = [''v1'', ''reservations'']"
    and "json_parse T (rq_body rq) = Inr (VObject members)"
  shows "dispatch (wire_decoders T) now rq s =
    (let once = distinct (filter (\<lambda>k. k \<in> {''model'', ''consumer'', ''requested_slots''}) (map fst members));
         ask = (\<lambda>m c n. map_prod Replied id (create_reservation_handler now
                  \<lparr>crr_model = m, crr_consumer = c, crr_requested_slots = n\<rparr> s))
     in case (map_of members ''model'', map_of members ''consumer'', map_of members ''requested_slots'') of
          (Some (VString m), Some (VString c), None) \<Rightarrow> if once then ask m c 1 else (BodyRefused, s)
        | (Some (VString m), Some (VString c), Some (VInt n)) \<Rightarrow>
            if once \<and> 0 \<le> n \<and> n < 65536 then ask m c (word_of_int n) else (BodyRefused, s)
        | _ \<Rightarrow> (BodyRefused, s))"
proof -
  have "create_fields_of_value (VObject members) =
    (if distinct (filter (\<lambda>k. k \<in> {''model'', ''consumer'', ''requested_slots''}) (map fst members)) then
       case (map_of members ''model'', map_of members ''consumer'', map_of members ''requested_slots'') of
          (Some (VString m), Some (VString c), None) \<Rightarrow>
            Some \<lparr>crf_model = m, crf_consumer = c, crf_requested_slots = None\<rparr>
        | (Some (VString m), Some (VString c), Some (VInt n)) \<Rightarrow>
            if 0 \<le> n \<and> n < 65536 then Some \<lparr>crf_model = m, crf_consumer = c, crf_requested_slots = Some (word_of_int n)\<rparr>
            else None
        | _ \<Rightarrow> None
     else None)"
    by (simp add: create_fields_of_value_def struct_fields_def required_def defaulted_def dec_string_def dec_uint_def
        split: option.split wire_value.split) blast
  then show ?thesis
    using assms
    by (simp add: dispatch_def route_cases wire_decoders_def create_request_of_def default_requested_slots_def Let_def
        split: option.split wire_value.split) auto
qed

definition posted_members :: "(string \<times> wire_value) list" where
  "posted_members =
     [(''consumer'', VString ''alice''), (''priority'', VReal ''0.5''), (''model'', VString ''qwen3.5:32b'')]"

theorem reservation_body_accepted_iff_witness:
  "dispatch (wire_decoders (test_json [VNull, VObject posted_members])) 5000000000 post_reservation test_state =
     (Replied (CREATED, ReservationBody first_reservation), test_state_after_first)"
proof -
  have "rq_method post_reservation = POST" "rq_segments post_reservation = [''v1'', ''reservations'']"
    "json_parse (test_json [VNull, VObject posted_members]) (rq_body post_reservation) = Inr (VObject posted_members)"
    by (simp_all add: post_reservation_def test_json_def)
  from reservation_body_accepted_iff [OF this, of 5000000000 test_state] show ?thesis
    by (simp add: posted_members_def create_reservation_handler_def skeleton_methods_def create_first
        test_state_after_first_def flip: test_request_def)
qed

section \<open>The configuration file\<close>

text \<open>
  C35. A configuration survives its file.  With texts of addresses and paths that are read back as
  they were written, and a TOML library that keeps its documentation, every configuration is read
  back from the text it is written as, absent paths included; the one that cannot be written is
  the one whose announcement interval does not fit the signed integers of TOML.
\<close>

theorem configuration_survives_its_file:
  assumes "texts_read_back W c" and "toml_documented T (config_value W c)"
  shows "(case toml_to_string_pretty (wire_toml W T) c of
       Inr raw \<Rightarrow> uint (resource_announce_interval_secs c) < 2 ^ 63 \<and> toml_from_str (wire_toml W T) raw = Inr c
     | Inl _ \<Rightarrow> 2 ^ 63 \<le> uint (resource_announce_interval_secs c))"
  using toml_config [OF assms(1)] assms(2)
  by (cases "uint (resource_announce_interval_secs c) < 2 ^ 63")
    (auto simp: wire_toml_def toml_documented_def split: sum.splits)

text \<open>The TOML text of the configuration of the tests, as a name for its value.\<close>

definition test_texts :: config_texts where
  "test_texts =
     \<lparr>addr_text = (\<lambda>a. ''127.0.0.1:12800''),
      addr_parse = (\<lambda>s. if s = ''127.0.0.1:12800'' then Some (SocketAddr (V4 0x7F000001) 12800) else None),
      path_text = path_display,
      path_parse = (\<lambda>s. if s = ''./var/test'' then \<lparr>p_abs = False, p_comps = [''.'', ''var'', ''test'']\<rparr>
                        else \<lparr>p_abs = True, p_comps = []\<rparr>)\<rparr>"

definition test_toml_text :: toml_text where
  "test_toml_text =
     \<lparr>toml_parse = (\<lambda>s. if s = ''config'' then Inr (the (toml_value (config_value test_texts runtime_test_config)))
                        else Inl ''parse''),
      toml_print = (\<lambda>v. Inr ''config''), toml_mismatch = ''mismatch''\<rparr>"

theorem configuration_survives_its_file_witness:
  "\<exists>raw. toml_to_string_pretty (wire_toml test_texts test_toml_text) runtime_test_config = Inr raw
     \<and> toml_from_str (wire_toml test_texts test_toml_text) raw = Inr runtime_test_config"
proof -
  have "texts_read_back test_texts runtime_test_config"
    by (simp add: texts_read_back_def paths_of_def test_texts_def runtime_test_config_def default_x0x_config_def
        map_filter_simps path_display_def)
  note texts = this
  have "toml_documented test_toml_text (config_value test_texts runtime_test_config)"
    using toml_config [OF texts] by (auto simp: toml_documented_def test_toml_text_def runtime_test_config_def)
  from configuration_survives_its_file [OF texts this] show ?thesis
    by (auto simp: test_toml_text_def wire_toml_def split: sum.splits)
qed

section \<open>Reservations as a client sees them\<close>

text \<open>
  C40. What a client sees of its reservation.  While the 64-bit counter of the runtime is below its
  largest value, a JSON object that was posted to \<open>/v1/reservations\<close> and answered with 201 is
  answered with a reservation of the posted model, consumer and number of slots, one when the
  number was left out, under an identifier no listed reservation has.  The list of reservations
  then shows exactly this one more, and the inventory shows that number of slots moved from the
  available to the reserved ones of that model, and everything else as before.
\<close>

theorem posted_reservation_is_shown:
  assumes skel: "as_methods s = skeleton_methods" and inv: "runtime_inv (as_runtime s)"
    and free: "unat (st_next_reservation_id (lock_state (as_runtime s))) < 2 ^ 64 - 1"
    and rq: "rq_method rq = POST" "rq_segments rq = [''v1'', ''reservations'']"
    and body: "json_parse T (rq_body rq) = Inr (VObject members)"
    and post: "exchange T W names now rq s = (Some (CREATED, Some v), s')"
    and ls: "rq_method ls = GET" "rq_segments ls = [''v1'', ''reservations'']"
    and ms: "rq_method ms = GET" "rq_segments ms = [''v1'', ''models'', ''local'']"
  shows "at_key ''model'' v = at_key ''model'' (VObject members)
    \<and> at_key ''consumer'' v = at_key ''consumer'' (VObject members)
    \<and> at_key ''requested_slots'' v = (case map_of members ''requested_slots'' of Some n \<Rightarrow> n | None \<Rightarrow> VInt 1)
    \<and> (\<exists>before after. exchange T W names t ls s = (Some (OK, Some (VArray before)), s)
         \<and> exchange T W names t' ls s' = (Some (OK, Some (VArray after)), s')
         \<and> mset after = add_mset v (mset before)
         \<and> at_key ''reservation_id'' v \<notin> at_key ''reservation_id'' ` set before)
    \<and> (\<exists>before after. exchange T W names t ms s = (Some (OK, Some (VArray before)), s)
         \<and> exchange T W names t' ms s' = (Some (OK, Some (VArray after)), s')
         \<and> list_all2 (\<lambda>m m'. slots_taken (if at_key ''id'' m = at_key ''model'' v then int_at ''requested_slots'' v else 0) m m')
             before after)"
proof -
  from post obtain b where d: "dispatch (wire_decoders T) now rq s = (Replied (CREATED, b), s')"
    and b: "body_value W names b = Some v"
    by (auto simp: exchange_def split: prod.splits http_outcome.splits)
  from d obtain f where f: "create_fields_of_value (VObject members) = Some f"
    and h: "create_reservation_handler now (create_request_of f) s = ((CREATED, b), s')"
    using rq body by (auto simp: dispatch_def route_cases wire_decoders_def split: option.splits prod.splits)
  then obtain r rt where c: "create_reservation now (create_request_of f) (as_runtime s) = (Inr r, rt)"
    and r: "b = ReservationBody r" and s': "s' = s\<lparr>as_runtime := rt\<rparr>"
    using skel by (cases "fst (create_reservation now (create_request_of f) (as_runtime s))")
      (auto simp: create_reservation_handler_def skeleton_methods_def error_class_not_created split: prod.splits)
  have v: "v = reservation_value r" using b by (simp add: r)
  have asked: "mr_model r = crf_model f" "mr_consumer r = crf_consumer f"
    "mr_requested_slots r = (case crf_requested_slots f of Some n \<Rightarrow> n | None \<Rightarrow> 1)"
    using create_reservation_granted(2) [OF inv c]
    by (simp_all add: create_request_of_def default_requested_slots_def split: option.split)
  have at_v: "at_key ''model'' v = VString (mr_model r)" "at_key ''consumer'' v = VString (mr_consumer r)"
    "at_key ''requested_slots'' v = v_uint (mr_requested_slots r)"
    "at_key ''reservation_id'' (reservation_value q) = VString (mr_reservation_id q)" for q
    by (simp_all add: v reservation_value_def)
  note read = create_fields_read [OF f]
  have ls_reply: "exchange T W names t ls u = (Some (OK, Some (VArray (map reservation_value (reservations (as_runtime u))))), u)"
    and ms_reply: "exchange T W names t ms u = (Some (OK, Some (VArray (map inventory_value (local_models (as_runtime u))))), u)"
    if "as_methods u = skeleton_methods" for t and u :: "skeleton_runtime_adapter app_state"
    using ls ms that
    by (simp_all add: exchange_def dispatch_def route_cases list_reservations_def local_models_handler_def skeleton_methods_def)
  have asked_v: "at_key ''model'' v = at_key ''model'' (VObject members)"
    "at_key ''consumer'' v = at_key ''consumer'' (VObject members)"
    "at_key ''requested_slots'' v = (case map_of members ''requested_slots'' of Some n \<Rightarrow> n | None \<Rightarrow> VInt 1)"
    unfolding at_v asked by (simp_all add: at_key_def read v_uint_def split: option.split)
  note rs = reservations_after_grant [OF inv c free]
  have slots: "int_at ''requested_slots'' v = uint (mr_requested_slots r)"
    by (simp add: int_at_def at_v v_uint_def)
  show ?thesis
  proof (intro conjI exI)
    show "mset (map reservation_value (reservations rt)) = add_mset v (mset (map reservation_value (reservations (as_runtime s))))"
      by (simp add: rs(1) v)
    show "at_key ''reservation_id'' v \<notin> at_key ''reservation_id'' ` set (map reservation_value (reservations (as_runtime s)))"
      using rs(2) by (auto simp: v at_v(4))
    show "list_all2 (\<lambda>m m'. slots_taken (if at_key ''id'' m = at_key ''model'' v then int_at ''requested_slots'' v else 0) m m')
        (map inventory_value (local_models (as_runtime s))) (map inventory_value (local_models rt))"
      unfolding at_v slots by (rule inventory_after_grant [OF inv c free])
  qed (simp_all add: asked_v ls_reply ms_reply skel s')
qed
definition get_request :: "string list \<Rightarrow> http_request" where
  "get_request segs = \<lparr>rq_method = GET, rq_segments = segs, rq_body = []\<rparr>"

lemma posted_exchange:
  "exchange (test_json [VNull, VObject posted_members]) test_texts names 5000000000 post_reservation test_state
     = (Some (CREATED, Some (reservation_value first_reservation)), test_state_after_first)"
  by (simp add: exchange_def dispatch_def route_cases post_reservation_def wire_decoders_def test_json_def
      posted_members_def create_fields_of_value_def read_eval create_request_of_def default_requested_slots_def
      create_reservation_handler_def skeleton_methods_def create_first test_state_after_first_def body_value_def
      flip: test_request_def)

theorem posted_reservation_is_shown_witness:
  "let T = test_json [VNull, VObject posted_members]; ask = exchange T test_texts (\<lambda>_. ''accept'') 5000000000;
       models = get_request [''v1'', ''models'', ''local'']
   in \<exists>before after. ask models test_state = (Some (OK, Some (VArray before)), test_state)
     \<and> ask models test_state_after_first = (Some (OK, Some (VArray after)), test_state_after_first)
     \<and> list_all2 (\<lambda>m m'. slots_taken (if at_key ''id'' m = VString ''qwen3.5:32b'' then 1 else 0) m m') before after"
proof -
  let ?T = "test_json [VNull, VObject posted_members]"
  have members: "json_parse ?T (rq_body post_reservation) = Inr (VObject posted_members)"
    by (simp add: post_reservation_def test_json_def)
  have v: "at_key ''model'' (reservation_value first_reservation) = VString ''qwen3.5:32b''"
    "int_at ''requested_slots'' (reservation_value first_reservation) = 1"
    by (simp_all add: reservation_value_def int_at_def v_uint_def)
  from posted_reservation_is_shown [OF _ _ _ _ _ members posted_exchange, of "get_request [''v1'', ''reservations'']"
      "get_request [''v1'', ''models'', ''local'']" "\<lambda>_. ''accept''" 5000000000 5000000000,
      THEN conjunct2, THEN conjunct2, THEN conjunct2, THEN conjunct2, unfolded v]
  show ?thesis
    by (simp add: test_inv runtime_eval post_reservation_def get_request_def Let_def)
qed

end
