(* ===== verification/Spec2Isabelle.thy ===== *)
theory Spec2Isabelle
  imports Runtime_Props Gateway_Props Mesh_Props Setup_Props Daemon_Props Cli_Props Unit_Test_Props Concurrency_Props Wire_Props
begin

text \<open>
  x0x-compute lets a group of friends pool local AI models.  A daemon keeps slot reservations for
  the models of its configuration and answers OpenAI-style requests with a deterministic skeleton
  runtime; it learns the capabilities of its peers from gossip of the x0x network, admitting only
  announcements that the trust evaluation of x0x accepts.  This development models the whole
  library and its two binaries and proves what makes them correct.

  \<^bold>\<open>How the program hangs together.\<close>  \<open>ComputeConfig\<close> (\<open>src/config.rs\<close>) is
  loaded by the binaries (\<open>src/bin\<close>).  \<open>ComputeDaemon::from_config\<close>
  (\<open>src/daemon.rs\<close>) builds the x0x agent (\<open>src/x0x_identity.rs\<close>), the local announcement
  (\<open>src/capability.rs\<close>) and the runtime (\<open>src/runtime.rs\<close>); \<open>ComputeDaemon::run\<close>
  joins the network, subscribes (\<open>src/mesh.rs\<close>) and serves HTTP.  Afterwards there are two
  activities on shared state: HTTP handlers call the runtime behind the trait
  \<open>RuntimeAdapter\<close>, which locks one mutex per call, and the subscription loop applies gossip
  messages to the peer registry under a write lock.  Errors (\<open>src/error.rs\<close>) become HTTP
  answers.  The daemon is modelled twice: with every request and every message as one atomic step,
  and as the scheduler runs it, with tasks that take locks, compute, write back and release; the
  second refines the first.

  \<^bold>\<open>Theories and sources.\<close>

  \<^item> \<open>Prelude\<close>: machine integers at their width with the saturating operations, results,
    the mutex with its poison flag, clock readings.  \<open>Rust_Str\<close>: strings as UTF-8 bytes, cut
    into characters; \<open>trim\<close>, \<open>split_whitespace\<close>, \<open>join\<close>.  \<open>Rust_Fmt\<close>:
    decimal numbers and \<open>{:06}\<close>.  \<open>Btree_Map\<close>: the interface of \<open>BTreeMap\<close> as
    the locale \<open>ordered_map\<close>, interpreted by key-sorted association lists.
  \<^item> \<open>Compute_Error\<close> (\<open>error.rs\<close>): \<open>ComputeError\<close> constructor by constructor,
    its \<open>Display\<close> texts, \<open>into_response\<close>.
  \<^item> \<open>World\<close>: files, agent, network and terminal as effects.  A computation maps a world,
    the file system and the trace of attempted effects, to a result and a world; an environment
    decides which effect fails, so theorems hold for every pattern of failures.  \<open>run_script\<close>
    is the abstract form of a startup.
  \<^item> \<open>Config\<close> (\<open>config.rs\<close>, constants of \<open>lib.rs\<close>), \<open>Identity\<close>
    (\<open>x0x_identity.rs\<close>), \<open>Capability\<close> (\<open>capability.rs\<close>): one record per struct
    and one definition per function, under the names of the source.
  \<^item> \<open>Mesh\<close> (\<open>mesh.rs\<close>): \<open>apply_message\<close> with its nine guards in the order of
    the code, the write \<open>record_peer\<close>, the subscription loop as a function of the list of
    messages, each with the contact store and the clock of its moment, and as the loop that asks
    the subscription for the next message (\<open>receive_loop\<close>, a partial function).  \<open>Mesh_Spec\<close>: the
    specification \<open>admission\<close>, an unordered conjunction, the invariant \<open>registry_inv\<close>,
    the registry as the \<open>summary\<close> of each peer's admitted announcements, and when the
    receiving loop returns.
  \<^item> \<open>Runtime\<close> (\<open>runtime.rs\<close>): the skeleton adapter; every operation returns its
    result and the adapter after it.  \<open>Runtime_Spec\<close>: the invariant \<open>runtime_inv\<close> and
    the exact decision and effect of each operation.  \<open>Slot_Pool\<close>: the abstract pool of
    slots as a step relation, and the refinement of runs.  \<open>Adapter\<close>: the trait
    \<open>RuntimeAdapter\<close> as a method table, its contract as the locale \<open>adapter_contract\<close>,
    and the skeleton runtime as its interpretation.  \<open>Grant_Order\<close>: the list of reservations
    as the log of the grants.
  \<^item> \<open>Daemon\<close> (\<open>daemon.rs\<close>): construction, startup, the route table, one
    definition per handler over any method table, and the running daemon as the step relation
    \<open>daemon_step\<close> of requests and gossip messages.  \<open>Daemon_Spec\<close>: routing, statuses,
    types of answers, the client lemmas of the adapter contract, invariants over every interleaving,
    and the startup script.
  \<^item> \<open>Concurrency\<close> (the tasks of \<open>daemon.rs\<close> and the loop of \<open>mesh.rs\<close>): the shared state
    \<open>node\<close> with its three locks as explicit state, the lock each request takes
    (\<open>endpoint_lock\<close>), the steps of a request (\<open>task_step\<close>), of the loop
    (\<open>loop_step\<close>) and of the world outside.  \<open>Concurrency_Spec\<close>: the invariant
    \<open>node_inv\<close>, the simulation by the atomic daemon, and the exact measure \<open>work\<close> of the
    steps a node still has to take.
  \<^item> \<open>Wire\<close> (the serde derives of all modules): a record as a value and a value as a record,
    with the names, defaults and renamings of the source; \<open>exchange\<close>, a request with the JSON of
    its answer.  \<open>Wire_Spec\<close>: reading back what was written, in any order and among unknown
    members, what the TOML library documents, and the JSON of the inventory after a grant.
  \<^item> \<open>Cli\<close> (\<open>bin/x0x-compute.rs\<close>, \<open>bin/x0x-computed.rs\<close>): the two
    \<open>main\<close> functions.
  \<^item> \<open>Fixtures\<close>: the inputs of the program's unit tests and executable instances of the
    foreign functions, at which every theorem with a hypothesis is also evaluated.
    \<open>Unit_Tests\<close>: the tests themselves, each as the boolean it asserts, over the keys it
    generates, the clock and the foreign functions; those of the daemon post and read JSON values.

  \<^bold>\<open>Properties.\<close>  \<open>Runtime_Props\<close>: capacity, decision, effect and round trip of
  reservations, their refinement of the slot pool, the recovery of all capacity, identifiers and
  the order of the grants.  \<open>Gateway_Props\<close>: the
  inventory, the content and the token counts of completions, poisoning.  \<open>Mesh_Props\<close>:
  admission, authorship, histories, order and time.  \<open>Setup_Props\<close>: identifiers, the agent,
  the configuration file, error answers.  \<open>Daemon_Props\<close>: routing, the types of answers,
  every interleaving, startup order.  \<open>Concurrency_Props\<close>: every schedule is accounted for by the
  atomic daemon and keeps its safety, the locks exclude what they must, every request is answered.
  \<open>Wire_Props\<close>: announcements and configurations survive JSON and TOML, which request bodies
  are accepted, what a client sees of its reservation.  \<open>Unit_Test_Props\<close>: every unit test passes for every choice of its keys.
  \<open>Cli_Props\<close>: the commands.  This theory: an announcement from one node to another.

  \<^bold>\<open>Parameters.\<close>  What is not in the repository is an argument of the definitions that use
  it: the \<open>hex\<close> crate (\<open>hex_codec\<close>; its documented behaviour is the locale
  \<open>hex_contract\<close>, and for the texts it decodes \<open>hex_reader\<close>, kept by an executable codec), \<open>serde_json\<close> and \<open>toml\<close>, the
  trust evaluator, the contact store and the agent of x0x, \<open>sysinfo\<close>, \<open>dirs\<close>, and the
  decoders axum applies to a request body.  Where a theorem needs one of them to round-trip, that is
  a hypothesis.  \<open>wire_externals\<close>, \<open>wire_decoders\<close> and \<open>wire_toml\<close> instantiate the codecs
  by the derives of \<open>Wire\<close> over a parser and a printer of text, which alone remain parameters.

  \<^bold>\<open>Bounds.\<close>  The refinement of the slot pool and the distinctness of identifiers hold for
  runs of fewer than \<open>2 ^ 64\<close> operations: each grant advances the 64-bit counter by one, and
  it saturates after that many.  What happens at its end is a theorem of its own
  (\<open>saturated_counter_replaces_reservation\<close>), and the round trips of a reservation
  (\<open>create_then_release_restores\<close>, \<open>http_create_then_delete_restores\<close>) say which part of
  them needs the counter below it.  The textual order of identifiers is the order
  of grants below a million grants, the range of six digits.  The capacity theorem needs no bound.
  There is no fuel: the subscription loop recurses over the messages received, the receiving loop
  is a partial function whose returning is a theorem, and a schedule of internal steps is bounded
  by three steps for each request and six for a message.

  \<^bold>\<open>Not modelled.\<close>  Logging set-up (\<open>init_tracing\<close>) and log lines, which have no effect
  on results; the parsing of command lines by clap; the text of JSON and TOML below the values; the
  HTTP transport below the route table (headers and body limits, escapes in literal segments,
  identifiers that are not UTF-8, the suppressed body of HEAD); fairness of the scheduler and the order in which a lock
  serves its waiters.  A file operation that fails is taken to leave the file as it was.
\<close>

section \<open>Inputs of the witness\<close>

text \<open>The node of the runtime tests, which announces itself to a node of the same mesh.\<close>

definition announcer :: x0x_agent where
  "announcer = \<lparr>xa_machine_id = test_machine 11, xa_agent_id = test_agent 1, xa_user_id = None\<rparr>"

definition announcer_system :: system_info where
  "announcer_system =
     \<lparr>sys_host_name = None, sys_cpu_brands = [''Apple M4''], sys_total_memory = 65536, sys_available_memory = 32768\<rparr>"

definition announcer_cap :: capability_announcement where
  "announcer_cap = announcement_local announcer_system 5000000000 runtime_test_config (from_agent hex_executable announcer)"

section \<open>Across components\<close>

text \<open>With any codec that reads the sent announcement back, the receiving node admits it.\<close>

lemma sent_announcement_admitted:
  assumes hex: "hex_contract (hex_encode X) (hex_decode X)"
    and json: "\<And>bs. json_to_vec X cap = Inr bs \<Longrightarrow> json_from_slice X bs = Inr cap"
    and agent: "length (machine_bytes (xa_machine_id a)) = 32"
    and sent: "announce_local_capability X env sys now cfg (from_agent X a) w = (Inr cap, w')"
    and carried: "w_trace w' = w_trace w @ [Publish (capability_topic cfg) (ps_payload m)]"
    and sender: "ps_sender m = Some (xa_agent_id a)" "ps_verified m"
    and other: "encode_agent_id X (xa_agent_id a) \<noteq> me"
    and mesh: "mesh_name (cfg_mesh cfg) = mesh_name (cfg_mesh cfg')"
    and trust: "allows_peer cfg' (trust_evaluate X contacts (xa_agent_id a) (xa_machine_id a))"
  shows "admission X cfg' me contacts m = Some (cap, trust_evaluate X contacts (xa_agent_id a) (xa_machine_id a))"
    "cap = announcement_local sys now cfg (from_agent X a)"
proof -
  from sent obtain bs where bs: "json_to_vec X cap = Inr bs" and cap: "cap = announcement_local sys now cfg (from_agent X a)"
    and w': "w_trace w' = w_trace w @ [Publish (capability_topic cfg) bs]"
    by (auto simp: announce_local_capability_def Let_def io_bind_def perform_def map_err_def
        split: sum.splits option.splits)
  show "cap = announcement_local sys now cfg (from_agent X a)" by (rule cap)
  from carried w' have payload: "ps_payload m = bs" by simp
  have "parse_machine_id_hex X (ais_machine_id (cap_identity cap)) = Inr (xa_machine_id a)"
    using hex_contract.dec_enc [OF hex] agent
    by (simp add: cap announcement_local_def from_agent_def encode_machine_id_def parse_machine_id_Inr)
  then show "admission X cfg' me contacts m = Some (cap, trust_evaluate X contacts (xa_agent_id a) (xa_machine_id a))"
    using sender other mesh trust json [OF bs] payload
    by (simp add: admission_def) (simp add: cap announcement_local_def from_agent_def)
qed

text \<open>
  C7. An announcement reaches a peer.  What a node publishes about itself as JSON, carried unchanged
  in a verified message of its agent, is admitted by every other node of the same mesh whose trust
  evaluation accepts the agent on its machine: the registry of that node then holds exactly the
  published announcement under the agent's identifier, last seen at the time of the message.
\<close>

theorem announcement_reaches_peer:
  assumes X: "X = wire_externals H T evaluate"
    and hex: "hex_contract (hex_encode H) (hex_decode H)"
    and readable: "json_parse T (json_print T (announcement_value cap)) = Inr (announcement_value cap)"
    and cores: "length (sys_cpu_brands sys) < 2 ^ 64"
    and agent: "length (machine_bytes (xa_machine_id a)) = 32"
    and sent: "announce_local_capability X env sys now cfg (from_agent X a) w = (Inr cap, w')"
    and carried: "w_trace w' = w_trace w @ [Publish (capability_topic cfg) (ps_payload m)]"
    and sender: "ps_sender m = Some (xa_agent_id a)" "ps_verified m"
    and other: "encode_agent_id X (xa_agent_id a) \<noteq> me"
    and mesh: "mesh_name (cfg_mesh cfg) = mesh_name (cfg_mesh cfg')"
    and trust: "allows_peer cfg' (evaluate contacts (xa_agent_id a) (xa_machine_id a))"
    and ok: "bt_ok (reg_peers r)"
  shows "\<exists>p. bt_get (reg_peers (snd (apply_message X later cfg' me contacts m r))) (encode_agent_id X (xa_agent_id a)) = Some p
    \<and> pr_capability p = cap \<and> pr_last_seen_unix_secs p = mesh_timestamp_secs later
    \<and> cap_available_models cap = map mc_id (cfg_models cfg)"
proof -
  have X': "hex_encode X = hex_encode H" "hex_decode X = hex_decode H" "trust_evaluate X = evaluate"
    by (simp_all add: X wire_externals_def)
  have cap: "cap = announcement_local sys now cfg (from_agent X a)"
    using sent by (auto simp: announce_local_capability_def Let_def io_bind_def perform_def map_err_def
        split: sum.splits option.splits)
  have json: "json_from_slice X bs = Inr cap" if "json_to_vec X cap = Inr bs" for bs
  proof -
    have "announcement_of_value (announcement_value cap) = Some cap"
      using cores by (intro announcement_round_trip) (simp add: cap announcement_local_def)
    then show ?thesis using that readable by (auto simp: X wire_externals_def announcement_from_slice_def)
  qed
  have trust': "allows_peer cfg' (trust_evaluate X contacts (xa_agent_id a) (xa_machine_id a))"
    using trust by (simp add: X')
  have "admission X cfg' me contacts m = Some (cap, evaluate contacts (xa_agent_id a) (xa_machine_id a))"
    using sent_announcement_admitted(1) [OF _ json agent sent carried sender other mesh trust'] hex by (simp add: X')
  moreover have "ais_agent_id (cap_identity cap) = encode_agent_id X (xa_agent_id a)"
    by (simp add: cap announcement_local_def from_agent_def)
  ultimately show ?thesis
    using ok by (cases "bt_get (reg_peers r) (encode_agent_id X (xa_agent_id a))")
      (auto simp: apply_message_get cap announcement_local_def)
qed

theorem announcement_reaches_peer_witness:
  "let X = wire_externals hex_executable (test_json [announcement_value announcer_cap]) (trust_evaluate (test_externals [])) in
   \<exists>p. bt_get (reg_peers (snd (apply_message X 6000000000 test_mesh_config test_me
        [(test_agent 1, Accept)] (test_message (test_agent 1) 0) registry_new))) (encode_agent_id hex_executable (test_agent 1)) = Some p
     \<and> pr_capability p = announcer_cap"
proof -
  let ?T = "test_json [announcement_value announcer_cap]"
  let ?X = "wire_externals hex_executable ?T (trust_evaluate (test_externals []))"
  have id: "encode_agent_id ?X = encode_agent_id hex_executable" "encode_machine_id ?X = encode_machine_id hex_executable"
    "encode_user_id ?X = encode_user_id hex_executable"
    by (simp_all add: wire_externals_def encode_agent_id_def encode_machine_id_def encode_user_id_def fun_eq_iff)
  then have snapshot: "from_agent ?X a = from_agent hex_executable a" for a by (simp add: from_agent_def)
  have vec: "json_to_vec ?X announcer_cap = Inr [0]" by (simp add: wire_externals_def test_json_def)
  have readable: "json_parse ?T (json_print ?T (announcement_value announcer_cap)) = Inr (announcement_value announcer_cap)"
    by (simp add: test_json_def)
  obtain w' where sent: "announce_local_capability ?X calm_env announcer_system 5000000000 runtime_test_config
      (from_agent ?X announcer) empty_world = (Inr announcer_cap, w')"
    and w': "w_trace w' = w_trace empty_world @ [Publish (capability_topic runtime_test_config) (ps_payload (test_message (test_agent 1) 0))]"
    by (simp add: announce_local_capability_def Let_def io_bind_def perform_def calm_env_def vec snapshot
        test_message_def payload_message_def flip: announcer_cap_def)
  from announcement_reaches_peer [OF refl hex.hex_contract_axioms readable _ _ sent w', of test_me test_mesh_config "[(test_agent 1, Accept)]" registry_new 6000000000]
  show ?thesis
    by (auto simp: id Let_def announcer_def announcer_system_def test_machine_def registry_new_def runtime_test_config_def default_mesh_config_def)
qed

end
